(* ===== verification/JSValue.thy ===== *)
theory JSValue
  imports Complex_Main
begin

text \<open>
  The prelude: JavaScript values and the operators the scripts of \<open>esb-monitor-admin\<close> apply
  to them. A number is a real number, an infinity or NaN (\<open>number\<close>): control flow through NaN,
  \<open>Infinity\<close> and \<open>undefined\<close> is kept, rounding of doubles and the sign of zero are not. A value
  (\<open>jsval\<close>) is dynamically typed, as in the source; \<open>+\<close>, \<open><\<close>, \<open>===\<close> and truthiness are
  functions on it (\<open>jadd\<close>, \<open>jlt\<close>, \<open>seq\<close>, \<open>truthy\<close>). A variable that only ever holds the
  result of an arithmetic operator is typed \<open>number\<close> in the model.
\<close>

named_theorems js_simps \<open>evaluation of JavaScript operators on finite numbers\<close>

section \<open>Numbers\<close>

datatype number = Fin real | PInf | NInf | NaN

instantiation number :: "{zero, one, plus, minus, uminus, times, inverse, ord, abs}"
begin

definition zero_number_def [js_simps]: "0 = Fin 0"

definition one_number_def [js_simps]: "1 = Fin 1"

fun plus_number :: "number \<Rightarrow> number \<Rightarrow> number" where
  "plus_number NaN y = NaN"
| "plus_number x NaN = NaN"
| "plus_number (Fin a) (Fin b) = Fin (a + b)"
| "plus_number PInf NInf = NaN"
| "plus_number NInf PInf = NaN"
| "plus_number PInf y = PInf"
| "plus_number x PInf = PInf"
| "plus_number NInf y = NInf"
| "plus_number x NInf = NInf"

fun uminus_number :: "number \<Rightarrow> number" where
  "uminus_number (Fin a) = Fin (- a)"
| "uminus_number PInf = NInf"
| "uminus_number NInf = PInf"
| "uminus_number NaN = NaN"

definition minus_number_def: "(x::number) - y = x + - y"

fun times_number :: "number \<Rightarrow> number \<Rightarrow> number" where
  "times_number (Fin a) (Fin b) = Fin (a * b)"
| "times_number (Fin a) PInf = (if a > 0 then PInf else if a < 0 then NInf else NaN)"
| "times_number (Fin a) NInf = (if a > 0 then NInf else if a < 0 then PInf else NaN)"
| "times_number PInf (Fin b) = (if b > 0 then PInf else if b < 0 then NInf else NaN)"
| "times_number NInf (Fin b) = (if b > 0 then NInf else if b < 0 then PInf else NaN)"
| "times_number PInf PInf = PInf"
| "times_number PInf NInf = NInf"
| "times_number NInf PInf = NInf"
| "times_number NInf NInf = PInf"
| "times_number NaN y = NaN"
| "times_number x NaN = NaN"

fun divide_number :: "number \<Rightarrow> number \<Rightarrow> number" where
  "divide_number (Fin a) (Fin b) =
     (if b = 0 then (if a > 0 then PInf else if a < 0 then NInf else NaN) else Fin (a / b))"
| "divide_number (Fin a) PInf = Fin 0"
| "divide_number (Fin a) NInf = Fin 0"
| "divide_number PInf (Fin b) = (if b < 0 then NInf else PInf)"
| "divide_number NInf (Fin b) = (if b < 0 then PInf else NInf)"
| "divide_number x y = NaN"

definition inverse_number_def: "inverse (x::number) = Fin 1 div x"

fun less_number :: "number \<Rightarrow> number \<Rightarrow> bool" where
  "less_number (Fin a) (Fin b) = (a < b)"
| "less_number (Fin a) PInf = True"
| "less_number NInf (Fin b) = True"
| "less_number NInf PInf = True"
| "less_number x y = False"

fun less_eq_number :: "number \<Rightarrow> number \<Rightarrow> bool" where
  "less_eq_number (Fin a) (Fin b) = (a \<le> b)"
| "less_eq_number (Fin a) PInf = True"
| "less_eq_number NInf (Fin b) = True"
| "less_eq_number NInf PInf = True"
| "less_eq_number PInf PInf = True"
| "less_eq_number NInf NInf = True"
| "less_eq_number x y = False"

fun abs_number :: "number \<Rightarrow> number" where
  "abs_number (Fin a) = Fin \<bar>a\<bar>"
| "abs_number NaN = NaN"
| "abs_number x = PInf"

instance ..

end

lemma minus_Fin [simp]: "Fin a - Fin b = Fin (a - b)"
  by (simp add: minus_number_def)

lemma NaN_arith [simp]:
  "x + NaN = NaN" "NaN + x = NaN" "x - NaN = NaN" "NaN - x = NaN"
  "x * NaN = NaN" "NaN * x = NaN" "x / NaN = NaN" "NaN / x = NaN"
  by (cases x; simp add: minus_number_def)+

lemma NaN_cmp [simp]: "\<not> x < NaN" "\<not> NaN < x" "\<not> x \<le> NaN" "\<not> NaN \<le> x"
  by (cases x; simp)+

lemma number_less_irrefl [simp]: "\<not> (x::number) < x"
  by (cases x) auto

lemma number_less_asym: "(x::number) < y \<Longrightarrow> \<not> y < x"
  by (cases x; cases y) auto

lemma number_less_trans: "(x::number) < y \<Longrightarrow> y < z \<Longrightarrow> x < z"
  by (cases x; cases y; cases z) auto

lemma number_le_trans: "(x::number) \<le> y \<Longrightarrow> y \<le> z \<Longrightarrow> x \<le> z"
  by (cases x; cases y; cases z) auto

lemma number_le_refl: "x \<noteq> NaN \<Longrightarrow> (x::number) \<le> x"
  by (cases x) auto

lemma number_not_less: "x \<noteq> NaN \<Longrightarrow> y \<noteq> NaN \<Longrightarrow> \<not> (x::number) < y \<longleftrightarrow> y \<le> x"
  by (cases x; cases y) auto

lemma number_less_imp_le: "(x::number) < y \<Longrightarrow> x \<le> y"
  by (cases x; cases y) auto

text \<open>\<open>x === y\<close> on numbers: NaN differs from itself.\<close>

fun num_eq :: "number \<Rightarrow> number \<Rightarrow> bool" where
  "num_eq (Fin a) (Fin b) = (a = b)"
| "num_eq PInf PInf = True"
| "num_eq NInf NInf = True"
| "num_eq x y = False"

lemma num_eq_iff: "num_eq x y \<longleftrightarrow> x = y \<and> x \<noteq> NaN"
  by (cases x; cases y) auto

text \<open>\<open>a % b\<close>: the remainder with the sign of the dividend.\<close>

definition real_trunc :: "real \<Rightarrow> int" where
  "real_trunc x = (if x < 0 then - \<lfloor>- x\<rfloor> else \<lfloor>x\<rfloor>)"

fun num_mod :: "number \<Rightarrow> number \<Rightarrow> number" where
  "num_mod (Fin a) (Fin b) = (if b = 0 then NaN else Fin (a - b * of_int (real_trunc (a / b))))"
| "num_mod (Fin a) PInf = Fin a"
| "num_mod (Fin a) NInf = Fin a"
| "num_mod x y = NaN"

fun isNaN :: "number \<Rightarrow> bool" where
  "isNaN NaN = True"
| "isNaN x = False"

fun isFinite :: "number \<Rightarrow> bool" where
  "isFinite (Fin x) = True"
| "isFinite x = False"

section \<open>The Math object\<close>

fun Math_floor :: "number \<Rightarrow> number" where
  "Math_floor (Fin x) = Fin (of_int \<lfloor>x\<rfloor>)"
| "Math_floor x = x"

fun Math_ceil :: "number \<Rightarrow> number" where
  "Math_ceil (Fin x) = Fin (of_int \<lceil>x\<rceil>)"
| "Math_ceil x = x"

text \<open>\<open>Math.round\<close> rounds halves up, also below zero.\<close>

definition real_round :: "real \<Rightarrow> int" where
  "real_round x = \<lfloor>x + 1 / 2\<rfloor>"

fun Math_round :: "number \<Rightarrow> number" where
  "Math_round (Fin x) = Fin (of_int (real_round x))"
| "Math_round x = x"

definition Math_abs :: "number \<Rightarrow> number" where
  "Math_abs x = \<bar>x\<bar>"

fun num_max :: "number \<Rightarrow> number \<Rightarrow> number" where
  "num_max NaN y = NaN"
| "num_max x NaN = NaN"
| "num_max x y = (if x < y then y else x)"

fun num_min :: "number \<Rightarrow> number \<Rightarrow> number" where
  "num_min NaN y = NaN"
| "num_min x NaN = NaN"
| "num_min x y = (if y < x then y else x)"

text \<open>\<open>Math.max.apply(Math, xs)\<close>: \<open>-Infinity\<close> on no argument, NaN if any argument is NaN.\<close>

fun Math_max :: "number list \<Rightarrow> number" where
  "Math_max [] = NInf"
| "Math_max (x # xs) = num_max x (Math_max xs)"

fun Math_min :: "number list \<Rightarrow> number" where
  "Math_min [] = PInf"
| "Math_min (x # xs) = num_min x (Math_min xs)"

text \<open>The transcendental functions on numbers; \<open>Math_pow b\<close> is \<open>Math.pow(b, x)\<close> for a base above 1.\<close>

fun Math_cos :: "number \<Rightarrow> number" where
  "Math_cos (Fin x) = Fin (cos x)"
| "Math_cos x = NaN"

fun Math_sin :: "number \<Rightarrow> number" where
  "Math_sin (Fin x) = Fin (sin x)"
| "Math_sin x = NaN"

fun Math_asin :: "number \<Rightarrow> number" where
  "Math_asin (Fin x) = (if - 1 \<le> x \<and> x \<le> 1 then Fin (arcsin x) else NaN)"
| "Math_asin x = NaN"

fun Math_sqrt :: "number \<Rightarrow> number" where
  "Math_sqrt (Fin x) = (if x < 0 then NaN else Fin (sqrt x))"
| "Math_sqrt PInf = PInf"
| "Math_sqrt x = NaN"

fun Math_log :: "number \<Rightarrow> number" where
  "Math_log (Fin x) = (if 0 < x then Fin (ln x) else if x = 0 then NInf else NaN)"
| "Math_log PInf = PInf"
| "Math_log x = NaN"

fun Math_pow :: "real \<Rightarrow> number \<Rightarrow> number" where
  "Math_pow b (Fin x) = Fin (b powr x)"
| "Math_pow b PInf = PInf"
| "Math_pow b NInf = Fin 0"
| "Math_pow b NaN = NaN"

lemma real_round_mono: "x \<le> y \<Longrightarrow> real_round x \<le> real_round y"
  unfolding real_round_def by (intro floor_mono) simp

lemma real_round_of_int [simp]: "real_round (of_int n) = n"
  unfolding real_round_def by linarith

lemma real_round_of_nat [simp]: "real_round (of_nat n) = int n"
  using real_round_of_int [of "int n"] by simp

lemma real_round_numeral [simp]: "real_round (numeral k) = numeral k"
  using real_round_of_int [of "numeral k"] by simp

lemma real_round_0 [simp]: "real_round 0 = 0"
  using real_round_of_int [of 0] by simp

lemma real_round_1 [simp]: "real_round 1 = 1"
  using real_round_of_int [of 1] by simp

lemma real_round_bounds: "real_round x \<le> x + 1 / 2" "x - 1 / 2 < real_round x"
  unfolding real_round_def by linarith+

lemma num_max_Fin: "num_max (Fin a) (Fin b) = Fin (max a b)"
  by simp

lemma num_min_Fin: "num_min (Fin a) (Fin b) = Fin (min a b)"
  by (simp add: min_def)

lemma Math_max_Fin: "xs \<noteq> [] \<Longrightarrow> Math_max (map Fin xs) = Fin (Max (set xs))"
proof (induction xs rule: list_nonempty_induct)
  case (single x)
  then show ?case by simp
next
  case (cons x xs)
  then show ?case by (simp add: num_max_Fin del: num_max.simps)
qed

lemma Math_min_Fin: "xs \<noteq> [] \<Longrightarrow> Math_min (map Fin xs) = Fin (Min (set xs))"
proof (induction xs rule: list_nonempty_induct)
  case (single x)
  then show ?case by simp
next
  case (cons x xs)
  then show ?case by (simp add: num_min_Fin del: num_min.simps)
qed

section \<open>Errors\<close>

text \<open>What ends a call abnormally: an exception, or a loop that does not end.\<close>

datatype jserror = TypeError string | ReferenceError string | Diverges

type_synonym 'a result = "jserror + 'a"

text \<open>Sequencing: an exception ends the rest of the function.\<close>

definition rbind :: "'a result \<Rightarrow> ('a \<Rightarrow> 'b result) \<Rightarrow> 'b result" where
  "rbind m f = (case m of Inl e \<Rightarrow> Inl e | Inr x \<Rightarrow> f x)"

lemma rbind_simps [simp]: "rbind (Inl e) f = Inl e" "rbind (Inr x) f = f x"
  by (simp_all add: rbind_def)

lemma rbind_Inr_iff [simp]: "rbind m f = Inr y \<longleftrightarrow> (\<exists>x. m = Inr x \<and> f x = Inr y)"
  by (cases m) auto

section \<open>Values\<close>

text \<open>
  Objects are association lists in insertion order (the order \<open>for ... in\<close> enumerates). \<open>Fn f\<close> is
  a function value, identified by its source text \<open>f\<close>. \<open>RMapI m\<close> is an instance of the plugin's
  class \<open>RangeMap\<close> built from the object \<open>m\<close>, \<open>FmtI f c\<close> an instance of \<open>SPFormat\<close> with format
  string \<open>f\<close> and class \<open>c\<close>.
\<close>

datatype jsval =
    Undef
  | Null
  | Bool bool
  | Num number
  | Str string
  | Arr "jsval list"
  | Obj "(string \<times> jsval) list"
  | Fn string
  | RMapI "(string \<times> jsval) list"
  | FmtI string jsval

abbreviation num :: "real \<Rightarrow> jsval" where
  "num x \<equiv> Num (Fin x)"

text \<open>\<open>if (v)\<close> takes the branch: \<open>undefined\<close>, \<open>null\<close>, \<open>false\<close>, \<open>0\<close>, NaN and \<open>''\<close> do not.\<close>

fun truthy :: "jsval \<Rightarrow> bool" where
  "truthy Undef = False"
| "truthy Null = False"
| "truthy (Bool b) = b"
| "truthy (Num x) = (\<not> isNaN x \<and> x \<noteq> Fin 0)"
| "truthy (Str s) = (s \<noteq> [])"
| "truthy v = True"

definition jor :: "jsval \<Rightarrow> jsval \<Rightarrow> jsval" where
  "jor a b = (if truthy a then a else b)"

definition jand :: "jsval \<Rightarrow> jsval \<Rightarrow> jsval" where
  "jand a b = (if truthy a then b else a)"

text \<open>\<open>v === w\<close>; the scripts never compare two objects with it.\<close>

fun seq :: "jsval \<Rightarrow> jsval \<Rightarrow> bool" where
  "seq (Num x) (Num y) = num_eq x y"
| "seq v w = (v = w)"

fun isArray :: "jsval \<Rightarrow> bool" where
  "isArray (Arr xs) = True"
| "isArray v = False"

fun isStr :: "jsval \<Rightarrow> bool" where
  "isStr (Str s) = True"
| "isStr v = False"

fun isNum :: "jsval \<Rightarrow> bool" where
  "isNum (Num x) = True"
| "isNum v = False"

fun isFn :: "jsval \<Rightarrow> bool" where
  "isFn (Fn f) = True"
| "isFn v = False"

text \<open>\<open>xs[i]\<close> on an array: \<open>undefined\<close> out of range.\<close>

definition jnth :: "jsval list \<Rightarrow> nat \<Rightarrow> jsval" where
  "jnth xs i = (if i < length xs then xs ! i else Undef)"

lemma jnth_simps [simp]:
  "jnth [] i = Undef"
  "jnth (x # xs) 0 = x"
  "jnth (x # xs) (Suc i) = jnth xs i"
  by (simp_all add: jnth_def)

lemma jnth_in [simp]: "i < length xs \<Longrightarrow> jnth xs i = xs ! i"
  by (simp add: jnth_def)

text \<open>\<open>o[k]\<close> on an object.\<close>

definition jget :: "(string \<times> jsval) list \<Rightarrow> string \<Rightarrow> jsval" where
  "jget ob k = (case map_of ob k of None \<Rightarrow> Undef | Some v \<Rightarrow> v)"

text \<open>\<open>o[k] = v\<close>: an existing key keeps its place, a new one goes last.\<close>

fun jput :: "string \<Rightarrow> jsval \<Rightarrow> (string \<times> jsval) list \<Rightarrow> (string \<times> jsval) list" where
  "jput k v [] = [(k, v)]"
| "jput k v ((k', w) # ob) = (if k = k' then (k, v) # ob else (k', w) # jput k v ob)"

lemma map_of_jput [simp]: "map_of (jput k v ob) = (map_of ob)(k \<mapsto> v)"
  by (induction ob) (auto simp: fun_eq_iff)

lemma jget_jput: "jget (jput k v ob) k' = (if k' = k then v else jget ob k')"
  by (simp add: jget_def)

lemma jget_Nil [simp]: "jget [] k = Undef"
  by (simp add: jget_def)

lemma jget_Cons [simp]: "jget ((k', v) # ob) k = (if k = k' then v else jget ob k)"
  by (simp add: jget_def)

lemma jget_append: "jget (xs @ ys) k = (if k \<in> fst ` set xs then jget xs k else jget ys k)"
  by (induction xs) force+

lemma jget_notin: "k \<notin> fst ` set ob \<Longrightarrow> jget ob k = Undef"
  by (induction ob) auto

end
