(* ===== verification/JSString.thy ===== *)
theory JSString
  imports JSValue
begin

text \<open>
  Strings, and the conversions between strings, numbers and values that the scripts use:
  \<open>split\<close> and \<open>join\<close>, \<open>parseFloat\<close>, \<open>parseInt\<close>, \<open>Number\<close>, \<open>toString\<close>, \<open>toFixed\<close>, the
  operators \<open>+\<close>, \<open><\<close>, \<open><=\<close> and \<open>==\<close> on values of any type, and \<open>Array.splice\<close>.
\<close>

section \<open>Characters\<close>

definition char_code :: "char \<Rightarrow> int" where
  "char_code c = of_char c"

definition is_digit :: "char \<Rightarrow> bool" where
  "is_digit c \<longleftrightarrow> 48 \<le> char_code c \<and> char_code c \<le> 57"

definition digit_val :: "char \<Rightarrow> int" where
  "digit_val c = char_code c - 48"

definition is_space :: "char \<Rightarrow> bool" where
  "is_space c \<longleftrightarrow> char_code c \<in> {9, 10, 11, 12, 13, 32, 160}"

text \<open>\<open>\w\<close> of a regular expression.\<close>

definition is_word_char :: "char \<Rightarrow> bool" where
  "is_word_char c \<longleftrightarrow> is_digit c \<or> (65 \<le> char_code c \<and> char_code c \<le> 90) \<or>
     (97 \<le> char_code c \<and> char_code c \<le> 122) \<or> c = CHR ''_''"

definition hex_val :: "char \<Rightarrow> int option" where
  "hex_val c =
     (if is_digit c then Some (digit_val c)
      else if 65 \<le> char_code c \<and> char_code c \<le> 70 then Some (char_code c - 55)
      else if 97 \<le> char_code c \<and> char_code c \<le> 102 then Some (char_code c - 87)
      else None)"

lemma hex_val_range: "hex_val c = Some n \<Longrightarrow> 0 \<le> n \<and> n < 16"
  by (auto simp: hex_val_def digit_val_def is_digit_def split: if_splits)

text \<open>\<open>s < t\<close> on two strings: by character codes, first difference decides.\<close>

fun str_less :: "string \<Rightarrow> string \<Rightarrow> bool" where
  "str_less s [] = False"
| "str_less [] (d # t) = True"
| "str_less (c # s) (d # t) =
     (char_code c < char_code d \<or> (char_code c = char_code d \<and> str_less s t))"

section \<open>split, join, trim, js_splice\<close>

fun split_on :: "char \<Rightarrow> string \<Rightarrow> string list" where
  "split_on c [] = [[]]"
| "split_on c (x # xs) =
     (if x = c then [] # split_on c xs
      else (case split_on c xs of [] \<Rightarrow> [[x]] | y # ys \<Rightarrow> (x # y) # ys))"

fun join :: "string \<Rightarrow> string list \<Rightarrow> string" where
  "join sep [] = []"
| "join sep [x] = x"
| "join sep (x # y # ys) = x @ sep @ join sep (y # ys)"

lemma split_on_not_Nil [simp]: "split_on c s \<noteq> []"
  by (induction s) (auto split: list.splits)

lemma join_Cons_neq: "ys \<noteq> [] \<Longrightarrow> join sep (x # ys) = x @ sep @ join sep ys"
  by (cases ys) auto

lemma join_Cons_head: "join sep ((c # y) # ys) = c # join sep (y # ys)"
  by (cases ys) auto

lemma join_split_on [simp]: "join [c] (split_on c s) = s"
proof (induction s)
  case Nil
  then show ?case by simp
next
  case (Cons x xs)
  then show ?case
    by (cases "split_on c xs") (auto simp: join_Cons_neq join_Cons_head)
qed

lemma split_on_pieces: "p \<in> set (split_on c s) \<Longrightarrow> c \<notin> set p"
proof (induction s arbitrary: p)
  case Nil
  then show ?case by simp
next
  case (Cons x xs)
  then show ?case by (cases "split_on c xs") (auto split: if_splits)
qed

lemma split_on_notin: "c \<notin> set s \<Longrightarrow> split_on c s = [s]"
  by (induction s) auto

definition trim :: "string \<Rightarrow> string" where
  "trim s = rev (dropWhile is_space (rev (dropWhile is_space s)))"

text \<open>\<open>xs.splice(i, n, ys...)\<close> for \<open>i\<close> within the array or at its end.\<close>

definition js_splice :: "nat \<Rightarrow> nat \<Rightarrow> 'a list \<Rightarrow> 'a list \<Rightarrow> 'a list" where
  "js_splice i n ys xs = take i xs @ ys @ drop (i + n) xs"

text \<open>\<open>$.inArray(x, xs)\<close>: the first index, or none (the source's -1).\<close>

fun in_array :: "('a \<Rightarrow> bool) \<Rightarrow> 'a list \<Rightarrow> nat option" where
  "in_array p [] = None"
| "in_array p (x # xs) = (if p x then Some 0 else map_option Suc (in_array p xs))"

lemma in_array_Some: "in_array p xs = Some i \<Longrightarrow> i < length xs \<and> p (xs ! i) \<and> (\<forall>j<i. \<not> p (xs ! j))"
proof (induction xs arbitrary: i)
  case Nil
  then show ?case by simp
next
  case (Cons x xs)
  show ?case
  proof (cases "p x")
    case True
    with Cons.prems show ?thesis by simp
  next
    case False
    with Cons.prems obtain k where k: "in_array p xs = Some k" "i = Suc k" by auto
    with Cons.IH [OF k(1)] False show ?thesis by (auto simp: less_Suc_eq_0_disj)
  qed
qed

lemma in_array_None: "in_array p xs = None \<longleftrightarrow> (\<forall>x \<in> set xs. \<not> p x)"
  by (induction xs) auto

section \<open>Numbers to strings\<close>

definition digit_char :: "int \<Rightarrow> char" where
  "digit_char n = ''0123456789'' ! nat n"

function int_digits :: "int \<Rightarrow> string" where
  "int_digits n = (if n < 10 then [digit_char n] else int_digits (n div 10) @ [digit_char (n mod 10)])"
  by pat_completeness auto
termination
  by (relation "measure nat") auto

declare int_digits.simps [simp del]

definition nat_digits :: "nat \<Rightarrow> string" where
  "nat_digits n = int_digits (int n)"

lemma digit_cases: "0 \<le> n \<Longrightarrow> (n::int) < 10 \<Longrightarrow> n \<in> {0, 1, 2, 3, 4, 5, 6, 7, 8, 9}"
  by simp presburger

lemma digit_char_props: "0 \<le> n \<Longrightarrow> n < 10 \<Longrightarrow> is_digit (digit_char n) \<and> digit_val (digit_char n) = n"
  using digit_cases [of n]
  by (auto simp: digit_char_def is_digit_def digit_val_def char_code_def)

lemma int_digits_digits: "0 \<le> n \<Longrightarrow> list_all is_digit (int_digits n)"
proof (induction n rule: int_digits.induct)
  case (1 n)
  then show ?case
    by (subst int_digits.simps) (auto simp: digit_char_props)
qed

lemma int_digits_neq_Nil [simp]: "int_digits n \<noteq> []"
  by (subst int_digits.simps) simp

definition digits_val :: "string \<Rightarrow> int" where
  "digits_val s = foldl (\<lambda>acc c. 10 * acc + digit_val c) 0 s"

lemma digits_val_snoc: "digits_val (s @ [c]) = 10 * digits_val s + digit_val c"
  by (simp add: digits_val_def)

lemma digits_val_int_digits [simp]: "0 \<le> n \<Longrightarrow> digits_val (int_digits n) = n"
proof (induction n rule: int_digits.induct)
  case (1 n)
  show ?case
  proof (cases "n < 10")
    case True
    with 1 show ?thesis
      by (subst int_digits.simps) (simp add: digits_val_def digit_char_props)
  next
    case False
    with 1 show ?thesis
      by (subst int_digits.simps) (simp add: digits_val_snoc digit_char_props)
  qed
qed

text \<open>
  The plain decimal notation of a non-negative number with \<open>k\<close> decimals: \<open>n\<close> is the number scaled
  by \<open>10 ^ k\<close>.
\<close>

definition decimal_string :: "int \<Rightarrow> nat \<Rightarrow> string" where
  "decimal_string n k =
     (if k = 0 then int_digits n
      else (let ds = int_digits n; ds' = replicate (k + 1 - length ds) (CHR ''0'') @ ds
            in take (length ds' - k) ds' @ CHR ''.'' # drop (length ds' - k) ds'))"

text \<open>
  The number of decimals that \<open>toString\<close> prints: the least that represents the number exactly, or
  17 where there is none (a number that no short decimal denotes).
\<close>

fun decimals_from :: "nat \<Rightarrow> nat \<Rightarrow> real \<Rightarrow> nat" where
  "decimals_from 0 k x = k"
| "decimals_from (Suc fuel) k x =
     (if of_int \<lfloor>x * 10 ^ k\<rfloor> = x * 10 ^ k then k else decimals_from fuel (Suc k) x)"

definition plain_string :: "real \<Rightarrow> string" where
  "plain_string x = (let k = decimals_from 17 0 x in decimal_string (real_round (x * 10 ^ k)) k)"

text \<open>The exponent of the scientific notation: the least \<open>n\<close> that brings the mantissa into range.\<close>

fun exp_down :: "nat \<Rightarrow> nat \<Rightarrow> real \<Rightarrow> nat" where
  "exp_down 0 n x = n"
| "exp_down (Suc fuel) n x = (if x * 10 ^ n \<ge> 1 then n else exp_down fuel (Suc n) x)"

fun exp_up :: "nat \<Rightarrow> nat \<Rightarrow> real \<Rightarrow> nat" where
  "exp_up 0 n x = n"
| "exp_up (Suc fuel) n x = (if x / 10 ^ n < 10 then n else exp_up fuel (Suc n) x)"

definition pos_string :: "real \<Rightarrow> string" where
  "pos_string x =
     (if x = 0 then ''0''
      else if x < 1 / 10 ^ 6 then (let n = exp_down 400 0 x in plain_string (x * 10 ^ n) @ ''e-'' @ nat_digits n)
      else if x \<ge> 10 ^ 21 then (let n = exp_up 400 0 x in plain_string (x / 10 ^ n) @ ''e+'' @ nat_digits n)
      else plain_string x)"

definition real_string :: "real \<Rightarrow> string" where
  "real_string x = (if x < 0 then CHR ''-'' # pos_string (- x) else pos_string x)"

fun num_to_string :: "number \<Rightarrow> string" where
  "num_to_string (Fin x) = real_string x"
| "num_to_string PInf = ''Infinity''"
| "num_to_string NInf = ''-Infinity''"
| "num_to_string NaN = ''NaN''"

text \<open>\<open>x.toFixed(f)\<close>: the nearest decimal with \<open>f\<close> digits, the larger one on a tie.\<close>

definition real_toFixed :: "real \<Rightarrow> nat \<Rightarrow> string" where
  "real_toFixed x f =
     (let y = \<bar>x\<bar>; s = (if y \<ge> 10 ^ 21 then pos_string y else decimal_string (real_round (y * 10 ^ f)) f)
      in if x < 0 then CHR ''-'' # s else s)"

fun num_toFixed :: "number \<Rightarrow> nat \<Rightarrow> string" where
  "num_toFixed (Fin x) f = real_toFixed x f"
| "num_toFixed x f = num_to_string x"

fun to_string :: "jsval \<Rightarrow> string" where
  "to_string Undef = ''undefined''"
| "to_string Null = ''null''"
| "to_string (Bool b) = (if b then ''true'' else ''false'')"
| "to_string (Num x) = num_to_string x"
| "to_string (Str s) = s"
| "to_string (Arr xs) = join '','' (map (\<lambda>v. if v = Undef \<or> v = Null then [] else to_string v) xs)"
| "to_string (Obj ob) = ''[object Object]''"
| "to_string (Fn f) = f"
| "to_string (RMapI m) = ''[object Object]''"
| "to_string (FmtI f c) = ''[object Object]''"

section \<open>Strings to numbers\<close>

definition frac_val :: "string \<Rightarrow> real" where
  "frac_val s = of_int (digits_val s) / 10 ^ length s"

text \<open>
  The longest prefix that is a decimal literal: an optional sign, digits, a fraction, an exponent.
  An exponent without digits is not part of it.
\<close>

definition parse_sign :: "string \<Rightarrow> real \<times> string" where
  "parse_sign s =
     (case s of [] \<Rightarrow> (1, [])
      | c # t \<Rightarrow> if c = CHR ''-'' then (-1, t) else if c = CHR ''+'' then (1, t) else (1, s))"

definition parse_exponent :: "string \<Rightarrow> real \<times> string" where
  "parse_exponent s =
     (case s of [] \<Rightarrow> (1, [])
      | c # t \<Rightarrow>
          if c = CHR ''e'' \<or> c = CHR ''E'' then
            (let (sg, u) = parse_sign t; ds = takeWhile is_digit u; e = nat (digits_val ds)
             in if ds = [] then (1, s)
                else (if sg < 0 then 1 / 10 ^ e else 10 ^ e, dropWhile is_digit u))
          else (1, s))"

definition parse_decimal :: "string \<Rightarrow> (number \<times> string) option" where
  "parse_decimal s =
     (let (sg, t) = parse_sign s; ip = takeWhile is_digit t; u = dropWhile is_digit t;
          (fp, v) = (case u of [] \<Rightarrow> ([], [])
                     | c # u' \<Rightarrow> if c = CHR ''.'' then (takeWhile is_digit u', dropWhile is_digit u') else ([], u))
      in if take 8 t = ''Infinity'' then Some (if sg < 0 then NInf else PInf, drop 8 t)
         else if ip = [] \<and> fp = [] then None
         else (let (e, w) = parse_exponent v
               in Some (Fin (sg * (of_int (digits_val ip) + frac_val fp) * e), w)))"

definition str_parseFloat :: "string \<Rightarrow> number" where
  "str_parseFloat s = (case parse_decimal (dropWhile is_space s) of None \<Rightarrow> NaN | Some (x, _) \<Rightarrow> x)"

definition parseFloat :: "jsval \<Rightarrow> number" where
  "parseFloat v = str_parseFloat (to_string v)"

text \<open>\<open>parseInt(v, 10)\<close>.\<close>

definition parseInt10 :: "jsval \<Rightarrow> number" where
  "parseInt10 v =
     (let (sg, t) = parse_sign (dropWhile is_space (to_string v)); ds = takeWhile is_digit t
      in if ds = [] then NaN else Fin (sg * of_int (digits_val ds)))"

fun hex_fold :: "int \<Rightarrow> string \<Rightarrow> int option" where
  "hex_fold acc [] = Some acc"
| "hex_fold acc (c # cs) = (case hex_val c of None \<Rightarrow> None | Some d \<Rightarrow> hex_fold (16 * acc + d) cs)"

text \<open>\<open>Number(s)\<close>: the whole trimmed string is a literal; the empty string is 0.\<close>

definition str_to_number :: "string \<Rightarrow> number" where
  "str_to_number s =
     (let t = trim s
      in if t = [] then Fin 0
         else if take 2 t \<in> {''0x'', ''0X''} \<and> drop 2 t \<noteq> [] then
           (case hex_fold 0 (drop 2 t) of None \<Rightarrow> NaN | Some n \<Rightarrow> Fin (of_int n))
         else (case parse_decimal t of None \<Rightarrow> NaN | Some (x, rest) \<Rightarrow> if rest = [] then x else NaN))"

fun to_number :: "jsval \<Rightarrow> number" where
  "to_number Undef = NaN"
| "to_number Null = Fin 0"
| "to_number (Bool b) = (if b then Fin 1 else Fin 0)"
| "to_number (Num x) = x"
| "to_number (Str s) = str_to_number s"
| "to_number v = str_to_number (to_string v)"

section \<open>Operators on values\<close>

fun to_prim :: "jsval \<Rightarrow> jsval" where
  "to_prim (Arr xs) = Str (to_string (Arr xs))"
| "to_prim (Obj ob) = Str (to_string (Obj ob))"
| "to_prim (Fn f) = Str (to_string (Fn f))"
| "to_prim (RMapI m) = Str (to_string (RMapI m))"
| "to_prim (FmtI f c) = Str (to_string (FmtI f c))"
| "to_prim v = v"

definition jadd :: "jsval \<Rightarrow> jsval \<Rightarrow> jsval" where
  "jadd a b =
     (if isStr (to_prim a) \<or> isStr (to_prim b) then Str (to_string (to_prim a) @ to_string (to_prim b))
      else Num (to_number (to_prim a) + to_number (to_prim b)))"

definition jlt :: "jsval \<Rightarrow> jsval \<Rightarrow> bool" where
  "jlt a b =
     (case (to_prim a, to_prim b) of
        (Str s, Str t) \<Rightarrow> str_less s t
      | (x, y) \<Rightarrow> to_number x < to_number y)"

definition jle :: "jsval \<Rightarrow> jsval \<Rightarrow> bool" where
  "jle a b =
     (case (to_prim a, to_prim b) of
        (Str s, Str t) \<Rightarrow> \<not> str_less t s
      | (x, y) \<Rightarrow> to_number x \<le> to_number y)"

definition is_nullish :: "jsval \<Rightarrow> bool" where
  "is_nullish v \<longleftrightarrow> v = Undef \<or> v = Null"

text \<open>\<open>v == w\<close>.\<close>

definition loose_eq :: "jsval \<Rightarrow> jsval \<Rightarrow> bool" where
  "loose_eq a b =
     (if is_nullish a \<or> is_nullish b then is_nullish a \<and> is_nullish b
      else (case (to_prim a, to_prim b) of
              (Str s, Str t) \<Rightarrow> s = t
            | (x, y) \<Rightarrow> num_eq (to_number x) (to_number y)))"

lemma jadd_Num [simp]: "jadd (Num x) (Num y) = Num (x + y)"
  by (simp add: jadd_def)

lemma jlt_Num [simp]: "jlt (Num x) (Num y) \<longleftrightarrow> x < y"
  by (simp add: jlt_def)

lemma jle_Num [simp]: "jle (Num x) (Num y) \<longleftrightarrow> x \<le> y"
  by (simp add: jle_def)

lemma loose_eq_Num [simp]: "loose_eq (Num x) (Num y) \<longleftrightarrow> num_eq x y"
  by (simp add: loose_eq_def is_nullish_def)

lemma jlt_Null_left [simp]: "jlt Null (Num y) \<longleftrightarrow> Fin 0 < y"
  by (simp add: jlt_def)

lemma jlt_Undef [simp]: "\<not> jlt Undef v" "\<not> jlt v Undef"
  by (cases v; simp add: jlt_def)+

section \<open>Numbers are texts of numbers\<close>

lemma digit_not_sign: "is_digit c \<Longrightarrow> c \<noteq> CHR ''-'' \<and> c \<noteq> CHR ''+'' \<and> c \<noteq> CHR ''I'' \<and> \<not> is_space c"
  by (auto simp: is_digit_def is_space_def char_code_def)

lemma parse_sign_digit: "is_digit c \<Longrightarrow> parse_sign (c # t) = (1, c # t)"
  using digit_not_sign [of c] by (simp add: parse_sign_def)

lemma parse_decimal_digits:
  assumes "parse_sign s = (sg, c # t)" "is_digit c"
  shows "\<exists>y w. parse_decimal s = Some (Fin y, w)"
  using assms digit_not_sign [OF assms(2)] by (auto simp: parse_decimal_def Let_def split: prod.splits)

lemma int_digits_head: "0 \<le> n \<Longrightarrow> is_digit (hd (int_digits n))"
  using int_digits_digits [of n] by (cases "int_digits n") auto

lemma decimal_string_head:
  assumes "0 \<le> n"
  shows "is_digit (hd (decimal_string n k)) \<and> decimal_string n k \<noteq> []"
proof (cases "k = 0")
  case True
  then show ?thesis using int_digits_head [OF assms] by (simp add: decimal_string_def)
next
  case False
  let ?ds = "replicate (k + 1 - length (int_digits n)) (CHR ''0'') @ int_digits n"
  have "k < length ?ds" by simp
  then have ne: "?ds \<noteq> []" "take (length ?ds - k) ?ds \<noteq> []" by force+
  have "is_digit (CHR ''0'')" by (simp add: is_digit_def char_code_def)
  then show ?thesis
    using False ne int_digits_head [OF assms] by (simp add: decimal_string_def Let_def hd_append del: append_is_Nil_conv)
qed

lemma plain_string_head: "0 \<le> x \<Longrightarrow> is_digit (hd (plain_string x)) \<and> plain_string x \<noteq> []"
  unfolding plain_string_def Let_def by (rule decimal_string_head) (simp add: real_round_def)

lemma pos_string_head: "0 \<le> x \<Longrightarrow> is_digit (hd (pos_string x)) \<and> pos_string x \<noteq> []"
  using plain_string_head by (auto simp: pos_string_def Let_def hd_append is_digit_def char_code_def)

lemma parseFloat_num: "\<not> isNaN (parseFloat (num x))"
proof -
  obtain c t where s: "pos_string \<bar>x\<bar> = c # t" "is_digit c"
    using pos_string_head [of "\<bar>x\<bar>"] by (cases "pos_string \<bar>x\<bar>") auto
  have "\<exists>sg. parse_sign (real_string x) = (sg, c # t)"
    using s parse_sign_digit [of c t] by (auto simp: real_string_def parse_sign_def)
  then obtain y w where "parse_decimal (real_string x) = Some (Fin y, w)"
    using parse_decimal_digits s(2) by blast
  moreover have "dropWhile is_space (real_string x) = real_string x"
    using s digit_not_sign [of c] by (auto simp: real_string_def is_space_def char_code_def)
  ultimately show ?thesis by (simp add: parseFloat_def str_parseFloat_def)
qed

end
