(* ===== verification/SparkUtil.thy ===== *)
theory SparkUtil
  imports JSString "HOL-Library.AList"
begin

text \<open>
  The utilities of \<open>static/js/jquery.sparkline.js\<close> (lines 465 to 568) and the range maps
  (\<open>RangeMap\<close>, lines 617 to 649), with the helpers of jQuery they use (\<open>$.extend\<close>, \<open>$.map\<close>).
\<close>

named_theorems spark_simps \<open>unfolding of the sparkline utilities\<close>

section \<open>Definitions\<close>

text \<open>\<open>$.extend(target, source)\<close>: own values that are not \<open>undefined\<close> are copied.\<close>

fun jq_extend :: "(string \<times> jsval) list \<Rightarrow> (string \<times> jsval) list \<Rightarrow> (string \<times> jsval) list" where
  "jq_extend target [] = target"
| "jq_extend target ((k, v) # src) = jq_extend (if v = Undef then target else jput k v target) src"

text \<open>\<open>$.map(values, Number)\<close>: \<open>Number\<close> never returns \<open>null\<close> or an array, so nothing is dropped or flattened.\<close>

definition jq_map_Number :: "jsval list \<Rightarrow> number list" where
  "jq_map_Number vs = map to_number vs"

definition clipval :: "jsval \<Rightarrow> jsval \<Rightarrow> jsval \<Rightarrow> jsval" where
  "clipval val mn mx = (if jlt val mn then mn else if jlt mx val then mx else val)"

text \<open>\<open>(values[i] + values[i + 1]) / 2\<close> and \<open>values[i]\<close>, as \<open>quartile\<close> reads them.\<close>

definition mean_at :: "jsval list \<Rightarrow> nat \<Rightarrow> jsval" where
  "mean_at vs i = Num (to_number (jadd (jnth vs i) (jnth vs (i + 1))) / Fin 2)"

definition quartile :: "jsval list \<Rightarrow> nat \<Rightarrow> jsval" where
  "quartile vs q =
     (if q = 2 then
        (let vl = length vs div 2
         in if length vs mod 2 \<noteq> 0 then jnth vs vl else mean_at vs vl)
      else
        (let vl = length vs div 4
         in if length vs mod 2 \<noteq> 0 then mean_at vs (vl * q) else jnth vs (vl * q)))"

definition normalizeValue :: "jsval \<Rightarrow> jsval" where
  "normalizeValue val =
     (if val = Str ''undefined'' then Undef
      else if val = Str ''null'' then Null
      else if val = Str ''true'' then Bool True
      else if val = Str ''false'' then Bool False
      else (let nf = parseFloat val in if loose_eq val (Num nf) then Num nf else val))"

definition normalizeValues :: "jsval list \<Rightarrow> jsval list" where
  "normalizeValues vals = map normalizeValue vals"

fun remove :: "jsval list \<Rightarrow> jsval \<Rightarrow> jsval list" where
  "remove [] flt = []"
| "remove (v # vals) flt = (if \<not> seq v flt then v # remove vals flt else remove vals flt)"

definition isNumber :: "jsval \<Rightarrow> bool" where
  "isNumber v \<longleftrightarrow> \<not> isNaN (parseFloat v) \<and> isFinite (to_number v)"

text \<open>\<open>arr.join('')\<close>.\<close>

definition join_chars :: "jsval list \<Rightarrow> string" where
  "join_chars xs = concat (map (\<lambda>v. if is_nullish v then [] else to_string v) xs)"

text \<open>The position of \<open>splice(i, ...)\<close> for a number \<open>i > 0\<close>: truncated, at most the length.\<close>

fun splice_pos :: "number \<Rightarrow> nat \<Rightarrow> nat" where
  "splice_pos (Fin x) len = min (nat \<lfloor>x\<rfloor>) len"
| "splice_pos x len = len"

text \<open>
  The grouping loop \<open>for (i = p - groupsize; i > 0; i -= groupsize)\<close>; it does not end when
  \<open>groupsize\<close> is zero or negative, which is \<open>None\<close>.
\<close>

partial_function (option) group_loop :: "number \<Rightarrow> number \<Rightarrow> jsval \<Rightarrow> jsval list \<Rightarrow> jsval list option" where
  "group_loop i g sep xs =
     (if Fin 0 < i then group_loop (i - g) g sep (js_splice (splice_pos i (length xs)) 0 [sep] xs) else Some xs)"

text \<open>
  \<open>prec\<close> is \<open>None\<close> for the source's \<open>false\<close>. A string has no \<open>toFixed\<close>: the call raises.
\<close>

definition format_digits :: "jsval \<Rightarrow> nat option \<Rightarrow> string result" where
  "format_digits v prec =
     (case prec of
        None \<Rightarrow> Inr (num_to_string (parseFloat v))
      | Some f \<Rightarrow> (case v of Num x \<Rightarrow> Inr (num_toFixed x f) | _ \<Rightarrow> Inl (TypeError ''num.toFixed is not a function'')))"

definition formatNumber :: "jsval \<Rightarrow> nat option \<Rightarrow> jsval \<Rightarrow> jsval \<Rightarrow> jsval \<Rightarrow> string result" where
  "formatNumber v prec groupsize groupsep decsep =
     (case format_digits v prec of
        Inl e \<Rightarrow> Inl e
      | Inr ds \<Rightarrow>
          (let cs = map (\<lambda>c. Str [c]) ds;
               p = (case in_array (\<lambda>c. c = Str ''.'') cs of None \<Rightarrow> length cs | Some i \<Rightarrow> i);
               cs' = (if p < length cs then cs[p := decsep] else cs)
           in (case group_loop (Fin (of_nat p) - to_number groupsize) (to_number groupsize) groupsep cs' of
                 None \<Rightarrow> Inl Diverges
               | Some xs \<Rightarrow> Inr (join_chars xs))))"

definition all_eq :: "jsval \<Rightarrow> jsval list \<Rightarrow> bool \<Rightarrow> bool" where
  "all_eq val arr ignoreNull = list_all (\<lambda>v. \<not> (\<not> seq v val \<or> (\<not> ignoreNull \<and> val = Null))) (rev arr)"

fun sum_from :: "number \<Rightarrow> jsval list \<Rightarrow> number" where
  "sum_from tot [] = tot"
| "sum_from tot (v # vs) = sum_from (tot + (case v of Num x \<Rightarrow> x | _ \<Rightarrow> Fin 0)) vs"

definition sum_vals :: "jsval list \<Rightarrow> number" where
  "sum_vals vals = sum_from (Fin 0) (rev vals)"

definition ensureArray :: "jsval \<Rightarrow> jsval list" where
  "ensureArray v = (case v of Arr xs \<Rightarrow> xs | _ \<Rightarrow> [v])"

subsection \<open>Range maps\<close>

type_synonym range = "number \<times> number \<times> jsval"

definition range_of_key :: "string \<Rightarrow> jsval \<Rightarrow> range" where
  "range_of_key key v =
     (let r = split_on (CHR '':'') key; lo = r ! 0; hi = r ! 1
      in (if lo = [] then NInf else str_parseFloat lo, if hi = [] then PInf else str_parseFloat hi, v))"

text \<open>\<open>init\<close>: one range per key with a colon, in the order of the keys.\<close>

fun rangelist :: "(string \<times> jsval) list \<Rightarrow> range list" where
  "rangelist [] = []"
| "rangelist ((key, v) # m) =
     (if CHR '':'' \<in> set key then range_of_key key v # rangelist m else rangelist m)"

fun in_range :: "jsval \<Rightarrow> range \<Rightarrow> bool" where
  "in_range v (lo, hi, x) \<longleftrightarrow> jle (Num lo) v \<and> jle v (Num hi)"

text \<open>The loop of \<open>get\<close>: from the last range to the first.\<close>

fun range_scan :: "range list \<Rightarrow> jsval \<Rightarrow> nat \<Rightarrow> jsval" where
  "range_scan rl v 0 = Undef"
| "range_scan rl v (Suc i) = (if in_range v (rl ! i) then snd (snd (rl ! i)) else range_scan rl v i)"

definition RangeMap_get :: "(string \<times> jsval) list \<Rightarrow> jsval \<Rightarrow> jsval" where
  "RangeMap_get m v =
     (let r = jget m (to_string v)
      in if r \<noteq> Undef then r else range_scan (rangelist m) v (length (rangelist m)))"

section \<open>Facts\<close>

declare clipval_def [spark_simps]

lemma map_of_jq_extend:
  "distinct (map fst src) \<Longrightarrow>
   map_of (jq_extend target src) k =
     (case map_of src k of None \<Rightarrow> map_of target k | Some v \<Rightarrow> if v = Undef then map_of target k else Some v)"
proof (induction src arbitrary: target)
  case Nil
  then show ?case by simp
next
  case (Cons kv src)
  then show ?case
    by (cases kv) (force split: option.splits dest: map_of_SomeD)
qed

lemma jget_jq_extend:
  "distinct (map fst src) \<Longrightarrow>
   jget (jq_extend target src) k = (if jget src k = Undef then jget target k else jget src k)"
  unfolding jget_def by (auto simp: map_of_jq_extend split: option.splits)

lemma clipval_Fin:
  "clipval (num x) (num lo) (num hi) = num (if x < lo then lo else if hi < x then hi else x)"
  by (simp add: clipval_def)

lemma remove_filter: "remove vs flt = filter (\<lambda>v. \<not> seq v flt) vs"
  by (induction vs) auto

lemma sum_from_Fin: "sum_from (Fin a) (map num xs) = Fin (a + sum_list xs)"
  by (induction xs arbitrary: a) (auto simp: add.assoc)

lemma range_scan_find:
  "n \<le> length rl \<Longrightarrow>
   range_scan rl v n = (case find (in_range v) (rev (take n rl)) of None \<Rightarrow> Undef | Some (lo, hi, x) \<Rightarrow> x)"
  by (induction n) (auto simp: take_Suc_conv_app_nth split: prod.splits)

text \<open>The range map as a lookup: an exact key first, else the last matching range.\<close>

lemma RangeMap_get_find:
  "RangeMap_get m v =
     (if jget m (to_string v) \<noteq> Undef then jget m (to_string v)
      else (case find (in_range v) (rev (rangelist m)) of None \<Rightarrow> Undef | Some (lo, hi, x) \<Rightarrow> x))"
  by (simp add: RangeMap_get_def range_scan_find Let_def)

lemma rangelist_mem: "(lo, hi, x) \<in> set (rangelist m) \<Longrightarrow> \<exists>k. CHR '':'' \<in> set k \<and> (k, x) \<in> set m"
  by (induction m rule: rangelist.induct) (auto simp: range_of_key_def Let_def split: if_splits)

subsection \<open>The grouping loop\<close>

text \<open>
  The reference result: \<open>xs\<close> cut into a first chunk and chunks of \<open>g\<close> elements, with the separator in
  front of every chunk but the first, up to position \<open>p\<close>.
\<close>

fun group_ref :: "nat \<Rightarrow> nat \<Rightarrow> 'a \<Rightarrow> 'a list \<Rightarrow> 'a list" where
  "group_ref 0 g sep xs = xs"
| "group_ref (Suc n) g sep xs =
     (if g = 0 \<or> Suc n \<le> g then xs
      else group_ref (Suc n - g) g sep (take (Suc n - g) xs) @ sep # drop (Suc n - g) xs)"

lemma splice_pos_nat [simp]: "splice_pos (Fin (real i)) len = min i len"
  by simp

lemma group_loop_stop: "\<not> Fin 0 < i \<Longrightarrow> group_loop i g sep xs = Some xs"
  by (subst group_loop.simps) simp

lemma group_loop_step:
  "Fin 0 < i \<Longrightarrow> group_loop i g sep xs = group_loop (i - g) g sep (js_splice (splice_pos i (length xs)) 0 [sep] xs)"
  by (subst group_loop.simps) simp

lemma group_loop_nat_step:
  assumes "0 < i" "i \<le> length xs"
  shows "group_loop (Fin (real i)) g sep xs = group_loop (Fin (real i) - g) g sep (take i xs @ sep # drop i xs)"
  using assms by (subst group_loop_step) (simp_all add: js_splice_def min_def)

text \<open>A loop that starts at \<open>p\<close> only touches the first \<open>p\<close> elements.\<close>

lemma group_loop_append:
  assumes "0 < g" "p \<le> length xs"
  shows "group_loop (Fin (real p - real g)) (Fin (real g)) sep (xs @ ys) =
    map_option (\<lambda>zs. zs @ ys) (group_loop (Fin (real p - real g)) (Fin (real g)) sep xs)"
  using assms
proof (induction p arbitrary: xs ys rule: less_induct)
  case (less p)
  show ?case
  proof (cases "g < p")
    case True
    let ?m = "p - g"
    have i: "real p - real g = real ?m" using True by simp
    have len: "0 < ?m" "?m \<le> length xs" using True less.prems by simp_all
    have "group_loop (Fin (real ?m - real g)) (Fin (real g)) sep ((take ?m xs @ sep # drop ?m xs) @ ys) =
      map_option (\<lambda>zs. zs @ ys) (group_loop (Fin (real ?m - real g)) (Fin (real g)) sep (take ?m xs @ sep # drop ?m xs))"
      using less.prems True len by (intro less.IH) auto
    with len show ?thesis
      unfolding i by (simp add: group_loop_nat_step del: of_nat_diff)
  next
    case False
    then show ?thesis by (simp add: group_loop_stop)
  qed
qed

lemma group_loop_ref:
  assumes "0 < g" "p = length xs"
  shows "group_loop (Fin (real p - real g)) (Fin (real g)) sep xs = Some (group_ref p g sep xs)"
  using assms
proof (induction p arbitrary: xs rule: less_induct)
  case (less p)
  show ?case
  proof (cases "g < p")
    case True
    let ?m = "p - g"
    have i: "real p - real g = real ?m" using True by simp
    have tl: "?m = length (take ?m xs)" "0 < ?m" "?m \<le> length xs" using less.prems True by simp_all
    have ih: "group_loop (Fin (real ?m - real g)) (Fin (real g)) sep (take ?m xs) =
      Some (group_ref ?m g sep (take ?m xs))"
      using less.prems True tl by (intro less.IH) auto
    have "group_loop (Fin (real ?m)) (Fin (real g)) sep xs =
      group_loop (Fin (real ?m - real g)) (Fin (real g)) sep (take ?m xs @ sep # drop ?m xs)"
      using tl by (simp add: group_loop_nat_step del: of_nat_diff)
    also have "\<dots> = Some (group_ref ?m g sep (take ?m xs) @ sep # drop ?m xs)"
      using ih group_loop_append [OF less.prems(1), of ?m "take ?m xs"] tl by (simp del: of_nat_diff)
    finally have "group_loop (Fin (real p - real g)) (Fin (real g)) sep xs =
      Some (group_ref ?m g sep (take ?m xs) @ sep # drop ?m xs)"
      by (simp only: i)
    with True less.prems(1) show ?thesis by (cases p) auto
  next
    case False
    with less.prems(1) show ?thesis by (cases p) (auto simp: group_loop_stop)
  qed
qed

lemma group_ref_append:
  assumes "0 < g" "p \<le> length xs"
  shows "group_ref p g sep (xs @ ys) = group_ref p g sep xs @ ys"
  using assms by (cases p) auto

lemma group_ref_filter:
  assumes "0 < g" "\<not> P sep"
  shows "filter P (group_ref p g sep xs) = filter P xs"
  using assms
proof (induction p g sep xs rule: group_ref.induct)
  case (1 g sep xs)
  then show ?case by simp
next
  case (2 n g sep xs)
  show ?case
  proof (cases "Suc n \<le> g")
    case True
    then show ?thesis by simp
  next
    case False
    with 2 have "filter P (group_ref (Suc n - g) g sep (take (Suc n - g) xs)) = filter P (take (Suc n - g) xs)"
      by simp
    with False 2 have "filter P (group_ref (Suc n) g sep xs) = filter P (take (Suc n - g) xs @ drop (Suc n - g) xs)"
      by (simp del: append_take_drop_id)
    then show ?thesis by simp
  qed
qed

text \<open>With a group size that is not positive the loop never ends.\<close>

lemma group_loop_diverges:
  assumes "0 < i" "g \<le> 0"
  shows "group_loop (Fin i) (Fin g) sep xs = None"
proof -
  let ?Q = "\<lambda>i g. \<exists>a b. i = Fin a \<and> g = Fin b \<and> 0 < a \<and> b \<le> 0"
  have "\<not> ?Q i g" if "group_loop i g sep xs = Some ys" for i g sep xs ys
  proof (rule group_loop.raw_induct [OF _ that, of "\<lambda>i g sep xs ys. \<not> ?Q i g"])
    fix f i g sep xs ys
    assume IH: "\<And>i g sep xs ys. f i g sep xs = Some ys \<Longrightarrow> \<not> ?Q i g"
      and body: "(if Fin 0 < i then f (i - g) g sep (js_splice (splice_pos i (length xs)) 0 [sep] xs) else Some xs) = Some ys"
    show "\<not> ?Q i g"
    proof
      assume "?Q i g"
      then obtain a b where q: "i = Fin a" "g = Fin b" "0 < a" "b \<le> 0" by blast
      then have "\<not> ?Q (i - g) g" using body IH [of "i - g" g] by simp
      then show False using q by simp
    qed
  qed
  then show ?thesis using assms by (cases "group_loop (Fin i) (Fin g) sep xs") blast+
qed

text \<open>Characters as the one-character strings that \<open>split('')\<close> gives.\<close>

abbreviation chars :: "string \<Rightarrow> jsval list" where
  "chars s \<equiv> map (\<lambda>c. Str [c]) s"

lemma in_array_chars: "in_array (\<lambda>v. v = Str [d]) (chars s) = in_array (\<lambda>c. c = d) s"
  by (induction s) auto

lemma in_array_le: "(case in_array p xs of None \<Rightarrow> length xs | Some i \<Rightarrow> i) \<le> length xs"
  using in_array_Some [of p xs] by (auto split: option.splits)

lemma join_chars_map: "join_chars (chars s) = s"
  by (induction s) (auto simp: join_chars_def is_nullish_def)

lemma group_ref_map: "group_ref p g (f sep) (map f xs) = map f (group_ref p g sep xs)"
  by (induction p g sep xs rule: group_ref.induct) (simp_all add: take_map drop_map)

lemma set_group_ref: "set xs \<subseteq> set (group_ref p g sep xs)"
proof (induction p g sep xs rule: group_ref.induct)
  case (2 n g sep xs)
  show ?case
  proof (cases "g = 0 \<or> Suc n \<le> g")
    case False
    have "set xs = set (take (Suc n - g) xs) \<union> set (drop (Suc n - g) xs)" by (metis append_take_drop_id set_append)
    then show ?thesis using 2 False by auto
  qed simp
qed simp

section \<open>Properties\<close>

text \<open>
  C35. \<open>formatNumber\<close> with a group size above zero returns, and its result is the digits with a separator
  in front of every group counted from the decimal point, as the reference grouping places them;
  taking the separators out gives the digits back, with the decimal mark in place of the point. With a
  group size of zero it never returns.
\<close>

theorem formatNumber_groups:
  fixes g :: nat and ds :: string
  defines "p \<equiv> (case in_array (\<lambda>c. c = CHR ''.'') ds of None \<Rightarrow> length ds | Some i \<Rightarrow> i)"
  assumes ds: "format_digits v prec = Inr ds" and g: "0 < g" and s: "s \<notin> set ds" "s \<noteq> d"
  shows "formatNumber v prec (num (real g)) (Str [s]) (Str [d]) = Inr (group_ref p g s (take p ds) @ drop p (ds[p := d])) \<and>
    filter (\<lambda>c. c \<noteq> s) (group_ref p g s (take p ds) @ drop p (ds[p := d])) = ds[p := d] \<and>
    (0 < p \<longrightarrow> formatNumber v prec (num 0) (Str [s]) (Str [d]) = Inl Diverges)"
proof -
  have pl: "p \<le> length ds" unfolding p_def by (rule in_array_le)
  have cs: "(if p < length (chars ds) then (chars ds)[p := Str [d]] else chars ds) = chars (ds[p := d])"
    by (simp add: map_update list_update_beyond)
  have pc: "(case in_array (\<lambda>c. c = Str ''.'') (chars ds) of None \<Rightarrow> length (chars ds) | Some i \<Rightarrow> i) = p"
    unfolding p_def in_array_chars length_map ..
  have tk: "take p (ds[p := d]) = take p ds" by simp
  have "group_loop (Fin (real p - real g)) (Fin (real g)) (Str [s]) (chars (take p ds) @ chars (drop p (ds[p := d]))) =
    Some (group_ref p g (Str [s]) (chars (take p ds)) @ chars (drop p (ds[p := d])))"
    using group_loop_append [OF g, of p "chars (take p ds)"] group_loop_ref [OF g, of p "chars (take p ds)"] pl by simp
  then have "group_loop (Fin (real p - real g)) (Fin (real g)) (Str [s]) (chars (ds[p := d])) =
    Some (chars (group_ref p g s (take p ds) @ drop p (ds[p := d])))"
    by (metis (no_types, lifting) append_take_drop_id group_ref_map map_append tk)
  then have 1: "formatNumber v prec (num (real g)) (Str [s]) (Str [d]) = Inr (group_ref p g s (take p ds) @ drop p (ds[p := d]))"
    unfolding formatNumber_def Let_def ds sum.case pc cs by (simp add: join_chars_map del: map_append)
  have "s \<notin> set (ds[p := d])" using s set_update_subset_insert [of ds p d] by auto
  then have "filter (\<lambda>c. c \<noteq> s) (ds[p := d]) = ds[p := d]" by (auto simp: filter_id_conv)
  moreover have "filter (\<lambda>c. c \<noteq> s) (group_ref p g s (take p ds)) = filter (\<lambda>c. c \<noteq> s) (take p (ds[p := d]))"
    using group_ref_filter [OF g, of "\<lambda>c. c \<noteq> s"] tk by simp
  ultimately have 2: "filter (\<lambda>c. c \<noteq> s) (group_ref p g s (take p ds) @ drop p (ds[p := d])) = ds[p := d]"
    by (metis append_take_drop_id filter_append)
  have 3: "formatNumber v prec (num 0) (Str [s]) (Str [d]) = Inl Diverges" if "0 < p"
    unfolding formatNumber_def Let_def ds sum.case pc cs using that by (simp add: group_loop_diverges)
  show ?thesis using 1 2 3 by blast
qed

theorem formatNumber_groups_witness:
  "formatNumber (num 1234567) (Some 2) (num (real 3)) (Str '','') (Str ''.'') = Inr ''1,234,567.00''"
proof -
  have n: "int_digits 123456700 = ''123456700''" by (simp add: int_digits.simps digit_char_def)
  have d: "format_digits (num 1234567) (Some 2) = Inr ''1234567.00''"
    by (simp add: format_digits_def real_toFixed_def decimal_string_def n)
  show ?thesis
    using formatNumber_groups [OF d, of 3 "CHR '',''" "CHR ''.''"] by simp
qed

end
