(* ===== verification/SparkOptions.thy ===== *)
theory SparkOptions
  imports SparkUtil
begin

text \<open>
  The option handling of \<open>static/js/jquery.sparkline.js\<close>: the defaults (\<open>getDefaults\<close>), the class
  \<open>$.fn.sparkline.options\<close> with its tag settings and their cache, and the tooltip formats
  (\<open>SPFormat\<close>). A tag is the function from attribute names to attribute values. Callbacks supplied
  by the page are the parameter \<open>call\<close>.
\<close>

section \<open>Defaults\<close>

definition bar_colors :: "jsval list" where
  "bar_colors = map Str [''#3366cc'', ''#dc3912'', ''#ff9900'', ''#109618'', ''#66aa00'', ''#dd4477'', ''#0099c6'', ''#990099'']"

definition common_defaults :: "(string \<times> jsval) list" where
  "common_defaults =
    [(''type'', Str ''line''),
     (''lineColor'', Str ''#00f''),
     (''fillColor'', Str ''#cdf''),
     (''defaultPixelsPerValue'', num 3),
     (''width'', Str ''auto''),
     (''height'', Str ''auto''),
     (''composite'', Bool False),
     (''tagValuesAttribute'', Str ''values''),
     (''tagOptionsPrefix'', Str ''spark''),
     (''enableTagOptions'', Bool False),
     (''enableHighlight'', Bool True),
     (''highlightLighten'', num (14 / 10)),
     (''tooltipSkipNull'', Bool True),
     (''tooltipPrefix'', Str ''''),
     (''tooltipSuffix'', Str ''''),
     (''disableHiddenCheck'', Bool False),
     (''numberFormatter'', Bool False),
     (''numberDigitGroupCount'', num 3),
     (''numberDigitGroupSep'', Str '',''),
     (''numberDecimalMark'', Str ''.''),
     (''disableTooltips'', Bool False),
     (''disableInteraction'', Bool False)]"

definition line_defaults :: "(string \<times> jsval) list" where
  \<open>line_defaults =
    [(''spotColor'', Str ''#f80''),
     (''highlightSpotColor'', Str ''#5f5''),
     (''highlightLineColor'', Str ''#f22''),
     (''spotRadius'', num (15 / 10)),
     (''minSpotColor'', Str ''#f80''),
     (''maxSpotColor'', Str ''#f80''),
     (''lineWidth'', num 1),
     (''normalRangeMin'', Undef),
     (''normalRangeMax'', Undef),
     (''normalRangeColor'', Str ''#ccc''),
     (''drawNormalOnTop'', Bool False),
     (''chartRangeMin'', Undef),
     (''chartRangeMax'', Undef),
     (''chartRangeMinX'', Undef),
     (''chartRangeMaxX'', Undef),
     (''tooltipFormat'', FmtI ''<span style="color: {{color}}">&#9679;</span> {{prefix}}{{y}}{{suffix}}'' Undef)]\<close>

definition bar_defaults :: "(string \<times> jsval) list" where
  \<open>bar_defaults =
    [(''barColor'', Str ''#3366cc''),
     (''negBarColor'', Str ''#f44''),
     (''stackedBarColor'', Arr bar_colors),
     (''zeroColor'', Undef),
     (''nullColor'', Undef),
     (''zeroAxis'', Bool True),
     (''barWidth'', num 4),
     (''barSpacing'', num 1),
     (''chartRangeMax'', Undef),
     (''chartRangeMin'', Undef),
     (''chartRangeClip'', Bool False),
     (''colorMap'', Undef),
     (''tooltipFormat'', FmtI ''<span style="color: {{color}}">&#9679;</span> {{prefix}}{{value}}{{suffix}}'' Undef)]\<close>

definition tristate_defaults :: "(string \<times> jsval) list" where
  \<open>tristate_defaults =
    [(''barWidth'', num 4),
     (''barSpacing'', num 1),
     (''posBarColor'', Str ''#6f6''),
     (''negBarColor'', Str ''#f44''),
     (''zeroBarColor'', Str ''#999''),
     (''colorMap'', Obj []),
     (''tooltipFormat'', FmtI ''<span style="color: {{color}}">&#9679;</span> {{value:map}}'' Undef),
     (''tooltipValueLookups'', Obj [(''map'', Obj [(''-1'', Str ''Loss''), (''0'', Str ''Draw''), (''1'', Str ''Win'')])])]\<close>

definition discrete_defaults :: "(string \<times> jsval) list" where
  "discrete_defaults =
    [(''lineHeight'', Str ''auto''),
     (''thresholdColor'', Undef),
     (''thresholdValue'', num 0),
     (''chartRangeMax'', Undef),
     (''chartRangeMin'', Undef),
     (''chartRangeClip'', Bool False),
     (''tooltipFormat'', FmtI ''{{prefix}}{{value}}{{suffix}}'' Undef)]"

definition bullet_defaults :: "(string \<times> jsval) list" where
  "bullet_defaults =
    [(''targetColor'', Str ''#f33''),
     (''targetWidth'', num 3),
     (''performanceColor'', Str ''#33f''),
     (''rangeColors'', Arr [Str ''#d3dafe'', Str ''#a8b6ff'', Str ''#7f94ff'']),
     (''base'', Undef),
     (''tooltipFormat'', FmtI ''{{fieldkey:fields}} - {{value}}'' Undef),
     (''tooltipValueLookups'', Obj [(''fields'', Obj [(''r'', Str ''Range''), (''p'', Str ''Performance''), (''t'', Str ''Target'')])])]"

definition pie_defaults :: "(string \<times> jsval) list" where
  \<open>pie_defaults =
    [(''offset'', num 0),
     (''sliceColors'', Arr bar_colors),
     (''borderWidth'', num 0),
     (''borderColor'', Str ''#000''),
     (''tooltipFormat'', FmtI ''<span style="color: {{color}}">&#9679;</span> {{value}} ({{percent.1}}%)'' Undef)]\<close>

definition box_defaults :: "(string \<times> jsval) list" where
  "box_defaults =
    [(''raw'', Bool False),
     (''boxLineColor'', Str ''#000''),
     (''boxFillColor'', Str ''#cdf''),
     (''whiskerColor'', Str ''#000''),
     (''outlierLineColor'', Str ''#333''),
     (''outlierFillColor'', Str ''#fff''),
     (''medianColor'', Str ''#f00''),
     (''showOutliers'', Bool True),
     (''outlierIQR'', num (15 / 10)),
     (''spotRadius'', num (15 / 10)),
     (''target'', Undef),
     (''targetColor'', Str ''#4a2''),
     (''chartRangeMax'', Undef),
     (''chartRangeMin'', Undef),
     (''tooltipFormat'', FmtI ''{{field:fields}}: {{value}}'' Undef),
     (''tooltipFormatFieldlistKey'', Str ''field''),
     (''tooltipValueLookups'', Obj [(''fields'', Obj [(''lq'', Str ''Lower Quartile''), (''med'', Str ''Median''),
        (''uq'', Str ''Upper Quartile''), (''lo'', Str ''Left Outlier''), (''ro'', Str ''Right Outlier''),
        (''lw'', Str ''Left Whisker''), (''rw'', Str ''Right Whisker'')])])]"

definition getDefaults :: "(string \<times> jsval) list" where
  "getDefaults =
    [(''common'', Obj common_defaults), (''line'', Obj line_defaults), (''bar'', Obj bar_defaults),
     (''tristate'', Obj tristate_defaults), (''discrete'', Obj discrete_defaults),
     (''bullet'', Obj bullet_defaults), (''pie'', Obj pie_defaults), (''box'', Obj box_defaults)]"

section \<open>The option handler\<close>

record sp_options =
  userOptions :: "(string \<times> jsval) list"
  tag :: "string \<Rightarrow> string option"
  tagValCache :: "(string \<times> jsval option) list"
  tagOptionsPrefix :: jsval
  mergedOptions :: "(string \<times> jsval) list"

text \<open>An object passed to \<open>$.extend\<close>: nothing is copied from \<open>undefined\<close>.\<close>

definition as_obj :: "jsval \<Rightarrow> (string \<times> jsval) list" where
  "as_obj v = (case v of Obj ob \<Rightarrow> ob | _ \<Rightarrow> [])"

text \<open>\<open>val.substr(1, val.length - 2)\<close>.\<close>

definition strip_ends :: "string \<Rightarrow> string" where
  "strip_ends s = take (length s - 2) (drop 1 s)"

text \<open>The loop over \<open>pairs\<close>, from the last to the first (the list is reversed).\<close>

fun parse_pairs :: "(string \<times> jsval) list \<Rightarrow> string list \<Rightarrow> (string \<times> jsval) list result" where
  "parse_pairs ob [] = Inr ob"
| "parse_pairs ob (p # ps) =
     (case split_on (CHR '':'') p of
        k # v # _ \<Rightarrow> parse_pairs (jput (trim k) (normalizeValue (Str (trim v))) ob) ps
      | _ \<Rightarrow> Inl (TypeError ''keyval[1] is undefined''))"

definition parse_tag_value :: "string \<Rightarrow> jsval result" where
  "parse_tag_value s =
     (if take 1 s = ''['' then
        Inr (Arr (map (\<lambda>x. normalizeValue (Str (trim x))) (split_on (CHR '','') (strip_ends s))))
      else if take 1 s = ''{'' then
        (case parse_pairs [] (rev (split_on (CHR '','') (strip_ends s))) of
           Inl e \<Rightarrow> Inl e | Inr ob \<Rightarrow> Inr (Obj ob))
      else Inr (normalizeValue (Str s)))"

text \<open>
  \<open>getTagSetting\<close>: \<open>None\<close> is \<open>UNSET_OPTION\<close>. The cache is read and written as the source does: the
  membership test is on the setting's name, the value is kept under the property called \<open>key\<close>.
\<close>

definition getTagSetting :: "string \<Rightarrow> sp_options \<Rightarrow> (jsval option \<times> sp_options) result" where
  "getTagSetting key o' =
     (if tagOptionsPrefix o' = Bool False \<or> tagOptionsPrefix o' = Undef then Inr (None, o')
      else if map_of (tagValCache o') key \<noteq> None then
        Inr (case map_of (tagValCache o') ''key'' of None \<Rightarrow> Some Undef | Some v \<Rightarrow> v, o')
      else (case tag o' (to_string (jadd (tagOptionsPrefix o') (Str key))) of
              None \<Rightarrow> Inr (None, o'\<lparr>tagValCache := AList.update ''key'' None (tagValCache o')\<rparr>)
            | Some s \<Rightarrow>
                (case parse_tag_value s of
                   Inl e \<Rightarrow> Inl e
                 | Inr v \<Rightarrow> Inr (Some v, o'\<lparr>tagValCache := AList.update ''key'' (Some v) (tagValCache o')\<rparr>))))"

definition options_get :: "string \<Rightarrow> jsval \<Rightarrow> sp_options \<Rightarrow> (jsval \<times> sp_options) result" where
  "options_get key defaultval o' =
     (case getTagSetting key o' of
        Inl e \<Rightarrow> Inl e
      | Inr (Some v, o'') \<Rightarrow> Inr (v, o'')
      | Inr (None, o'') \<Rightarrow>
          Inr (let r = jget (mergedOptions o'') key in if r = Undef then defaultval else r, o''))"

definition options_init :: "(string \<Rightarrow> string option) \<Rightarrow> (string \<times> jsval) list \<Rightarrow> sp_options result" where
  "options_init tg uo =
     (let defaults = getDefaults; base = as_obj (jget defaults ''common'');
          prefix = jand (jget uo ''enableTagOptions'') (jor (jget uo ''tagOptionsPrefix'') (jget base ''tagOptionsPrefix''));
          o0 = \<lparr>userOptions = uo, tag = tg, tagValCache = [], tagOptionsPrefix = prefix, mergedOptions = []\<rparr>
      in (case getTagSetting ''type'' o0 of
            Inl e \<Rightarrow> Inl e
          | Inr (t, o1) \<Rightarrow>
              (let ty = (case t of None \<Rightarrow> jor (jget uo ''type'') (jget base ''type'') | Some v \<Rightarrow> v);
                   ext = as_obj (jget defaults (to_string ty))
               in Inr (o1\<lparr>mergedOptions := jq_extend (jq_extend (jq_extend [] base) ext) uo\<rparr>))))"

text \<open>What a setting is without the cache, and the value \<open>options.get(key)\<close> the charts see.\<close>

definition tag_value :: "sp_options \<Rightarrow> string \<Rightarrow> jsval option result" where
  "tag_value o' key =
     (if tagOptionsPrefix o' = Bool False \<or> tagOptionsPrefix o' = Undef then Inr None
      else (case tag o' (to_string (jadd (tagOptionsPrefix o') (Str key))) of
              None \<Rightarrow> Inr None
            | Some s \<Rightarrow> (case parse_tag_value s of Inl e \<Rightarrow> Inl e | Inr v \<Rightarrow> Inr (Some v))))"

definition opt_of :: "sp_options \<Rightarrow> string \<Rightarrow> jsval" where
  "opt_of o' key = (case tag_value o' key of Inr (Some v) \<Rightarrow> v | _ \<Rightarrow> jget (mergedOptions o') key)"

text \<open>\<open>options.get(key, d)\<close> over that view.\<close>

definition opt_default :: "(string \<Rightarrow> jsval) \<Rightarrow> string \<Rightarrow> jsval \<Rightarrow> jsval" where
  "opt_default opt key d = (if opt key = Undef then d else opt key)"

section \<open>Tooltip formats\<close>

datatype piece = Lit char | Field string "string option"

definition is_newline :: "char \<Rightarrow> bool" where
  "is_newline c \<longleftrightarrow> char_code c = 10 \<or> char_code c = 13"

text \<open>The shortest text up to the next closing braces, and what follows them.\<close>

fun until_braces :: "string \<Rightarrow> (string \<times> string) option" where
  "until_braces [] = None"
| "until_braces (c # cs) =
     (if take 2 (c # cs) = ''}}'' then Some ([], drop 2 (c # cs))
      else if is_newline c then None
      else map_option (\<lambda>(a, b). (c # a, b)) (until_braces cs))"

definition is_token_char :: "char \<Rightarrow> bool" where
  "is_token_char c \<longleftrightarrow> is_word_char c \<or> c = CHR ''.''"

text \<open>
  The regular expression \<open>fre\<close> after its opening braces. A token is followed by a colon or a brace,
  which are no token characters, so the lazy match is the maximal run.
\<close>

definition match_field :: "string \<Rightarrow> (string \<times> string option \<times> string) option" where
  "match_field s =
     (let tok = takeWhile is_token_char s; rest = dropWhile is_token_char s
      in if tok = [] then None
         else (case rest of
                 [] \<Rightarrow> None
               | c # r \<Rightarrow>
                   if c = CHR '':'' then
                     (case r of
                        [] \<Rightarrow> None
                      | d # r' \<Rightarrow>
                          if is_newline d then None
                          else map_option (\<lambda>(a, b). (tok, Some (d # a), b)) (until_braces r'))
                   else if take 2 rest = ''}}'' then Some (tok, None, drop 2 rest)
                   else None))"

lemma until_braces_shorter: "until_braces s = Some (a, b) \<Longrightarrow> length b < length s"
  by (induction s arbitrary: a) (auto split: if_splits)

lemma match_field_shorter:
  assumes "match_field s = Some (t, l, b)"
  shows "length b < length s"
proof -
  obtain c r where rest: "dropWhile is_token_char s = c # r"
    using assms by (auto simp: match_field_def Let_def split: list.splits if_splits)
  have "length (c # r) \<le> length s"
    using length_dropWhile_le [of is_token_char s] by (simp add: rest)
  then show ?thesis
    using assms rest
    by (auto simp: match_field_def Let_def split: list.splits if_splits dest!: until_braces_shorter)
qed

function parse_format :: "string \<Rightarrow> piece list" where
  "parse_format [] = []"
| "parse_format (c # cs) =
     (case (if take 2 (c # cs) = ''{{'' then match_field (drop 1 cs) else None) of
        None \<Rightarrow> Lit c # parse_format cs
      | Some (t, l, rest) \<Rightarrow> Field t l # parse_format rest)"
  by pat_completeness auto
termination
  by (relation "measure length") (auto split: if_splits dest!: match_field_shorter)

text \<open>\<open>precre.exec(token)\<close>: the first run of word characters that a dot and a digit follow.\<close>

fun find_prec :: "string list \<Rightarrow> (string \<times> string) option" where
  "find_prec (a # b # ps) =
     (if a \<noteq> [] \<and> takeWhile is_digit b \<noteq> [] then Some (a, takeWhile is_digit b) else find_prec (b # ps))"
| "find_prec ps = None"

text \<open>\<open>v[k]\<close> on a value.\<close>

fun jprop :: "jsval \<Rightarrow> string \<Rightarrow> jsval" where
  "jprop (Obj ob) k = jget ob k"
| "jprop (Arr xs) k =
     (if k \<noteq> [] \<and> list_all is_digit k then jnth xs (nat (digits_val k)) else Undef)"
| "jprop v k = Undef"

text \<open>The replacement function of \<open>render\<close> for one field.\<close>

definition render_field ::
  "(string \<Rightarrow> jsval list \<Rightarrow> jsval) \<Rightarrow> (string \<Rightarrow> jsval) \<Rightarrow> (string \<times> jsval) list \<Rightarrow> jsval
     \<Rightarrow> string \<Rightarrow> string option \<Rightarrow> jsval result" where
  "render_field call opt fds lookups tok lk =
     (let (token, prec) = (case find_prec (split_on (CHR ''.'') tok) of
              None \<Rightarrow> (tok, None) | Some (a, b) \<Rightarrow> (a, Some (nat (digits_val b))));
          fieldvalue = jget fds token;
          lookup = (case lk of None \<Rightarrow> Undef | Some k \<Rightarrow> jprop lookups k)
      in if fieldvalue = Undef then Inr (Str [])
         else if truthy lookups \<and> truthy lookup then
           (case lookup of
              RMapI m \<Rightarrow> Inr (jor (RangeMap_get m fieldvalue) fieldvalue)
            | _ \<Rightarrow>
                (if truthy (jprop lookup ''get'') then
                   (case jprop lookup ''get'' of
                      Fn f \<Rightarrow> Inr (jor (call f [fieldvalue]) fieldvalue)
                    | _ \<Rightarrow> Inl (TypeError ''lookup.get is not a function''))
                 else Inr (jor (jprop lookup (to_string fieldvalue)) fieldvalue)))
         else if isNumber fieldvalue then
           (if truthy (opt ''numberFormatter'') then
              (case opt ''numberFormatter'' of
                 Fn f \<Rightarrow> Inr (call f [fieldvalue])
               | _ \<Rightarrow> Inl (TypeError ''numberFormatter is not a function''))
            else (case formatNumber fieldvalue prec (opt ''numberDigitGroupCount'')
                         (opt ''numberDigitGroupSep'') (opt ''numberDecimalMark'') of
                    Inl e \<Rightarrow> Inl e | Inr s \<Rightarrow> Inr (Str s)))
         else Inr fieldvalue)"

fun render_pieces :: "(string \<Rightarrow> string option \<Rightarrow> jsval result) \<Rightarrow> piece list \<Rightarrow> string result" where
  "render_pieces f [] = Inr []"
| "render_pieces f (Lit c # ps) =
     (case render_pieces f ps of Inl e \<Rightarrow> Inl e | Inr s \<Rightarrow> Inr (c # s))"
| "render_pieces f (Field t l # ps) =
     (case f t l of
        Inl e \<Rightarrow> Inl e
      | Inr v \<Rightarrow> (case render_pieces f ps of Inl e \<Rightarrow> Inl e | Inr s \<Rightarrow> Inr (to_string v @ s)))"

definition SPFormat_render ::
  "(string \<Rightarrow> jsval list \<Rightarrow> jsval) \<Rightarrow> (string \<Rightarrow> jsval) \<Rightarrow> string \<Rightarrow> (string \<times> jsval) list \<Rightarrow> jsval \<Rightarrow> string result" where
  "SPFormat_render call opt format fds lookups =
     render_pieces (render_field call opt fds lookups) (parse_format format)"

section \<open>Facts about options\<close>

text \<open>Nothing but the property \<open>key\<close> is ever stored in the cache.\<close>

definition cache_ok :: "sp_options \<Rightarrow> bool" where
  "cache_ok o' \<longleftrightarrow> fst ` set (tagValCache o') \<subseteq> {''key''}"

lemma cache_ok_update: "cache_ok o' \<Longrightarrow> cache_ok (o'\<lparr>tagValCache := AList.update ''key'' v (tagValCache o')\<rparr>)"
  by (auto simp: cache_ok_def dom_update)

lemma getTagSetting_value:
  assumes "cache_ok o'" "key \<noteq> ''key''"
  shows "map_sum id fst (getTagSetting key o') = tag_value o' key"
proof -
  have "map_of (tagValCache o') key = None"
    using assms by (auto simp: cache_ok_def map_of_eq_None_iff)
  then show ?thesis
    by (auto simp: getTagSetting_def tag_value_def split: option.splits sum.splits)
qed

lemma getTagSetting_frame:
  assumes "cache_ok o'" "getTagSetting key o' = Inr (v, o'')"
  shows "cache_ok o'' \<and> o''\<lparr>tagValCache := []\<rparr> = o'\<lparr>tagValCache := []\<rparr>"
  using assms
  by (auto simp: getTagSetting_def cache_ok_update split: if_splits option.splits sum.splits)

lemma tag_value_frame: "o''\<lparr>tagValCache := []\<rparr> = o'\<lparr>tagValCache := []\<rparr> \<Longrightarrow> tag_value o'' key = tag_value o' key"
  by (cases o'; cases o'') (simp add: tag_value_def)

lemma defaults_distinct:
  "distinct (map fst common_defaults)" "distinct (map fst line_defaults)" "distinct (map fst bar_defaults)"
  "distinct (map fst tristate_defaults)" "distinct (map fst discrete_defaults)" "distinct (map fst bullet_defaults)"
  "distinct (map fst pie_defaults)" "distinct (map fst box_defaults)"
  by (simp_all add: common_defaults_def line_defaults_def bar_defaults_def tristate_defaults_def
      discrete_defaults_def bullet_defaults_def pie_defaults_def box_defaults_def)

lemma default_section_distinct: "distinct (map fst (as_obj (jget getDefaults t)))"
  by (simp add: getDefaults_def as_obj_def defaults_distinct)

lemma jget_merged:
  assumes "distinct (map fst uo)" "distinct (map fst ext)" "distinct (map fst base)"
  shows "jget (jq_extend (jq_extend (jq_extend [] base) ext) uo) k =
    (if jget uo k \<noteq> Undef then jget uo k else if jget ext k \<noteq> Undef then jget ext k else jget base k)"
  using assms by (simp add: jget_jq_extend)

text \<open>A run of reads, as a chart makes them.\<close>

fun options_reads :: "string list \<Rightarrow> sp_options \<Rightarrow> sp_options result" where
  "options_reads [] o' = Inr o'"
| "options_reads (k # ks) o' = rbind (options_get k Undef o') (\<lambda>(v, o''). options_reads ks o'')"

lemma options_get_frame:
  assumes "cache_ok o'" "options_get key d o' = Inr (v, o'')"
  shows "cache_ok o'' \<and> o''\<lparr>tagValCache := []\<rparr> = o'\<lparr>tagValCache := []\<rparr>"
  using assms getTagSetting_frame [OF assms(1)]
  by (auto simp: options_get_def split: sum.splits option.splits prod.splits)

lemma options_reads_frame:
  "cache_ok o' \<Longrightarrow> options_reads ks o' = Inr o'' \<Longrightarrow> cache_ok o'' \<and> o''\<lparr>tagValCache := []\<rparr> = o'\<lparr>tagValCache := []\<rparr>"
proof (induction ks arbitrary: o')
  case Nil
  then show ?case by simp
next
  case (Cons k ks)
  obtain v o1 where o1: "options_get k Undef o' = Inr (v, o1)" "options_reads ks o1 = Inr o''"
    using Cons.prems(2) by auto
  then show ?case using options_get_frame [OF Cons.prems(1) o1(1)] Cons.IH [of o1] by simp
qed

lemma options_get_value:
  assumes "cache_ok o'" "key \<noteq> ''key''" "tag_value o' key = Inr t" "t \<noteq> Some Undef"
  shows "map_sum id fst (options_get key d o') = Inr (opt_default (opt_of o') key d)"
proof -
  obtain o'' where g: "getTagSetting key o' = Inr (t, o'')"
    using getTagSetting_value [OF assms(1,2)] assms(3) by (cases "getTagSetting key o'") auto
  have m: "mergedOptions o'' = mergedOptions o'"
    using getTagSetting_frame [OF assms(1) g] by (cases o'; cases o'') simp
  show ?thesis
    using assms(4) by (cases t) (auto simp: options_get_def g m opt_default_def opt_of_def assms(3) Let_def)
qed

lemma opt_of_frame: "o''\<lparr>tagValCache := []\<rparr> = o'\<lparr>tagValCache := []\<rparr> \<Longrightarrow> opt_of o'' key = opt_of o' key"
proof -
  assume f: "o''\<lparr>tagValCache := []\<rparr> = o'\<lparr>tagValCache := []\<rparr>"
  then have "mergedOptions o'' = mergedOptions o'" by (cases o'; cases o'') simp
  then show ?thesis using tag_value_frame [OF f] by (simp add: opt_of_def split: sum.split option.split)
qed

text \<open>The type of the chart that the options were made for: the tag's, the page's or the default.\<close>

definition chart_type :: "(string \<times> jsval) list \<Rightarrow> sp_options \<Rightarrow> jsval" where
  "chart_type uo o' =
     (case tag_value o' ''type'' of Inr (Some v) \<Rightarrow> v | _ \<Rightarrow> jor (jget uo ''type'') (jget (as_obj (jget getDefaults ''common'')) ''type''))"

lemma options_init_shape:
  assumes "options_init tg uo = Inr o'"
  shows "cache_ok o' \<and> mergedOptions o' =
    jq_extend (jq_extend (jq_extend [] (as_obj (jget getDefaults ''common''))) (as_obj (jget getDefaults (to_string (chart_type uo o'))))) uo"
proof -
  define base where "base = as_obj (jget getDefaults ''common'')"
  define o0 where "o0 = \<lparr>userOptions = uo, tag = tg, tagValCache = [],
    tagOptionsPrefix = jand (jget uo ''enableTagOptions'') (jor (jget uo ''tagOptionsPrefix'') (jget base ''tagOptionsPrefix'')), mergedOptions = []\<rparr>"
  have ok: "cache_ok o0" by (simp add: cache_ok_def o0_def)
  obtain t o1 where g: "getTagSetting ''type'' o0 = Inr (t, o1)"
    using assms by (cases "getTagSetting ''type'' o0") (auto simp: options_init_def Let_def o0_def base_def)
  have o': "o' = o1\<lparr>mergedOptions := jq_extend (jq_extend (jq_extend [] base)
      (as_obj (jget getDefaults (to_string (case t of None \<Rightarrow> jor (jget uo ''type'') (jget base ''type'') | Some v \<Rightarrow> v))))) uo\<rparr>"
    using assms g by (cases t) (simp_all add: options_init_def Let_def o0_def base_def)
  have f: "cache_ok o1" "o1\<lparr>tagValCache := []\<rparr> = o0\<lparr>tagValCache := []\<rparr>" using getTagSetting_frame [OF ok g] by auto
  have "tag_value o0 ''type'' = Inr t" using getTagSetting_value [OF ok, of "''type''"] g by simp
  moreover have "tag_value (o1\<lparr>mergedOptions := mo\<rparr>) key = tag_value o1 key" for mo key by (simp add: tag_value_def)
  ultimately have tv: "tag_value o' ''type'' = Inr t" using tag_value_frame [OF f(2)] by (simp add: o')
  show ?thesis using f(1) by (cases t) (simp_all add: chart_type_def tv, simp_all add: o' cache_ok_def base_def)
qed

section \<open>Properties\<close>

text \<open>
  C36. What \<open>options.get\<close> answers depends on the key alone, however many settings were read before it: the
  cache of tag settings, which the source keeps under the wrong key, is never used. The answer is the
  value of the element's attribute if tag options are enabled and it has one, else the page's option,
  else the default of the chart's type, else the common default, else the default of the call.
\<close>

theorem options_precedence:
  assumes "options_init tg uo = Inr o0" "options_reads ks o0 = Inr o'" "key \<noteq> ''key''" "distinct (map fst uo)"
    and "tag_value o0 key = Inr t" "t \<noteq> Some Undef"
  shows "map_sum id fst (options_get key d o') = Inr (opt_default (opt_of o0) key d) \<and>
    opt_of o0 key =
      (case t of Some v \<Rightarrow> v
       | None \<Rightarrow> if jget uo key \<noteq> Undef then jget uo key
           else if jget (as_obj (jget getDefaults (to_string (chart_type uo o0)))) key \<noteq> Undef
             then jget (as_obj (jget getDefaults (to_string (chart_type uo o0)))) key
           else jget (as_obj (jget getDefaults ''common'')) key)"
proof -
  note sh = options_init_shape [OF assms(1)]
  have f: "cache_ok o'" "o'\<lparr>tagValCache := []\<rparr> = o0\<lparr>tagValCache := []\<rparr>" using options_reads_frame [of o0 ks o'] sh assms(2) by auto
  have "map_sum id fst (options_get key d o') = Inr (opt_default (opt_of o') key d)"
    using options_get_value [OF f(1) assms(3)] tag_value_frame [OF f(2)] assms(5,6) by simp
  moreover have "opt_default (opt_of o') key d = opt_default (opt_of o0) key d"
    by (simp add: opt_default_def opt_of_frame [OF f(2)])
  moreover have "jget (mergedOptions o0) key =
    (if jget uo key \<noteq> Undef then jget uo key
     else if jget (as_obj (jget getDefaults (to_string (chart_type uo o0)))) key \<noteq> Undef
       then jget (as_obj (jget getDefaults (to_string (chart_type uo o0)))) key
     else jget (as_obj (jget getDefaults ''common'')) key)"
    using sh jget_merged [OF assms(4) default_section_distinct default_section_distinct] by simp
  ultimately show ?thesis using assms(5) by (simp add: opt_of_def split: option.splits)
qed

definition demo_user :: "(string \<times> jsval) list" where
  "demo_user = [(''type'', Str ''bar''), (''barWidth'', num 7)]"

theorem options_precedence_witness:
  "\<exists>o0. options_init (\<lambda>a. None) demo_user = Inr o0 \<and>
     map_sum id fst (options_get ''barWidth'' Undef o0) = Inr (num 7) \<and> map_sum id fst (options_get ''barSpacing'' Undef o0) = Inr (num 1)"
proof -
  obtain o0 where o0: "options_init (\<lambda>a. None) demo_user = Inr o0" and tv: "tag_value o0 k = Inr None" for k
    by (auto simp: options_init_def getTagSetting_def tag_value_def demo_user_def jand_def Let_def)
  have ty: "chart_type demo_user o0 = Str ''bar''" by (simp add: chart_type_def tv demo_user_def jor_def)
  have dist: "distinct (map fst demo_user)" by (simp add: demo_user_def)
  have "options_reads [] o0 = Inr o0" by simp
  note T = options_precedence [OF o0 this _ dist tv, where d = Undef]
  have "opt_of o0 ''barWidth'' = num 7" "opt_of o0 ''barSpacing'' = num 1"
    using T [of "''barWidth''"] T [of "''barSpacing''"]
    by (simp_all add: ty) (simp_all add: demo_user_def getDefaults_def bar_defaults_def as_obj_def)
  then show ?thesis using o0 T [of "''barWidth''"] T [of "''barSpacing''"] by (simp add: opt_default_def)
qed

end
