(* ===== verification/JSCanvas.thy ===== *)
theory JSCanvas
  imports JSString
begin

text \<open>
  The 2D drawing context of a canvas element, as the scripts use it: a drawing is the list of the
  calls and assignments made on the context, in order. Whether a point lies in the current path
  (\<open>isPointInPath\<close>) and how wide a text is (\<open>measureText\<close>) are answered by the browser, and are
  parameters of the definitions that ask.
\<close>

datatype ctxop =
    SetStrokeStyle jsval
  | SetFillStyle jsval
  | SetLineWidth jsval
  | SetLineCap jsval
  | SetFont jsval
  | SetTextAlign jsval
  | SetTextBaseline jsval
  | BeginPath
  | ClosePath
  | MoveTo jsval jsval
  | LineTo jsval jsval
  | BezierCurveTo jsval jsval jsval jsval jsval jsval
  | Arc "jsval list"
  | RectPath jsval jsval jsval jsval
  | Stroke
  | Fill
  | ClearRect jsval jsval jsval jsval
  | FillRect jsval jsval jsval jsval
  | FillText jsval jsval jsval
  | Save
  | Restore
  | Translate jsval jsval
  | Rotate jsval
  | Scale jsval jsval

type_synonym drawing = "ctxop list"

text \<open>The depth of the context's state stack after a drawing; a \<open>restore\<close> on the empty stack does nothing.\<close>

fun ctx_step :: "nat \<Rightarrow> ctxop \<Rightarrow> nat" where
  "ctx_step d Save = Suc d"
| "ctx_step d Restore = d - 1"
| "ctx_step d op = d"

definition ctx_depth :: "nat \<Rightarrow> drawing \<Rightarrow> nat" where
  "ctx_depth d ops = foldl ctx_step d ops"

lemma ctx_depth_Nil [simp]: "ctx_depth d [] = d"
  by (simp add: ctx_depth_def)

lemma ctx_depth_Cons [simp]: "ctx_depth d (op # ops) = ctx_depth (ctx_step d op) ops"
  by (simp add: ctx_depth_def)

lemma ctx_depth_append [simp]: "ctx_depth d (xs @ ys) = ctx_depth (ctx_depth d xs) ys"
  by (simp add: ctx_depth_def)

text \<open>A drawing that saves and restores in balance from any depth.\<close>

definition balanced :: "drawing \<Rightarrow> bool" where
  "balanced ops \<longleftrightarrow> (\<forall>d. ctx_depth d ops = d)"

lemma balanced_Nil [simp]: "balanced []"
  by (simp add: balanced_def)

lemma balanced_append [intro]: "balanced xs \<Longrightarrow> balanced ys \<Longrightarrow> balanced (xs @ ys)"
  by (simp add: balanced_def)

lemma balanced_concat [intro]: "(\<And>x. x \<in> set xs \<Longrightarrow> balanced x) \<Longrightarrow> balanced (concat xs)"
  by (induction xs) auto

lemma balanced_Cons [simp]: "op \<noteq> Save \<Longrightarrow> op \<noteq> Restore \<Longrightarrow> balanced (op # ops) \<longleftrightarrow> balanced ops"
  by (cases op) (simp_all add: balanced_def)

lemma balanced_Save_Restore: "balanced ops \<Longrightarrow> balanced (Save # ops @ [Restore])"
  by (simp add: balanced_def)

end
