(* ===== verification/VCanvas.thy ===== *)
theory VCanvas
  imports JSCanvas SparkUtil "HOL-Library.Multiset"
begin

text \<open>
  The virtual canvas of \<open>static/js/jquery.sparkline.js\<close>: \<open>VShape\<close>, \<open>VCanvas_base\<close> and the HTML
  canvas \<open>VCanvas_canvas\<close> (lines 2507 to 2842). Its state is the render queue (\<open>shapeseq\<close>) with the
  shapes in it (\<open>shapes\<close>); the module's counter of shapes (\<open>shapeCount\<close>) is part of the state record.
  The locale \<open>virtual_canvas\<close> is the contract the charts rely on.
\<close>

named_theorems canvas_simps \<open>unfolding of the drawing operations\<close>

section \<open>Shapes\<close>

datatype shape =
    Shape "(jsval \<times> jsval) list" jsval jsval jsval
  | Circle jsval jsval jsval jsval jsval jsval
  | PieSlice jsval jsval jsval jsval jsval jsval jsval
  | Rect jsval jsval jsval jsval jsval jsval

datatype vshape = VShape (sid: nat) (sargs: shape)

record vcanvas =
  shapeCount :: nat
  pixelWidth :: jsval
  pixelHeight :: jsval
  interact :: bool
  shapes :: "nat \<rightharpoonup> vshape"
  shapeseq :: "nat list"
  lastShapeId :: "nat option"
  currentTargetShapeId :: "nat option"
  targetX :: jsval
  targetY :: jsval
  ctx :: drawing

section \<open>VCanvas_base\<close>

text \<open>\<open>_genShape\<close>: a new shape with the next id.\<close>

definition genShape :: "shape \<Rightarrow> vcanvas \<Rightarrow> vshape \<times> vcanvas" where
  "genShape sh c = (VShape (shapeCount c) sh, c\<lparr>shapeCount := Suc (shapeCount c)\<rparr>)"

definition drawShape :: "(jsval \<times> jsval) list \<Rightarrow> jsval \<Rightarrow> jsval \<Rightarrow> jsval \<Rightarrow> vcanvas \<Rightarrow> vshape \<times> vcanvas" where
  "drawShape path lineColor fillColor lineWidth = genShape (Shape path lineColor fillColor lineWidth)"

text \<open>\<open>drawLine\<close> passes its line width in the place of \<open>drawShape\<close>'s fill colour.\<close>

definition drawLine :: "jsval \<Rightarrow> jsval \<Rightarrow> jsval \<Rightarrow> jsval \<Rightarrow> jsval \<Rightarrow> jsval \<Rightarrow> vcanvas \<Rightarrow> vshape \<times> vcanvas" where
  "drawLine x1 y1 x2 y2 lineColor lineWidth = drawShape [(x1, y1), (x2, y2)] lineColor lineWidth Undef"

definition drawCircle :: "jsval \<Rightarrow> jsval \<Rightarrow> jsval \<Rightarrow> jsval \<Rightarrow> jsval \<Rightarrow> jsval \<Rightarrow> vcanvas \<Rightarrow> vshape \<times> vcanvas" where
  "drawCircle x y radius lineColor fillColor lineWidth = genShape (Circle x y radius lineColor fillColor lineWidth)"

definition drawPieSlice ::
  "jsval \<Rightarrow> jsval \<Rightarrow> jsval \<Rightarrow> jsval \<Rightarrow> jsval \<Rightarrow> jsval \<Rightarrow> jsval \<Rightarrow> vcanvas \<Rightarrow> vshape \<times> vcanvas" where
  "drawPieSlice x y radius startAngle endAngle lineColor fillColor =
     genShape (PieSlice x y radius startAngle endAngle lineColor fillColor)"

definition drawRect :: "jsval \<Rightarrow> jsval \<Rightarrow> jsval \<Rightarrow> jsval \<Rightarrow> jsval \<Rightarrow> jsval \<Rightarrow> vcanvas \<Rightarrow> vshape \<times> vcanvas" where
  "drawRect x y width height lineColor fillColor = genShape (Rect x y width height lineColor fillColor)"

definition getLastShapeId :: "vcanvas \<Rightarrow> nat option" where
  "getLastShapeId c = lastShapeId c"

text \<open>
  \<open>_pxregex.exec(v)\<close>: digits at the end of the string, before an optional \<open>px\<close> and spaces.
  \<open>match[1]\<close> is the digits, as a string.
\<close>

definition trailing_digits :: "string \<Rightarrow> string" where
  "trailing_digits s = rev (takeWhile is_digit (rev s))"

definition ends_px :: "string \<Rightarrow> bool" where
  "ends_px s \<longleftrightarrow> (case rev s of x # p # _ \<Rightarrow> x \<in> {CHR ''x'', CHR ''X''} \<and> p \<in> {CHR ''p'', CHR ''P''} | _ \<Rightarrow> False)"

definition px_match :: "jsval \<Rightarrow> string option" where
  "px_match v =
     (let t = rev (dropWhile is_space (rev (to_string v)));
          u = (if ends_px t then take (length t - 2) t else t);
          ds = trailing_digits u
      in if ds = [] then None else Some ds)"

text \<open>\<open>_calculatePixelDims\<close>: \<open>domdims\<close> is the size in pixels that the browser reports for the element.\<close>

definition calculatePixelDims :: "jsval \<Rightarrow> jsval \<Rightarrow> jsval \<times> jsval \<Rightarrow> vcanvas \<Rightarrow> vcanvas" where
  "calculatePixelDims width height domdims c =
     c\<lparr>pixelHeight := (case px_match height of None \<Rightarrow> snd domdims | Some s \<Rightarrow> Str s),
       pixelWidth := (case px_match width of None \<Rightarrow> fst domdims | Some s \<Rightarrow> Str s)\<rparr>"

section \<open>VCanvas_canvas\<close>

definition canvas_init :: "nat \<Rightarrow> jsval \<Rightarrow> jsval \<Rightarrow> jsval \<times> jsval \<Rightarrow> bool \<Rightarrow> vcanvas" where
  "canvas_init n0 width height domdims inter' =
     calculatePixelDims width height domdims
       \<lparr>shapeCount = n0, pixelWidth = Undef, pixelHeight = Undef, interact = inter', shapes = Map.empty,
        shapeseq = [], lastShapeId = None, currentTargetShapeId = None, targetX = Undef, targetY = Undef, ctx = []\<rparr>"

definition emit :: "drawing \<Rightarrow> vcanvas \<Rightarrow> vcanvas" where
  "emit ops c = c\<lparr>ctx := ctx c @ ops\<rparr>"

definition getContext :: "jsval \<Rightarrow> jsval \<Rightarrow> jsval \<Rightarrow> vcanvas \<Rightarrow> vcanvas" where
  "getContext lineColor fillColor lineWidth =
     emit ((if lineColor \<noteq> Undef then [SetStrokeStyle lineColor] else []) @
           [SetLineWidth (if lineWidth = Undef then num 1 else lineWidth)] @
           (if fillColor \<noteq> Undef then [SetFillStyle fillColor] else []))"

definition canvas_reset :: "vcanvas \<Rightarrow> vcanvas" where
  "canvas_reset c =
     (let c1 = getContext Undef Undef Undef c
      in (emit [ClearRect (num 0) (num 0) (pixelWidth c) (pixelHeight c)] c1)
           \<lparr>shapes := Map.empty, shapeseq := [], currentTargetShapeId := None\<rparr>)"

text \<open>The hit test after a shape is drawn; \<open>inPath\<close> is the browser's \<open>isPointInPath\<close>.\<close>

definition hit_test :: "(drawing \<Rightarrow> jsval \<Rightarrow> jsval \<Rightarrow> bool) \<Rightarrow> nat \<Rightarrow> vcanvas \<Rightarrow> vcanvas" where
  "hit_test inPath shapeid c =
     (if targetX c \<noteq> Undef \<and> targetY c \<noteq> Undef \<and> inPath (ctx c) (targetX c) (targetY c)
      then c\<lparr>currentTargetShapeId := Some shapeid\<rparr> else c)"

definition stroke_fill :: "jsval \<Rightarrow> jsval \<Rightarrow> drawing" where
  "stroke_fill lineColor fillColor =
     (if lineColor \<noteq> Undef then [Stroke] else []) @ (if fillColor \<noteq> Undef then [Fill] else [])"

text \<open>The path of \<open>_drawShape\<close>; an empty path raises (\<open>path[0]\<close> is \<open>undefined\<close>).\<close>

definition half :: "jsval \<Rightarrow> jsval" where
  "half v = jadd v (num (1 / 2))"

definition draw_Shape ::
  "(drawing \<Rightarrow> jsval \<Rightarrow> jsval \<Rightarrow> bool) \<Rightarrow> nat \<Rightarrow> (jsval \<times> jsval) list \<Rightarrow> jsval \<Rightarrow> jsval \<Rightarrow> jsval \<Rightarrow> vcanvas \<Rightarrow> vcanvas result" where
  "draw_Shape inPath shapeid path lineColor fillColor lineWidth c =
     (case path of
        [] \<Rightarrow> Inl (TypeError ''path[0] is undefined'')
      | (x0, y0) # ps \<Rightarrow>
          Inr (hit_test inPath shapeid
            (emit ([BeginPath, MoveTo (half x0) (half y0)] @ map (\<lambda>(x, y). LineTo (half x) (half y)) ps @
                   stroke_fill lineColor fillColor)
              (getContext lineColor fillColor lineWidth c))))"

definition draw_Circle ::
  "(drawing \<Rightarrow> jsval \<Rightarrow> jsval \<Rightarrow> bool) \<Rightarrow> nat \<Rightarrow> jsval \<Rightarrow> jsval \<Rightarrow> jsval \<Rightarrow> jsval \<Rightarrow> jsval \<Rightarrow> jsval \<Rightarrow> vcanvas \<Rightarrow> vcanvas" where
  "draw_Circle inPath shapeid x y radius lineColor fillColor lineWidth c =
     emit (stroke_fill lineColor fillColor)
       (hit_test inPath shapeid
         (emit [BeginPath, Arc [x, y, radius, num 0, num (2 * pi), Bool False]]
           (getContext lineColor fillColor lineWidth c)))"

definition draw_PieSlice ::
  "(drawing \<Rightarrow> jsval \<Rightarrow> jsval \<Rightarrow> bool) \<Rightarrow> nat \<Rightarrow> jsval \<Rightarrow> jsval \<Rightarrow> jsval \<Rightarrow> jsval \<Rightarrow> jsval \<Rightarrow> jsval \<Rightarrow> jsval \<Rightarrow> vcanvas \<Rightarrow> vcanvas" where
  "draw_PieSlice inPath shapeid x y radius startAngle endAngle lineColor fillColor c =
     hit_test inPath shapeid
       (emit ([BeginPath, MoveTo x y, Arc [x, y, radius, startAngle, endAngle, Bool False], LineTo x y, ClosePath] @
              (if lineColor \<noteq> Undef then [Stroke] else []) @ (if truthy fillColor then [Fill] else []))
         (getContext lineColor fillColor Undef c))"

definition draw_Rect ::
  "(drawing \<Rightarrow> jsval \<Rightarrow> jsval \<Rightarrow> bool) \<Rightarrow> nat \<Rightarrow> jsval \<Rightarrow> jsval \<Rightarrow> jsval \<Rightarrow> jsval \<Rightarrow> jsval \<Rightarrow> jsval \<Rightarrow> vcanvas \<Rightarrow> vcanvas result" where
  "draw_Rect inPath shapeid x y width height lineColor fillColor =
     draw_Shape inPath shapeid
       [(x, y), (jadd x width, y), (jadd x width, jadd y height), (x, jadd y height), (x, y)] lineColor fillColor Undef"

definition appendShape :: "vshape \<Rightarrow> vcanvas \<Rightarrow> vcanvas" where
  "appendShape s c =
     c\<lparr>shapes := (shapes c)(sid s \<mapsto> s), shapeseq := shapeseq c @ [sid s], lastShapeId := Some (sid s)\<rparr>"

definition replaceWithShape :: "nat \<Rightarrow> vshape \<Rightarrow> vcanvas \<Rightarrow> vcanvas" where
  "replaceWithShape shapeid s c =
     c\<lparr>shapes := ((shapes c)(sid s \<mapsto> s))(shapeid := None),
       shapeseq := map (\<lambda>j. if j = shapeid then sid s else j) (shapeseq c)\<rparr>"

text \<open>
  The first loop of \<open>replaceWithShapes\<close>, over the positions \<open>i - 1, ..., 0\<close>: it removes the mapped
  ids and remembers the last position it removed at.
\<close>

fun remove_loop ::
  "nat list \<Rightarrow> nat \<Rightarrow> nat list \<Rightarrow> (nat \<rightharpoonup> vshape) \<Rightarrow> nat option \<Rightarrow> nat list \<times> (nat \<rightharpoonup> vshape) \<times> nat option" where
  "remove_loop shapeids 0 sq sh first = (sq, sh, first)"
| "remove_loop shapeids (Suc i) sq sh first =
     (if sq ! i \<in> set shapeids
      then remove_loop shapeids i (js_splice i 1 [] sq) (sh(sq ! i := None)) (Some i)
      else remove_loop shapeids i sq sh first)"

text \<open>The second loop, over the new shapes from the last to the first (the list is reversed).\<close>

fun insert_loop :: "nat \<Rightarrow> vshape list \<Rightarrow> nat list \<Rightarrow> (nat \<rightharpoonup> vshape) \<Rightarrow> nat list \<times> (nat \<rightharpoonup> vshape)" where
  "insert_loop first [] sq sh = (sq, sh)"
| "insert_loop first (s # ss) sq sh = insert_loop first ss (js_splice first 0 [sid s] sq) (sh(sid s \<mapsto> s))"

definition replaceWithShapes :: "nat list \<Rightarrow> vshape list \<Rightarrow> vcanvas \<Rightarrow> vcanvas" where
  "replaceWithShapes shapeids ss c =
     (let (sq, sh, first) = remove_loop shapeids (length (shapeseq c)) (shapeseq c) (shapes c) None;
          (sq', sh') = insert_loop (case first of None \<Rightarrow> 0 | Some i \<Rightarrow> i) (rev ss) sq sh
      in c\<lparr>shapes := sh', shapeseq := sq'\<rparr>)"

text \<open>The last position of an id, as the descending loops of the next two operations find it.\<close>

fun last_index :: "nat \<Rightarrow> nat list \<Rightarrow> nat \<Rightarrow> nat option" where
  "last_index x xs 0 = None"
| "last_index x xs (Suc i) = (if xs ! i = x then Some i else last_index x xs i)"

definition insertAfterShape :: "nat \<Rightarrow> vshape \<Rightarrow> vcanvas \<Rightarrow> vcanvas" where
  "insertAfterShape shapeid s c =
     (case last_index shapeid (shapeseq c) (length (shapeseq c)) of
        None \<Rightarrow> c
      | Some i \<Rightarrow> c\<lparr>shapeseq := js_splice (i + 1) 0 [sid s] (shapeseq c), shapes := (shapes c)(sid s \<mapsto> s)\<rparr>)"

definition removeShapeId :: "nat \<Rightarrow> vcanvas \<Rightarrow> vcanvas" where
  "removeShapeId shapeid c =
     (let sq = (case last_index shapeid (shapeseq c) (length (shapeseq c)) of
                  None \<Rightarrow> shapeseq c | Some i \<Rightarrow> js_splice i 1 [] (shapeseq c))
      in c\<lparr>shapeseq := sq, shapes := (shapes c)(shapeid := None)\<rparr>)"

text \<open>\<open>this['_draw' + shape.type].apply(this, shape.args)\<close>.\<close>

fun draw :: "(drawing \<Rightarrow> jsval \<Rightarrow> jsval \<Rightarrow> bool) \<Rightarrow> vshape \<Rightarrow> vcanvas \<Rightarrow> vcanvas result" where
  "draw inPath (VShape i (Shape path lc fc lw)) c = draw_Shape inPath i path lc fc lw c"
| "draw inPath (VShape i (Circle x y r lc fc lw)) c = Inr (draw_Circle inPath i x y r lc fc lw c)"
| "draw inPath (VShape i (PieSlice x y r a b lc fc)) c = Inr (draw_PieSlice inPath i x y r a b lc fc c)"
| "draw inPath (VShape i (Rect x y w h lc fc)) c = draw_Rect inPath i x y w h lc fc c"

fun draw_all :: "(drawing \<Rightarrow> jsval \<Rightarrow> jsval \<Rightarrow> bool) \<Rightarrow> nat list \<Rightarrow> vcanvas \<Rightarrow> vcanvas result" where
  "draw_all inPath [] c = Inr c"
| "draw_all inPath (i # is) c =
     (case shapes c i of
        None \<Rightarrow> Inl (TypeError ''shape is undefined'')
      | Some s \<Rightarrow> (case draw inPath s c of Inl e \<Rightarrow> Inl e | Inr c' \<Rightarrow> draw_all inPath is c'))"

definition canvas_render :: "(drawing \<Rightarrow> jsval \<Rightarrow> jsval \<Rightarrow> bool) \<Rightarrow> vcanvas \<Rightarrow> vcanvas result" where
  "canvas_render inPath c =
     (case draw_all inPath (shapeseq c)
             (emit [ClearRect (num 0) (num 0) (pixelWidth c) (pixelHeight c)] (getContext Undef Undef Undef c)) of
        Inl e \<Rightarrow> Inl e
      | Inr c' \<Rightarrow> Inr (if interact c' then c' else c'\<lparr>shapes := Map.empty, shapeseq := []\<rparr>))"

definition canvas_getShapeAt ::
  "(drawing \<Rightarrow> jsval \<Rightarrow> jsval \<Rightarrow> bool) \<Rightarrow> jsval \<Rightarrow> jsval \<Rightarrow> vcanvas \<Rightarrow> (nat option \<times> vcanvas) result" where
  "canvas_getShapeAt inPath x y c =
     (case canvas_render inPath (c\<lparr>targetX := x, targetY := y\<rparr>) of
        Inl e \<Rightarrow> Inl e
      | Inr c' \<Rightarrow> Inr (currentTargetShapeId c', c'))"

section \<open>The render queue\<close>

lemma in_array_append:
  "in_array p (xs @ ys) = (case in_array p xs of Some k \<Rightarrow> Some k | None \<Rightarrow> map_option (\<lambda>k. length xs + k) (in_array p ys))"
  by (induction xs) (auto split: option.splits simp: option.map_comp comp_def map_option_case)

lemma in_array_take_length: "in_array p (take n xs) = Some k \<Longrightarrow> k < n"
  using in_array_Some [of p "take n xs" k] by auto

lemma remove_loop_ref:
  "i \<le> length sq \<Longrightarrow>
   remove_loop shapeids i sq sh first =
     (filter (\<lambda>j. j \<notin> set shapeids) (take i sq) @ drop i sq,
      (\<lambda>j. if j \<in> set shapeids \<and> j \<in> set (take i sq) then None else sh j),
      (case in_array (\<lambda>j. j \<in> set shapeids) (take i sq) of None \<Rightarrow> first | Some k \<Rightarrow> Some k))"
proof (induction i arbitrary: sq sh first)
  case 0
  then show ?case by simp
next
  case (Suc i)
  then have tk: "take (Suc i) sq = take i sq @ [sq ! i]" and dr: "drop i sq = sq ! i # drop (Suc i) sq"
    by (simp_all add: take_Suc_conv_app_nth Cons_nth_drop_Suc)
  have len: "i \<le> length (take i sq @ drop (Suc i) sq)" "length (take i sq) = i"
    using Suc.prems by simp_all
  show ?case
    using Suc.prems len
    by (auto simp: js_splice_def tk dr in_array_append Suc.IH fun_eq_iff split: option.splits)
qed

lemma insert_loop_seq:
  "first \<le> length sq \<Longrightarrow> fst (insert_loop first ss sq sh) = take first sq @ map sid (rev ss) @ drop first sq"
  by (induction ss arbitrary: sq sh) (simp_all add: js_splice_def)

lemma insert_loop_dom: "dom (snd (insert_loop first ss sq sh)) = sid ` set ss \<union> dom sh"
  by (induction ss arbitrary: sq sh) auto

lemma insert_loop_val:
  "snd (insert_loop first ss sq sh) j = Some s \<Longrightarrow> (s \<in> set ss \<and> sid s = j) \<or> sh j = Some s"
  by (induction ss arbitrary: sq sh) (fastforce split: if_splits)+

text \<open>
  The reference of \<open>replaceWithShapes\<close>: the listed ids leave the queue, the new ones enter together at
  the place of the first that left.
\<close>

definition replace_seq :: "nat list \<Rightarrow> nat list \<Rightarrow> nat list \<Rightarrow> nat list" where
  "replace_seq old new sq =
     (let k = (case in_array (\<lambda>j. j \<in> set old) sq of None \<Rightarrow> 0 | Some k \<Rightarrow> k);
          rest = filter (\<lambda>j. j \<notin> set old) sq
      in take k rest @ new @ drop k rest)"

lemma in_array_le_filter:
  "in_array p xs = Some k \<Longrightarrow> k \<le> length (filter (\<lambda>x. \<not> p x) xs)"
  by (induction xs arbitrary: k) (auto split: if_splits)

lemma replaceWithShapes_seq: "shapeseq (replaceWithShapes shapeids ss c) = replace_seq shapeids (map sid ss) (shapeseq c)"
proof -
  let ?sq = "shapeseq c" and ?p = "\<lambda>j. j \<in> set shapeids"
  define k where "k = (case in_array ?p ?sq of None \<Rightarrow> 0 | Some k \<Rightarrow> k)"
  obtain sq sh first where rl: "remove_loop shapeids (length ?sq) ?sq (shapes c) None = (sq, sh, first)"
    by (cases "remove_loop shapeids (length ?sq) ?sq (shapes c) None") auto
  then have sq: "sq = filter (\<lambda>j. j \<notin> set shapeids) ?sq" and f: "(case first of None \<Rightarrow> 0 | Some i \<Rightarrow> i) = k"
    by (auto simp: remove_loop_ref k_def split: option.splits)
  have "k \<le> length sq"
    using in_array_le_filter [of ?p ?sq] by (auto simp: k_def sq split: option.splits)
  then show ?thesis
    using rl f insert_loop_seq [of k sq "rev ss" sh]
    by (simp add: replaceWithShapes_def replace_seq_def sq k_def [symmetric] Let_def split_beta)
qed

lemma replaceWithShapes_shapes:
  "\<exists>k. shapes (replaceWithShapes shapeids ss c) =
     snd (insert_loop k (rev ss) (filter (\<lambda>j. j \<notin> set shapeids) (shapeseq c))
       (\<lambda>j. if j \<in> set shapeids \<and> j \<in> set (shapeseq c) then None else shapes c j))"
  unfolding replaceWithShapes_def by (rule exI) (simp add: remove_loop_ref split_beta Let_def)

lemma replaceWithShapes_dom:
  "dom (shapes (replaceWithShapes shapeids ss c)) =
     sid ` set ss \<union> (dom (shapes c) - set shapeids \<inter> set (shapeseq c))"
proof -
  have "dom (\<lambda>j. if j \<in> set shapeids \<and> j \<in> set (shapeseq c) then None else shapes c j) =
    dom (shapes c) - set shapeids \<inter> set (shapeseq c)"
    by (auto simp: dom_def)
  moreover obtain k where "shapes (replaceWithShapes shapeids ss c) =
     snd (insert_loop k (rev ss) (filter (\<lambda>j. j \<notin> set shapeids) (shapeseq c))
       (\<lambda>j. if j \<in> set shapeids \<and> j \<in> set (shapeseq c) then None else shapes c j))"
    using replaceWithShapes_shapes by blast
  ultimately show ?thesis by (simp only: insert_loop_dom set_rev)
qed

lemma replaceWithShapes_val:
  assumes "shapes (replaceWithShapes shapeids ss c) j = Some s"
  shows "(s \<in> set ss \<and> sid s = j) \<or> shapes c j = Some s"
proof -
  obtain k where "shapes (replaceWithShapes shapeids ss c) =
     snd (insert_loop k (rev ss) (filter (\<lambda>j. j \<notin> set shapeids) (shapeseq c))
       (\<lambda>j. if j \<in> set shapeids \<and> j \<in> set (shapeseq c) then None else shapes c j))"
    using replaceWithShapes_shapes by blast
  with assms show ?thesis by (auto dest!: insert_loop_val split: if_splits)
qed

lemma replaceWithShapes_frame [simp]:
  "shapeCount (replaceWithShapes shapeids ss c) = shapeCount c"
  "interact (replaceWithShapes shapeids ss c) = interact c"
  "pixelHeight (replaceWithShapes shapeids ss c) = pixelHeight c"
  by (simp_all add: replaceWithShapes_def split_beta Let_def)

lemma last_index_None: "n \<le> length xs \<Longrightarrow> last_index x xs n = None \<longleftrightarrow> x \<notin> set (take n xs)"
  by (induction n) (auto simp: take_Suc_conv_app_nth)

lemma last_index_Some: "last_index x xs n = Some i \<Longrightarrow> i < n \<and> xs ! i = x"
  by (induction n) (auto split: if_splits)

lemma last_index_middle:
  assumes "distinct (xs @ i # ys)"
  shows "last_index i (xs @ i # ys) (length (xs @ i # ys)) = Some (length xs)"
proof -
  obtain k where k: "last_index i (xs @ i # ys) (length (xs @ i # ys)) = Some k"
    using last_index_None [of "length (xs @ i # ys)" "xs @ i # ys" i] by fastforce
  then have "k < length (xs @ i # ys)" "(xs @ i # ys) ! k = i" using last_index_Some by blast+
  moreover have "(xs @ i # ys) ! length xs = i" by simp
  ultimately have "k = length xs"
    using assms nth_eq_iff_index_eq [of "xs @ i # ys" k "length xs"] by simp
  with k show ?thesis by simp
qed

lemma replace_seq_segment:
  assumes "distinct (xs @ old @ ys)" "old \<noteq> []"
  shows "replace_seq old new (xs @ old @ ys) = xs @ new @ ys"
proof -
  obtain a as where old: "old = a # as" using assms(2) by (cases old) auto
  have "in_array (\<lambda>j. j \<in> set old) xs = None"
    using assms(1) by (auto simp: in_array_None)
  then have k: "in_array (\<lambda>j. j \<in> set old) (xs @ old @ ys) = Some (length xs)"
    by (simp add: in_array_append old)
  have "filter (\<lambda>j. j \<notin> set old) xs = xs" "filter (\<lambda>j. j \<notin> set old) ys = ys"
    using assms(1) by (auto simp: filter_id_conv)
  then show ?thesis by (simp add: replace_seq_def k)
qed

section \<open>Well-formed canvases\<close>

fun shape_ok :: "shape \<Rightarrow> bool" where
  "shape_ok (Shape path lc fc lw) \<longleftrightarrow> path \<noteq> []"
| "shape_ok s \<longleftrightarrow> True"

definition canvas_wf :: "vcanvas \<Rightarrow> bool" where
  "canvas_wf c \<longleftrightarrow> distinct (shapeseq c) \<and> dom (shapes c) = set (shapeseq c) \<and>
     (\<forall>i s. shapes c i = Some s \<longrightarrow> sid s = i \<and> shape_ok (sargs s)) \<and> (\<forall>i \<in> set (shapeseq c). i < shapeCount c)"

text \<open>A shape that was generated for the canvas and is not in its queue.\<close>

definition canvas_fresh :: "vcanvas \<Rightarrow> vshape \<Rightarrow> bool" where
  "canvas_fresh c s \<longleftrightarrow> sid s < shapeCount c \<and> sid s \<notin> set (shapeseq c) \<and> shape_ok (sargs s)"

lemma canvas_init_wf: "canvas_wf (canvas_init n w h d i)"
  by (simp add: canvas_wf_def canvas_init_def calculatePixelDims_def)

lemma genShape_fresh:
  "canvas_wf c \<Longrightarrow> shape_ok sh \<Longrightarrow> genShape sh c = (s, c') \<Longrightarrow>
   canvas_wf c' \<and> canvas_fresh c' s \<and> shapeseq c' = shapeseq c \<and> shapes c' = shapes c"
  by (force simp: genShape_def canvas_wf_def canvas_fresh_def less_Suc_eq)

lemma appendShape_wf: "canvas_wf c \<Longrightarrow> canvas_fresh c s \<Longrightarrow> canvas_wf (appendShape s c)"
  by (auto simp: canvas_wf_def canvas_fresh_def appendShape_def)

lemma replaceWithShape_wf:
  assumes "canvas_wf c" "canvas_fresh c s" "i \<in> set (shapeseq c)"
  shows "canvas_wf (replaceWithShape i s c)"
proof -
  have "distinct (map (\<lambda>j. if j = i then sid s else j) (shapeseq c))"
    using assms by (auto simp: distinct_map inj_on_def canvas_wf_def canvas_fresh_def)
  then show ?thesis
    using assms by (auto simp: canvas_wf_def canvas_fresh_def replaceWithShape_def)
qed

lemma set_insert_at: "set (take k xs @ ys @ drop k xs) = set ys \<union> set xs"
  by (metis append_take_drop_id set_append sup_left_commute)

lemma distinct_insert_at:
  assumes "distinct xs" "distinct ys" "set ys \<inter> set xs = {}"
  shows "distinct (take k xs @ ys @ drop k xs)"
proof -
  have "mset (take k xs @ ys @ drop k xs) = mset (ys @ xs)"
    by (metis append_take_drop_id mset_append union_assoc union_commute)
  moreover have "distinct (ys @ xs)" using assms by simp
  ultimately show ?thesis by (metis mset_eq_imp_distinct_iff)
qed

lemma replace_seq_at:
  "\<exists>k. replace_seq old new sq =
     take k (filter (\<lambda>j. j \<notin> set old) sq) @ new @ drop k (filter (\<lambda>j. j \<notin> set old) sq)"
  unfolding replace_seq_def Let_def by blast

lemma set_replace_seq: "set (replace_seq old new sq) = set new \<union> {j \<in> set sq. j \<notin> set old}"
  using replace_seq_at [of old new sq] by (auto simp only: set_insert_at set_filter)

lemma distinct_replace_seq:
  assumes "distinct sq" "distinct new" "set new \<inter> set sq = {}"
  shows "distinct (replace_seq old new sq)"
proof -
  obtain k where "replace_seq old new sq =
     take k (filter (\<lambda>j. j \<notin> set old) sq) @ new @ drop k (filter (\<lambda>j. j \<notin> set old) sq)"
    using replace_seq_at by blast
  then show ?thesis using assms by (auto intro!: distinct_insert_at simp only: distinct_filter set_filter)
qed

lemma replaceWithShapes_wf:
  assumes wf: "canvas_wf c" and fresh: "\<forall>s \<in> set ss. canvas_fresh c s" and dist: "distinct (map sid ss)"
    and seg: "set shapeids \<subseteq> set (shapeseq c)"
  shows "canvas_wf (replaceWithShapes shapeids ss c)"
proof -
  let ?c = "replaceWithShapes shapeids ss c"
  have "distinct (shapeseq ?c)"
    using wf fresh dist unfolding replaceWithShapes_seq
    by (intro distinct_replace_seq) (auto simp: canvas_wf_def canvas_fresh_def)
  moreover have "dom (shapes ?c) = set (shapeseq ?c)"
    using wf seg by (auto simp: replaceWithShapes_dom replaceWithShapes_seq set_replace_seq canvas_wf_def)
  moreover have "sid s = i \<and> shape_ok (sargs s)" if "shapes ?c i = Some s" for i s
    using replaceWithShapes_val [OF that] wf fresh by (auto simp: canvas_wf_def canvas_fresh_def)
  moreover have "\<forall>i \<in> set (shapeseq ?c). i < shapeCount ?c"
    using wf fresh by (auto simp: replaceWithShapes_seq set_replace_seq canvas_wf_def canvas_fresh_def)
  ultimately show ?thesis by (simp add: canvas_wf_def)
qed

lemma insertAfterShape_split:
  assumes "canvas_wf c" "shapeseq c = xs @ i # ys"
  shows "insertAfterShape i s c = c\<lparr>shapeseq := xs @ i # sid s # ys, shapes := (shapes c)(sid s \<mapsto> s)\<rparr>"
proof -
  have "last_index i (shapeseq c) (length (shapeseq c)) = Some (length xs)"
    using assms last_index_middle [of xs i ys] by (simp add: canvas_wf_def)
  then show ?thesis by (simp add: insertAfterShape_def assms(2) js_splice_def)
qed

lemma removeShapeId_split:
  assumes "canvas_wf c" "shapeseq c = xs @ i # ys"
  shows "removeShapeId i c = c\<lparr>shapeseq := xs @ ys, shapes := (shapes c)(i := None)\<rparr>"
proof -
  have "last_index i (shapeseq c) (length (shapeseq c)) = Some (length xs)"
    using assms last_index_middle [of xs i ys] by (simp add: canvas_wf_def)
  then show ?thesis by (simp add: removeShapeId_def assms(2) js_splice_def)
qed

lemma insertAfterShape_wf:
  assumes "canvas_wf c" "canvas_fresh c s"
  shows "canvas_wf (insertAfterShape i s c)"
proof (cases "i \<in> set (shapeseq c)")
  case True
  then obtain xs ys where "shapeseq c = xs @ i # ys" by (meson split_list)
  with assms show ?thesis
    by (auto simp: insertAfterShape_split canvas_wf_def canvas_fresh_def)
next
  case False
  then have "last_index i (shapeseq c) (length (shapeseq c)) = None"
    by (simp add: last_index_None)
  with assms(1) show ?thesis by (simp add: insertAfterShape_def)
qed

lemma removeShapeId_wf:
  assumes "canvas_wf c"
  shows "canvas_wf (removeShapeId i c)"
proof (cases "i \<in> set (shapeseq c)")
  case True
  then obtain xs ys where "shapeseq c = xs @ i # ys" by (meson split_list)
  with assms show ?thesis
    by (auto simp: removeShapeId_split canvas_wf_def)
next
  case False
  then have "last_index i (shapeseq c) (length (shapeseq c)) = None"
    by (simp add: last_index_None)
  with assms False show ?thesis by (auto simp: removeShapeId_def canvas_wf_def)
qed

section \<open>The contract of a virtual canvas\<close>

text \<open>
  What the charts rely on, for the HTML canvas and for the VML canvas alike: \<open>ids\<close> is the abstract
  render queue, \<open>live\<close> says that shapes of the queue can be replaced, \<open>ok\<close> that a shape can be drawn
  and \<open>fresh\<close> that it was generated and is not queued yet.
\<close>

locale virtual_canvas =
  fixes ids :: "'c \<Rightarrow> nat list"
    and inv :: "'c \<Rightarrow> bool"
    and live :: "'c \<Rightarrow> bool"
    and ok :: "shape \<Rightarrow> bool"
    and fresh :: "'c \<Rightarrow> vshape \<Rightarrow> bool"
    and gen :: "shape \<Rightarrow> 'c \<Rightarrow> vshape \<times> 'c"
    and app :: "vshape \<Rightarrow> 'c \<Rightarrow> 'c result"
    and repl :: "nat \<Rightarrow> vshape \<Rightarrow> 'c \<Rightarrow> 'c result"
    and repls :: "nat list \<Rightarrow> vshape list \<Rightarrow> 'c \<Rightarrow> 'c result"
    and ins :: "nat \<Rightarrow> vshape \<Rightarrow> 'c \<Rightarrow> 'c result"
    and rem :: "nat \<Rightarrow> 'c \<Rightarrow> 'c result"
  assumes ids_distinct: "inv c \<Longrightarrow> distinct (ids c)"
    and fresh_notin: "fresh c s \<Longrightarrow> sid s \<notin> set (ids c)"
    and gen_law: "inv c \<Longrightarrow> ok sh \<Longrightarrow> gen sh c = (s, c') \<Longrightarrow>
      inv c' \<and> fresh c' s \<and> sargs s = sh \<and> ids c' = ids c \<and> live c' = live c"
    and gen_fresh: "gen sh c = (s, c') \<Longrightarrow> fresh c t \<Longrightarrow> fresh c' t \<and> sid t \<noteq> sid s"
    and app_law: "inv c \<Longrightarrow> fresh c s \<Longrightarrow>
      \<exists>c'. app s c = Inr c' \<and> inv c' \<and> ids c' = ids c @ [sid s] \<and> live c' = live c \<and>
        (\<forall>t. fresh c t \<longrightarrow> sid t \<noteq> sid s \<longrightarrow> fresh c' t)"
    and repl_law: "inv c \<Longrightarrow> live c \<Longrightarrow> fresh c s \<Longrightarrow> ids c = xs @ i # ys \<Longrightarrow>
      \<exists>c'. repl i s c = Inr c' \<and> inv c' \<and> ids c' = xs @ sid s # ys \<and> live c' \<and>
        (\<forall>t. fresh c t \<longrightarrow> sid t \<noteq> sid s \<longrightarrow> fresh c' t)"
    and repls_law: "inv c \<Longrightarrow> live c \<Longrightarrow> \<forall>s \<in> set ss. fresh c s \<Longrightarrow> distinct (map sid ss) \<Longrightarrow>
      ids c = xs @ old @ ys \<Longrightarrow> old \<noteq> [] \<Longrightarrow>
      \<exists>c'. repls old ss c = Inr c' \<and> inv c' \<and> ids c' = xs @ map sid ss @ ys \<and> live c' \<and>
        (\<forall>t. fresh c t \<longrightarrow> sid t \<notin> sid ` set ss \<longrightarrow> fresh c' t)"
    and ins_law: "inv c \<Longrightarrow> live c \<Longrightarrow> fresh c s \<Longrightarrow> ids c = xs @ i # ys \<Longrightarrow>
      \<exists>c'. ins i s c = Inr c' \<and> inv c' \<and> ids c' = xs @ i # sid s # ys \<and> live c' \<and>
        (\<forall>t. fresh c t \<longrightarrow> sid t \<noteq> sid s \<longrightarrow> fresh c' t)"
    and rem_law: "inv c \<Longrightarrow> live c \<Longrightarrow> ids c = xs @ i # ys \<Longrightarrow>
      \<exists>c'. rem i c = Inr c' \<and> inv c' \<and> ids c' = xs @ ys \<and> live c'"
begin

text \<open>A highlight that is inserted and then removed leaves the queue as it was.\<close>

lemma insert_remove:
  assumes "inv c" "live c" "fresh c s" "i \<in> set (ids c)"
  shows "\<exists>c1 c2. ins i s c = Inr c1 \<and> rem (sid s) c1 = Inr c2 \<and> inv c2 \<and> live c2 \<and> ids c2 = ids c"
proof -
  obtain xs ys where seq: "ids c = xs @ i # ys" using assms(4) by (meson split_list)
  then obtain c1 where c1: "ins i s c = Inr c1" "inv c1" "ids c1 = (xs @ [i]) @ sid s # ys" "live c1"
    using ins_law [OF assms(1-3) seq] by auto
  then obtain c2 where "rem (sid s) c1 = Inr c2" "inv c2" "ids c2 = (xs @ [i]) @ ys" "live c2"
    using rem_law by blast
  with c1 seq show ?thesis by auto
qed

text \<open>Replacing a segment of the queue twice keeps everything around it in place.\<close>

lemma replace_twice:
  assumes "inv c" "live c" "ids c = xs @ old @ ys" "old \<noteq> []" "ss \<noteq> []"
    and "\<forall>s \<in> set ss. fresh c s" "distinct (map sid ss)"
    and "\<forall>s \<in> set ts. fresh c s" "distinct (map sid ts)" "sid ` set ss \<inter> sid ` set ts = {}"
  shows "\<exists>c1 c2. repls old ss c = Inr c1 \<and> repls (map sid ss) ts c1 = Inr c2 \<and> inv c2 \<and> live c2 \<and>
    ids c2 = xs @ map sid ts @ ys"
proof -
  obtain c1 where c1: "repls old ss c = Inr c1" "inv c1" "ids c1 = xs @ map sid ss @ ys" "live c1"
    "\<forall>t. fresh c t \<longrightarrow> sid t \<notin> sid ` set ss \<longrightarrow> fresh c1 t"
    using repls_law [OF assms(1,2,6,7,3,4)] by blast
  then have "\<forall>s \<in> set ts. fresh c1 s" using assms(8,10) by blast
  then show ?thesis using c1 assms(5,9) repls_law [of c1 ts xs "map sid ss" ys] by auto
qed

end

text \<open>The HTML canvas keeps the contract.\<close>

interpretation hc: virtual_canvas shapeseq canvas_wf "\<lambda>c. True" shape_ok canvas_fresh genShape
  "\<lambda>s c. Inr (appendShape s c)" "\<lambda>i s c. Inr (replaceWithShape i s c)"
  "\<lambda>is ss c. Inr (replaceWithShapes is ss c)" "\<lambda>i s c. Inr (insertAfterShape i s c)"
  "\<lambda>i c. Inr (removeShapeId i c)"
proof (unfold_locales, goal_cases)
  case (1 c)
  then show ?case by (simp add: canvas_wf_def)
next
  case (2 c s)
  then show ?case by (simp add: canvas_fresh_def)
next
  case (3 c sh s c')
  then show ?case using genShape_fresh [of c sh s c'] by (auto simp: genShape_def)
next
  case (4 sh c s c' t)
  then show ?case by (auto simp: genShape_def canvas_fresh_def)
next
  case (5 c s)
  then show ?case
    using appendShape_wf [of c s] by (auto simp: appendShape_def canvas_fresh_def)
next
  case (6 c s xs i ys)
  then have "map (\<lambda>j. if j = i then sid s else j) (shapeseq c) = xs @ sid s # ys"
    by (auto simp: canvas_wf_def intro!: map_idI)
  then show ?case
    using 6 replaceWithShape_wf [of c s i] by (auto simp: replaceWithShape_def canvas_fresh_def)
next
  case (7 c ss xs old ys)
  then have "shapeseq (replaceWithShapes old ss c) = xs @ map sid ss @ ys"
    by (simp add: replaceWithShapes_seq replace_seq_segment canvas_wf_def)
  then show ?case
    using 7 replaceWithShapes_wf [of c ss old] by (auto simp: canvas_fresh_def)
next
  case (8 c s xs i ys)
  then show ?case
    using insertAfterShape_wf [of c s i] by (auto simp: insertAfterShape_split canvas_fresh_def)
next
  case (9 c xs i ys)
  then show ?case
    using removeShapeId_wf [of c i] by (auto simp: removeShapeId_split)
qed

section \<open>Rendering\<close>

lemma emit_frame [simp]:
  "shapes (emit ops c) = shapes c" "shapeseq (emit ops c) = shapeseq c" "shapeCount (emit ops c) = shapeCount c"
  "interact (emit ops c) = interact c" "lastShapeId (emit ops c) = lastShapeId c"
  "targetX (emit ops c) = targetX c" "targetY (emit ops c) = targetY c"
  "currentTargetShapeId (emit ops c) = currentTargetShapeId c" "ctx (emit ops c) = ctx c @ ops"
  "pixelWidth (emit ops c) = pixelWidth c" "pixelHeight (emit ops c) = pixelHeight c"
  by (simp_all add: emit_def)

lemma hit_test_frame [simp]:
  "shapes (hit_test p i c) = shapes c" "shapeseq (hit_test p i c) = shapeseq c"
  "shapeCount (hit_test p i c) = shapeCount c" "interact (hit_test p i c) = interact c"
  "targetX (hit_test p i c) = targetX c" "targetY (hit_test p i c) = targetY c"
  "lastShapeId (hit_test p i c) = lastShapeId c" "ctx (hit_test p i c) = ctx c"
  "pixelWidth (hit_test p i c) = pixelWidth c" "pixelHeight (hit_test p i c) = pixelHeight c"
  by (simp_all add: hit_test_def)

text \<open>The part of the state that drawing does not change.\<close>

definition queue_of :: "vcanvas \<Rightarrow> nat \<times> bool \<times> (nat \<rightharpoonup> vshape) \<times> nat list \<times> nat option \<times> jsval \<times> jsval \<times> jsval \<times> jsval" where
  "queue_of c = (shapeCount c, interact c, shapes c, shapeseq c, lastShapeId c, targetX c, targetY c, pixelWidth c, pixelHeight c)"

lemmas draw_defs = draw_Shape_def draw_Circle_def draw_PieSlice_def draw_Rect_def getContext_def

lemma draw_ok: "shape_ok (sargs s) \<Longrightarrow> \<exists>c'. draw inPath s c = Inr c' \<and> queue_of c' = queue_of c"
  by (cases "(inPath, s, c)" rule: draw.cases) (auto simp: draw_defs queue_of_def neq_Nil_conv)

lemma draw_all_ok:
  assumes "\<forall>i \<in> set is. \<exists>s. shapes c i = Some s \<and> shape_ok (sargs s)"
  shows "\<exists>c'. draw_all inPath is c = Inr c' \<and> queue_of c' = queue_of c"
  using assms
proof (induction "is" arbitrary: c)
  case Nil
  then show ?case by simp
next
  case (Cons i "is")
  then obtain s where s: "shapes c i = Some s" "shape_ok (sargs s)" by auto
  then obtain c1 where c1: "draw inPath s c = Inr c1" "queue_of c1 = queue_of c" using draw_ok by blast
  then have "\<forall>i \<in> set is. \<exists>s. shapes c1 i = Some s \<and> shape_ok (sargs s)"
    using Cons.prems by (simp add: queue_of_def)
  with s c1 Cons.IH [of c1] show ?case by auto
qed

lemma canvas_render_ok:
  assumes "canvas_wf c"
  shows "\<exists>c'. canvas_render inPath c = Inr c' \<and> canvas_wf c' \<and> shapeCount c' = shapeCount c \<and>
    interact c' = interact c \<and> lastShapeId c' = lastShapeId c \<and>
    pixelWidth c' = pixelWidth c \<and> pixelHeight c' = pixelHeight c \<and>
    (if interact c then shapeseq c' = shapeseq c \<and> shapes c' = shapes c else shapeseq c' = [] \<and> shapes c' = Map.empty)"
proof -
  let ?c = "emit [ClearRect (num 0) (num 0) (pixelWidth c) (pixelHeight c)] (getContext Undef Undef Undef c)"
  have "\<forall>i \<in> set (shapeseq c). \<exists>s. shapes ?c i = Some s \<and> shape_ok (sargs s)"
    using assms by (auto simp: canvas_wf_def getContext_def) (metis domD)
  then obtain c1 where "draw_all inPath (shapeseq c) ?c = Inr c1" "queue_of c1 = queue_of ?c"
    using draw_all_ok by blast
  then show ?thesis
    using assms by (auto simp: canvas_render_def queue_of_def canvas_wf_def getContext_def)
qed

text \<open>Drawing can only set the hit to the id of a shape whose path contains the target point.\<close>

lemma draw_all_no_hit:
  assumes "\<forall>ops. \<not> inPath ops (targetX c) (targetY c)" "draw_all inPath is c = Inr c'"
  shows "currentTargetShapeId c' = currentTargetShapeId c"
  using assms
proof (induction "is" arbitrary: c)
  case Nil
  then show ?case by simp
next
  case (Cons i "is")
  then obtain s c1 where s: "draw inPath s c = Inr c1" "draw_all inPath is c1 = Inr c'"
    by (auto split: option.splits sum.splits)
  have "currentTargetShapeId c1 = currentTargetShapeId c \<and> targetX c1 = targetX c \<and> targetY c1 = targetY c"
    using s(1) Cons.prems(1)
    by (cases "(inPath, s, c)" rule: draw.cases) (auto simp: draw_defs hit_test_def split: list.splits)
  with s(2) Cons.IH [of c1] Cons.prems(1) show ?case by simp
qed

end
