(* ===== verification/SparkBase.thy ===== *)
theory SparkBase
  imports SparkOptions VCanvas
begin

text \<open>
  The base class of the charts, \<open>$.fn.sparkline._base\<close>, and \<open>barHighlightMixin\<close>
  (\<open>static/js/jquery.sparkline.js\<close>, lines 585 to 608 and 1075 to 1311). A chart is a record; a method
  that a subclass overrides is a parameter of the base's methods that call it. A region is the value
  the source keeps in \<open>currentRegion\<close>.
\<close>

section \<open>Definitions\<close>

text \<open>What the browser and the page answer: the hit test, the page's callbacks, whether there is a canvas element, element sizes.\<close>

record env =
  inPath :: "drawing \<Rightarrow> jsval \<Rightarrow> jsval \<Rightarrow> bool"
  call :: "string \<Rightarrow> jsval list \<Rightarrow> jsval"
  hasCanvas :: bool
  innerDims :: "jsval \<times> jsval"
  domDims :: "jsval \<times> jsval"

text \<open>A page with a canvas element of 80 by 20 pixels, where no shape is hit and no callback answers.\<close>

definition plain_env :: env where
  "plain_env = \<lparr>inPath = \<lambda>ops x y. False, call = \<lambda>f args. Undef, hasCanvas = True, innerDims = (num 80, num 20), domDims = (num 80, num 20)\<rparr>"

record chart =
  vals :: "jsval list"
  opt :: "string \<Rightarrow> jsval"
  width :: jsval
  height :: jsval
  disabled :: bool
  target :: vcanvas
  canvasWidth :: jsval
  canvasHeight :: jsval
  currentRegion :: jsval

text \<open>\<open>$.fn.simpledraw\<close>; \<open>existing\<close> is the canvas already attached to the element, \<open>n\<close> the shape counter.\<close>

definition simpledraw :: "env \<Rightarrow> nat \<Rightarrow> vcanvas option \<Rightarrow> jsval \<Rightarrow> jsval \<Rightarrow> bool \<Rightarrow> bool \<Rightarrow> vcanvas option" where
  "simpledraw ev n existing w h useExisting inter' =
     (case (if useExisting then existing else None) of
        Some c \<Rightarrow> Some (c\<lparr>shapeCount := n\<rparr>)
      | None \<Rightarrow>
          (let w' = (if w = Undef then fst (innerDims ev) else w); h' = (if h = Undef then snd (innerDims ev) else h)
           in if hasCanvas ev then Some (canvas_init n w' h' (domDims ev) inter') else None))"

text \<open>The target before \<open>initTarget\<close>: nothing is drawn on it; it carries the shape counter.\<close>

definition no_canvas :: "nat \<Rightarrow> vcanvas" where
  "no_canvas n = canvas_init n (num 0) (num 0) (num 0, num 0) False"

definition base_init :: "jsval list \<Rightarrow> (string \<Rightarrow> jsval) \<Rightarrow> jsval \<Rightarrow> jsval \<Rightarrow> nat \<Rightarrow> chart" where
  "base_init vs o' w h n =
     \<lparr>vals = vs, opt = o', width = w, height = h, disabled = False,
      target = no_canvas n,
      canvasWidth = Undef, canvasHeight = Undef, currentRegion = Undef\<rparr>"

definition initTarget :: "env \<Rightarrow> vcanvas option \<Rightarrow> 'a chart_scheme \<Rightarrow> 'a chart_scheme" where
  "initTarget ev existing ch =
     (case simpledraw ev (shapeCount (target ch)) existing (width ch) (height ch)
             (truthy (opt ch ''composite'')) (\<not> truthy (opt ch ''disableInteraction'')) of
        None \<Rightarrow> ch\<lparr>disabled := True\<rparr>
      | Some c \<Rightarrow> ch\<lparr>target := c, canvasWidth := pixelWidth c, canvasHeight := pixelHeight c\<rparr>)"

text \<open>\<open>setRegionHighlight\<close>: \<open>None\<close> is the \<open>null\<close> it returns off the canvas.\<close>

definition setRegionHighlight ::
  "(jsval \<Rightarrow> jsval \<Rightarrow> 'a chart_scheme \<Rightarrow> (jsval \<times> 'a chart_scheme) result) \<Rightarrow>
   ('a chart_scheme \<Rightarrow> 'a chart_scheme result) \<Rightarrow> ('a chart_scheme \<Rightarrow> 'a chart_scheme result) \<Rightarrow>
   jsval \<Rightarrow> jsval \<Rightarrow> 'a chart_scheme \<Rightarrow> (bool option \<times> 'a chart_scheme) result" where
  "setRegionHighlight getRegion renderHighlight removeHighlight x y ch =
     (let highlightEnabled = \<not> truthy (opt ch ''disableHighlight'')
      in if jlt (canvasWidth ch) x \<or> jlt (canvasHeight ch) y \<or> jlt x (num 0) \<or> jlt y (num 0) then Inr (None, ch)
         else rbind (getRegion x y ch) (\<lambda>(newRegion, ch1).
           if \<not> seq (currentRegion ch) newRegion then
             rbind (if currentRegion ch \<noteq> Undef \<and> highlightEnabled then removeHighlight ch1 else Inr ch1) (\<lambda>ch2.
             rbind (if newRegion \<noteq> Undef \<and> highlightEnabled then renderHighlight (ch2\<lparr>currentRegion := newRegion\<rparr>)
                    else Inr (ch2\<lparr>currentRegion := newRegion\<rparr>)) (\<lambda>ch3.
             Inr (Some True, ch3)))
           else Inr (Some False, ch1)))"

definition clearRegionHighlight ::
  "('a chart_scheme \<Rightarrow> 'a chart_scheme result) \<Rightarrow> 'a chart_scheme \<Rightarrow> (bool \<times> 'a chart_scheme) result" where
  "clearRegionHighlight removeHighlight ch =
     (if currentRegion ch \<noteq> Undef then
        rbind (removeHighlight ch) (\<lambda>ch1. Inr (True, ch1\<lparr>currentRegion := Undef\<rparr>))
      else Inr (False, ch))"

text \<open>Pointer events on a chart: a move to a point of the canvas, or leaving it; and sequences of them.\<close>

datatype pointer = Move jsval jsval | Leave

definition pointer_event ::
  "(jsval \<Rightarrow> jsval \<Rightarrow> 'a chart_scheme \<Rightarrow> (jsval \<times> 'a chart_scheme) result) \<Rightarrow>
   ('a chart_scheme \<Rightarrow> 'a chart_scheme result) \<Rightarrow> ('a chart_scheme \<Rightarrow> 'a chart_scheme result) \<Rightarrow>
   pointer \<Rightarrow> 'a chart_scheme \<Rightarrow> 'a chart_scheme result" where
  "pointer_event getRegion renderHighlight removeHighlight e ch =
     (case e of
        Move x y \<Rightarrow> rbind (setRegionHighlight getRegion renderHighlight removeHighlight x y ch) (\<lambda>(_, ch'). Inr ch')
      | Leave \<Rightarrow> rbind (clearRegionHighlight removeHighlight ch) (\<lambda>(_, ch'). Inr ch'))"

fun pointer_events :: "(pointer \<Rightarrow> 'c \<Rightarrow> 'c result) \<Rightarrow> pointer list \<Rightarrow> 'c \<Rightarrow> 'c result" where
  "pointer_events step [] ch = Inr ch"
| "pointer_events step (e # es) ch = rbind (step e ch) (pointer_events step es)"

subsection \<open>Highlight colours\<close>

text \<open>The two regular expressions: three or six hexadecimal digits after the hash.\<close>

definition hex_parts :: "string \<Rightarrow> (int \<times> int \<times> int) option" where
  "hex_parts s =
     (case s of
        [] \<Rightarrow> None
      | h # ds \<Rightarrow>
          if h \<noteq> CHR ''#'' then None
          else (case map hex_val ds of
                  [Some a, Some b, Some c] \<Rightarrow> Some (a, b, c)
                | [Some a, Some a', Some b, Some b', Some c, Some c'] \<Rightarrow> Some (16 * a + a', 16 * b + b', 16 * c + c')
                | _ \<Rightarrow> None))"

text \<open>\<open>color.length === 4\<close>.\<close>

definition length_is_4 :: "jsval \<Rightarrow> bool" where
  "length_is_4 v = (case v of Str s \<Rightarrow> length s = 4 | Arr xs \<Rightarrow> length xs = 4 | _ \<Rightarrow> False)"

definition lighten_channel :: "number \<Rightarrow> int \<Rightarrow> number \<Rightarrow> jsval" where
  "lighten_channel ml p lighten = clipval (Num (Math_round (Fin (of_int p) * ml * lighten))) (num 0) (num 255)"

definition calcHighlightColor :: "jsval \<Rightarrow> (string \<Rightarrow> jsval) \<Rightarrow> jsval" where
  "calcHighlightColor color o' =
     (let highlightColor = o' ''highlightColor''; lighten = o' ''highlightLighten''
      in if truthy highlightColor then highlightColor
         else if truthy lighten then
           (case hex_parts (to_string color) of
              None \<Rightarrow> color
            | Some (r, g, b) \<Rightarrow>
                (let ml = (if length_is_4 color then Fin 16 else Fin 1);
                     ch = (\<lambda>p. to_string (lighten_channel ml p (to_number lighten)))
                 in Str (''rgb('' @ join '','' [ch r, ch g, ch b] @ '')'')))
         else color)"

text \<open>The properties that a \<open>for in\<close> loop and a lookup see.\<close>

definition own_props :: "jsval \<Rightarrow> (string \<times> jsval) list" where
  "own_props v =
     (case v of
        Obj ob \<Rightarrow> ob
      | Arr xs \<Rightarrow> zip (map nat_digits [0..<length xs]) xs
      | Str s \<Rightarrow> zip (map nat_digits [0..<length s]) (map (\<lambda>c. Str [c]) s)
      | _ \<Rightarrow> [])"

text \<open>\<open>v.get === undefined ? new RangeMap(v) : v\<close>: a range map is kept, anything else becomes one.\<close>

definition as_RangeMap :: "jsval \<Rightarrow> jsval" where
  "as_RangeMap v = (case v of RMapI m \<Rightarrow> v | _ \<Rightarrow> RMapI (own_props v))"

text \<open>
  The option \<open>colorMap\<close>: an array is kept as the map by index, anything else as the map by value.
\<close>

definition colorMaps :: "jsval \<Rightarrow> jsval \<times> jsval" where
  "colorMaps cm =
     (if isArray cm then (cm, Null)
      else (Null, if truthy cm then as_RangeMap cm else cm))"

definition colorMap_get :: "jsval \<Rightarrow> jsval \<Rightarrow> jsval" where
  "colorMap_get cm v = (case cm of RMapI m \<Rightarrow> RangeMap_get m v | _ \<Rightarrow> Undef)"

text \<open>The limits of the value axis once \<open>chartRangeMin\<close> and \<open>chartRangeMax\<close> are applied.\<close>

definition range_min :: "(string \<Rightarrow> jsval) \<Rightarrow> jsval \<Rightarrow> jsval" where
  "range_min o' mn =
     (if o' ''chartRangeMin'' \<noteq> Undef \<and> (truthy (o' ''chartRangeClip'') \<or> jlt (o' ''chartRangeMin'') mn)
      then o' ''chartRangeMin'' else mn)"

definition range_max :: "(string \<Rightarrow> jsval) \<Rightarrow> jsval \<Rightarrow> jsval" where
  "range_max o' mx =
     (if o' ''chartRangeMax'' \<noteq> Undef \<and> (truthy (o' ''chartRangeClip'') \<or> jlt mx (o' ''chartRangeMax''))
      then o' ''chartRangeMax'' else mx)"

subsection \<open>Tooltips\<close>

definition as_list :: "jsval \<Rightarrow> jsval list" where
  "as_list v = (case v of Arr xs \<Rightarrow> xs | Str s \<Rightarrow> map (\<lambda>c. Str [c]) s | _ \<Rightarrow> [])"

text \<open>\<open>xs[j] = v\<close> on an array, which grows with holes.\<close>

definition put_at :: "jsval list \<Rightarrow> nat \<Rightarrow> jsval \<Rightarrow> jsval list" where
  "put_at xs j v = (xs @ replicate (j + 1 - length xs) Undef)[j := v]"

text \<open>The user-selected ordering of fields; the loop runs from the last field to the first (the list is reversed).\<close>

fun select_fields :: "jsval list \<Rightarrow> string \<Rightarrow> jsval list \<Rightarrow> jsval list \<Rightarrow> jsval list" where
  "select_fields showFields key [] newFields = newFields"
| "select_fields showFields key (f # fs) newFields =
     select_fields showFields key fs
       (case in_array (\<lambda>v. seq v (jprop f key)) showFields of None \<Rightarrow> newFields | Some j \<Rightarrow> put_at newFields j f)"

text \<open>One entry of the tooltip, or none for a skipped null; a hole among the fields raises.\<close>

definition tooltip_entry :: "env \<Rightarrow> (string \<Rightarrow> jsval) \<Rightarrow> jsval \<Rightarrow> jsval \<Rightarrow> string list result" where
  \<open>tooltip_entry ev o' format field =
     (case (if isStr format then FmtI (to_string format) Undef else format) of
        FmtI fmt fc \<Rightarrow>
          (case field of
             Obj ob \<Rightarrow>
               (if \<not> truthy (jget ob ''isNull'') \<or> \<not> truthy (o' ''tooltipSkipNull'') then
                  rbind (SPFormat_render (call ev) o' fmt
                           (jq_extend ob [(''prefix'', o' ''tooltipPrefix''), (''suffix'', o' ''tooltipSuffix'')])
                           (o' ''tooltipValueLookups''))
                    (\<lambda>text. Inr [''<div class="'' @ to_string (jor fc (Str ''jqsfield'')) @ ''">'' @ text @ ''</div>''])
                else Inr [])
           | _ \<Rightarrow> Inl (TypeError ''fields[j] is undefined''))
      | _ \<Rightarrow> Inl (TypeError ''format.render is not a function''))\<close>

fun tooltip_entries :: "env \<Rightarrow> (string \<Rightarrow> jsval) \<Rightarrow> (jsval \<times> jsval) list \<Rightarrow> string list result" where
  "tooltip_entries ev o' [] = Inr []"
| "tooltip_entries ev o' ((format, field) # ps) =
     rbind (tooltip_entry ev o' format field) (\<lambda>e. rbind (tooltip_entries ev o' ps) (\<lambda>es. Inr (e @ es)))"

definition newline :: string where
  "newline = [char_of (10 :: nat)]"

text \<open>\<open>getCurrentRegionTooltip\<close>; \<open>fields\<close> is what the subclass's \<open>getCurrentRegionFields\<close> returns.\<close>

definition getCurrentRegionTooltip :: "env \<Rightarrow> (string \<Rightarrow> jsval) \<Rightarrow> jsval \<Rightarrow> jsval \<Rightarrow> jsval result" where
  \<open>getCurrentRegionTooltip ev o' region flds =
     (if region = Undef then Inr (Str [])
      else if truthy (o' ''tooltipFormatter'') then
        (case o' ''tooltipFormatter'' of
           Fn f \<Rightarrow> Inr (call ev f [flds])
         | _ \<Rightarrow> Inl (TypeError ''formatter is not a function''))
      else
        (let header = (if truthy (o' ''tooltipChartTitle'')
                       then ''<div class="jqs jqstitle">'' @ to_string (o' ''tooltipChartTitle'') @ ''</div>'' @ newline else []);
             formats = o' ''tooltipFormat''
         in if \<not> truthy formats then Inr (Str [])
            else
              (let fmts = ensureArray formats; fs = ensureArray flds;
                   showFields = o' ''tooltipFormatFieldlist''; showFieldsKey = o' ''tooltipFormatFieldlistKey'';
                   fs' = (if truthy showFields \<and> truthy showFieldsKey
                          then select_fields (as_list showFields) (to_string showFieldsKey) (rev fs) [] else fs)
               in rbind (tooltip_entries ev o' (List.product fmts fs')) (\<lambda>entries.
                    Inr (Str (if entries \<noteq> [] then header @ join newline entries else []))))))\<close>

section \<open>Region charts\<close>

text \<open>What \<open>renderRegion\<close> returns (\<open>undefined\<close>, a shape or an array) and what \<open>regionShapes\<close> keeps of it.\<close>

datatype rendered = RNone | ROne vshape | RMany "vshape list"

datatype region_ids = INull | IOne nat | IMany "nat list"

record region_chart = chart +
  regionShapes :: "nat \<rightharpoonup> region_ids"

text \<open>The array index a property key denotes.\<close>

definition idx_of :: "jsval \<Rightarrow> nat option" where
  "idx_of v = (case v of Num (Fin x) \<Rightarrow> if 0 \<le> x \<and> of_int \<lfloor>x\<rfloor> = x then Some (nat \<lfloor>x\<rfloor>) else None | _ \<Rightarrow> None)"

text \<open>\<open>xs[v]\<close> for an array and any value \<open>v\<close>.\<close>

definition jindex :: "jsval list \<Rightarrow> jsval \<Rightarrow> jsval" where
  "jindex xs v = (case idx_of v of None \<Rightarrow> Undef | Some i \<Rightarrow> jnth xs i)"

text \<open>\<open>if (shapeids)\<close>: the id 0 is falsy, an array is not.\<close>

fun ids_truthy :: "region_ids \<Rightarrow> bool" where
  "ids_truthy INull = False"
| "ids_truthy (IOne i) = (i \<noteq> 0)"
| "ids_truthy (IMany is) = True"

text \<open>
  The two branches of \<open>changeHighlight\<close>. Reading \<open>length\<close> of a single id or shape gives \<open>undefined\<close>, so
  the loops over it do not run; reading a property of \<open>undefined\<close> raises.
\<close>

fun replace_region :: "region_ids \<Rightarrow> rendered \<Rightarrow> vcanvas \<Rightarrow> (region_ids \<times> vcanvas) result" where
  "replace_region ids RNone c = Inl (TypeError ''newShapes is undefined'')"
| "replace_region (IOne i) (ROne s) c = Inr (IOne (sid s), replaceWithShape i s c)"
| "replace_region (IOne i) (RMany ss) c = Inr (IMany (map sid ss), replaceWithShapes [] ss c)"
| "replace_region (IMany is) (ROne s) c = Inr (IMany [], replaceWithShapes is [] c)"
| "replace_region (IMany is) (RMany ss) c = Inr (IMany (map sid ss), replaceWithShapes is ss c)"
| "replace_region INull r c = Inr (INull, c)"

definition mixin_changeHighlight ::
  "(nat \<Rightarrow> bool \<Rightarrow> 'a region_chart_scheme \<Rightarrow> rendered \<times> 'a region_chart_scheme) \<Rightarrow> bool \<Rightarrow>
   'a region_chart_scheme \<Rightarrow> 'a region_chart_scheme result" where
  "mixin_changeHighlight renderRegion highlight ch =
     (case Option.bind (idx_of (currentRegion ch)) (\<lambda>r. map_option (Pair r) (regionShapes ch r)) of
        None \<Rightarrow> Inr ch
      | Some (r, ids) \<Rightarrow>
          if ids_truthy ids then
            (let (newShapes, ch1) = renderRegion r highlight ch
             in rbind (replace_region ids newShapes (target ch1)) (\<lambda>(ids', c).
                  Inr (ch1\<lparr>target := c, regionShapes := (regionShapes ch1)(r \<mapsto> ids')\<rparr>)))
          else Inr ch)"

text \<open>Appending the shapes of a region: an array is appended from its last shape to its first.\<close>

fun append_region :: "rendered \<Rightarrow> vcanvas \<Rightarrow> region_ids \<times> vcanvas" where
  "append_region RNone c = (INull, c)"
| "append_region (ROne s) c = (IOne (sid s), appendShape s c)"
| "append_region (RMany ss) c = (IMany (map sid (rev ss)), fold appendShape (rev ss) c)"

text \<open>The loop of \<open>render\<close> over the regions \<open>n - 1, ..., 0\<close>.\<close>

fun render_regions ::
  "(nat \<Rightarrow> bool \<Rightarrow> 'a region_chart_scheme \<Rightarrow> rendered \<times> 'a region_chart_scheme) \<Rightarrow> nat \<Rightarrow>
   'a region_chart_scheme \<Rightarrow> 'a region_chart_scheme" where
  "render_regions renderRegion 0 ch = ch"
| "render_regions renderRegion (Suc i) ch =
     (let (rs, ch1) = renderRegion i False ch; (ids, c) = append_region rs (target ch1)
      in render_regions renderRegion i (ch1\<lparr>target := c, regionShapes := (regionShapes ch1)(i \<mapsto> ids)\<rparr>))"

definition mixin_render ::
  "env \<Rightarrow> (nat \<Rightarrow> bool \<Rightarrow> 'a region_chart_scheme \<Rightarrow> rendered \<times> 'a region_chart_scheme) \<Rightarrow>
   'a region_chart_scheme \<Rightarrow> 'a region_chart_scheme result" where
  "mixin_render ev renderRegion ch =
     (if disabled ch then Inr ch
      else (let ch1 = render_regions renderRegion (length (vals ch)) ch
            in rbind (canvas_render (inPath ev) (target ch1)) (\<lambda>c. Inr (ch1\<lparr>target := c\<rparr>))))"


text \<open>\<open>target.drawX(...).append()\<close>.\<close>

definition draw_append :: "shape \<Rightarrow> vcanvas \<Rightarrow> vcanvas" where
  "draw_append sh c = (let (s, c1) = genShape sh c in appendShape s c1)"

section \<open>Facts\<close>

text \<open>The last shape id is the id of a queued shape, if there is one at all.\<close>

definition last_ok :: "vcanvas \<Rightarrow> bool" where
  "last_ok c \<longleftrightarrow> canvas_wf c \<and> (case lastShapeId c of None \<Rightarrow> shapeseq c = [] | Some l \<Rightarrow> l \<in> set (shapeseq c))"

lemma draw_append_ok:
  assumes "last_ok c" "shape_ok sh"
  shows "last_ok (draw_append sh c)" "lastShapeId (draw_append sh c) \<noteq> None" "interact (draw_append sh c) = interact c"
proof -
  obtain s c1 where g: "genShape sh c = (s, c1)" by (cases "genShape sh c")
  have "canvas_wf c1" "canvas_fresh c1 s" "interact c1 = interact c"
    using genShape_fresh [OF _ assms(2) g] assms(1) g by (auto simp: last_ok_def genShape_def)
  moreover from this have "canvas_wf (appendShape s c1)" using appendShape_wf by blast
  moreover have "draw_append sh c = appendShape s c1" by (simp add: draw_append_def g)
  ultimately show "last_ok (draw_append sh c)" "lastShapeId (draw_append sh c) \<noteq> None" "interact (draw_append sh c) = interact c"
    unfolding last_ok_def by (simp_all add: appendShape_def)
qed

lemma fold_draw_append_ok:
  "last_ok c \<Longrightarrow> \<forall>sh \<in> set shs. shape_ok sh \<Longrightarrow>
   last_ok (fold draw_append shs c) \<and> interact (fold draw_append shs c) = interact c \<and>
   (shs \<noteq> [] \<or> lastShapeId c \<noteq> None \<longrightarrow> lastShapeId (fold draw_append shs c) \<noteq> None)"
proof (induction shs arbitrary: c)
  case Nil
  then show ?case by simp
next
  case (Cons sh shs)
  then show ?case using draw_append_ok [of c sh] Cons.IH [of "draw_append sh c"] by auto
qed


lemma pointer_events_inv:
  assumes "\<And>e ch. P ch \<Longrightarrow> \<exists>ch'. step e ch = Inr ch' \<and> P ch'" "P ch"
  shows "\<exists>ch'. pointer_events step es ch = Inr ch' \<and> P ch'"
  using assms(2)
proof (induction es arbitrary: ch)
  case Nil
  then show ?case by simp
next
  case (Cons e es)
  then show ?case using assms(1) [OF Cons.prems, of e] by fastforce
qed

lemma pointer_events_append:
  "pointer_events step (es @ fs) ch = rbind (pointer_events step es ch) (pointer_events step fs)"
  by (induction es arbitrary: ch) (auto simp: rbind_def split: sum.splits)

text \<open>A new canvas of a chart that is not composite.\<close>

lemma initTarget_new:
  assumes "hasCanvas ev"
  shows "canvas_wf (target (initTarget ev None ch))" "shapeseq (target (initTarget ev None ch)) = []"
    "interact (target (initTarget ev None ch)) = (\<not> truthy (opt ch ''disableInteraction''))"
    "disabled (initTarget ev None ch) = disabled ch" "currentRegion (initTarget ev None ch) = currentRegion ch"
    "opt (initTarget ev None ch) = opt ch" "vals (initTarget ev None ch) = vals ch"
  using assms canvas_init_wf
  by (simp_all add: initTarget_def simpledraw_def Let_def) (simp_all add: canvas_init_def calculatePixelDims_def)

text \<open>Without a canvas element the chart is disabled.\<close>

lemma initTarget_none: "\<not> hasCanvas ev \<Longrightarrow> disabled (initTarget ev None ch)"
  by (simp add: initTarget_def simpledraw_def Let_def)

end
