(* ===== verification/SparkLine.thy ===== *)
theory SparkLine
  imports SparkBase
begin

text \<open>
  The line chart, \<open>$.fn.sparkline.line\<close> (\<open>static/js/jquery.sparkline.js\<close>, lines 1316 to 1659): the
  scan of the values, the scaling, the vertices and paths, the regions of the pointer, and the
  highlight of a point, which is inserted into the render queue and removed from it again.
\<close>

section \<open>Definitions\<close>

type_synonym vertex = "number \<times> number"

record line = chart +
  vertices :: "vertex option list"
  regionMap :: "(number \<times> number \<times> nat) list"
  xvalues :: "jsval list"
  yvalues :: "jsval list"
  yminmax :: "jsval list"
  maxy :: jsval
  maxyorg :: number
  miny :: jsval
  minyorg :: number
  maxx :: jsval
  minx :: jsval
  canvasTop :: jsval
  highlightSpotId :: "nat option"
  highlightLineId :: "nat option"
  lineLastShapeId :: "nat option"

definition line_init ::
  "env \<Rightarrow> vcanvas option \<Rightarrow> jsval list \<Rightarrow> (string \<Rightarrow> jsval) \<Rightarrow> jsval \<Rightarrow> jsval \<Rightarrow> nat \<Rightarrow> line" where
  "line_init ev existing values o' w h n =
     initTarget ev existing
       \<lparr>vals = values, opt = o', width = w, height = h, disabled = False, target = no_canvas n,
        canvasWidth = Undef, canvasHeight = Undef, currentRegion = Undef,
        vertices = [], regionMap = [], xvalues = [], yvalues = [], yminmax = [],
        maxy = Undef, maxyorg = NaN, miny = Undef, minyorg = NaN, maxx = Undef, minx = Undef, canvasTop = Undef,
        highlightSpotId = None, highlightLineId = None, lineLastShapeId = None\<rparr>"

text \<open>\<open>getRegion\<close>: the last entry of the region map whose interval contains the point.\<close>

fun region_scan :: "(number \<times> number \<times> nat) list \<Rightarrow> jsval \<Rightarrow> nat \<Rightarrow> jsval" where
  "region_scan rm x 0 = Undef"
| "region_scan rm x (Suc i) =
     (case rm ! i of (lo, hi, r) \<Rightarrow>
        if jle (Num lo) x \<and> jle x (Num hi) then num (of_nat r) else region_scan rm x i)"

definition line_getRegion :: "jsval \<Rightarrow> jsval \<Rightarrow> line \<Rightarrow> jsval" where
  "line_getRegion x y ch = region_scan (regionMap ch) x (length (regionMap ch))"

definition line_getCurrentRegionFields :: "line \<Rightarrow> jsval" where
  "line_getCurrentRegionFields ch =
     (let r = currentRegion ch; yv = jindex (yvalues ch) r
      in Obj [(''isNull'', Bool (yv = Null)), (''x'', jindex (xvalues ch) r), (''y'', yv),
              (''color'', opt ch ''lineColor''), (''fillColor'', opt ch ''fillColor''), (''offset'', r)])"

subsection \<open>Highlights\<close>

definition insert_after :: "nat option \<Rightarrow> vshape \<Rightarrow> vcanvas \<Rightarrow> vcanvas" where
  "insert_after i s c = (case i of None \<Rightarrow> c | Some j \<Rightarrow> insertAfterShape j s c)"

definition current_vertex :: "line \<Rightarrow> vertex option" where
  "current_vertex ch =
     (case idx_of (currentRegion ch) of
        None \<Rightarrow> None
      | Some i \<Rightarrow> if i < length (vertices ch) then vertices ch ! i else None)"

text \<open>The two parts of \<open>renderHighlight\<close>: the spot and the line.\<close>

definition highlight_spot :: "vertex \<Rightarrow> line \<Rightarrow> line" where
  "highlight_spot v ch =
     (if truthy (opt ch ''spotRadius'') \<and> truthy (opt ch ''highlightSpotColor'') then
        (let (s, c) = drawCircle (Num (fst v)) (Num (snd v)) (opt ch ''spotRadius'') Undef (opt ch ''highlightSpotColor'') Undef (target ch)
         in ch\<lparr>highlightSpotId := Some (sid s), target := insert_after (lineLastShapeId ch) s c\<rparr>)
      else ch)"

definition highlight_line :: "vertex \<Rightarrow> line \<Rightarrow> line" where
  "highlight_line v ch =
     (if truthy (opt ch ''highlightLineColor'') then
        (let (s, c) = drawLine (Num (fst v)) (canvasTop ch) (Num (fst v)) (jadd (canvasTop ch) (canvasHeight ch))
                        (opt ch ''highlightLineColor'') Undef (target ch)
         in ch\<lparr>highlightLineId := Some (sid s), target := insert_after (lineLastShapeId ch) s c\<rparr>)
      else ch)"

definition line_renderHighlight :: "line \<Rightarrow> line" where
  "line_renderHighlight ch =
     (case current_vertex ch of
        None \<Rightarrow> ch
      | Some v \<Rightarrow> highlight_line v (highlight_spot v ch))"

definition line_removeHighlight :: "line \<Rightarrow> line" where
  "line_removeHighlight ch =
     (let ch1 = (case highlightSpotId ch of
                   None \<Rightarrow> ch
                 | Some i \<Rightarrow> if i \<noteq> 0 then ch\<lparr>target := removeShapeId i (target ch), highlightSpotId := None\<rparr> else ch)
      in (case highlightLineId ch1 of
            None \<Rightarrow> ch1
          | Some i \<Rightarrow> if i \<noteq> 0 then ch1\<lparr>target := removeShapeId i (target ch1), highlightLineId := None\<rparr> else ch1))"

subsection \<open>scanValues and processRangeOptions\<close>

text \<open>What one value adds to the x values, the y values and the values that count for the limits.\<close>

definition scan_value :: "nat \<Rightarrow> jsval \<Rightarrow> jsval \<times> jsval \<times> jsval list" where
  "scan_value i v =
     (let plain = (num (of_nat i), if v = Null \<or> v = Str ''null'' then Null else Num (to_number v),
                   if v = Null \<or> v = Str ''null'' then [] else [Num (to_number v)])
      in case v of
           Str s \<Rightarrow>
             (case split_on (CHR '':'') s of
                [a, b] \<Rightarrow> (Num (str_to_number a), Num (str_to_number b), [Num (str_to_number b)])
              | _ \<Rightarrow> plain)
         | Arr xs \<Rightarrow> (jnth xs 0, jnth xs 1, [jnth xs 1])
         | _ \<Rightarrow> plain)"

definition scanValues :: "line \<Rightarrow> line" where
  "scanValues ch =
     (let rows = map (\<lambda>(i, v). scan_value i v) (enumerate 0 (vals ch));
          xs0 = xvalues ch @ map fst rows;
          xs = (if truthy (opt ch ''xvalues'') then as_list (opt ch ''xvalues'') else xs0);
          ys = yvalues ch @ map (fst \<circ> snd) rows;
          ymm = yminmax ch @ concat (map (snd \<circ> snd) rows);
          mx = Math_max (map to_number ymm); mn = Math_min (map to_number ymm)
      in ch\<lparr>xvalues := xs, yvalues := ys, yminmax := ymm, maxy := Num mx, maxyorg := mx, miny := Num mn, minyorg := mn,
            maxx := Num (Math_max (map to_number xs)), minx := Num (Math_min (map to_number xs))\<rparr>)"

definition processRangeOptions :: "line \<Rightarrow> line" where
  "processRangeOptions ch =
     (let o' = opt ch; nMin = o' ''normalRangeMin''; nMax = o' ''normalRangeMax'';
          mny = (if nMin \<noteq> Undef \<and> jlt nMin (miny ch) then nMin else miny ch);
          mxy = (if nMin \<noteq> Undef \<and> jlt (maxy ch) nMax then nMax else maxy ch);
          cMinX = o' ''chartRangeMinX''; cMaxX = o' ''chartRangeMaxX''; clipX = truthy (o' ''chartRangeClipX'')
      in ch\<lparr>miny := range_min o' mny, maxy := range_max o' mxy,
            minx := (if cMinX \<noteq> Undef \<and> (clipX \<or> jlt cMinX (minx ch)) then cMinX else minx ch),
            maxx := (if cMaxX \<noteq> Undef \<and> (clipX \<or> jlt (maxx ch) cMaxX) then cMaxX else maxx ch)\<rparr>)"

subsection \<open>render\<close>

text \<open>The local variables of \<open>render\<close> that the drawing uses, once the canvas is adjusted to the spots.\<close>

record geometry =
  gLeft :: number
  gTop :: number
  gWidth :: jsval
  gHeight :: number
  rangex :: number
  rangey :: number
  spotR :: jsval

definition or_one :: "number \<Rightarrow> number" where
  "or_one r = (if num_eq r (Fin 0) then Fin 1 else r)"

definition line_geometry :: "line \<Rightarrow> geometry" where
  "line_geometry ch =
     (let o' = opt ch; ys = yvalues ch; y0 = jnth ys 0; yl = jnth ys (length ys - 1);
          r0 = o' ''spotRadius'';
          r = (if truthy r0 \<and> (jlt (canvasWidth ch) (Num (to_number r0 * Fin 4)) \<or> jlt (canvasHeight ch) (Num (to_number r0 * Fin 4)))
               then num 0 else r0);
          cr = Math_ceil (to_number r); spot = truthy (o' ''spotColor'');
          minS = truthy (o' ''minSpotColor''); maxS = truthy (o' ''maxSpotColor'');
          low = truthy r \<and> (minS \<or> spot \<and> seq yl (miny ch));
          high = truthy r \<and> (maxS \<or> spot \<and> seq yl (maxy ch));
          left = truthy r \<and> (minS \<or> maxS) \<and> (seq y0 (miny ch) \<or> seq y0 (maxy ch));
          right = truthy r \<and> (spot \<or> minS \<or> maxS \<and> (seq yl (miny ch) \<or> seq yl (maxy ch)));
          h1 = to_number (canvasHeight ch) - (if low then cr else Fin 0) - (if high then cr else Fin 0);
          w1 = (if left then Num (to_number (canvasWidth ch) - cr) else canvasWidth ch);
          w2 = (if right then Num (to_number w1 - cr) else w1)
      in \<lparr>gLeft = (if left then cr else Fin 0), gTop = (if high then cr else Fin 0), gWidth = w2, gHeight = h1 - Fin 1,
          rangex = or_one (to_number (maxx ch) - to_number (minx ch)),
          rangey = or_one (to_number (maxy ch) - to_number (miny ch)), spotR = r\<rparr>)"

definition line_xpos :: "line \<Rightarrow> geometry \<Rightarrow> jsval \<Rightarrow> number" where
  "line_xpos ch g x = gLeft g + Math_round ((to_number x - to_number (minx ch)) * (to_number (gWidth g) / rangex g))"

definition line_ypos :: "line \<Rightarrow> geometry \<Rightarrow> jsval \<Rightarrow> number" where
  "line_ypos ch g y =
     gTop g + Math_round (gHeight g - gHeight g * ((to_number y - to_number (miny ch)) / rangey g))"

definition drawNormalRange :: "line \<Rightarrow> geometry \<Rightarrow> vcanvas \<Rightarrow> vcanvas" where
  "drawNormalRange ch g c =
     (let nMin = opt ch ''normalRangeMin''; nMax = opt ch ''normalRangeMax'';
          ytop = line_ypos ch g nMax;
          ht = Math_round (gHeight g * (to_number nMax - to_number nMin) / rangey g);
          (s, c1) = drawRect (Num (gLeft g)) (Num ytop) (gWidth g) (Num ht) Undef (opt ch ''normalRangeColor'') c
      in appendShape s c1)"

text \<open>The state of the loop over the points; the current path is the last of \<open>paths\<close>.\<close>

record line_scan =
  sRegions :: "(number \<times> number \<times> nat) list"
  sLast :: "number option"
  sPaths :: "vertex list list"
  sPath :: "vertex list"
  sVertices :: "vertex option list"

text \<open>\<open>last || 0\<close>.\<close>

definition or_zero :: "number option \<Rightarrow> number" where
  "or_zero l = (case l of None \<Rightarrow> Fin 0 | Some x \<Rightarrow> if truthy (Num x) then x else Fin 0)"

definition line_next :: "line \<Rightarrow> geometry \<Rightarrow> nat \<Rightarrow> number" where
  "line_next ch g i =
     (let xpos = line_xpos ch g (jnth (xvalues ch) i);
          xposnext = (if i + 1 < length (yvalues ch) then line_xpos ch g (jnth (xvalues ch) (i + 1)) else to_number (gWidth g))
      in xpos + (xposnext - xpos) / Fin 2)"

definition clip_y :: "line \<Rightarrow> jsval \<Rightarrow> jsval" where
  "clip_y ch y = (let y1 = (if jlt y (miny ch) then miny ch else y) in if jlt (maxy ch) y1 then maxy ch else y1)"

definition line_vertex :: "line \<Rightarrow> geometry \<Rightarrow> nat \<Rightarrow> vertex" where
  "line_vertex ch g i = (line_xpos ch g (jnth (xvalues ch) i), line_ypos ch g (clip_y ch (jnth (yvalues ch) i)))"

definition line_step :: "line \<Rightarrow> geometry \<Rightarrow> nat \<Rightarrow> line_scan \<Rightarrow> line_scan" where
  "line_step ch g i st =
     (let st1 = st\<lparr>sRegions := sRegions st @ [(or_zero (sLast st), line_next ch g i, i)], sLast := Some (line_next ch g i)\<rparr>
      in if jnth (yvalues ch) i = Null then
           (if i \<noteq> 0 \<and> jnth (yvalues ch) (i - 1) \<noteq> Null
            then st1\<lparr>sPaths := sPaths st1 @ [sPath st1], sPath := [], sVertices := sVertices st1 @ [None]\<rparr> else st1)
         else
           (let v = line_vertex ch g i;
                p = (if sPath st1 = [] then [(fst v, gTop g + gHeight g)] else sPath st1)
            in st1\<lparr>sPath := p @ [v], sVertices := sVertices st1 @ [Some v]\<rparr>))"

definition line_points :: "line \<Rightarrow> geometry \<Rightarrow> line_scan" where
  "line_points ch g =
     fold (line_step ch g) [0..<length (yvalues ch)]
       \<lparr>sRegions = [], sLast = None, sPaths = [], sPath = [], sVertices = vertices ch\<rparr>"

text \<open>The shape to fill below a path, and the line along it: a path of one point stays a vertical line.\<close>

definition fill_shape :: "geometry \<Rightarrow> vertex list \<Rightarrow> vertex list" where
  "fill_shape g p = p @ [(fst (last p), gTop g + gHeight g)]"

definition line_shape :: "vertex list \<Rightarrow> vertex list" where
  "line_shape p = (if length p > 2 then (fst (p ! 0), snd (p ! 1)) # tl p else p)"

definition num_path :: "vertex list \<Rightarrow> (jsval \<times> jsval) list" where
  "num_path p = map (\<lambda>(x, y). (Num x, Num y)) p"

definition spot_at :: "line \<Rightarrow> geometry \<Rightarrow> jsval \<Rightarrow> jsval \<Rightarrow> jsval \<Rightarrow> shape" where
  "spot_at ch g x y color = Circle (Num (line_xpos ch g x)) (Num (line_ypos ch g y)) (spotR g) Undef color Undef"

text \<open>The spots, in the order they are drawn: value spots, the last value, the minimum and the maximum.\<close>

definition value_spots :: "line \<Rightarrow> geometry \<Rightarrow> shape list" where
  "value_spots ch g =
     (if truthy (opt ch ''valueSpots'') then
        (let m = as_RangeMap (opt ch ''valueSpots'')
         in concat (map (\<lambda>i. let y = jnth (yvalues ch) i; color = colorMap_get m y
                             in if truthy color then [spot_at ch g (jnth (xvalues ch) i) y color] else [])
              [0..<length (yvalues ch)]))
      else [])"

definition extreme_spot :: "line \<Rightarrow> geometry \<Rightarrow> number \<Rightarrow> jsval \<Rightarrow> shape list" where
  "extreme_spot ch g org color =
     (if truthy color then
        [spot_at ch g (case in_array (\<lambda>y. seq (Num org) y) (yvalues ch) of None \<Rightarrow> Undef | Some i \<Rightarrow> jnth (xvalues ch) i) (Num org) color]
      else [])"

definition line_spots :: "line \<Rightarrow> geometry \<Rightarrow> shape list" where
  "line_spots ch g =
     (if \<not> truthy (spotR g) then []
      else value_spots ch g @
        (if truthy (opt ch ''spotColor'')
         then [spot_at ch g (jnth (xvalues ch) (length (xvalues ch) - 1)) (jnth (yvalues ch) (length (yvalues ch) - 1)) (opt ch ''spotColor'')]
         else []) @
        (if \<not> seq (maxy ch) (Num (minyorg ch))
         then extreme_spot ch g (minyorg ch) (opt ch ''minSpotColor'') @ extreme_spot ch g (maxyorg ch) (opt ch ''maxSpotColor'')
         else []))"

definition line_paths :: "line_scan \<Rightarrow> vertex list list" where
  "line_paths st = filter (\<lambda>p. p \<noteq> []) (sPaths st @ [sPath st])"

definition line_draw :: "line \<Rightarrow> geometry \<Rightarrow> line_scan \<Rightarrow> vcanvas \<Rightarrow> vcanvas" where
  "line_draw ch g st c0 =
     (let o' = opt ch; fc = o' ''fillColor''; normal = truthy (o' ''normalRangeMin''); onTop = truthy (o' ''drawNormalOnTop'');
          c1 = (if normal \<and> \<not> onTop then drawNormalRange ch g c0 else c0);
          fills = (if truthy fc then map (\<lambda>p. Shape (num_path (fill_shape g p)) fc fc Undef) (line_paths st) else []);
          c2 = fold draw_append fills c1;
          c3 = (if normal \<and> onTop then drawNormalRange ch g c2 else c2);
          lines = map (\<lambda>p. Shape (num_path (line_shape p)) (o' ''lineColor'') Undef (o' ''lineWidth'')) (line_paths st)
      in fold draw_append (line_spots ch g) (fold draw_append lines c3))"

definition line_render :: "env \<Rightarrow> line \<Rightarrow> line result" where
  "line_render ev ch0 =
     (if disabled ch0 then Inr ch0
      else
        (let ch = processRangeOptions (scanValues ch0)
         in if yminmax ch = [] \<or> length (yvalues ch) < 2 then Inr ch
            else
              (let g = line_geometry ch; st = line_points ch g; c = line_draw ch g st (target ch)
               in rbind (canvas_render (inPath ev) c) (\<lambda>c'.
                    Inr (ch\<lparr>vertices := sVertices st, regionMap := sRegions st, target := c',
                            lineLastShapeId := getLastShapeId c, canvasTop := Num (gTop g)\<rparr>)))))"

section \<open>The highlight of a point\<close>

definition opt_list :: "'a option \<Rightarrow> 'a list" where
  "opt_list x = (case x of None \<Rightarrow> [] | Some y \<Rightarrow> [y])"

lemma opt_list_simps [simp]: "opt_list None = []" "opt_list (Some x) = [x]"
  by (simp_all add: opt_list_def)

text \<open>
  The queue is the one of the rendered chart (\<open>base\<close>), with the shapes of the highlight right behind the last shape of
  the chart; nothing else on the canvas differs from the rendered chart (\<open>sh\<close>).
\<close>

definition queue_with :: "nat list \<Rightarrow> nat option \<Rightarrow> nat list \<Rightarrow> nat list \<Rightarrow> bool" where
  "queue_with base lst hl sq \<longleftrightarrow>
     (case lst of
        None \<Rightarrow> hl = [] \<and> sq = base
      | Some l \<Rightarrow> \<exists>pre post. base = pre @ l # post \<and> sq = pre @ l # hl @ post)"

definition line_hl :: "line \<Rightarrow> nat list" where
  "line_hl ch = opt_list (highlightLineId ch) @ opt_list (highlightSpotId ch)"

definition line_inv :: "nat list \<Rightarrow> (nat \<rightharpoonup> vshape) \<Rightarrow> line \<Rightarrow> bool" where
  "line_inv base sh ch \<longleftrightarrow>
     canvas_wf (target ch) \<and> queue_with base (lineLastShapeId ch) (line_hl ch) (shapeseq (target ch)) \<and>
     0 \<notin> set (line_hl ch) \<and> (\<forall>j \<in> set base. shapes (target ch) j = sh j) \<and>
     (lineLastShapeId ch = None \<longrightarrow> vertices ch = []) \<and>
     (line_hl ch \<noteq> [] \<longrightarrow> currentRegion ch \<noteq> Undef \<and> \<not> truthy (opt ch ''disableHighlight''))"

lemma insert_highlight:
  assumes "canvas_wf c" "queue_with base (Some l) hl (shapeseq c)" "shape_ok shp" "genShape shp c = (s, c1)"
  shows "canvas_wf (insert_after (Some l) s c1) \<and> queue_with base (Some l) (sid s # hl) (shapeseq (insert_after (Some l) s c1)) \<and>
    sid s \<noteq> 0 \<and> (\<forall>j \<in> set base. shapes (insert_after (Some l) s c1) j = shapes c j)"
proof -
  obtain pre post where q: "base = pre @ l # post" "shapeseq c = pre @ l # hl @ post"
    using assms(2) by (auto simp: queue_with_def)
  have c1: "canvas_wf c1" "canvas_fresh c1 s" "shapeseq c1 = pre @ l # hl @ post" "shapes c1 = shapes c" "sid s = shapeCount c"
    using genShape_fresh [OF assms(1,3,4)] q(2) assms(4) by (auto simp: genShape_def)
  have "l < shapeCount c" using assms(1) q(2) by (auto simp: canvas_wf_def)
  moreover have "sid s \<notin> set base" using c1(2,3) q(1) by (auto simp: canvas_fresh_def)
  ultimately show ?thesis
    using insertAfterShape_split [OF c1(1,3), of s] insertAfterShape_wf [OF c1(1,2), of l] c1(4,5) q(1)
    by (auto simp: insert_after_def queue_with_def)
qed

lemma remove_highlight:
  assumes "canvas_wf c" "queue_with base lst (hl1 @ i # hl2) (shapeseq c)"
  shows "canvas_wf (removeShapeId i c) \<and> queue_with base lst (hl1 @ hl2) (shapeseq (removeShapeId i c)) \<and>
    (\<forall>j \<in> set base. shapes (removeShapeId i c) j = shapes c j)"
proof -
  obtain l pre post where q: "lst = Some l" "base = pre @ l # post" "shapeseq c = (pre @ l # hl1) @ i # (hl2 @ post)"
    using assms(2) by (auto simp: queue_with_def split: option.splits)
  then have "i \<notin> set base" using hc.ids_distinct [OF assms(1)] by auto
  then show ?thesis
    using removeShapeId_split [OF assms(1) q(3)] removeShapeId_wf [OF assms(1), of i] q by (auto simp: queue_with_def)
qed

lemma line_removeHighlight_inv:
  assumes "line_inv base sh ch"
  shows "line_inv base sh (line_removeHighlight ch) \<and> line_hl (line_removeHighlight ch) = [] \<and>
    opt (line_removeHighlight ch) = opt ch \<and> currentRegion (line_removeHighlight ch) = currentRegion ch"
proof -
  define ch1 where "ch1 = (case highlightSpotId ch of None \<Rightarrow> ch
    | Some i \<Rightarrow> if i \<noteq> 0 then ch\<lparr>target := removeShapeId i (target ch), highlightSpotId := None\<rparr> else ch)"
  have 1: "line_inv base sh ch1" "highlightSpotId ch1 = None" "opt ch1 = opt ch" "currentRegion ch1 = currentRegion ch"
    using assms remove_highlight [of "target ch" base "lineLastShapeId ch" "opt_list (highlightLineId ch)" "the (highlightSpotId ch)" "[]"]
    by (auto simp: ch1_def line_inv_def line_hl_def split: option.splits)
  have "line_removeHighlight ch = (case highlightLineId ch1 of None \<Rightarrow> ch1
    | Some i \<Rightarrow> if i \<noteq> 0 then ch1\<lparr>target := removeShapeId i (target ch1), highlightLineId := None\<rparr> else ch1)"
    by (simp only: line_removeHighlight_def Let_def ch1_def)
  then show ?thesis
    using 1 remove_highlight [of "target ch1" base "lineLastShapeId ch1" "[]" "the (highlightLineId ch1)" "[]"]
    by (auto simp: line_inv_def line_hl_def split: option.splits)
qed


lemma highlight_spot_inv:
  assumes "line_inv base sh ch" "line_hl ch = []" "lineLastShapeId ch = Some l" "currentRegion ch \<noteq> Undef" "\<not> truthy (opt ch ''disableHighlight'')"
  shows "line_inv base sh (highlight_spot v ch) \<and> highlightLineId (highlight_spot v ch) = None \<and> lineLastShapeId (highlight_spot v ch) = Some l \<and>
    currentRegion (highlight_spot v ch) = currentRegion ch \<and> opt (highlight_spot v ch) = opt ch"
proof (cases "truthy (opt ch ''spotRadius'') \<and> truthy (opt ch ''highlightSpotColor'')")
  case True
  let ?shp = "Circle (Num (fst v)) (Num (snd v)) (opt ch ''spotRadius'') Undef (opt ch ''highlightSpotColor'') Undef"
  obtain s c where g: "genShape ?shp (target ch) = (s, c)" by (cases "genShape ?shp (target ch)")
  have hl: "highlightLineId ch = None" "highlightSpotId ch = None"
    using assms(2) by (auto simp: line_hl_def opt_list_def split: option.splits)
  show ?thesis
    using insert_highlight [OF _ _ _ g, of base l "[]"] assms True hl
    by (auto simp: highlight_spot_def drawCircle_def g line_inv_def line_hl_def)
next
  case False
  then show ?thesis
    using assms by (auto simp: highlight_spot_def line_hl_def opt_list_def split: option.splits)
qed

lemma highlight_line_inv:
  assumes "line_inv base sh ch" "highlightLineId ch = None" "lineLastShapeId ch = Some l" "currentRegion ch \<noteq> Undef" "\<not> truthy (opt ch ''disableHighlight'')"
  shows "line_inv base sh (highlight_line v ch) \<and> currentRegion (highlight_line v ch) = currentRegion ch \<and> opt (highlight_line v ch) = opt ch"
proof (cases "truthy (opt ch ''highlightLineColor'')")
  case True
  let ?shp = "Shape [(Num (fst v), canvasTop ch), (Num (fst v), jadd (canvasTop ch) (canvasHeight ch))] (opt ch ''highlightLineColor'') Undef Undef"
  obtain s c where g: "genShape ?shp (target ch) = (s, c)" by (cases "genShape ?shp (target ch)")
  show ?thesis
    using insert_highlight [OF _ _ _ g, of base l "opt_list (highlightSpotId ch)"] assms True
    by (auto simp: highlight_line_def drawLine_def drawShape_def g line_inv_def line_hl_def)
next
  case False
  then show ?thesis using assms by (simp add: highlight_line_def)
qed

lemma line_renderHighlight_inv:
  assumes "line_inv base sh ch" "line_hl ch = []" "currentRegion ch \<noteq> Undef" "\<not> truthy (opt ch ''disableHighlight'')"
  shows "line_inv base sh (line_renderHighlight ch)"
proof (cases "current_vertex ch")
  case None
  then show ?thesis using assms(1) by (simp add: line_renderHighlight_def)
next
  case (Some v)
  then have "vertices ch \<noteq> []" by (auto simp: current_vertex_def split: option.splits if_splits)
  then obtain l where "lineLastShapeId ch = Some l" using assms(1) by (auto simp: line_inv_def)
  then show ?thesis
    using highlight_spot_inv [OF assms(1,2) _ assms(3,4), of l v] highlight_line_inv [of base sh "highlight_spot v ch" l v] Some assms(3,4)
    by (simp add: line_renderHighlight_def)
qed

lemma line_inv_region:
  "line_inv base sh ch \<Longrightarrow> line_hl ch = [] \<Longrightarrow> line_inv base sh (ch\<lparr>currentRegion := r\<rparr>) \<and> line_hl (ch\<lparr>currentRegion := r\<rparr>) = []"
  by (simp add: line_inv_def line_hl_def)

definition line_event :: "pointer \<Rightarrow> line \<Rightarrow> line result" where
  "line_event = pointer_event (\<lambda>x y ch. Inr (line_getRegion x y ch, ch)) (\<lambda>ch. Inr (line_renderHighlight ch)) (\<lambda>ch. Inr (line_removeHighlight ch))"

lemma line_event_inv:
  assumes "line_inv base sh ch"
  shows "\<exists>ch'. line_event e ch = Inr ch' \<and> line_inv base sh ch' \<and> (e = Leave \<longrightarrow> line_hl ch' = [])"
proof (cases e)
  case Leave
  then show ?thesis
    using assms line_removeHighlight_inv [OF assms] line_inv_region
    by (auto simp: line_event_def pointer_event_def clearRegionHighlight_def line_inv_def [of base sh ch])
next
  case (Move x y)
  let ?en = "\<not> truthy (opt ch ''disableHighlight'')" and ?new = "line_getRegion x y ch"
  define ch2 where "ch2 = (if currentRegion ch \<noteq> Undef \<and> ?en then line_removeHighlight ch else ch)"
  have 2: "line_inv base sh ch2 \<and> line_hl ch2 = [] \<and> opt ch2 = opt ch"
    using assms line_removeHighlight_inv [OF assms] by (auto simp: ch2_def line_inv_def [of base sh ch])
  then have 3: "line_inv base sh (ch2\<lparr>currentRegion := ?new\<rparr>) \<and> line_hl (ch2\<lparr>currentRegion := ?new\<rparr>) = []"
    using line_inv_region by blast
  have "line_inv base sh (if ?new \<noteq> Undef \<and> ?en then line_renderHighlight (ch2\<lparr>currentRegion := ?new\<rparr>) else ch2\<lparr>currentRegion := ?new\<rparr>)"
    using 2 3 line_renderHighlight_inv [of base sh "ch2\<lparr>currentRegion := ?new\<rparr>"] by simp
  then show ?thesis
    using Move assms by (auto simp: line_event_def pointer_event_def setRegionHighlight_def Let_def ch2_def)
qed


section \<open>Rendering\<close>

lemma drawNormalRange_ok: "last_ok c \<Longrightarrow> last_ok (drawNormalRange ch g c) \<and> interact (drawNormalRange ch g c) = interact c"
  using draw_append_ok [of c]
  by (simp add: drawNormalRange_def drawRect_def Let_def draw_append_def split_beta)

lemma line_shape_ok: "line_shape p = [] \<longleftrightarrow> p = []"
  by (cases p) (auto simp: line_shape_def)

lemma line_draw_ok:
  assumes "last_ok c"
  shows "last_ok (line_draw ch g st c) \<and> interact (line_draw ch g st c) = interact c \<and>
    (line_paths st \<noteq> [] \<longrightarrow> lastShapeId (line_draw ch g st c) \<noteq> None)"
proof -
  let ?fc = "opt ch ''fillColor''"
  let ?fills = "if truthy ?fc then map (\<lambda>p. Shape (num_path (fill_shape g p)) ?fc ?fc Undef) (line_paths st) else []"
  let ?lines = "map (\<lambda>p. Shape (num_path (line_shape p)) (opt ch ''lineColor'') Undef (opt ch ''lineWidth'')) (line_paths st)"
  have ok: "\<forall>sh \<in> set ?fills. shape_ok sh" "\<forall>sh \<in> set ?lines. shape_ok sh" "\<forall>sh \<in> set (line_spots ch g). shape_ok sh"
    by (auto simp: num_path_def fill_shape_def line_paths_def line_shape_ok line_spots_def value_spots_def extreme_spot_def spot_at_def Let_def)
  define c1 where "c1 = (if truthy (opt ch ''normalRangeMin'') \<and> \<not> truthy (opt ch ''drawNormalOnTop'') then drawNormalRange ch g c else c)"
  define c2 where "c2 = fold draw_append ?fills c1"
  define c3 where "c3 = (if truthy (opt ch ''normalRangeMin'') \<and> truthy (opt ch ''drawNormalOnTop'') then drawNormalRange ch g c2 else c2)"
  have e: "line_draw ch g st c = fold draw_append (line_spots ch g) (fold draw_append ?lines c3)"
    by (simp only: line_draw_def Let_def c1_def c2_def c3_def)
  have "last_ok c1 \<and> interact c1 = interact c" using assms drawNormalRange_ok by (simp add: c1_def)
  then have "last_ok c2 \<and> interact c2 = interact c" unfolding c2_def using fold_draw_append_ok [OF _ ok(1)] by blast
  then have "last_ok c3 \<and> interact c3 = interact c" using drawNormalRange_ok by (simp add: c3_def)
  then show ?thesis
    unfolding e using fold_draw_append_ok [OF _ ok(2), of c3] fold_draw_append_ok [OF _ ok(3)] by auto
qed

text \<open>The loop over the points after \<open>n\<close> of them.\<close>

definition line_prefix :: "line \<Rightarrow> geometry \<Rightarrow> nat \<Rightarrow> line_scan" where
  "line_prefix ch g n = fold (line_step ch g) [0..<n] \<lparr>sRegions = [], sLast = None, sPaths = [], sPath = [], sVertices = vertices ch\<rparr>"

lemma line_prefix_simps:
  "line_prefix ch g 0 = \<lparr>sRegions = [], sLast = None, sPaths = [], sPath = [], sVertices = vertices ch\<rparr>"
  "line_prefix ch g (Suc n) = line_step ch g n (line_prefix ch g n)"
  by (simp_all add: line_prefix_def)

lemma line_points_prefix: "line_points ch g = line_prefix ch g (length (yvalues ch))"
  by (simp add: line_points_def line_prefix_def)

lemma line_prefix_path:
  "(0 < n \<and> jnth (yvalues ch) (n - 1) \<noteq> Null \<longrightarrow> sPath (line_prefix ch g n) \<noteq> []) \<and>
   (vertices ch = [] \<and> sVertices (line_prefix ch g n) \<noteq> [] \<longrightarrow> line_paths (line_prefix ch g n) \<noteq> [])"
proof (induction n)
  case 0
  then show ?case by (simp add: line_prefix_simps)
next
  case (Suc n)
  then show ?case
    by (auto simp: line_prefix_simps line_step_def Let_def line_paths_def)
qed

lemma line_prefix_regions:
  "sRegions (line_prefix ch g n) = map (\<lambda>i. (or_zero (if i = 0 then None else Some (line_next ch g (i - 1))), line_next ch g i, i)) [0..<n] \<and>
   sLast (line_prefix ch g n) = (if n = 0 then None else Some (line_next ch g (n - 1)))"
  by (induction n) (auto simp: line_prefix_simps line_step_def Let_def)

lemma line_prefix_no_null:
  assumes "\<forall>i < n. jnth (yvalues ch) i \<noteq> Null"
  shows "sVertices (line_prefix ch g n) = vertices ch @ map (\<lambda>i. Some (line_vertex ch g i)) [0..<n] \<and> sPaths (line_prefix ch g n) = []"
  using assms by (induction n) (auto simp: line_prefix_simps line_step_def Let_def)

lemma line_render_inv:
  assumes "hasCanvas ev" "\<not> truthy (o' ''disableInteraction'')"
  shows "\<exists>ch1. line_render ev (line_init ev None values o' w h n) = Inr ch1 \<and>
    line_inv (shapeseq (target ch1)) (shapes (target ch1)) ch1 \<and> line_hl ch1 = []"
proof -
  let ?ch0 = "line_init ev None values o' w h n"
  define ch where "ch = processRangeOptions (scanValues ?ch0)"
  have f: "canvas_wf (target ?ch0)" "shapeseq (target ?ch0) = []" "interact (target ?ch0)" "\<not> disabled ?ch0"
    using assms by (simp_all add: line_init_def initTarget_new)
  have l0: "lastShapeId (target ?ch0) = None"
    using assms(1) by (simp add: line_init_def initTarget_def simpledraw_def canvas_init_def calculatePixelDims_def Let_def)
  have i0: "vertices ?ch0 = []" "highlightSpotId ?ch0 = None" "highlightLineId ?ch0 = None" "lineLastShapeId ?ch0 = None"
    by (simp_all add: line_init_def initTarget_def split: option.splits)
  have fr: "target ch = target ?ch0" "vertices ch = []" "highlightSpotId ch = None" "highlightLineId ch = None" "lineLastShapeId ch = None"
    "interact (target ch)"
    using i0 f(3) by (simp_all add: ch_def processRangeOptions_def scanValues_def Let_def)
  show ?thesis
  proof (cases "yminmax ch = [] \<or> length (yvalues ch) < 2")
    case True
    then have "line_render ev ?ch0 = Inr ch" using f(4) by (simp add: line_render_def ch_def Let_def)
    then show ?thesis using f(1,2) fr by (auto simp: line_inv_def line_hl_def queue_with_def)
  next
    case False
    let ?g = "line_geometry ch"
    let ?st = "line_points ch ?g"
    let ?c = "line_draw ch ?g ?st (target ch)"
    have ok: "last_ok ?c" "interact ?c" "line_paths ?st \<noteq> [] \<longrightarrow> lastShapeId ?c \<noteq> None"
      using line_draw_ok [of "target ch" ch ?g ?st] f(1,2) l0 fr(1,6) by (auto simp: last_ok_def)
    then obtain c where c: "canvas_render (inPath ev) ?c = Inr c" "canvas_wf c" "shapeseq c = shapeseq ?c"
      using canvas_render_ok [of ?c "inPath ev"] by (auto simp: last_ok_def)
    let ?ch1 = "ch\<lparr>vertices := sVertices ?st, regionMap := sRegions ?st, target := c, lineLastShapeId := getLastShapeId ?c, canvasTop := Num (gTop ?g)\<rparr>"
    have "line_render ev ?ch0 = Inr ?ch1" using f(4) False c(1) by (simp add: line_render_def Let_def flip: ch_def)
    moreover have "lastShapeId ?c = None \<longrightarrow> sVertices ?st = []"
      using ok(3) line_prefix_path [of "length (yvalues ch)" ch ?g] fr(2) by (auto simp: line_points_prefix)
    moreover have "queue_with (shapeseq c) (lastShapeId ?c) [] (shapeseq c)"
      using ok(1) c(3) by (auto simp: last_ok_def queue_with_def split: option.splits dest: split_list)
    ultimately show ?thesis using c(2) fr by (simp add: line_inv_def line_hl_def getLastShapeId_def)
  qed
qed


lemma region_scan_at:
  assumes "\<And>j k. j \<le> k \<Longrightarrow> b j \<le> (b k :: real)" "i < n" "b i \<le> x" "x < b (Suc i) \<or> (Suc i = n \<and> x = b n)" "n \<le> m"
  shows "region_scan (map (\<lambda>j. (Fin (b j), Fin (b (Suc j)), j)) [0..<m]) (num x) n = num (of_nat i)"
  using assms(2-5)
proof (induction n)
  case 0
  then show ?case by simp
next
  case (Suc n)
  show ?case
  proof (cases "i = n")
    case True
    then show ?thesis using Suc.prems by auto
  next
    case False
    then have "x < b (Suc i)" "i < n" using Suc.prems by auto
    then have "x < b n" using assms(1) [of "Suc i" n] by simp
    then show ?thesis using Suc.IH \<open>i < n\<close> \<open>x < b (Suc i)\<close> Suc.prems by simp
  qed
qed

text \<open>A chart of some values with the default options, up to the point where its geometry is fixed.\<close>

definition line_scanned :: "jsval list \<Rightarrow> line" where
  "line_scanned vs = processRangeOptions (scanValues (line_init plain_env None vs (jget line_defaults) Undef Undef 0))"

section \<open>Properties\<close>





text \<open>C17. Every vertex lies in the plotting area: whatever the value, its height on the canvas is between the top and the bottom of the area.\<close>

theorem line_vertex_bounds:
  assumes "miny ch = num a" "maxy ch = num b" "a \<le> b" "rangey g = or_one (Fin (b - a))"
    and "gTop g = Fin t" "gHeight g = Fin (of_int h)" "0 \<le> h" "jnth (yvalues ch) i = num y"
  shows "\<exists>p. snd (line_vertex ch g i) = Fin (t + of_int p) \<and> 0 \<le> p \<and> p \<le> h"
proof -
  let ?y = "if y < a then a else if b < y then b else y"
  have c: "clip_y ch (num y) = num ?y" using assms(1-3) by (auto simp: clip_y_def Let_def)
  define q where "q = (?y - a) / (if b - a = 0 then 1 else b - a)"
  have q: "0 \<le> q" "q \<le> 1" using assms(3) by (auto simp: q_def)
  have "snd (line_vertex ch g i) = Fin (t + of_int (real_round (of_int h - of_int h * q)))"
    using assms c by (auto simp: line_vertex_def line_ypos_def or_one_def q_def num_eq_iff)
  moreover have "0 \<le> of_int h - of_int h * q" "of_int h - of_int h * q \<le> of_int h"
    using q assms(7) by (simp_all add: mult_left_le)
  then have "real_round 0 \<le> real_round (of_int h - of_int h * q)" "real_round (of_int h - of_int h * q) \<le> real_round (of_int h)"
    by (blast intro: real_round_mono)+
  ultimately show ?thesis by auto
qed

theorem line_vertex_bounds_witness:
  "let ch = line_scanned [num 1, num 5, num 2]; g = line_geometry ch
   in \<exists>p. snd (line_vertex ch g 2) = Fin (2 + of_int p) \<and> 0 \<le> p \<and> p \<le> 15"
proof -
  let ?ch = "line_scanned [num 1, num 5, num 2]"
  let ?g = "line_geometry ?ch"
  have "\<exists>p. snd (line_vertex ?ch ?g 2) = Fin (2 + of_int p) \<and> 0 \<le> p \<and> p \<le> 15"
  proof (rule line_vertex_bounds)
    show "miny ?ch = num 1" "maxy ?ch = num 5" "rangey ?g = or_one (Fin (5 - 1))" by code_simp+
    show "gTop ?g = Fin 2" "gHeight ?g = Fin (of_int 15)" "jnth (yvalues ?ch) 2 = num 2" by code_simp+
  qed simp_all
  then show ?thesis by simp
qed

text \<open>Without null values, point \<open>i\<close> of the chart is vertex \<open>i\<close>, and all points lie on one path.\<close>

lemma line_vertices_aligned:
  assumes "vertices ch = []" "\<forall>i < length (yvalues ch). jnth (yvalues ch) i \<noteq> Null"
  shows "sVertices (line_points ch g) = map (\<lambda>i. Some (line_vertex ch g i)) [0..<length (yvalues ch)] \<and> sPaths (line_points ch g) = []"
  using line_prefix_no_null [OF assms(2)] assms(1) by (simp add: line_points_prefix)


end
