(* ===== verification/SparkRegion.thy ===== *)
theory SparkRegion
  imports SparkBase
begin

text \<open>
  The contract between \<open>barHighlightMixin\<close> and the charts that use it (bar, tristate and discrete):
  what a chart's \<open>renderRegion\<close> promises (locale \<open>region_renderer\<close>), and what the mixin and the base
  class guarantee on top of it: whatever the pointer does, the canvas shows every region once, in
  place, and highlights exactly the current one.
\<close>

section \<open>Plans\<close>

text \<open>What a region draws, without the ids that the canvas gives to its shapes.\<close>

datatype plan = PNone | POne shape | PMany "shape list"

fun plan_shapes :: "plan \<Rightarrow> shape list" where
  "plan_shapes PNone = []"
| "plan_shapes (POne s) = [s]"
| "plan_shapes (PMany ss) = ss"

fun plan_form :: "plan \<Rightarrow> nat option option" where
  "plan_form PNone = None"
| "plan_form (POne s) = Some None"
| "plan_form (PMany ss) = Some (Some (length ss))"

fun rendered_shapes :: "rendered \<Rightarrow> vshape list" where
  "rendered_shapes RNone = []"
| "rendered_shapes (ROne s) = [s]"
| "rendered_shapes (RMany ss) = ss"

fun rendered_form :: "rendered \<Rightarrow> nat option option" where
  "rendered_form RNone = None"
| "rendered_form (ROne s) = Some None"
| "rendered_form (RMany ss) = Some (Some (length ss))"

fun ids_list :: "region_ids \<Rightarrow> nat list" where
  "ids_list INull = []"
| "ids_list (IOne i) = [i]"
| "ids_list (IMany is) = is"

fun ids_form :: "region_ids \<Rightarrow> nat option option" where
  "ids_form INull = None"
| "ids_form (IOne i) = Some None"
| "ids_form (IMany is) = Some (Some (length is))"

text \<open>Drawing a plan: the shapes get their ids one after the other.\<close>

fun gen_all :: "shape list \<Rightarrow> vcanvas \<Rightarrow> vshape list \<times> vcanvas" where
  "gen_all [] c = ([], c)"
| "gen_all (sh # shs) c = (let (s, c1) = genShape sh c; (ss, c2) = gen_all shs c1 in (s # ss, c2))"

fun realise :: "plan \<Rightarrow> vcanvas \<Rightarrow> rendered \<times> vcanvas" where
  "realise PNone c = (RNone, c)"
| "realise (POne sh) c = (let (s, c1) = genShape sh c in (ROne s, c1))"
| "realise (PMany shs) c = (let (ss, c1) = gen_all shs c in (RMany ss, c1))"

lemma gen_all_props:
  "gen_all shs c = (ss, c') \<Longrightarrow>
   c' = c\<lparr>shapeCount := shapeCount c + length shs\<rparr> \<and> map sargs ss = shs \<and>
   map sid ss = [shapeCount c ..< shapeCount c + length shs]"
proof (induction shs arbitrary: c ss c')
  case Nil
  then show ?case by simp
next
  case (Cons sh shs)
  let ?c1 = "c\<lparr>shapeCount := Suc (shapeCount c)\<rparr>"
  obtain ts where ts: "gen_all shs ?c1 = (ts, c')" "ss = VShape (shapeCount c) sh # ts"
    using Cons.prems by (auto simp: genShape_def split: prod.splits)
  show ?case using Cons.IH [OF ts(1)] ts(2) by (simp add: upt_conv_Cons del: upt_Suc)
qed

lemma realise_props:
  "realise p c = (r, c') \<Longrightarrow>
   c' = c\<lparr>shapeCount := shapeCount c + length (plan_shapes p)\<rparr> \<and> map sargs (rendered_shapes r) = plan_shapes p \<and>
   map sid (rendered_shapes r) = [shapeCount c ..< shapeCount c + length (plan_shapes p)] \<and>
   rendered_form r = plan_form p"
  by (cases p) (auto simp: genShape_def dest: gen_all_props split: prod.splits dest!: arg_cong [of _ _ length])

text \<open>The plan that a result came from.\<close>

fun plan_of :: "rendered \<Rightarrow> plan" where
  "plan_of RNone = PNone"
| "plan_of (ROne s) = POne (sargs s)"
| "plan_of (RMany ss) = PMany (map sargs ss)"

lemma plan_form_of [simp]: "plan_form (plan_of r) = rendered_form r"
  by (cases r) simp_all

lemma realise_fresh:
  assumes "realise p c = (r, c')" "canvas_wf c" "\<forall>sh \<in> set (plan_shapes p). shape_ok sh"
  shows "canvas_wf c' \<and> (\<forall>s \<in> set (rendered_shapes r). canvas_fresh c' s) \<and> distinct (map sid (rendered_shapes r))"
proof -
  note rp = realise_props [OF assms(1)]
  have "shape_ok (sargs s)" if "s \<in> set (rendered_shapes r)" for s
    using that rp assms(3) by (metis image_eqI list.set_map)
  moreover have "sid s \<in> {shapeCount c ..< shapeCount c + length (plan_shapes p)}" if "s \<in> set (rendered_shapes r)" for s
    using that rp by (metis image_eqI list.set_map set_upt)
  ultimately show ?thesis
    using rp assms(2) by (force simp: canvas_wf_def canvas_fresh_def)
qed

section \<open>Replacing the shapes of a region on the canvas\<close>

lemma replaceWithShapes_old:
  assumes "j \<notin> sid ` set ss" "j \<notin> set shapeids"
  shows "shapes (replaceWithShapes shapeids ss c) j = shapes c j"
proof (cases "shapes c j")
  case None
  then have "j \<notin> dom (shapes (replaceWithShapes shapeids ss c))"
    using assms by (auto simp: replaceWithShapes_dom)
  then show ?thesis using None by (simp add: domIff)
next
  case (Some s)
  then have "j \<in> dom (shapes (replaceWithShapes shapeids ss c))"
    using assms by (auto simp: replaceWithShapes_dom)
  then obtain t where t: "shapes (replaceWithShapes shapeids ss c) j = Some t" by blast
  then show ?thesis using replaceWithShapes_val [OF t] assms by auto
qed

lemma replaceWithShapes_new:
  assumes "canvas_wf c" "\<forall>s \<in> set ss. canvas_fresh c s" "distinct (map sid ss)" "s \<in> set ss"
  shows "shapes (replaceWithShapes shapeids ss c) (sid s) = Some s"
proof -
  have "sid s \<in> dom (shapes (replaceWithShapes shapeids ss c))"
    using assms(4) by (auto simp: replaceWithShapes_dom)
  then obtain t where t: "shapes (replaceWithShapes shapeids ss c) (sid s) = Some t" by blast
  have "shapes c (sid s) = None"
    using assms by (auto simp: canvas_wf_def canvas_fresh_def)
  then have "t \<in> set ss" "sid t = sid s" using replaceWithShapes_val [OF t] by auto
  then show ?thesis using t assms(3,4) by (metis distinct_map inj_onD)
qed

lemma replaceWithShapes_nil: "replaceWithShapes [] [] c = c"
  by (simp add: replaceWithShapes_def remove_loop_ref)

text \<open>The shapes of one region change; the queue around them and all other shapes stay.\<close>

definition region_replaced :: "nat list \<Rightarrow> nat list \<Rightarrow> region_ids \<Rightarrow> rendered \<Rightarrow> vcanvas \<Rightarrow> region_ids \<times> vcanvas \<Rightarrow> bool" where
  "region_replaced xs ys ids r c = (\<lambda>(ids', c').
     canvas_wf c' \<and> shapeseq c' = xs @ ids_list ids' @ ys \<and> ids_list ids' = map sid (rendered_shapes r) \<and>
     ids_form ids' = rendered_form r \<and> pixelHeight c' = pixelHeight c \<and>
     (\<forall>j. j \<notin> set (ids_list ids') \<longrightarrow> j \<notin> set (ids_list ids) \<longrightarrow> shapes c' j = shapes c j) \<and>
     (\<forall>s \<in> set (rendered_shapes r). shapes c' (sid s) = Some s))"

lemma replace_region_ok:
  assumes wf: "canvas_wf c" and sq: "shapeseq c = xs @ ids_list ids @ ys"
    and fresh: "\<forall>s \<in> set (rendered_shapes r). canvas_fresh c s" and dist: "distinct (map sid (rendered_shapes r))"
    and form: "rendered_form r = ids_form ids" and tr: "ids_truthy ids"
  shows "\<exists>p. replace_region ids r c = Inr p \<and> region_replaced xs ys ids r c p"
proof (cases ids)
  case INull
  then show ?thesis using tr by simp
next
  case (IOne i)
  then obtain s where r: "r = ROne s" using form by (cases r) auto
  have fr: "canvas_fresh c s" using fresh r by simp
  have "i \<noteq> sid s" using fr sq IOne by (auto simp: canvas_fresh_def)
  moreover have "shapeseq (replaceWithShape i s c) = xs @ sid s # ys \<and> canvas_wf (replaceWithShape i s c)"
    using hc.repl_law [OF wf _ fr, of xs i ys] sq IOne by auto
  ultimately show ?thesis
    using IOne r by (auto simp: region_replaced_def replaceWithShape_def)
next
  case (IMany "is")
  then obtain ss where r: "r = RMany ss" "length ss = length is" using form by (cases r) auto
  show ?thesis
  proof (cases "is = []")
    case True
    then show ?thesis
      using IMany r wf sq by (auto simp: region_replaced_def replaceWithShapes_nil)
  next
    case False
    then have "shapeseq (replaceWithShapes is ss c) = xs @ map sid ss @ ys \<and> canvas_wf (replaceWithShapes is ss c)"
      using hc.repls_law [OF wf _ _ _ _ False, of ss xs ys] fresh dist sq r IMany by auto
    then show ?thesis
      using IMany r fresh dist wf
      by (auto simp: region_replaced_def replaceWithShapes_old replaceWithShapes_new)
  qed
qed

section \<open>Appending the shapes of a region\<close>

lemma appendShape_frame:
  "shapes (appendShape s c) = (shapes c)(sid s \<mapsto> s)" "shapeseq (appendShape s c) = shapeseq c @ [sid s]"
  "pixelHeight (appendShape s c) = pixelHeight c" "interact (appendShape s c) = interact c"
  by (simp_all add: appendShape_def)

lemma fold_append_ok:
  assumes "canvas_wf c" "\<forall>s \<in> set ss. canvas_fresh c s" "distinct (map sid ss)"
  shows "canvas_wf (fold appendShape ss c) \<and> shapeseq (fold appendShape ss c) = shapeseq c @ map sid ss \<and>
    (\<forall>j. j \<notin> sid ` set ss \<longrightarrow> shapes (fold appendShape ss c) j = shapes c j) \<and>
    (\<forall>s \<in> set ss. shapes (fold appendShape ss c) (sid s) = Some s) \<and>
    pixelHeight (fold appendShape ss c) = pixelHeight c \<and> interact (fold appendShape ss c) = interact c"
  using assms
proof (induction ss arbitrary: c)
  case Nil
  then show ?case by simp
next
  case (Cons s ss)
  have "canvas_wf (appendShape s c)" using Cons.prems by (simp add: appendShape_wf)
  moreover have "\<forall>t \<in> set ss. canvas_fresh (appendShape s c) t"
    using Cons.prems by (auto simp: canvas_fresh_def appendShape_def image_iff)
  ultimately have ih: "canvas_wf (fold appendShape ss (appendShape s c)) \<and>
    shapeseq (fold appendShape ss (appendShape s c)) = shapeseq (appendShape s c) @ map sid ss \<and>
    (\<forall>j. j \<notin> sid ` set ss \<longrightarrow> shapes (fold appendShape ss (appendShape s c)) j = shapes (appendShape s c) j) \<and>
    (\<forall>t \<in> set ss. shapes (fold appendShape ss (appendShape s c)) (sid t) = Some t) \<and>
    pixelHeight (fold appendShape ss (appendShape s c)) = pixelHeight (appendShape s c) \<and>
    interact (fold appendShape ss (appendShape s c)) = interact (appendShape s c)"
    using Cons.IH Cons.prems(3) by simp
  have "sid s \<notin> sid ` set ss" using Cons.prems(3) by simp
  then show ?case using ih by (auto simp: appendShape_frame)
qed

text \<open>The shapes in the order in which \<open>render\<close> appends them.\<close>

lemma append_region_fold:
  "append_region r c = (ids, c') \<Longrightarrow>
   c' = fold appendShape (rev (rendered_shapes r)) c \<and> ids_list ids = map sid (rev (rendered_shapes r)) \<and>
   ids_form ids = rendered_form r"
  by (cases r) auto

section \<open>The invariant of a region chart\<close>

text \<open>The part of the render queue that a chart's regions occupy.\<close>

definition region_part :: "(nat \<rightharpoonup> region_ids) \<Rightarrow> nat list \<Rightarrow> nat list" where
  "region_part rs is = concat (map (\<lambda>i. case rs i of None \<Rightarrow> [] | Some ids \<Rightarrow> ids_list ids) is)"

definition shows_plan :: "vcanvas \<Rightarrow> region_ids \<Rightarrow> plan \<Rightarrow> bool" where
  "shows_plan c ids p \<longleftrightarrow> ids_form ids = plan_form p \<and>
     mset (map (\<lambda>j. map_option sargs (shapes c j)) (ids_list ids)) = mset (map Some (plan_shapes p))"

text \<open>
  The queue is what was there before (\<open>pre\<close>), the regions from the last to the first, and what was
  appended later (\<open>post\<close>); the canvas shows each region as planned, highlighted where \<open>lit\<close> says so.
  A region whose only shape has id 0 is never highlighted.
\<close>

definition region_inv ::
  "(nat \<Rightarrow> bool \<Rightarrow> 'a region_chart_scheme \<Rightarrow> plan) \<Rightarrow> nat list \<Rightarrow> nat list \<Rightarrow> (nat \<Rightarrow> bool) \<Rightarrow> 'a region_chart_scheme \<Rightarrow> bool" where
  "region_inv plan pre post lit ch \<longleftrightarrow>
     canvas_wf (target ch) \<and>
     shapeseq (target ch) = pre @ region_part (regionShapes ch) (rev [0..<length (vals ch)]) @ post \<and>
     (\<forall>i. length (vals ch) \<le> i \<longrightarrow> regionShapes ch i = None) \<and>
     (\<forall>i < length (vals ch). \<exists>ids. regionShapes ch i = Some ids \<and>
        shows_plan (target ch) ids (plan i (lit i \<and> ids \<noteq> IOne 0) ch))"

text \<open>Which region is lit: the current one, unless highlighting is switched off.\<close>

definition lit_region :: "'a chart_scheme \<Rightarrow> nat \<Rightarrow> bool" where
  "lit_region ch i \<longleftrightarrow> \<not> truthy (opt ch ''disableHighlight'') \<and> idx_of (currentRegion ch) = Some i"

lemma region_part_append [simp]: "region_part rs (is @ js) = region_part rs is @ region_part rs js"
  by (simp add: region_part_def)

lemma region_part_simps [simp]:
  "region_part rs [] = []"
  "region_part rs (i # is) = (case rs i of None \<Rightarrow> [] | Some ids \<Rightarrow> ids_list ids) @ region_part rs is"
  by (simp_all add: region_part_def)

lemma region_part_upd: "i \<notin> set is \<Longrightarrow> region_part (rs(i := x)) is = region_part rs is"
  by (induction "is") auto

lemma region_part_mem: "i \<in> set is \<Longrightarrow> rs i = Some ids \<Longrightarrow> set (ids_list ids) \<subseteq> set (region_part rs is)"
  by (induction "is") auto

lemma regions_split: "r < n \<Longrightarrow> rev [0..<n] = rev [Suc r..<n] @ r # rev [0..<r]"
  by (metis (no_types) append_Cons append_assoc le_add_diff_inverse less_imp_le_nat less_or_eq_imp_le
      rev.simps(2) rev_append self_append_conv2 upt_add_eq_append upt_conv_Cons zero_le)

lemma shows_plan_cong:
  "(\<And>j. j \<in> set (ids_list ids) \<Longrightarrow> shapes c' j = shapes c j) \<Longrightarrow> shows_plan c' ids p = shows_plan c ids p"
  unfolding shows_plan_def by (metis (mono_tags, lifting) map_eq_conv)

lemma shows_plan_rendered:
  assumes "ids_list ids = map sid (rendered_shapes r)" "ids_form ids = plan_form p"
    "map sargs (rendered_shapes r) = plan_shapes p" "\<forall>s \<in> set (rendered_shapes r). shapes c (sid s) = Some s"
  shows "shows_plan c ids p"
proof -
  have "map (\<lambda>j. map_option sargs (shapes c j)) (ids_list ids) = map Some (plan_shapes p)"
    using assms by (simp flip: assms(3))
  then show ?thesis using assms(2) by (simp add: shows_plan_def)
qed

lemma shows_plan_appended:
  assumes re: "realise p c = (r, c1)" and ap: "append_region r c1 = (ids, c2)"
    and wf: "canvas_wf c" and ok: "\<forall>sh \<in> set (plan_shapes p). shape_ok sh"
  shows "canvas_wf c2 \<and> shapeseq c2 = shapeseq c @ ids_list ids \<and> shows_plan c2 ids p \<and>
    pixelHeight c2 = pixelHeight c \<and> interact c2 = interact c \<and>
    (\<forall>j \<in> set (shapeseq c). shapes c2 j = shapes c j)"
proof -
  let ?ss = "rev (rendered_shapes r)"
  note rp = realise_props [OF re] and af = append_region_fold [OF ap]
  have fr: "canvas_wf c1" "\<forall>s \<in> set ?ss. canvas_fresh c1 s" "distinct (map sid ?ss)"
    using realise_fresh [OF re wf ok] by (auto simp flip: rev_map)
  note fo = fold_append_ok [OF fr]
  have "map (\<lambda>j. map_option sargs (shapes c2 j)) (map sid ?ss) = map (\<lambda>s. Some (sargs s)) ?ss"
    using af fo by simp
  also have "\<dots> = map Some (rev (map sargs (rendered_shapes r)))" by (simp add: rev_map)
  finally have "map (\<lambda>j. map_option sargs (shapes c2 j)) (ids_list ids) = map Some (rev (plan_shapes p))"
    using af rp by metis
  then have "shows_plan c2 ids p" using af rp by (simp add: shows_plan_def rev_map)
  moreover have "shapes c2 j = shapes c j" if "j \<in> set (shapeseq c)" for j
    using that fo af rp fr(2) by (force simp: canvas_fresh_def)
  ultimately show ?thesis using fo af rp by simp
qed

lemma shows_plan_empty: "ids_form ids = None \<Longrightarrow> plan_form p = None \<Longrightarrow> shows_plan c ids p"
  by (cases ids; cases p) (simp_all add: shows_plan_def)

definition region_events ::
  "(nat \<Rightarrow> bool \<Rightarrow> 'a region_chart_scheme \<Rightarrow> rendered \<times> 'a region_chart_scheme) \<Rightarrow>
   (jsval \<Rightarrow> jsval \<Rightarrow> 'a region_chart_scheme \<Rightarrow> jsval) \<Rightarrow> pointer list \<Rightarrow> 'a region_chart_scheme \<Rightarrow> 'a region_chart_scheme result" where
  "region_events rr getRegion =
     pointer_events (pointer_event (\<lambda>x y ch. Inr (getRegion x y ch, ch)) (mixin_changeHighlight rr True) (mixin_changeHighlight rr False))"

section \<open>The contract of renderRegion\<close>

text \<open>
  A chart's \<open>renderRegion\<close> only asks its canvas for new shapes; which ones depends on the chart's own
  data, on the height of the canvas and on the highlight, and how many does not depend on the highlight.
\<close>

locale region_renderer =
  fixes rr :: "nat \<Rightarrow> bool \<Rightarrow> 'a region_chart_scheme \<Rightarrow> rendered \<times> 'a region_chart_scheme"
    and plan :: "nat \<Rightarrow> bool \<Rightarrow> 'a region_chart_scheme \<Rightarrow> plan"
  assumes rr_plan: "rr i h ch = (let (r, c) = realise (plan i h ch) (target ch) in (r, ch\<lparr>target := c\<rparr>))"
    and plan_ok: "\<forall>sh \<in> set (plan_shapes (plan i h ch)). shape_ok sh"
    and plan_frame: "pixelHeight c = pixelHeight (target ch) \<Longrightarrow>
      plan i h (ch\<lparr>target := c, regionShapes := rs, currentRegion := x\<rparr>) = plan i h ch"
    and plan_same_form: "plan_form (plan i h ch) = plan_form (plan i False ch)"
begin

lemma plan_frame_target: "pixelHeight c = pixelHeight (target ch) \<Longrightarrow> plan i h (ch\<lparr>target := c\<rparr>) = plan i h ch"
  using plan_frame [of c ch i h "currentRegion ch" "regionShapes ch"] by simp

lemma plan_frame_region: "plan i h (ch\<lparr>currentRegion := x\<rparr>) = plan i h ch"
  using plan_frame [of "target ch" ch i h x "regionShapes ch"] by simp

lemma inv_region [simp]: "region_inv plan pre post lit (ch\<lparr>currentRegion := x\<rparr>) = region_inv plan pre post lit ch"
  by (simp add: region_inv_def plan_frame_region)

lemma inv_cong:
  "region_inv plan pre post lit ch \<Longrightarrow> (\<And>i. i < length (vals ch) \<Longrightarrow> lit' i = lit i) \<Longrightarrow> region_inv plan pre post lit' ch"
  by (simp add: region_inv_def)

lemma inv_shows:
  "region_inv plan pre post lit ch \<Longrightarrow> i < length (vals ch) \<Longrightarrow> regionShapes ch i = Some ids \<Longrightarrow>
   shows_plan (target ch) ids (plan i (lit i \<and> ids \<noteq> IOne 0) ch)"
  unfolding region_inv_def by (metis option.inject)

lemma inv_form:
  "region_inv plan pre post lit ch \<Longrightarrow> i < length (vals ch) \<Longrightarrow> regionShapes ch i = Some ids \<Longrightarrow>
   ids_form ids = plan_form (plan i h ch)"
  by (metis inv_shows plan_same_form shows_plan_def)

lemma inv_bound: "region_inv plan pre post lit ch \<Longrightarrow> regionShapes ch i = Some ids \<Longrightarrow> i < length (vals ch)"
  by (metis not_le option.distinct(1) region_inv_def)

lemma replace_inv:
  assumes inv: "region_inv plan pre post lit ch" and r: "r < length (vals ch)" "regionShapes ch r = Some ids"
    and tr: "ids_truthy ids" and rr: "rr r h ch = (rd, ch1)"
  shows "\<exists>ids' c. replace_region ids rd (target ch1) = Inr (ids', c) \<and>
    region_inv plan pre post (lit(r := h)) (ch1\<lparr>target := c, regionShapes := (regionShapes ch1)(r \<mapsto> ids')\<rparr>)"
proof -
  let ?n = "length (vals ch)" and ?rs = "regionShapes ch"
  define xs where "xs = pre @ region_part ?rs (rev [Suc r..<?n])"
  define ys where "ys = region_part ?rs (rev [0..<r]) @ post"
  obtain c1 where re: "realise (plan r h ch) (target ch) = (rd, c1)" and ch1: "ch1 = ch\<lparr>target := c1\<rparr>"
    using rr by (auto simp: rr_plan split: prod.splits)
  note rp = realise_props [OF re]
  have wf: "canvas_wf (target ch)" using inv by (simp add: region_inv_def)
  have sq: "shapeseq (target ch) = xs @ ids_list ids @ ys"
    proof -
    have "region_part ?rs (rev [0..<?n]) = region_part ?rs (rev [Suc r..<?n]) @ ids_list ids @ region_part ?rs (rev [0..<r])"
      unfolding regions_split [OF r(1)] by (simp add: r(2))
    then show ?thesis using inv by (simp add: region_inv_def xs_def ys_def)
  qed
  have form: "ids_form ids = plan_form (plan r h ch)"
    by (rule inv_form [OF inv r])
  obtain ids' c where rep: "replace_region ids rd c1 = Inr (ids', c)" and repd: "region_replaced xs ys ids rd c1 (ids', c)"
    using replace_region_ok [of c1 xs ids ys rd] realise_fresh [OF re wf] plan_ok rp sq form tr by auto
  have wfc: "canvas_wf c" and sqc: "shapeseq c = xs @ ids_list ids' @ ys"
    using repd by (simp_all add: region_replaced_def)
  let ?ch = "ch1\<lparr>target := c, regionShapes := (regionShapes ch1)(r \<mapsto> ids')\<rparr>"
  have ph: "pixelHeight c = pixelHeight (target ch)" using repd rp by (simp add: region_replaced_def)
  have pl: "plan i b ?ch = plan i b ch" for i b
    using plan_frame [OF ph, of i b "currentRegion ch" "(regionShapes ch)(r \<mapsto> ids')"] by (simp add: ch1)
  have part: "region_part (?rs(r \<mapsto> ids')) (rev [0..<?n]) =
    region_part ?rs (rev [Suc r..<?n]) @ ids_list ids' @ region_part ?rs (rev [0..<r])"
    unfolding regions_split [OF r(1)] by (simp add: region_part_upd)
  have new: "shows_plan c ids' (plan r h ch)"
    using repd rp by (intro shows_plan_rendered [where r = rd]) (auto simp: region_replaced_def)
  have new0: "ids' \<noteq> IOne 0"
  proof
    assume z: "ids' = IOne 0"
    then have "0 \<in> set (map sid (rendered_shapes rd))" using repd by (auto simp: region_replaced_def)
    then have "shapeCount (target ch) = 0" using rp by simp
    moreover have "ids_form ids = Some None"
      using z repd form rp by (auto simp: region_replaced_def)
    then obtain i where "ids = IOne i" by (cases ids) auto
    ultimately show False using wf sq by (auto simp: canvas_wf_def)
  qed
  have old: "shows_plan c is (plan i (lit i \<and> is \<noteq> IOne 0) ch)"
    if i: "i < ?n" "i \<noteq> r" "?rs i = Some is" for i "is"
  proof -
    have sub: "set (ids_list is) \<subseteq> set xs \<union> set ys"
      using region_part_mem [of i "rev [Suc r..<?n]" ?rs "is"] region_part_mem [of i "rev [0..<r]" ?rs "is"] i
      by (cases "i < r") (auto simp: xs_def ys_def)
    have "distinct (shapeseq (target ch))" "distinct (shapeseq c)" "shapeseq c = xs @ ids_list ids' @ ys"
      using hc.ids_distinct [OF wf] hc.ids_distinct [OF wfc] sqc by (simp_all only:)
    then have "j \<notin> set (ids_list ids) \<and> j \<notin> set (ids_list ids')" if "j \<in> set (ids_list is)" for j
      using sub sq that by auto
    then have "shapes c j = shapes (target ch) j" if "j \<in> set (ids_list is)" for j
      using that repd rp by (simp add: region_replaced_def)
    then show ?thesis
      using inv_shows [OF inv i(1,3)] shows_plan_cong by metis
  qed
  have "region_inv plan pre post (lit(r := h)) ?ch"
    unfolding region_inv_def
  proof (intro conjI allI impI)
    show "canvas_wf (target ?ch)" using repd by (simp add: region_replaced_def)
    show "shapeseq (target ?ch) = pre @ region_part (regionShapes ?ch) (rev [0..<length (vals ?ch)]) @ post"
      using repd part by (simp add: region_replaced_def xs_def ys_def ch1)
    show "regionShapes ?ch i = None" if "length (vals ?ch) \<le> i" for i
      using that inv r(1) by (simp add: ch1 region_inv_def)
    show "\<exists>is. regionShapes ?ch i = Some is \<and> shows_plan (target ?ch) is (plan i ((lit(r := h)) i \<and> is \<noteq> IOne 0) ?ch)"
      if "i < length (vals ?ch)" for i
      using that new new0 old [of i] inv unfolding pl by (cases "i = r") (auto simp: ch1 region_inv_def)
  qed
  then show ?thesis using rep ch1 by auto
qed

text \<open>\<open>changeHighlight\<close> never fails, and lights or unlights the current region only.\<close>

lemma changeHighlight_inv:
  assumes "region_inv plan pre post lit ch"
  shows "\<exists>ch'. mixin_changeHighlight rr h ch = Inr ch' \<and>
    region_inv plan pre post (\<lambda>i. if idx_of (currentRegion ch) = Some i then h else lit i) ch' \<and>
    currentRegion ch' = currentRegion ch \<and> opt ch' = opt ch"
proof (cases "idx_of (currentRegion ch)")
  case None
  then show ?thesis using assms by (auto simp: mixin_changeHighlight_def)
next
  case (Some r)
  let ?lit = "\<lambda>i. if idx_of (currentRegion ch) = Some i then h else lit i"
  have lit: "?lit = lit(r := h)" using Some by auto
  show ?thesis
  proof (cases "regionShapes ch r")
    case None
    then have "\<not> r < length (vals ch)" using assms by (force simp: region_inv_def)
    then have "region_inv plan pre post ?lit ch"
      using assms Some by (auto intro: inv_cong)
    then show ?thesis using Some None by (simp add: mixin_changeHighlight_def)
  next
    case (Some ids)
    then have r: "r < length (vals ch)" using inv_bound [OF assms] by blast
    show ?thesis
    proof (cases "ids_truthy ids")
      case True
      obtain rd ch1 where rr: "rr r h ch = (rd, ch1)" by (cases "rr r h ch")
      obtain c1 where ch1: "ch1 = ch\<lparr>target := c1\<rparr>" using rr by (auto simp: rr_plan split: prod.splits)
      show ?thesis
        using replace_inv [OF assms r Some True rr] \<open>idx_of (currentRegion ch) = Some r\<close> Some True rr lit ch1
        by (auto simp: mixin_changeHighlight_def)
    next
      case False
      have "shows_plan (target ch) ids (plan r (h \<and> ids \<noteq> IOne 0) ch)"
      proof (cases "ids = IOne 0")
        case True
        then show ?thesis using inv_shows [OF assms r Some] by simp
      next
        case ids: False
        then have "ids = INull" using False by (cases ids) auto
        moreover from this have "plan_form (plan r h ch) = None"
          using inv_form [OF assms r Some] by simp
        ultimately show ?thesis by (simp add: shows_plan_empty)
      qed
      then have "region_inv plan pre post (lit(r := h)) ch"
        using assms r Some by (auto simp: region_inv_def)
      then show ?thesis
        using False Some \<open>idx_of (currentRegion ch) = Some r\<close> lit by (simp add: mixin_changeHighlight_def)
    qed
  qed
qed

text \<open>\<open>render\<close> establishes the invariant: all regions are queued after what was there, none is lit.\<close>

lemma render_regions_inv:
  assumes "canvas_wf (target ch)" "k \<le> length (vals ch)"
    and "shapeseq (target ch) = pre @ region_part (regionShapes ch) (rev [k..<length (vals ch)])"
    and "\<And>j. j < k \<or> length (vals ch) \<le> j \<Longrightarrow> regionShapes ch j = None"
    and "\<And>j. k \<le> j \<Longrightarrow> j < length (vals ch) \<Longrightarrow> \<exists>ids. regionShapes ch j = Some ids \<and> shows_plan (target ch) ids (plan j False ch)"
  shows "region_inv plan pre [] (\<lambda>i. False) (render_regions rr k ch) \<and> opt (render_regions rr k ch) = opt ch \<and>
    currentRegion (render_regions rr k ch) = currentRegion ch \<and> interact (target (render_regions rr k ch)) = interact (target ch)"
  using assms
proof (induction k arbitrary: ch)
  case 0
  then show ?case by (simp add: region_inv_def)
next
  case (Suc k)
  obtain rd c1 ids c2 where re: "realise (plan k False ch) (target ch) = (rd, c1)" and ap: "append_region rd c1 = (ids, c2)"
    by (metis surj_pair)
  note sp = shows_plan_appended [OF re ap Suc.prems(1) plan_ok]
  let ?ch = "ch\<lparr>target := c2, regionShapes := (regionShapes ch)(k \<mapsto> ids)\<rparr>"
  have step: "render_regions rr (Suc k) ch = render_regions rr k ?ch" using re ap by (simp add: rr_plan)
  have pl: "plan j h ?ch = plan j h ch" for j h
    using plan_frame [of c2 ch j h "currentRegion ch" "(regionShapes ch)(k \<mapsto> ids)"] sp by simp
  have kn: "k < length (vals ch)" using Suc.prems(2) by simp
  have "shows_plan c2 is (plan j False ch)" if "Suc k \<le> j" "j < length (vals ch)" "regionShapes ch j = Some is" for j "is"
  proof -
    have "set (ids_list is) \<subseteq> set (shapeseq (target ch))"
      using region_part_mem [of j "rev [Suc k..<length (vals ch)]" "regionShapes ch" "is"] that Suc.prems(3) by auto
    then have "shapes c2 i = shapes (target ch) i" if "i \<in> set (ids_list is)" for i using sp that by blast
    moreover have "shows_plan (target ch) is (plan j False ch)" using Suc.prems(5) [OF that(1,2)] that(3) by auto
    ultimately show ?thesis using shows_plan_cong by metis
  qed
  then have shown: "\<exists>is. regionShapes ?ch j = Some is \<and> shows_plan (target ?ch) is (plan j False ?ch)"
    if "k \<le> j" "j < length (vals ?ch)" for j
    using that sp Suc.prems(5) [of j] unfolding pl by (cases "j = k") auto
  have "rev [k..<length (vals ch)] = rev [Suc k..<length (vals ch)] @ [k]" using kn by (simp add: upt_conv_Cons)
  then have sq: "shapeseq (target ?ch) = pre @ region_part (regionShapes ?ch) (rev [k..<length (vals ?ch)])"
    using sp Suc.prems(3) by (simp add: region_part_upd)
  have "canvas_wf (target ?ch)" "k \<le> length (vals ?ch)" "interact (target ?ch) = interact (target ch)"
    using sp kn by simp_all
  moreover have "regionShapes ?ch j = None" if "j < k \<or> length (vals ?ch) \<le> j" for j
    using that kn Suc.prems(4) [of j] by auto
  ultimately show ?case
    unfolding step using Suc.IH [OF _ _ sq _ shown] by simp
qed

lemma render_inv:
  assumes "canvas_wf (target ch)" "regionShapes ch = Map.empty" "\<not> disabled ch" "currentRegion ch = Undef" "interact (target ch)"
  shows "\<exists>ch'. mixin_render ev rr ch = Inr ch' \<and> region_inv plan (shapeseq (target ch)) [] (lit_region ch') ch' \<and>
    currentRegion ch' = Undef"
proof -
  let ?ch = "render_regions rr (length (vals ch)) ch"
  have r: "region_inv plan (shapeseq (target ch)) [] (\<lambda>i. False) ?ch" "interact (target ?ch)" "currentRegion ?ch = Undef"
    using render_regions_inv [of ch "length (vals ch)" "shapeseq (target ch)"] assms by auto
  then obtain c where c: "canvas_render (inPath ev) (target ?ch) = Inr c" "canvas_wf c" "pixelHeight c = pixelHeight (target ?ch)"
    "shapeseq c = shapeseq (target ?ch)" "shapes c = shapes (target ?ch)"
    using canvas_render_ok [of "target ?ch" "inPath ev"] by (auto simp: region_inv_def)
  have "region_inv plan (shapeseq (target ch)) [] (\<lambda>i. False) (?ch\<lparr>target := c\<rparr>)"
    using r(1) c by (simp add: region_inv_def plan_frame_target shows_plan_def)
  then show ?thesis
    using assms c r(3) by (auto simp: mixin_render_def lit_region_def idx_of_def elim!: inv_cong)
qed

text \<open>The same along any sequence of pointer events: exactly the current region is lit.\<close>

lemma event_inv:
  assumes "region_inv plan pre post (lit_region ch) ch"
  shows "\<exists>ch'. pointer_event (\<lambda>x y ch. Inr (getRegion x y ch, ch)) (mixin_changeHighlight rr True)
    (mixin_changeHighlight rr False) e ch = Inr ch' \<and> region_inv plan pre post (lit_region ch') ch'"
proof (cases e)
  case Leave
  obtain ch1 where ch1: "mixin_changeHighlight rr False ch = Inr ch1" "opt ch1 = opt ch"
    "region_inv plan pre post (\<lambda>i. if idx_of (currentRegion ch) = Some i then False else lit_region ch i) ch1"
    using changeHighlight_inv [OF assms, of False] by blast
  have "region_inv plan pre post (lit_region (ch1\<lparr>currentRegion := Undef\<rparr>)) ch1"
    using ch1(3) by (rule inv_cong) (auto simp: lit_region_def idx_of_def)
  then show ?thesis
    using Leave ch1(1) assms by (auto simp: pointer_event_def clearRegionHighlight_def)
next
  case (Move x y)
  let ?en = "\<not> truthy (opt ch ''disableHighlight'')" and ?new = "getRegion x y ch"
  have "\<exists>ch2. (if currentRegion ch \<noteq> Undef \<and> ?en then mixin_changeHighlight rr False ch else Inr ch) = Inr ch2 \<and>
     opt ch2 = opt ch \<and> region_inv plan pre post (\<lambda>i. False) ch2"
  proof (cases "currentRegion ch \<noteq> Undef \<and> ?en")
    case True
    then show ?thesis
      using changeHighlight_inv [OF assms, of False] by (auto simp: lit_region_def elim!: inv_cong split: if_splits)
  next
    case False
    then show ?thesis using assms by (auto simp: lit_region_def idx_of_def elim!: inv_cong)
  qed
  then obtain ch2 where ch2: "(if currentRegion ch \<noteq> Undef \<and> ?en then mixin_changeHighlight rr False ch else Inr ch) = Inr ch2"
    "opt ch2 = opt ch" "region_inv plan pre post (\<lambda>i. False) ch2" by blast
  have "\<exists>ch3. (if ?new \<noteq> Undef \<and> ?en then mixin_changeHighlight rr True (ch2\<lparr>currentRegion := ?new\<rparr>)
      else Inr (ch2\<lparr>currentRegion := ?new\<rparr>)) = Inr ch3 \<and> region_inv plan pre post (lit_region ch3) ch3"
  proof (cases "?new \<noteq> Undef \<and> ?en")
    case True
    then show ?thesis
      using changeHighlight_inv [of pre post "\<lambda>i. False" "ch2\<lparr>currentRegion := ?new\<rparr>" True] ch2
      by (auto simp: lit_region_def elim!: inv_cong split: if_splits)
  next
    case False
    then show ?thesis using ch2 by (auto simp: lit_region_def idx_of_def elim!: inv_cong)
  qed
  then show ?thesis
    using Move ch2(1) assms by (auto simp: pointer_event_def setRegionHighlight_def Let_def)
qed

lemma events_inv:
  "region_inv plan pre post (lit_region ch) ch \<Longrightarrow>
   \<exists>ch'. region_events rr getRegion es ch = Inr ch' \<and> region_inv plan pre post (lit_region ch') ch'"
  unfolding region_events_def
  by (rule pointer_events_inv [where P = "\<lambda>ch. region_inv plan pre post (lit_region ch) ch"]) (rule event_inv)

end

end
