(* ===== verification/SparkBar.thy ===== *)
theory SparkBar
  imports SparkRegion
begin

text \<open>
  The bar chart, \<open>$.fn.sparkline.bar\<close> (\<open>static/js/jquery.sparkline.js\<close>, lines 1664 to 1915), plain and
  stacked: its scaling in \<open>init\<close>, its regions, colours and rectangles, and that it keeps the contract
  of a region renderer.
\<close>

section \<open>Definitions\<close>

record bar_chart = region_chart +
  barWidth :: number
  barSpacing :: number
  totalBarWidth :: number
  colorMapByIndex :: jsval
  colorMapByValue :: jsval

record bar = bar_chart +
  stacked :: bool
  bmax :: number
  bmin :: number
  stackMax :: number
  stackMin :: number
  zeroAxis :: jsval
  xaxisOffset :: jsval
  canvasHeightEf :: number
  yoffset :: jsval
  brange :: number

subsection \<open>init\<close>

text \<open>The scan for stacked values: strings with a colon become arrays.\<close>

definition stack_value :: "jsval \<Rightarrow> jsval" where
  "stack_value v =
     (case v of Str s \<Rightarrow> if CHR '':'' \<in> set s then Arr (normalizeValues (map Str (split_on (CHR '':'') s))) else v | _ \<Rightarrow> v)"

fun scan_stacks :: "jsval list \<Rightarrow> bool \<Rightarrow> number \<Rightarrow> number \<Rightarrow> jsval list \<times> bool \<times> number \<times> number" where
  "scan_stacks [] st mn mx = ([], st, mn, mx)"
| "scan_stacks (v # vs) st mn mx =
     (case stack_value v of
        Arr xs \<Rightarrow>
          (let ns = map to_number (remove xs Null); groupMin = Math_min ns; groupMax = Math_max ns;
               (vs', r) = scan_stacks vs True (if groupMin < mn then groupMin else mn) (if mx < groupMax then groupMax else mx)
           in (Arr xs # vs', r))
      | v' \<Rightarrow> (let (vs', r) = scan_stacks vs st mn mx in (v' # vs', r)))"

text \<open>\<open>chartRangeClip ? clipval(val, clipMin, clipMax) : val\<close>.\<close>

definition range_clip :: "(string \<Rightarrow> jsval) \<Rightarrow> jsval \<Rightarrow> jsval" where
  "range_clip o' v =
     (if truthy (o' ''chartRangeClip'') then
        clipval v (if o' ''chartRangeMin'' = Undef then Num NInf else o' ''chartRangeMin'')
                  (if o' ''chartRangeMax'' = Undef then Num PInf else o' ''chartRangeMax'')
      else v)"

text \<open>
  The inner loop over a stack: its values, its total, its positive and negative ranges, and the values
  that count for the limits of the chart.
\<close>

fun stack_loop ::
  "(jsval \<Rightarrow> jsval) \<Rightarrow> number \<Rightarrow> number \<Rightarrow> jsval list \<Rightarrow> jsval \<Rightarrow> jsval \<Rightarrow> jsval \<Rightarrow>
   jsval list \<times> jsval list \<times> jsval \<times> jsval \<times> jsval" where
  "stack_loop clip smin smax [] tot rng neg = ([], [], tot, rng, neg)"
| "stack_loop clip smin smax (v # vs) tot rng neg =
     (let val = clip v;
          pos = jlt (num 0) val; isneg = jlt val (num 0); both = smin < Fin 0 \<and> Fin 0 < smax;
          (svals, nums, r) =
            (if val = Null then stack_loop clip smin smax vs tot rng neg
             else stack_loop clip smin smax vs
               (if pos then jadd tot val else tot)
               (if both then (if isneg then rng else jadd rng val)
                else jadd rng (Num (Math_abs (to_number val - (if isneg then smax else smin)))))
               (if both \<and> isneg then jadd neg (Num (Math_abs (to_number val))) else neg))
      in (val # svals, (if val = Null then nums else val # nums), r))"

text \<open>The outer loop: values, numbers, totals, ranges and negative ranges. A \<open>null\<close> among stacks has no length.\<close>

fun stacked_values ::
  "(jsval \<Rightarrow> jsval) \<Rightarrow> number \<Rightarrow> number \<Rightarrow> jsval list \<Rightarrow> (jsval list \<times> jsval list \<times> jsval list \<times> jsval list \<times> jsval list) result" where
  "stacked_values clip smin smax [] = Inr ([], [], [], [], [])"
| "stacked_values clip smin smax (v # vs) =
     (if is_nullish v then Inl (TypeError ''vlist is null'')
      else rbind (stacked_values clip smin smax vs) (\<lambda>(vals', nums', tots, rngs, negs).
        let (svals, nums, tot, rng, neg) = stack_loop clip smin smax (as_list v) (num 0) (num 0) (num 0)
        in Inr (Arr svals # vals', nums @ nums', tot # tots, rng # rngs, neg # negs)))"

text \<open>The values of a chart without stacks.\<close>

definition plain_values :: "(jsval \<Rightarrow> jsval) \<Rightarrow> jsval list \<Rightarrow> jsval list \<times> jsval list" where
  "plain_values clip vs = (let vs' = map (\<lambda>v. normalizeValue (clip v)) vs in (vs', filter (\<lambda>v. v \<noteq> Null) vs'))"

definition axis_offset :: "jsval \<Rightarrow> jsval \<Rightarrow> jsval \<Rightarrow> jsval" where
  "axis_offset mn mx za =
     (if jle mn (num 0) \<and> jle (num 0) mx \<and> truthy za then num 0
      else if loose_eq za (Bool False) then mn
      else if jlt (num 0) mn then mn
      else mx)"

definition bars_width :: "nat \<Rightarrow> number \<Rightarrow> number \<Rightarrow> number" where
  "bars_width n bw bs = Fin (of_nat n) * bw + (Fin (of_nat n) - Fin 1) * bs"

text \<open>The part of \<open>init\<close> after the values are prepared: limits, axis and effective height.\<close>

definition bar_scale :: "jsval list \<Rightarrow> jsval list \<Rightarrow> jsval list \<Rightarrow> jsval list \<Rightarrow> bar \<Rightarrow> bar" where
  "bar_scale nums tots rngs negs ch =
     (let o' = opt ch; cH = to_number (canvasHeight ch);
          mx0 = Math_max (map to_number nums); mn0 = Math_min (map to_number nums);
          sMax = (if stacked ch then Math_max (map to_number tots) else mx0);
          mn = range_min o' (Num mn0); mx = range_max o' (Num mx0);
          za = opt_default o' ''zeroAxis'' (Bool True);
          xo = axis_offset mn mx za;
          rng = (if stacked ch then Math_max (map to_number rngs) + Math_max (map to_number negs)
                 else to_number mx - to_number mn);
          ef = (if truthy za \<and> jlt mn (num 0) then cH - Fin 2 else cH - Fin 1);
          yo = (to_number (if stacked ch \<and> jle (num 0) mx then Num sMax else mx) - to_number xo) / rng * cH;
          whole = num_eq yo (Math_ceil yo)
      in ch\<lparr>bmax := mx0, bmin := mn0, stackMax := sMax, stackMin := mn0, zeroAxis := za, xaxisOffset := xo, brange := rng,
            canvasHeightEf := (if jlt mn xo \<and> \<not> whole then ef - Fin 2 else ef),
            yoffset := (if jlt mn xo then (if whole then Num yo else Num (Math_ceil yo)) else canvasHeight ch)\<rparr>)"

text \<open>The object before the canvas is attached.\<close>

definition bar_blank ::
  "jsval list \<Rightarrow> (string \<Rightarrow> jsval) \<Rightarrow> jsval \<Rightarrow> nat \<Rightarrow> number \<Rightarrow> number \<Rightarrow> jsval \<Rightarrow> jsval \<Rightarrow> bool \<Rightarrow> bar" where
  "bar_blank values o' h n bw bs byIndex byValue st =
     \<lparr>vals = values, opt = o', width = Num (bars_width (length values) bw bs), height = h, disabled = False,
      target = no_canvas n, canvasWidth = Undef, canvasHeight = Undef, currentRegion = Undef,
      regionShapes = Map.empty, barWidth = bw, barSpacing = bs, totalBarWidth = bw + bs,
      colorMapByIndex = byIndex, colorMapByValue = byValue, stacked = st, bmax = NaN, bmin = NaN,
      stackMax = NaN, stackMin = NaN, zeroAxis = Undef, xaxisOffset = Undef, canvasHeightEf = NaN,
      yoffset = Undef, brange = NaN\<rparr>"

definition bar_init ::
  "env \<Rightarrow> vcanvas option \<Rightarrow> jsval list \<Rightarrow> (string \<Rightarrow> jsval) \<Rightarrow> jsval \<Rightarrow> jsval \<Rightarrow> nat \<Rightarrow> bar result" where
  "bar_init ev existing values o' w h n =
     (let bw = parseInt10 (o' ''barWidth''); bs = parseInt10 (o' ''barSpacing'');
          (values1, st, smin, smax) = scan_stacks values False PInf NInf;
          (byIndex, byValue) = colorMaps (o' ''colorMap'');
          ch0 = initTarget ev existing (bar_blank values1 o' h n bw bs byIndex byValue st)
      in if st then
           rbind (stacked_values (range_clip o') smin smax values1) (\<lambda>(vs, nums, tots, rngs, negs).
             Inr (bar_scale nums tots rngs negs (ch0\<lparr>vals := vs\<rparr>)))
         else (let (vs, nums) = plain_values (range_clip o') values1
               in Inr (bar_scale nums [] [] [] (ch0\<lparr>vals := vs\<rparr>))))"

subsection \<open>Regions and colours\<close>

definition bar_getRegion :: "jsval \<Rightarrow> jsval \<Rightarrow> bar \<Rightarrow> jsval" where
  "bar_getRegion x y ch =
     (let r = Math_floor (to_number x / totalBarWidth ch)
      in if r < Fin 0 \<or> Fin (of_nat (length (vals ch))) \<le> r then Undef else Num r)"

definition bar_calcColor :: "bar \<Rightarrow> nat \<Rightarrow> jsval \<Rightarrow> jsval \<Rightarrow> jsval" where
  "bar_calcColor ch stacknum value valuenum =
     (let o' = opt ch;
          color0 = (if stacked ch then o' ''stackedBarColor'' else if jlt value (num 0) then o' ''negBarColor'' else o' ''barColor'');
          color1 = (if seq value (num 0) \<and> o' ''zeroColor'' \<noteq> Undef then o' ''zeroColor'' else color0);
          newColor = colorMap_get (colorMapByValue ch) value;
          color = (if truthy (colorMapByValue ch) \<and> truthy newColor then newColor
                   else case colorMapByIndex ch of
                     Arr cs \<Rightarrow> if jlt valuenum (num (of_nat (length cs))) then jindex cs valuenum else color1
                   | _ \<Rightarrow> color1)
      in case color of Arr cs \<Rightarrow> jnth cs (stacknum mod length cs) | _ \<Rightarrow> color)"

text \<open>The loop of \<open>getCurrentRegionFields\<close>, from the last value to the first.\<close>

fun bar_fields :: "bar \<Rightarrow> jsval \<Rightarrow> jsval list \<Rightarrow> nat \<Rightarrow> jsval list" where
  "bar_fields ch region vs 0 = []"
| "bar_fields ch region vs (Suc i) =
     Obj [(''isNull'', Bool (vs ! i = Null)), (''value'', vs ! i),
          (''color'', bar_calcColor ch i (vs ! i) region), (''offset'', region)] # bar_fields ch region vs i"

definition bar_getCurrentRegionFields :: "bar \<Rightarrow> jsval" where
  "bar_getCurrentRegionFields ch =
     (let vs = ensureArray (jindex (vals ch) (currentRegion ch)) in Arr (bar_fields ch (currentRegion ch) vs (length vs)))"

subsection \<open>renderRegion\<close>

definition bar_height :: "bar \<Rightarrow> jsval \<Rightarrow> number" where
  "bar_height ch val =
     (if Fin 0 < brange ch
      then Math_floor (canvasHeightEf ch * (Math_abs (to_number val - to_number (xaxisOffset ch)) / brange ch)) + Fin 1
      else Fin 1)"

text \<open>A value below the axis, or on it at the top of the canvas, is drawn downwards from \<open>yoffsetNeg\<close>.\<close>

definition bar_below :: "bar \<Rightarrow> jsval \<Rightarrow> jsval \<Rightarrow> bool" where
  "bar_below ch val yo \<longleftrightarrow> jlt val (xaxisOffset ch) \<or> (seq val (xaxisOffset ch) \<and> seq yo (num 0))"

definition bar_y :: "bar \<Rightarrow> jsval \<Rightarrow> jsval \<Rightarrow> jsval \<Rightarrow> jsval" where
  "bar_y ch val yo yoneg = (if bar_below ch val yo then yoneg else Num (to_number yo - bar_height ch val))"

definition next_yoffset :: "bar \<Rightarrow> jsval \<Rightarrow> jsval \<Rightarrow> jsval" where
  "next_yoffset ch val yo = (if bar_below ch val yo then yo else Num (to_number yo - bar_height ch val))"

definition next_yoffsetNeg :: "bar \<Rightarrow> jsval \<Rightarrow> jsval \<Rightarrow> jsval \<Rightarrow> jsval" where
  "next_yoffsetNeg ch val yo yoneg = (if bar_below ch val yo then jadd yoneg (Num (bar_height ch val)) else yoneg)"

definition bar_color :: "bar \<Rightarrow> nat \<Rightarrow> bool \<Rightarrow> nat \<Rightarrow> jsval \<Rightarrow> jsval" where
  "bar_color ch valuenum highlight i val =
     (let color = bar_calcColor ch i val (num (of_nat valuenum))
      in if highlight then calcHighlightColor color (opt ch) else color)"

text \<open>\<open>continue\<close>: a stacked value on the axis is skipped, unless all are and none has been drawn.\<close>

definition bar_skip :: "bar \<Rightarrow> bool \<Rightarrow> bool \<Rightarrow> jsval \<Rightarrow> bool" where
  "bar_skip ch allMin minPlotted val \<longleftrightarrow> stacked ch \<and> seq val (xaxisOffset ch) \<and> (\<not> allMin \<or> minPlotted)"

text \<open>The loop over the values of a region, with both offsets and the flag \<open>minPlotted\<close>.\<close>

fun bar_loop ::
  "bar \<Rightarrow> nat \<Rightarrow> bool \<Rightarrow> bool \<Rightarrow> nat \<Rightarrow> jsval list \<Rightarrow> jsval \<Rightarrow> jsval \<Rightarrow> bool \<Rightarrow> vcanvas \<Rightarrow> vshape list \<times> vcanvas" where
  "bar_loop ch valuenum highlight allMin i [] yo yoneg minPlotted c = ([], c)"
| "bar_loop ch valuenum highlight allMin i (val # vs) yo yoneg minPlotted c =
     (if bar_skip ch allMin minPlotted val
      then bar_loop ch valuenum highlight allMin (Suc i) vs yo yoneg minPlotted c
      else
        (let color = bar_color ch valuenum highlight i val;
             (s, c1) = drawRect (Num (Fin (of_nat valuenum) * totalBarWidth ch)) (bar_y ch val yo yoneg)
                         (Num (barWidth ch - Fin 1)) (Num (bar_height ch val - Fin 1)) color color c;
             (ss, c2) = bar_loop ch valuenum highlight allMin (Suc i) vs (next_yoffset ch val yo)
                          (next_yoffsetNeg ch val yo yoneg) (minPlotted \<or> (stacked ch \<and> seq val (xaxisOffset ch))) c1
         in (s # ss, c2)))"

definition bar_renderRegion :: "nat \<Rightarrow> bool \<Rightarrow> bar \<Rightarrow> rendered \<times> bar" where
  "bar_renderRegion valuenum highlight ch =
     (let vs = ensureArray (jnth (vals ch) valuenum);
          x = Num (Fin (of_nat valuenum) * totalBarWidth ch);
          nullColor = opt ch ''nullColor''
      in if all_eq Null vs False then
           (if truthy nullColor then
              (let color = (if highlight then nullColor else calcHighlightColor nullColor (opt ch));
                   y = (if jlt (num 0) (yoffset ch) then Num (to_number (yoffset ch) - Fin 1) else yoffset ch);
                   (s, c) = drawRect x y (Num (barWidth ch - Fin 1)) (num 0) color color (target ch)
               in (ROne s, ch\<lparr>target := c\<rparr>))
            else (RNone, ch))
         else
           (let (ss, c) = bar_loop ch valuenum highlight (all_eq (xaxisOffset ch) vs True) 0 vs (yoffset ch) (yoffset ch) False (target ch)
            in (case ss of [s] \<Rightarrow> ROne s | _ \<Rightarrow> RMany ss, ch\<lparr>target := c\<rparr>)))"

section \<open>The bar chart as a region renderer\<close>

lemmas draw_gen = drawRect_def drawShape_def drawLine_def drawCircle_def drawPieSlice_def

text \<open>The rectangles that the loop asks for, as a list that does not involve the canvas.\<close>

fun bar_rects :: "bar \<Rightarrow> nat \<Rightarrow> bool \<Rightarrow> bool \<Rightarrow> nat \<Rightarrow> jsval list \<Rightarrow> jsval \<Rightarrow> jsval \<Rightarrow> bool \<Rightarrow> shape list" where
  "bar_rects ch n h am i [] yo yn mp = []"
| "bar_rects ch n h am i (v # vs) yo yn mp =
     (if bar_skip ch am mp v then bar_rects ch n h am (Suc i) vs yo yn mp
      else Rect (Num (Fin (of_nat n) * totalBarWidth ch)) (bar_y ch v yo yn) (Num (barWidth ch - Fin 1))
             (Num (bar_height ch v - Fin 1)) (bar_color ch n h i v) (bar_color ch n h i v) #
           bar_rects ch n h am (Suc i) vs (next_yoffset ch v yo) (next_yoffsetNeg ch v yo yn)
             (mp \<or> (stacked ch \<and> seq v (xaxisOffset ch))))"

lemma bar_loop_rects: "bar_loop ch n h am i vs yo yn mp c = gen_all (bar_rects ch n h am i vs yo yn mp) c"
  by (induction vs arbitrary: i yo yn mp c) (simp_all add: draw_gen Let_def)

lemma bar_rects_ok: "sh \<in> set (bar_rects ch n h am i vs yo yn mp) \<Longrightarrow> shape_ok sh"
  by (induction vs arbitrary: i yo yn mp) (auto split: if_splits)

lemma bar_frame:
  fixes ch :: bar and t rs x
  defines "ch' \<equiv> ch\<lparr>target := t, regionShapes := rs, currentRegion := x\<rparr>"
  shows "bar_height ch' v = bar_height ch v" "bar_below ch' v yo = bar_below ch v yo" "bar_skip ch' am mp v = bar_skip ch am mp v"
    "bar_y ch' v yo yn = bar_y ch v yo yn" "next_yoffset ch' v yo = next_yoffset ch v yo"
    "next_yoffsetNeg ch' v yo yn = next_yoffsetNeg ch v yo yn" "bar_color ch' n h i v = bar_color ch n h i v"
proof -
  show ht: "bar_height ch' v = bar_height ch v" by (simp add: ch'_def bar_height_def)
  show be: "bar_below ch' v yo = bar_below ch v yo" by (simp add: ch'_def bar_below_def)
  show "bar_skip ch' am mp v = bar_skip ch am mp v" by (simp add: ch'_def bar_skip_def)
  show "bar_y ch' v yo yn = bar_y ch v yo yn" by (simp add: bar_y_def ht be)
  show "next_yoffset ch' v yo = next_yoffset ch v yo" by (simp add: next_yoffset_def ht be)
  show "next_yoffsetNeg ch' v yo yn = next_yoffsetNeg ch v yo yn" by (simp add: next_yoffsetNeg_def ht be)
  have "opt ch' = opt ch" "stacked ch' = stacked ch" "colorMapByValue ch' = colorMapByValue ch" "colorMapByIndex ch' = colorMapByIndex ch"
    by (simp_all add: ch'_def)
  then show "bar_color ch' n h i v = bar_color ch n h i v"
    unfolding bar_color_def bar_calcColor_def by (simp only:)
qed

lemma bar_rects_frame:
  "bar_rects (ch\<lparr>target := t, regionShapes := rs, currentRegion := x\<rparr>) n h am i vs yo yn mp = bar_rects ch n h am i vs yo yn mp"
  by (induction vs arbitrary: i yo yn mp) (simp_all add: bar_frame)

lemma bar_rects_length: "length (bar_rects ch n h am i vs yo yn mp) = length (bar_rects ch n False am i vs yo yn mp)"
  by (induction vs arbitrary: i yo yn mp) simp_all

text \<open>What a region of the chart draws.\<close>

definition list_plan :: "shape list \<Rightarrow> plan" where
  "list_plan shs = (case shs of [sh] \<Rightarrow> POne sh | _ \<Rightarrow> PMany shs)"

definition bar_plan :: "nat \<Rightarrow> bool \<Rightarrow> bar \<Rightarrow> plan" where
  "bar_plan i h ch =
     (let vs = ensureArray (jnth (vals ch) i); nullColor = opt ch ''nullColor''
      in if all_eq Null vs False then
           (if truthy nullColor then
              (let color = (if h then nullColor else calcHighlightColor nullColor (opt ch))
               in POne (Rect (Num (Fin (of_nat i) * totalBarWidth ch))
                    (if jlt (num 0) (yoffset ch) then Num (to_number (yoffset ch) - Fin 1) else yoffset ch)
                    (Num (barWidth ch - Fin 1)) (num 0) color color))
            else PNone)
         else list_plan (bar_rects ch i h (all_eq (xaxisOffset ch) vs True) 0 vs (yoffset ch) (yoffset ch) False))"

lemma list_plan_cases: "(\<exists>sh. shs = [sh] \<and> list_plan shs = POne sh) \<or> (length shs \<noteq> 1 \<and> list_plan shs = PMany shs)"
  by (auto simp: list_plan_def split: list.splits)

lemma list_plan_shapes [simp]: "plan_shapes (list_plan shs) = shs"
  using list_plan_cases [of shs] by auto

lemma list_plan_form: "length shs = length shs' \<Longrightarrow> plan_form (list_plan shs) = plan_form (list_plan shs')"
  using list_plan_cases [of shs] list_plan_cases [of shs'] by auto

lemma list_plan_realise:
  "realise (list_plan shs) c = (let (ss, c') = gen_all shs c in (case ss of [s] \<Rightarrow> ROne s | _ \<Rightarrow> RMany ss, c'))"
  by (auto simp: list_plan_def Let_def genShape_def split: list.splits prod.splits)

interpretation bar_rr: region_renderer bar_renderRegion bar_plan
proof (unfold_locales, goal_cases)
  case (1 i h ch)
  show ?case
    by (auto simp: bar_plan_def bar_renderRegion_def Let_def draw_gen list_plan_realise bar_loop_rects split: prod.splits)
next
  case (2 i h ch)
  show ?case by (auto simp: bar_plan_def Let_def bar_rects_ok)
next
  case (3 c ch i h x rs)
  show ?case by (simp add: bar_plan_def Let_def bar_rects_frame)
next
  case (4 i h ch)
  show ?case by (auto simp: bar_plan_def Let_def intro: list_plan_form bar_rects_length)
qed


section \<open>The geometry of a plain bar chart\<close>

definition plain_opts :: "(string \<Rightarrow> jsval) \<Rightarrow> bool" where
  "plain_opts o' \<longleftrightarrow> o' ''chartRangeMin'' = Undef \<and> o' ''chartRangeMax'' = Undef \<and> o' ''zeroAxis'' = Undef"

definition plain_axis :: "real \<Rightarrow> real \<Rightarrow> real" where
  "plain_axis mn mx = (if 0 \<le> mn then mn else if mx < 0 then mx else 0)"

lemma bar_scale_plain:
  fixes xs :: "real list" and H :: nat and ch :: bar
  assumes "xs \<noteq> []" "\<not> stacked ch" "plain_opts (opt ch)" "to_number (canvasHeight ch) = Fin (of_nat H)"
  defines "mx \<equiv> Max (set xs)" and "mn \<equiv> Min (set xs)"
  defines "ch' \<equiv> bar_scale (map num xs) [] [] [] ch"
  defines "xo \<equiv> plain_axis mn mx" and "yo \<equiv> (mx - plain_axis mn mx) / (mx - mn) * of_nat H"
  shows "xaxisOffset ch' = num xo" "brange ch' = Fin (mx - mn)"
    "xo \<le> mn \<Longrightarrow> yoffset ch' = canvasHeight ch"
    "xo \<le> mn \<Longrightarrow> 0 \<le> mn \<Longrightarrow> canvasHeightEf ch' = Fin (of_nat H - 1)"
    "mn < xo \<Longrightarrow> mn < mx \<Longrightarrow> yoffset ch' = num (of_int \<lceil>yo\<rceil>)"
    "mn < xo \<Longrightarrow> mn < mx \<Longrightarrow> canvasHeightEf ch' = Fin (of_nat H - (if yo = of_int \<lceil>yo\<rceil> then 2 else 4))"
proof -
  have le: "mn \<le> mx" using assms(1) by (simp add: mn_def mx_def)
  have "axis_offset (num mn) (num mx) (Bool True) = num xo"
    using le by (auto simp: axis_offset_def xo_def plain_axis_def loose_eq_def is_nullish_def)
  then have xo: "xaxisOffset ch' = num xo" and rg: "brange ch' = Fin (mx - mn)"
    and ye: "yoffset ch' = (if mn < xo then (if num_eq (Fin (mx - xo) / Fin (mx - mn) * Fin (of_nat H)) (Math_ceil (Fin (mx - xo) / Fin (mx - mn) * Fin (of_nat H))) then Num (Fin (mx - xo) / Fin (mx - mn) * Fin (of_nat H)) else Num (Math_ceil (Fin (mx - xo) / Fin (mx - mn) * Fin (of_nat H)))) else canvasHeight ch)"
    and he: "canvasHeightEf ch' = (if mn < xo \<and> \<not> num_eq (Fin (mx - xo) / Fin (mx - mn) * Fin (of_nat H)) (Math_ceil (Fin (mx - xo) / Fin (mx - mn) * Fin (of_nat H))) then (if mn < 0 then Fin (of_nat H - 2) else Fin (of_nat H - 1)) - Fin 2 else (if mn < 0 then Fin (of_nat H - 2) else Fin (of_nat H - 1)))"
    using assms(1-4) by (simp_all add: bar_scale_def Let_def plain_opts_def range_min_def range_max_def opt_default_def comp_def
       Math_max_Fin Math_min_Fin ch'_def flip: mx_def mn_def)
  show "xaxisOffset ch' = num xo" "brange ch' = Fin (mx - mn)" by fact+
  show "xo \<le> mn \<Longrightarrow> yoffset ch' = canvasHeight ch" using ye by simp
  show "xo \<le> mn \<Longrightarrow> 0 \<le> mn \<Longrightarrow> canvasHeightEf ch' = Fin (of_nat H - 1)" using he by simp
  have d: "Fin (mx - xo) / Fin (mx - mn) * Fin (of_nat H) = Fin yo" if "mn < mx"
    using that by (simp add: yo_def xo_def)
  show "mn < xo \<Longrightarrow> mn < mx \<Longrightarrow> yoffset ch' = num (of_int \<lceil>yo\<rceil>)" using ye d by (auto simp: num_eq_iff)
  have "mn < xo \<Longrightarrow> mn < 0" using le by (auto simp: xo_def plain_axis_def split: if_splits)
  then show "mn < xo \<Longrightarrow> mn < mx \<Longrightarrow> canvasHeightEf ch' = Fin (of_nat H - (if yo = of_int \<lceil>yo\<rceil> then 2 else 4))"
    using he d by (auto simp: num_eq_iff)
qed

text \<open>The arithmetic of a bar above and below the axis.\<close>

lemma floor_frac_le:
  fixes e t :: real and k :: nat
  assumes "0 \<le> e" "e \<le> of_nat k" "0 \<le> t" "t \<le> 1"
  shows "0 \<le> \<lfloor>e * t\<rfloor>" "\<lfloor>e * t\<rfloor> \<le> int k"
proof -
  have "e * t \<le> e" using assms by (simp add: mult_left_le)
  then show "\<lfloor>e * t\<rfloor> \<le> int k" using assms(2) by linarith
qed (use assms in simp)

lemma upper_bar:
  fixes m t :: real and H :: nat
  assumes "0 \<le> t" "t \<le> m" "m \<le> 1" "4 \<le> H"
  shows "\<lfloor>(of_nat H - (if of_nat H * m = of_int \<lceil>of_nat H * m\<rceil> then 2 else 4)) * t\<rfloor> + 1 \<le> \<lceil>of_nat H * m\<rceil> \<or> m = 0"
proof (cases "of_nat H * m = of_int \<lceil>of_nat H * m\<rceil>")
  case True
  have "(of_nat H - 2) * t \<le> (of_nat H - 2) * m" using assms by (intro mult_left_mono) auto
  then have "m = 0 \<or> (of_nat H - 2) * t < of_nat H * m" using assms by (auto simp: algebra_simps)
  then show ?thesis using True by (auto simp: floor_less_iff)  linarith
next
  case False
  have "(of_nat H - 4) * t \<le> (of_nat H - 4) * m" using assms by (intro mult_left_mono) auto
  also have "\<dots> \<le> of_nat H * m" using assms by (simp add: algebra_simps)
  finally show ?thesis using False by simp linarith
qed


lemma lower_bar:
  fixes m t e :: real and H :: nat
  assumes "0 \<le> t" "t \<le> 1 - m" "0 \<le> e" "e \<le> of_nat H"
  shows "\<lceil>of_nat H * m\<rceil> + \<lfloor>e * t\<rfloor> \<le> int H"
proof -
  have "e * t \<le> of_nat H * (1 - m)" using assms by (intro mult_mono) auto
  then have "e * t \<le> of_nat H - of_nat H * m" by (simp add: algebra_simps)
  then show ?thesis by linarith
qed

lemma bar_height_plain:
  assumes "xaxisOffset ch = num xo" "brange ch = Fin r" "canvasHeightEf ch = Fin e"
  shows "bar_height ch (num v) = Fin (if 0 < r then of_int \<lfloor>e * (\<bar>v - xo\<bar> / r)\<rfloor> + 1 else 1)"
  using assms by (simp add: bar_height_def Math_abs_def)

definition bar_within :: "bar \<Rightarrow> real \<Rightarrow> int \<Rightarrow> bool" where
  "bar_within ch v b \<longleftrightarrow> (\<exists>y h. to_number (bar_y ch (num v) (yoffset ch) (yoffset ch)) = Fin (of_int y) \<and>
     bar_height ch (num v) = Fin (of_int h) \<and> 0 \<le> y \<and> 1 \<le> h \<and> y + h \<le> b)"

lemma bar_within_up:
  fixes ch :: bar and H :: nat
  assumes "xaxisOffset ch = num xo" "brange ch = Fin r" "to_number (yoffset ch) = Fin (of_nat H)" "\<not> seq (yoffset ch) (num 0)"
    and v: "xo \<le> v" "v - xo \<le> r" and ef: "0 < r \<Longrightarrow> canvasHeightEf ch = Fin (of_nat H - 1)" and H: "4 \<le> H"
  shows "bar_within ch v (int H)"
proof -
  have y: "to_number (bar_y ch (num v) (yoffset ch) (yoffset ch)) = Fin (of_nat H) - bar_height ch (num v)"
    using assms by (simp add: bar_y_def bar_below_def)
  show ?thesis
  proof (cases "0 < r")
    case False
    then have "bar_height ch (num v) = Fin 1" using assms(2) by (simp add: bar_height_def)
    then show ?thesis using y H unfolding bar_within_def by (intro exI [of _ "int H - 1"] exI [of _ 1]) simp
  next
    case True
    let ?f = "\<lfloor>(real H - 1) * (\<bar>v - xo\<bar> / r)\<rfloor>"
    have "bar_height ch (num v) = Fin (of_int (?f + 1))"
      using bar_height_plain [OF assms(1,2) ef [OF True]] True by simp
    moreover have "0 \<le> ?f" "?f \<le> int (H - 1)"
      using floor_frac_le [of "real H - 1" "H - 1" "\<bar>v - xo\<bar> / r"] H True v by (simp_all add: divide_le_eq)
    ultimately show ?thesis
      using y H unfolding bar_within_def by (intro exI [of _ "int H - (?f + 1)"] exI [of _ "?f + 1"]) auto
  qed
qed

lemma bar_within_axis:
  fixes ch :: bar and H :: nat
  assumes xoff: "xaxisOffset ch = num xo" and rg: "brange ch = Fin (mx - mn)" and H: "4 \<le> H"
    and xo: "mn < xo" "xo \<le> mx" and v: "mn \<le> v" "v \<le> mx"
  defines "m \<equiv> (mx - xo) / (mx - mn)"
  defines "e \<equiv> real H - (if real H * m = of_int \<lceil>real H * m\<rceil> then 2 else 4)"
  assumes yo: "yoffset ch = num (of_int \<lceil>real H * m\<rceil>)" and ef: "canvasHeightEf ch = Fin e"
  shows "bar_within ch v (int H + (if xo < mx then 1 else 0))"
proof -
  define t where "t = \<bar>v - xo\<bar> / (mx - mn)"
  have e: "0 \<le> e" "e \<le> real (H - 2)" using H by (auto simp: e_def)
  have m: "0 \<le> m" "m \<le> 1" "1 - m = (xo - mn) / (mx - mn)" using xo by (auto simp: m_def field_simps)
  have t: "0 \<le> t" "t \<le> 1" using xo v by (auto simp: t_def divide_le_eq)
  have ht: "bar_height ch (num v) = Fin (of_int (\<lfloor>e * t\<rfloor> + 1))"
    using bar_height_plain [OF xoff rg ef] xo by (simp add: t_def)
  have h1: "0 \<le> \<lfloor>e * t\<rfloor>" "\<lfloor>e * t\<rfloor> \<le> int (H - 2)" using floor_frac_le [OF e t] by auto
  show ?thesis
  proof (cases "bar_below ch (num v) (yoffset ch)")
    case True
    then have "v \<le> xo" using xoff yo by (auto simp: bar_below_def num_eq_iff)
    then have "t \<le> 1 - m" using m(3) xo v by (simp add: t_def divide_right_mono)
    then have "\<lceil>real H * m\<rceil> + \<lfloor>e * t\<rfloor> \<le> int H" using lower_bar t e by auto
    moreover have "m = 0 \<or> xo < mx" using xo by (auto simp: m_def)
    moreover have "0 \<le> real H * m" using m(1) by simp
    then have "0 \<le> \<lceil>real H * m\<rceil>" by linarith
    ultimately show ?thesis
      using True ht yo h1 H unfolding bar_within_def
      by (intro exI [of _ "\<lceil>real H * m\<rceil>"] exI [of _ "\<lfloor>e * t\<rfloor> + 1"]) (auto simp: bar_y_def)
  next
    case False
    then have vx: "xo \<le> v" and mz: "m \<noteq> 0"
      using xoff yo v xo by (auto simp: bar_below_def num_eq_iff m_def)
    have "t \<le> m" using vx v xo by (simp add: t_def m_def divide_right_mono)
    then have "\<lfloor>e * t\<rfloor> + 1 \<le> \<lceil>real H * m\<rceil>" using upper_bar [of t m H] t m H mz by (simp add: e_def)
    moreover have "\<lceil>real H * m\<rceil> \<le> int H" using m by (simp add: ceiling_le_iff mult_left_le)
    ultimately show ?thesis
      using False ht yo h1 unfolding bar_within_def
      by (intro exI [of _ "\<lceil>real H * m\<rceil> - (\<lfloor>e * t\<rfloor> + 1)"] exI [of _ "\<lfloor>e * t\<rfloor> + 1"]) (auto simp: bar_y_def)
  qed
qed

lemma bar_scale_frame [simp]:
  "target (bar_scale ns ts rs gs ch) = target ch" "disabled (bar_scale ns ts rs gs ch) = disabled ch"
  "currentRegion (bar_scale ns ts rs gs ch) = currentRegion ch" "regionShapes (bar_scale ns ts rs gs ch) = regionShapes ch"
  "opt (bar_scale ns ts rs gs ch) = opt ch" "vals (bar_scale ns ts rs gs ch) = vals ch"
  by (simp_all add: bar_scale_def Let_def)

lemma initTarget_region [simp]: "regionShapes (initTarget ev existing ch) = regionShapes ch"
  by (simp add: initTarget_def split: option.splits)

lemma bar_blank_frame [simp]:
  "regionShapes (bar_blank vs o' h n bw bs bi bv st) = Map.empty" "disabled (bar_blank vs o' h n bw bs bi bv st) = False"
  "currentRegion (bar_blank vs o' h n bw bs bi bv st) = Undef" "opt (bar_blank vs o' h n bw bs bi bv st) = o'"
  by (simp_all add: bar_blank_def)

lemma bar_init_new:
  assumes "bar_init ev None values o' w h n = Inr ch" "hasCanvas ev" "\<not> truthy (o' ''disableInteraction'')"
  shows "canvas_wf (target ch) \<and> shapeseq (target ch) = [] \<and> interact (target ch) \<and> \<not> disabled ch \<and>
    currentRegion ch = Undef \<and> regionShapes ch = Map.empty"
  using assms by (auto simp: bar_init_def Let_def initTarget_new split: prod.splits if_splits)

lemma bar_render_ok:
  assumes "bar_init ev None values o' w h n = Inr ch" "hasCanvas ev" "\<not> truthy (o' ''disableInteraction'')"
  shows "\<exists>ch1. mixin_render ev bar_renderRegion ch = Inr ch1 \<and> region_inv bar_plan [] [] (lit_region ch1) ch1"
  using bar_rr.render_inv [of ch ev] bar_init_new [OF assms] by auto

section \<open>Properties\<close>

text \<open>C4. A bar chart under any sequence of pointer moves and leaves: rendering and highlighting never raise, the canvas holds each
  bar's rectangles exactly once and in place, and shows exactly the current bar highlighted (a bar that is the very first shape of the
  page, with id 0, is never highlighted).\<close>

theorem bar_highlight:
  assumes "bar_init ev None values o' w h n = Inr ch" "hasCanvas ev" "\<not> truthy (o' ''disableInteraction'')"
  shows "\<exists>ch1 ch2. mixin_render ev bar_renderRegion ch = Inr ch1 \<and>
    region_events bar_renderRegion bar_getRegion es ch1 = Inr ch2 \<and> region_inv bar_plan [] [] (lit_region ch2) ch2"
  using bar_render_ok [OF assms] bar_rr.events_inv by blast

theorem bar_highlight_witness:
  "\<exists>ch ch1 ch2. bar_init plain_env None [num 1, num 2] (jget bar_defaults) Undef Undef 0 = Inr ch \<and>
    mixin_render plain_env bar_renderRegion ch = Inr ch1 \<and>
    region_events bar_renderRegion bar_getRegion [Move (num 7) (num 3), Leave] ch1 = Inr ch2 \<and>
    region_inv bar_plan [] [] (lit_region ch2) ch2"
proof -
  obtain ch where ch: "bar_init plain_env None [num 1, num 2] (jget bar_defaults) Undef Undef 0 = Inr ch"
    by (simp add: bar_init_def stack_value_def split_beta)
  then show ?thesis
    using bar_highlight [OF ch, of "[Move (num 7) (num 3), Leave]"] by (simp add: plain_env_def bar_defaults_def)
qed





text \<open>The extra pixel is real: with the values 99 and -1 on a canvas 20 pixels high, the bar of -1 starts at 20, below the
  last row.\<close>

lemma bar_overflow:
  "let ch = bar_scale (map num [99, - 1]) [] [] [] ((bar_blank [] (\<lambda>k. Undef) Undef 0 (Fin 4) (Fin 1) Null Undef False)\<lparr>canvasHeight := num 20\<rparr>)
   in bar_y ch (num (- 1)) (yoffset ch) (yoffset ch) = num 20 \<and> bar_height ch (num (- 1)) = Fin 1"
  by code_simp

text \<open>The pointer is over bar \<open>i\<close> exactly in the bar's cell of the axis (the bar with the space after it), and over no
  region anywhere else.\<close>

lemma bar_getRegion_cell:
  assumes "totalBarWidth ch = Fin t" "0 < t"
  shows "bar_getRegion (num x) y ch = (if 0 \<le> x \<and> x < real (length (vals ch)) * t then num (of_int \<lfloor>x / t\<rfloor>) else Undef)"
proof -
  have "0 \<le> \<lfloor>x / t\<rfloor> \<longleftrightarrow> 0 \<le> x" using assms(2) by (simp add: zero_le_divide_iff)
  moreover have "int (length (vals ch)) \<le> \<lfloor>x / t\<rfloor> \<longleftrightarrow> real (length (vals ch)) * t \<le> x"
    using assms(2) by (simp add: le_floor_iff pos_le_divide_eq)
  moreover have "real (length (vals ch)) \<le> of_int \<lfloor>x / t\<rfloor> \<longleftrightarrow> int (length (vals ch)) \<le> \<lfloor>x / t\<rfloor>"
    by (metis of_int_le_iff of_int_of_nat_eq)
  ultimately show ?thesis using assms by (auto simp: bar_getRegion_def Let_def not_le)
qed

end
