(* ===== verification/SparkTristate.thy ===== *)
theory SparkTristate
  imports SparkBar
begin

text \<open>
  The tristate chart, \<open>$.fn.sparkline.tristate\<close> (\<open>static/js/jquery.sparkline.js\<close>, lines 1920 to 2013):
  one bar per value that only shows the value's sign.
\<close>

section \<open>Definitions\<close>

definition tristate_init ::
  "env \<Rightarrow> vcanvas option \<Rightarrow> jsval list \<Rightarrow> (string \<Rightarrow> jsval) \<Rightarrow> jsval \<Rightarrow> jsval \<Rightarrow> nat \<Rightarrow> bar_chart" where
  "tristate_init ev existing values o' w h n =
     (let bw = parseInt10 (o' ''barWidth''); bs = parseInt10 (o' ''barSpacing'');
          (byIndex, byValue) = colorMaps (o' ''colorMap'')
      in initTarget ev existing
           \<lparr>vals = map Num (jq_map_Number values), opt = o', width = Num (bars_width (length values) bw bs), height = h,
            disabled = False, target = no_canvas n, canvasWidth = Undef, canvasHeight = Undef, currentRegion = Undef,
            regionShapes = Map.empty, barWidth = bw, barSpacing = bs, totalBarWidth = bw + bs,
            colorMapByIndex = byIndex, colorMapByValue = byValue\<rparr>)"

definition tristate_getRegion :: "jsval \<Rightarrow> jsval \<Rightarrow> bar_chart \<Rightarrow> jsval" where
  "tristate_getRegion x y ch = Num (Math_floor (to_number x / totalBarWidth ch))"

definition tristate_calcColor :: "bar_chart \<Rightarrow> jsval \<Rightarrow> jsval \<Rightarrow> jsval" where
  "tristate_calcColor ch value valuenum =
     (let newColor = colorMap_get (colorMapByValue ch) value; v = jindex (vals ch) valuenum;
          signColor = (if jlt v (num 0) then opt ch ''negBarColor''
                       else if jlt (num 0) v then opt ch ''posBarColor''
                       else opt ch ''zeroBarColor'')
      in if truthy (colorMapByValue ch) \<and> truthy newColor then newColor
         else case colorMapByIndex ch of
           Arr cs \<Rightarrow> if jlt valuenum (num (of_nat (length cs))) then jindex cs valuenum else signColor
         | _ \<Rightarrow> signColor)"

definition tristate_getCurrentRegionFields :: "bar_chart \<Rightarrow> jsval" where
  "tristate_getCurrentRegionFields ch =
     (let r = currentRegion ch; v = jindex (vals ch) r
      in Obj [(''isNull'', Bool (v = Undef)), (''value'', v), (''color'', tristate_calcColor ch v r), (''offset'', r)])"

text \<open>Top and height of the bar for a value: lower half, upper half, or a line in the middle.\<close>

definition tristate_extent :: "number \<Rightarrow> jsval \<Rightarrow> number \<times> number" where
  "tristate_extent halfHeight v =
     (if jlt v (num 0) then (halfHeight, halfHeight - Fin 1)
      else if jlt (num 0) v then (Fin 0, halfHeight - Fin 1)
      else (halfHeight - Fin 1, Fin 2))"

definition tristate_renderRegion :: "nat \<Rightarrow> bool \<Rightarrow> bar_chart \<Rightarrow> rendered \<times> bar_chart" where
  "tristate_renderRegion valuenum highlight ch =
     (let halfHeight = Math_round (to_number (pixelHeight (target ch)) / Fin 2);
          v = jnth (vals ch) valuenum;
          (y, ht) = tristate_extent halfHeight v;
          color = tristate_calcColor ch v (num (of_nat valuenum))
      in if color = Null then (RNone, ch)
         else
           (let color' = (if highlight then calcHighlightColor color (opt ch) else color);
                (s, c) = drawRect (Num (Fin (of_nat valuenum) * totalBarWidth ch)) (Num y) (Num (barWidth ch - Fin 1))
                           (Num (ht - Fin 1)) color' color' (target ch)
            in (ROne s, ch\<lparr>target := c\<rparr>)))"

section \<open>The tristate chart as a region renderer\<close>

definition tristate_plan :: "nat \<Rightarrow> bool \<Rightarrow> bar_chart \<Rightarrow> plan" where
  "tristate_plan i h ch = plan_of (fst (tristate_renderRegion i h ch))"

lemma tristate_calcColor_frame:
  fixes ch :: bar_chart
  shows "tristate_calcColor (ch\<lparr>target := c, regionShapes := rs, currentRegion := x\<rparr>) = tristate_calcColor ch"
proof -
  let ?ch = "ch\<lparr>target := c, regionShapes := rs, currentRegion := x\<rparr>"
  have "opt ?ch = opt ch" "vals ?ch = vals ch" "colorMapByValue ?ch = colorMapByValue ch" "colorMapByIndex ?ch = colorMapByIndex ch"
    by simp_all
  then show ?thesis unfolding tristate_calcColor_def by (simp only:)
qed

interpretation tri_rr: region_renderer tristate_renderRegion tristate_plan
proof (unfold_locales, goal_cases)
  case (1 i h ch)
  show ?case by (simp add: tristate_plan_def tristate_renderRegion_def Let_def draw_gen genShape_def split_beta)
next
  case (2 i h ch)
  show ?case by (simp add: tristate_plan_def tristate_renderRegion_def Let_def draw_gen genShape_def split_beta)
next
  case (3 c ch i h x rs)
  then show ?case
    by (simp add: tristate_plan_def tristate_renderRegion_def Let_def draw_gen genShape_def split_beta tristate_calcColor_frame)
next
  case (4 i h ch)
  show ?case by (simp add: tristate_plan_def tristate_renderRegion_def Let_def draw_gen genShape_def split_beta)
qed

lemma tristate_render_ok:
  assumes "hasCanvas ev" "\<not> truthy (o' ''disableInteraction'')"
  shows "\<exists>ch1. mixin_render ev tristate_renderRegion (tristate_init ev None values o' w h n) = Inr ch1 \<and> region_inv tristate_plan [] [] (lit_region ch1) ch1"
proof -
  let ?ch = "tristate_init ev None values o' w h n"
  have "canvas_wf (target ?ch)" "shapeseq (target ?ch) = []" "interact (target ?ch)" "\<not> disabled ?ch"
    "currentRegion ?ch = Undef" "regionShapes ?ch = Map.empty"
    using assms by (simp_all add: tristate_init_def Let_def split_beta initTarget_new)
  then show ?thesis
    using tri_rr.render_inv [of ?ch ev] by auto
qed

section \<open>Properties\<close>

text \<open>C11. A tristate chart under any sequence of pointer events: nothing raises and exactly the current bar is highlighted.\<close>

theorem tristate_highlight:
  assumes "hasCanvas ev" "\<not> truthy (o' ''disableInteraction'')"
  shows "\<exists>ch1 ch2. mixin_render ev tristate_renderRegion (tristate_init ev None values o' w h n) = Inr ch1 \<and>
    region_events tristate_renderRegion tristate_getRegion es ch1 = Inr ch2 \<and> region_inv tristate_plan [] [] (lit_region ch2) ch2"
  using tristate_render_ok [of ev o' "values" w h n] assms tri_rr.events_inv by blast

theorem tristate_highlight_witness:
  "\<exists>ch1 ch2. mixin_render plain_env tristate_renderRegion (tristate_init plain_env None [num 1, num (- 1)] (jget tristate_defaults) Undef Undef 0) = Inr ch1 \<and>
    region_events tristate_renderRegion tristate_getRegion [Move (num 7) (num 3), Leave] ch1 = Inr ch2 \<and>
    region_inv tristate_plan [] [] (lit_region ch2) ch2"
  by (rule tristate_highlight) (simp_all add: plain_env_def tristate_defaults_def)

text \<open>On a canvas of height \<open>H\<close>, the extents of the three kinds of bars lie in the canvas: positive values
  strictly above the middle, negative ones from the middle down, zero (and values that are not numbers) two pixels at the middle.\<close>

lemma tristate_extent_bounds:
  assumes "4 \<le> H"
  shows "\<exists>y ht. tristate_extent (Math_round (Fin (of_int H) / Fin 2)) (Num x) = (Fin (of_int y), Fin (of_int ht)) \<and>
    0 \<le> y \<and> 1 \<le> ht \<and> y + ht \<le> H \<and> (Fin 0 < x \<longrightarrow> y + ht \<le> H div 2) \<and> (x < Fin 0 \<longrightarrow> H div 2 \<le> y)"
proof -
  define r where "r = real_round (of_int H / 2)"
  have r: "H div 2 \<le> r" "r \<le> (H + 1) div 2"
    unfolding r_def using real_round_bounds [of "of_int H / 2"] by linarith+
  let ?y = "if x < Fin 0 then r else if Fin 0 < x then 0 else r - 1"
  let ?h = "if x < Fin 0 \<or> Fin 0 < x then r - 1 else 2"
  have "tristate_extent (Math_round (Fin (of_int H) / Fin 2)) (Num x) = (Fin (of_int ?y), Fin (of_int ?h))"
    by (simp add: tristate_extent_def r_def)
  moreover have "0 \<le> ?y \<and> 1 \<le> ?h \<and> ?y + ?h \<le> H \<and> (Fin 0 < x \<longrightarrow> ?y + ?h \<le> H div 2) \<and> (x < Fin 0 \<longrightarrow> H div 2 \<le> ?y)"
    using r assms number_less_asym [of x "Fin 0"] by auto
  ultimately show ?thesis by blast
qed

end
