(* ===== verification/SparkDiscrete.thy ===== *)
theory SparkDiscrete
  imports SparkBar
begin

text \<open>
  The discrete chart, \<open>$.fn.sparkline.discrete\<close> (\<open>static/js/jquery.sparkline.js\<close>, lines 2018 to 2079):
  one short vertical line per value, at the height of the value.
\<close>

section \<open>Definitions\<close>

record discrete = region_chart +
  dmin :: jsval
  dmax :: jsval
  drange :: number
  interval :: number
  itemWidth :: number
  lineHeight :: jsval

text \<open>The range is computed from the values, before \<open>chartRangeMin\<close> and \<open>chartRangeMax\<close> are applied.\<close>

definition discrete_init ::
  "env \<Rightarrow> vcanvas option \<Rightarrow> jsval list \<Rightarrow> (string \<Rightarrow> jsval) \<Rightarrow> jsval \<Rightarrow> jsval \<Rightarrow> nat \<Rightarrow> discrete" where
  "discrete_init ev existing values o' w h n =
     (let ns = jq_map_Number values; mn = Math_min ns; mx = Math_max ns; len = Fin (of_nat (length ns));
          w' = (if seq (o' ''width'') (Str ''auto'') then Num (len * Fin 2) else w);
          ch = initTarget ev existing
            \<lparr>vals = map Num ns, opt = o', width = w', height = h, disabled = False, target = no_canvas n,
             canvasWidth = Undef, canvasHeight = Undef, currentRegion = Undef, regionShapes = Map.empty,
             dmin = range_min o' (Num mn), dmax = range_max o' (Num mx), drange = mx - mn,
             interval = Math_floor (to_number w' / len), itemWidth = to_number w' / len, lineHeight = Undef\<rparr>
      in if disabled ch then ch
         else ch\<lparr>lineHeight := (if seq (o' ''lineHeight'') (Str ''auto'')
                                 then Num (Math_round (to_number (canvasHeight ch) * Fin (3 / 10))) else o' ''lineHeight'')\<rparr>)"

definition discrete_getRegion :: "jsval \<Rightarrow> jsval \<Rightarrow> discrete \<Rightarrow> jsval" where
  "discrete_getRegion x y ch = Num (Math_floor (to_number x / itemWidth ch))"

definition discrete_getCurrentRegionFields :: "discrete \<Rightarrow> jsval" where
  "discrete_getCurrentRegionFields ch =
     (let r = currentRegion ch; v = jindex (vals ch) r
      in Obj [(''isNull'', Bool (v = Undef)), (''value'', v), (''offset'', r)])"

definition discrete_ytop :: "discrete \<Rightarrow> jsval \<Rightarrow> number" where
  "discrete_ytop ch val =
     (let pheight = to_number (canvasHeight ch) - to_number (lineHeight ch)
      in Math_round (pheight - pheight * ((to_number val - to_number (dmin ch)) / drange ch)))"

definition discrete_renderRegion :: "nat \<Rightarrow> bool \<Rightarrow> discrete \<Rightarrow> rendered \<times> discrete" where
  "discrete_renderRegion valuenum highlight ch =
     (let val = clipval (jnth (vals ch) valuenum) (dmin ch) (dmax ch);
          x = Num (Fin (of_nat valuenum) * interval ch);
          ytop = Num (discrete_ytop ch val);
          color = (if truthy (opt ch ''thresholdColor'') \<and> jlt val (opt ch ''thresholdValue'')
                   then opt ch ''thresholdColor'' else opt ch ''lineColor'');
          color' = (if highlight then calcHighlightColor color (opt ch) else color);
          (s, c) = drawLine x ytop x (jadd ytop (lineHeight ch)) color' Undef (target ch)
      in (ROne s, ch\<lparr>target := c\<rparr>))"

section \<open>The discrete chart as a region renderer\<close>

definition discrete_plan :: "nat \<Rightarrow> bool \<Rightarrow> discrete \<Rightarrow> plan" where
  "discrete_plan i h ch = plan_of (fst (discrete_renderRegion i h ch))"

lemma discrete_ytop_frame:
  fixes ch :: discrete
  shows "discrete_ytop (ch\<lparr>target := c, regionShapes := rs, currentRegion := x\<rparr>) = discrete_ytop ch"
  by (simp add: discrete_ytop_def fun_eq_iff)

lemmas discrete_simps = discrete_plan_def discrete_renderRegion_def Let_def draw_gen genShape_def

interpretation dis_rr: region_renderer discrete_renderRegion discrete_plan
proof (unfold_locales, goal_cases)
  case (1 i h ch)
  show ?case by (simp add: discrete_simps)
next
  case (2 i h ch)
  show ?case by (simp add: discrete_simps)
next
  case (3 c ch i h x rs)
  then show ?case by (simp add: discrete_simps discrete_ytop_frame)
next
  case (4 i h ch)
  show ?case by (simp add: discrete_simps)
qed

lemma discrete_render_ok:
  assumes "hasCanvas ev" "\<not> truthy (o' ''disableInteraction'')"
  shows "\<exists>ch1. mixin_render ev discrete_renderRegion (discrete_init ev None values o' w h n) = Inr ch1 \<and> region_inv discrete_plan [] [] (lit_region ch1) ch1"
proof -
  let ?ch = "discrete_init ev None values o' w h n"
  have "canvas_wf (target ?ch)" "shapeseq (target ?ch) = []" "interact (target ?ch)" "\<not> disabled ?ch"
    "currentRegion ?ch = Undef" "regionShapes ?ch = Map.empty"
    using assms by (simp_all add: discrete_init_def Let_def initTarget_new)
  then show ?thesis
    using dis_rr.render_inv [of ?ch ev] by auto
qed

section \<open>Properties\<close>

text \<open>C12. A discrete chart under any sequence of pointer events: nothing raises and exactly the current line is highlighted.\<close>

theorem discrete_highlight:
  assumes "hasCanvas ev" "\<not> truthy (o' ''disableInteraction'')"
  shows "\<exists>ch1 ch2. mixin_render ev discrete_renderRegion (discrete_init ev None values o' w h n) = Inr ch1 \<and>
    region_events discrete_renderRegion discrete_getRegion es ch1 = Inr ch2 \<and> region_inv discrete_plan [] [] (lit_region ch2) ch2"
  using discrete_render_ok [of ev o' "values" w h n] assms dis_rr.events_inv by blast

theorem discrete_highlight_witness:
  "\<exists>ch1 ch2. mixin_render plain_env discrete_renderRegion (discrete_init plain_env None [num 1, num 4] (jget discrete_defaults) Undef Undef 0) = Inr ch1 \<and>
    region_events discrete_renderRegion discrete_getRegion [Move (num 7) (num 3), Leave] ch1 = Inr ch2 \<and>
    region_inv discrete_plan [] [] (lit_region ch2) ch2"
  by (rule discrete_highlight) (simp_all add: plain_env_def discrete_defaults_def)

text \<open>A value of the chart's own range is drawn between the top of the canvas and the height left over by the line, higher values
  further up.\<close>

lemma discrete_ytop_bounds:
  assumes "to_number (canvasHeight ch) - to_number (lineHeight ch) = Fin (of_int p)" "0 \<le> p"
    and "dmin ch = num a" "drange ch = Fin (b - a)" "a < b" "a \<le> x" "x \<le> y" "y \<le> b"
  shows "\<exists>tx ty. discrete_ytop ch (num x) = Fin (of_int tx) \<and> discrete_ytop ch (num y) = Fin (of_int ty) \<and>
    0 \<le> ty \<and> ty \<le> tx \<and> tx \<le> p"
proof -
  let ?f = "\<lambda>v. of_int p - of_int p * ((v - a) / (b - a)) :: real"
  have top: "discrete_ytop ch (num v) = Fin (of_int (real_round (?f v)))" for v
    using assms by (simp add: discrete_ytop_def Let_def)
  have t: "0 \<le> (x - a) / (b - a)" "(x - a) / (b - a) \<le> (y - a) / (b - a)" "(y - a) / (b - a) \<le> 1"
    using assms(5-8) by (auto simp: divide_right_mono)
  then have "of_int p * ((y - a) / (b - a)) \<le> of_int p * 1" "of_int p * ((x - a) / (b - a)) \<le> of_int p * ((y - a) / (b - a))"
    "0 \<le> of_int p * ((x - a) / (b - a))"
    using assms(2) by (blast intro: mult_left_mono mult_nonneg_nonneg of_int_0_le_iff [THEN iffD2])+
  then have "0 \<le> ?f y" "?f y \<le> ?f x" "?f x \<le> of_int p" by linarith+
  then have "real_round 0 \<le> real_round (?f y)" "real_round (?f y) \<le> real_round (?f x)" "real_round (?f x) \<le> real_round (of_int p)"
    by (blast intro: real_round_mono)+
  then show ?thesis using top by auto
qed

definition discrete_demo :: "(string \<times> jsval) list \<Rightarrow> discrete" where
  "discrete_demo extra = discrete_init plain_env None [num 5, num 10] (jget (extra @ [(''lineHeight'', num 6)])) (num 80) (num 20) 0"

text \<open>With \<open>chartRangeMin\<close> below the values the chart leaves the canvas: on a canvas 20 pixels high, of the values 5 and 10 with the
  range from 0, the value 10 is drawn 14 pixels above the upper edge.\<close>

lemma discrete_range_overflow:
  "discrete_ytop (discrete_demo [(''chartRangeMin'', num 0)]) (num 10) = Fin (- 14)"
  by code_simp

end
