(* ===== verification/SparkKeyed.thy ===== *)
theory SparkKeyed
  imports SparkBase
begin

text \<open>
  What the bullet chart and the pie chart share (\<open>static/js/jquery.sparkline.js\<close>, lines 2113 to 2146 and
  2237 to 2260): one shape per region, two maps between the ids of the shapes and the keys of the
  regions, and regions that are found by asking the canvas which shape is under the pointer. The locale
  \<open>keyed_renderer\<close> is the contract of their drawing functions.
\<close>

section \<open>Definitions\<close>

text \<open>\<open>this.shapes\<close> and \<open>this.valueShapes\<close>.\<close>

record keyed_chart = chart +
  regionOf :: "nat \<rightharpoonup> jsval"
  valueShapes :: "jsval \<rightharpoonup> nat"

definition keyed_getRegion ::
  "env \<Rightarrow> jsval \<Rightarrow> jsval \<Rightarrow> 'a keyed_chart_scheme \<Rightarrow> (jsval \<times> 'a keyed_chart_scheme) result" where
  "keyed_getRegion ev x y ch =
     rbind (canvas_getShapeAt (inPath ev) x y (target ch)) (\<lambda>(shapeid, c).
       Inr (case Option.bind shapeid (regionOf ch) of None \<Rightarrow> Undef | Some k \<Rightarrow> k, ch\<lparr>target := c\<rparr>))"

text \<open>\<open>replaceWithShape(undefined, shape)\<close> only adds the shape to the table of the canvas.\<close>

definition replace_shape :: "nat option \<Rightarrow> vshape \<Rightarrow> vcanvas \<Rightarrow> vcanvas" where
  "replace_shape i s c = (case i of None \<Rightarrow> c\<lparr>shapes := (shapes c)(sid s \<mapsto> s)\<rparr> | Some j \<Rightarrow> replaceWithShape j s c)"

definition drop_key :: "nat option \<Rightarrow> (nat \<rightharpoonup> jsval) \<Rightarrow> (nat \<rightharpoonup> jsval)" where
  "drop_key i m = (case i of None \<Rightarrow> m | Some j \<Rightarrow> m(j := None))"

text \<open>\<open>changeHighlight\<close>; \<open>paint\<close> is the shape of a region, or the exception its drawing raises.\<close>

definition keyed_changeHighlight ::
  "(jsval \<Rightarrow> bool \<Rightarrow> 'a keyed_chart_scheme \<Rightarrow> shape result) \<Rightarrow> bool \<Rightarrow> 'a keyed_chart_scheme \<Rightarrow> 'a keyed_chart_scheme result" where
  "keyed_changeHighlight paint highlight ch =
     (let region = currentRegion ch; shapeid = valueShapes ch region
      in rbind (paint region highlight ch) (\<lambda>sh.
           let (s, c) = genShape sh (target ch)
           in Inr (ch\<lparr>target := replace_shape shapeid s c,
                      valueShapes := (valueShapes ch)(region \<mapsto> sid s),
                      regionOf := (drop_key shapeid (regionOf ch))(sid s \<mapsto> region)\<rparr>)))"

text \<open>One region of \<open>render\<close>: the shape is appended and both maps record it.\<close>

definition keyed_append ::
  "(jsval \<Rightarrow> bool \<Rightarrow> 'a keyed_chart_scheme \<Rightarrow> shape result) \<Rightarrow> jsval \<Rightarrow> 'a keyed_chart_scheme \<Rightarrow> 'a keyed_chart_scheme result" where
  "keyed_append paint key ch =
     rbind (paint key False ch) (\<lambda>sh.
       let (s, c) = genShape sh (target ch)
       in Inr (ch\<lparr>target := appendShape s c, valueShapes := (valueShapes ch)(key \<mapsto> sid s), regionOf := (regionOf ch)(sid s \<mapsto> key)\<rparr>))"

fun keyed_append_all ::
  "(jsval \<Rightarrow> bool \<Rightarrow> 'a keyed_chart_scheme \<Rightarrow> shape result) \<Rightarrow> jsval list \<Rightarrow> 'a keyed_chart_scheme \<Rightarrow> 'a keyed_chart_scheme result" where
  "keyed_append_all paint [] ch = Inr ch"
| "keyed_append_all paint (k # ks) ch = rbind (keyed_append paint k ch) (keyed_append_all paint ks)"

section \<open>The invariant\<close>

definition keyed_inv ::
  "(jsval \<Rightarrow> bool \<Rightarrow> 'a keyed_chart_scheme \<Rightarrow> shape result) \<Rightarrow> nat list \<Rightarrow> jsval list \<Rightarrow> (jsval \<Rightarrow> bool) \<Rightarrow> 'a keyed_chart_scheme \<Rightarrow> bool" where
  "keyed_inv paint pre ks lit ch \<longleftrightarrow>
     canvas_wf (target ch) \<and> interact (target ch) \<and> distinct ks \<and>
     (\<exists>ids. length ids = length ks \<and> shapeseq (target ch) = pre @ ids \<and>
        valueShapes ch = map_of (zip ks ids) \<and> regionOf ch = map_of (zip ids ks) \<and>
        (\<forall>j < length ks. \<exists>s. shapes (target ch) (ids ! j) = Some s \<and> paint (ks ! j) (lit (ks ! j)) ch = Inr (sargs s)))"

text \<open>Which region is lit.\<close>

definition lit_key :: "'a chart_scheme \<Rightarrow> jsval \<Rightarrow> bool" where
  "lit_key ch k \<longleftrightarrow> \<not> truthy (opt ch ''disableHighlight'') \<and> currentRegion ch = k"

text \<open>The state between two pointer events.\<close>

definition keyed_ok ::
  "(jsval \<Rightarrow> bool \<Rightarrow> 'a keyed_chart_scheme \<Rightarrow> shape result) \<Rightarrow> ('a keyed_chart_scheme \<Rightarrow> jsval list) \<Rightarrow>
   ('a keyed_chart_scheme \<Rightarrow> bool) \<Rightarrow> nat list \<Rightarrow> 'a keyed_chart_scheme \<Rightarrow> bool" where
  "keyed_ok paint keys good pre ch \<longleftrightarrow>
     keyed_inv paint pre (keys ch) (lit_key ch) ch \<and> good ch \<and> (currentRegion ch = Undef \<or> currentRegion ch \<in> set (keys ch))"

lemma map_of_zip_eqI:
  assumes "distinct ks" "length xs = length ks" "\<And>i. i < length ks \<Longrightarrow> m (ks ! i) = Some (xs ! i)" "\<And>y. y \<notin> set ks \<Longrightarrow> m y = None"
  shows "m = map_of (zip ks xs)"
proof
  fix y
  show "m y = map_of (zip ks xs) y"
  proof (cases "y \<in> set ks")
    case True
    then show ?thesis using assms(1-3) by (metis in_set_conv_nth map_of_zip_nth)
  next
    case False
    then have "map_of (zip ks xs) y = None" using assms(2) by (simp add: map_of_zip_is_None)
    then show ?thesis using False assms(4) by simp
  qed
qed

lemma map_of_zip_upd_val:
  assumes "distinct ks" "length ids = length ks" "j < length ks"
  shows "(map_of (zip ks ids))(ks ! j \<mapsto> x) = map_of (zip ks (ids[j := x]))"
proof (rule map_of_zip_eqI)
  show "((map_of (zip ks ids))(ks ! j \<mapsto> x)) (ks ! i) = Some (ids[j := x] ! i)" if "i < length ks" for i
    using assms that by (auto simp: nth_list_update map_of_zip_nth nth_eq_iff_index_eq)
qed (use assms in \<open>auto simp: map_of_zip_is_None\<close>)

lemma map_of_zip_upd_key:
  assumes "distinct ids" "length ids = length ks" "j < length ids" "x \<notin> set ids"
  shows "((map_of (zip ids ks))(ids ! j := None))(x \<mapsto> ks ! j) = map_of (zip (ids[j := x]) ks)"
proof (rule map_of_zip_eqI)
  show "distinct (ids[j := x])" using assms by (simp add: distinct_list_update)
  show "(((map_of (zip ids ks))(ids ! j := None))(x \<mapsto> ks ! j)) (ids[j := x] ! i) = Some (ks ! i)" if "i < length (ids[j := x])" for i
  proof -
    have "map_of (zip ids ks) (ids ! i) = Some (ks ! i)" using assms that by (simp add: map_of_zip_nth)
    moreover have "ids ! i \<noteq> x" using assms(4) that by auto
    ultimately show ?thesis using assms that by (auto simp: nth_list_update nth_eq_iff_index_eq)
  qed
  show "(((map_of (zip ids ks))(ids ! j := None))(x \<mapsto> ks ! j)) y = None" if "y \<notin> set (ids[j := x])" for y
  proof -
    have "y \<noteq> x" using that assms(3) by (auto simp: set_update_memI)
    moreover have "y \<notin> set ids \<or> y = ids ! j" using that by (metis in_set_conv_nth length_list_update nth_list_update_neq)
    ultimately show ?thesis using assms(2) by (auto simp: map_of_zip_is_None)
  qed
qed (use assms in simp)

lemma map_of_zip_snoc:
  assumes "distinct (ks @ [k])" "length xs = length ks"
  shows "(map_of (zip ks xs))(k \<mapsto> x) = map_of (zip (ks @ [k]) (xs @ [x]))"
proof (rule map_of_zip_eqI)
  show "((map_of (zip ks xs))(k \<mapsto> x)) ((ks @ [k]) ! i) = Some ((xs @ [x]) ! i)" if "i < length (ks @ [k])" for i
  proof (cases "i < length ks")
    case True
    then have "map_of (zip ks xs) (ks ! i) = Some (xs ! i)" using assms by (simp add: map_of_zip_nth)
    moreover have "ks ! i \<noteq> k" using assms(1) True by auto
    ultimately show ?thesis using True assms(2) by (simp add: nth_append)
  next
    case False
    then show ?thesis using that assms(2) by (simp add: nth_append)
  qed
qed (use assms in \<open>auto simp: map_of_zip_is_None\<close>)

section \<open>The contract of the drawing function\<close>

text \<open>
  Drawing a region of the chart succeeds, gives a shape that can be drawn, and depends on the chart's own data only.
\<close>

locale keyed_renderer =
  fixes paint :: "jsval \<Rightarrow> bool \<Rightarrow> 'a keyed_chart_scheme \<Rightarrow> shape result"
    and keys :: "'a keyed_chart_scheme \<Rightarrow> jsval list"
    and good :: "'a keyed_chart_scheme \<Rightarrow> bool"
  assumes paint_ok: "good ch \<Longrightarrow> k \<in> set (keys ch) \<Longrightarrow> \<exists>sh. paint k h ch = Inr sh \<and> shape_ok sh"
    and paint_frame: "paint k h (ch\<lparr>target := c, valueShapes := v, regionOf := r, currentRegion := x\<rparr>) = paint k h ch"
    and keys_frame: "keys (ch\<lparr>target := c, valueShapes := v, regionOf := r, currentRegion := x\<rparr>) = keys ch"
    and good_frame: "good (ch\<lparr>target := c, valueShapes := v, regionOf := r, currentRegion := x\<rparr>) = good ch"
    and keys_distinct: "distinct (keys ch)"
    and keys_defined: "Undef \<notin> set (keys ch)"
begin

lemma frames:
  "paint k h (ch\<lparr>target := c\<rparr>) = paint k h ch" "keys (ch\<lparr>target := c\<rparr>) = keys ch" "good (ch\<lparr>target := c\<rparr>) = good ch"
  "paint k h (ch\<lparr>currentRegion := x\<rparr>) = paint k h ch" "keys (ch\<lparr>currentRegion := x\<rparr>) = keys ch" "good (ch\<lparr>currentRegion := x\<rparr>) = good ch"
  "paint k h (ch\<lparr>target := c, valueShapes := v, regionOf := r\<rparr>) = paint k h ch"
  "keys (ch\<lparr>target := c, valueShapes := v, regionOf := r\<rparr>) = keys ch" "good (ch\<lparr>target := c, valueShapes := v, regionOf := r\<rparr>) = good ch"
  using paint_frame [where c = c and v = "valueShapes ch" and r = "regionOf ch" and x = "currentRegion ch" and ch = ch and k = k and h = h]
    paint_frame [where c = "target ch" and v = "valueShapes ch" and r = "regionOf ch" and x = x and ch = ch and k = k and h = h]
    paint_frame [where c = c and v = v and r = r and x = "currentRegion ch" and ch = ch and k = k and h = h]
    keys_frame [where c = c and v = "valueShapes ch" and r = "regionOf ch" and x = "currentRegion ch" and ch = ch]
    keys_frame [where c = "target ch" and v = "valueShapes ch" and r = "regionOf ch" and x = x and ch = ch]
    keys_frame [where c = c and v = v and r = r and x = "currentRegion ch" and ch = ch]
    good_frame [where c = c and v = "valueShapes ch" and r = "regionOf ch" and x = "currentRegion ch" and ch = ch]
    good_frame [where c = "target ch" and v = "valueShapes ch" and r = "regionOf ch" and x = x and ch = ch]
    good_frame [where c = c and v = v and r = r and x = "currentRegion ch" and ch = ch]
  by simp_all

lemma inv_region [simp]: "keyed_inv paint pre ks lit (ch\<lparr>currentRegion := x\<rparr>) = keyed_inv paint pre ks lit ch"
  by (simp add: keyed_inv_def frames)

lemma inv_cong:
  "keyed_inv paint pre ks lit ch \<Longrightarrow> (\<And>k. k \<in> set ks \<Longrightarrow> lit' k = lit k) \<Longrightarrow> keyed_inv paint pre ks lit' ch"
  by (simp add: keyed_inv_def)

text \<open>\<open>changeHighlight\<close> swaps the shape of the current region in place.\<close>

lemma changeHighlight_inv:
  assumes inv: "keyed_inv paint pre (keys ch) lit ch" and g: "good ch" and cur: "currentRegion ch \<in> set (keys ch)"
  shows "\<exists>ch'. keyed_changeHighlight paint h ch = Inr ch' \<and> keyed_inv paint pre (keys ch') (lit(currentRegion ch := h)) ch' \<and>
    good ch' \<and> currentRegion ch' = currentRegion ch \<and> opt ch' = opt ch \<and> keys ch' = keys ch"
proof -
  let ?ks = "keys ch" and ?r = "currentRegion ch" and ?c = "target ch"
  obtain ids where ids: "length ids = length ?ks" "shapeseq ?c = pre @ ids" "valueShapes ch = map_of (zip ?ks ids)"
    "regionOf ch = map_of (zip ids ?ks)"
    "\<forall>j < length ?ks. \<exists>s. shapes ?c (ids ! j) = Some s \<and> paint (?ks ! j) (lit (?ks ! j)) ch = Inr (sargs s)"
    and wf: "canvas_wf ?c" and int: "interact ?c"
    using inv by (auto simp: keyed_inv_def)
  obtain j where j: "j < length ?ks" "?ks ! j = ?r" using cur by (metis in_set_conv_nth)
  have vj: "valueShapes ch ?r = Some (ids ! j)"
    using ids(1,3) j keys_distinct [of ch] by (metis map_of_zip_nth)
  obtain sh where sh: "paint ?r h ch = Inr sh" "shape_ok sh" using paint_ok [OF g cur] by blast
  obtain s c where gs: "genShape sh ?c = (s, c)" by (cases "genShape sh ?c")
  have fresh: "canvas_wf c" "canvas_fresh c s" "shapeseq c = pre @ ids" "shapes c = shapes ?c" "interact c" "sargs s = sh"
    using genShape_fresh [OF wf sh(2) gs] gs ids(2) int by (auto simp: genShape_def)
  have dist: "distinct ids" "sid s \<notin> set ids" using hc.ids_distinct [OF fresh(1)] fresh(2,3) by (auto simp: canvas_fresh_def)
  have split: "shapeseq c = (pre @ take j ids) @ ids ! j # drop (Suc j) ids" using fresh(3) ids(1) j by (simp add: id_take_nth_drop)
  have rep: "canvas_wf (replaceWithShape (ids ! j) s c)" "shapeseq (replaceWithShape (ids ! j) s c) = pre @ ids[j := sid s]"
    using hc.repl_law [OF fresh(1) _ fresh(2) split] ids(1) j by (auto simp: upd_conv_take_nth_drop)
  have shp: "shapes (replaceWithShape (ids ! j) s c) i = (if i = ids ! j then None else if i = sid s then Some s else shapes ?c i)" for i
    using fresh(4) by (simp add: replaceWithShape_def)
  define ch' where "ch' = ch\<lparr>target := replaceWithShape (ids ! j) s c, valueShapes := (valueShapes ch)(?r \<mapsto> sid s),
    regionOf := ((regionOf ch)(ids ! j := None))(sid s \<mapsto> ?r)\<rparr>"
  have fr: "keys ch' = ?ks" "good ch' = good ch" "paint k b ch' = paint k b ch" for k b unfolding ch'_def by (simp_all add: frames)
  have "valueShapes ch' = map_of (zip ?ks (ids[j := sid s]))" "regionOf ch' = map_of (zip (ids[j := sid s]) ?ks)"
    using map_of_zip_upd_val [OF keys_distinct ids(1) j(1)] map_of_zip_upd_key [OF dist(1) ids(1) _ dist(2), of j] ids j
    by (simp_all add: ch'_def)
  moreover have "\<exists>t. shapes (target ch') (ids[j := sid s] ! i) = Some t \<and> paint (?ks ! i) ((lit(?r := h)) (?ks ! i)) ch' = Inr (sargs t)"
    if "i < length ?ks" for i
  proof (cases "i = j")
    case True
    then show ?thesis using sh fresh(6) dist(2) j ids(1) unfolding fr by (auto simp: ch'_def shp)
  next
    case False
    then have "?ks ! i \<noteq> ?r" "ids ! i \<noteq> ids ! j" "ids ! i \<noteq> sid s"
      using that j ids(1) keys_distinct [of ch] dist by (metis nth_eq_iff_index_eq nth_mem)+
    then show ?thesis using ids(5) that False unfolding fr by (auto simp: ch'_def shp)
  qed
  ultimately have "keyed_inv paint pre (keys ch') (lit(?r := h)) ch'"
    using rep ids(1) keys_distinct fresh(5) unfolding keyed_inv_def fr
    by (intro conjI exI [of _ "ids[j := sid s]"]) (simp_all add: ch'_def replaceWithShape_def)
  moreover have "keyed_changeHighlight paint h ch = Inr ch'"
    by (simp add: keyed_changeHighlight_def Let_def vj sh gs replace_shape_def drop_key_def ch'_def)
  ultimately show ?thesis using g fr by (auto simp: ch'_def)
qed

text \<open>Asking for the region under the pointer redraws the canvas and answers with a key of the chart or with nothing.\<close>

lemma getRegion_inv:
  assumes "keyed_inv paint pre ks lit ch"
  shows "\<exists>r c. keyed_getRegion ev x y ch = Inr (r, ch\<lparr>target := c\<rparr>) \<and> (r = Undef \<or> r \<in> set ks) \<and> keyed_inv paint pre ks lit (ch\<lparr>target := c\<rparr>)"
proof -
  let ?c = "target ch\<lparr>targetX := x, targetY := y\<rparr>"
  have "canvas_wf ?c" "interact ?c" using assms by (auto simp: keyed_inv_def canvas_wf_def)
  then obtain c where c: "canvas_render (inPath ev) ?c = Inr c" "canvas_wf c" "interact c" "shapeseq c = shapeseq (target ch)" "shapes c = shapes (target ch)"
    using canvas_render_ok [of ?c "inPath ev"] by auto
  let ?r = "case Option.bind (currentTargetShapeId c) (regionOf ch) of None \<Rightarrow> Undef | Some k \<Rightarrow> k"
  have "?r = Undef \<or> ?r \<in> set ks"
    using assms by (auto simp: keyed_inv_def split: option.splits bind_splits dest!: map_of_SomeD set_zip_rightD)
  moreover have "keyed_inv paint pre ks lit (ch\<lparr>target := c\<rparr>)"
    using assms c by (auto simp: keyed_inv_def frames)
  moreover have "keyed_getRegion ev x y ch = Inr (?r, ch\<lparr>target := c\<rparr>)"
    by (simp add: keyed_getRegion_def canvas_getShapeAt_def c)
  ultimately show ?thesis by blast
qed

text \<open>Appending the regions one after the other.\<close>

lemma append_inv:
  assumes inv: "keyed_inv paint pre ks (\<lambda>k. False) ch" and g: "good ch" and k: "k \<in> set (keys ch)" "k \<notin> set ks"
  shows "\<exists>ch'. keyed_append paint k ch = Inr ch' \<and> keyed_inv paint pre (ks @ [k]) (\<lambda>k. False) ch' \<and> good ch' \<and> keys ch' = keys ch \<and>
    currentRegion ch' = currentRegion ch \<and> opt ch' = opt ch \<and> disabled ch' = disabled ch"
proof -
  let ?c = "target ch"
  obtain ids where ids: "length ids = length ks" "shapeseq ?c = pre @ ids" "valueShapes ch = map_of (zip ks ids)"
    "regionOf ch = map_of (zip ids ks)"
    "\<forall>j < length ks. \<exists>s. shapes ?c (ids ! j) = Some s \<and> paint (ks ! j) False ch = Inr (sargs s)"
    and wf: "canvas_wf ?c" and int: "interact ?c" and dk: "distinct ks"
    using inv by (auto simp: keyed_inv_def)
  obtain sh where sh: "paint k False ch = Inr sh" "shape_ok sh" using paint_ok [OF g k(1)] by blast
  obtain s c where gs: "genShape sh ?c = (s, c)" by (cases "genShape sh ?c")
  have fresh: "canvas_wf c" "canvas_fresh c s" "shapeseq c = pre @ ids" "shapes c = shapes ?c" "interact c" "sargs s = sh"
    using genShape_fresh [OF wf sh(2) gs] gs ids(2) int by (auto simp: genShape_def)
  have dist: "distinct (ids @ [sid s])" using hc.ids_distinct [OF fresh(1)] fresh(2,3) by (auto simp: canvas_fresh_def)
  have app: "canvas_wf (appendShape s c)" using appendShape_wf [OF fresh(1,2)] .
  define ch' where "ch' = ch\<lparr>target := appendShape s c, valueShapes := (valueShapes ch)(k \<mapsto> sid s), regionOf := (regionOf ch)(sid s \<mapsto> k)\<rparr>"
  have fr: "keys ch' = keys ch" "good ch' = good ch" "paint i b ch' = paint i b ch" for i b unfolding ch'_def by (simp_all add: frames)
  have "\<exists>t. shapes (target ch') ((ids @ [sid s]) ! i) = Some t \<and> paint ((ks @ [k]) ! i) False ch' = Inr (sargs t)"
    if "i < length (ks @ [k])" for i
  proof (cases "i = length ks")
    case True
    then show ?thesis using sh fresh(6) ids(1) unfolding fr by (simp add: ch'_def appendShape_def nth_append)
  next
    case False
    then have il: "i < length ks" using that by simp
    then have "ids ! i \<in> set ids" using ids(1) by simp
    then have "ids ! i \<noteq> sid s" using dist by auto
    note il this
    with ids(1,5) fresh(4) show ?thesis unfolding fr by (simp add: ch'_def appendShape_def nth_append)
  qed
  moreover have "valueShapes ch' = map_of (zip (ks @ [k]) (ids @ [sid s]))" "regionOf ch' = map_of (zip (ids @ [sid s]) (ks @ [k]))"
    using map_of_zip_snoc [of ks k ids "sid s"] map_of_zip_snoc [OF dist, of ks k] ids dk k(2) by (simp_all add: ch'_def)
  moreover have "shapeseq (target ch') = pre @ ids @ [sid s]" using fresh(3) by (simp add: ch'_def appendShape_def)
  ultimately have "keyed_inv paint pre (ks @ [k]) (\<lambda>k. False) ch'"
    using app fresh(5) dk k(2) ids(1) unfolding keyed_inv_def
    by (intro conjI exI [of _ "ids @ [sid s]"]) (simp_all add: ch'_def appendShape_def)
  moreover have "keyed_append paint k ch = Inr ch'" by (simp add: keyed_append_def sh gs ch'_def)
  ultimately show ?thesis using g fr by (auto simp: ch'_def)
qed

lemma append_all_inv:
  assumes "keyed_inv paint pre ks (\<lambda>k. False) ch" "good ch" "set ks' \<subseteq> set (keys ch)" "distinct (ks @ ks')"
  shows "\<exists>ch'. keyed_append_all paint ks' ch = Inr ch' \<and> keyed_inv paint pre (ks @ ks') (\<lambda>k. False) ch' \<and> good ch' \<and> keys ch' = keys ch \<and>
    currentRegion ch' = currentRegion ch \<and> opt ch' = opt ch \<and> disabled ch' = disabled ch"
  using assms
proof (induction ks' arbitrary: ks ch)
  case Nil
  then show ?case by simp
next
  case (Cons k ks')
  then obtain ch1 where "keyed_append paint k ch = Inr ch1" "keyed_inv paint pre (ks @ [k]) (\<lambda>k. False) ch1" "good ch1"
    "keys ch1 = keys ch" "currentRegion ch1 = currentRegion ch" "opt ch1 = opt ch" "disabled ch1 = disabled ch"
    using append_inv [of pre ks ch k] by auto
  then show ?case using Cons.IH [of "ks @ [k]" ch1] Cons.prems by auto
qed

text \<open>Rendering the whole chart.\<close>

lemma render_ok:
  assumes "keyed_inv paint pre (keys ch) (\<lambda>k. False) ch" "good ch" "currentRegion ch = Undef"
  shows "\<exists>c. canvas_render (inPath ev) (target ch) = Inr c \<and> keyed_ok paint keys good pre (ch\<lparr>target := c\<rparr>)"
proof -
  obtain c where c: "canvas_render (inPath ev) (target ch) = Inr c" "canvas_wf c" "interact c"
    "shapeseq c = shapeseq (target ch)" "shapes c = shapes (target ch)"
    using canvas_render_ok [of "target ch" "inPath ev"] assms(1) by (auto simp: keyed_inv_def)
  have "keyed_inv paint pre (keys ch) (\<lambda>k. False) (ch\<lparr>target := c\<rparr>)"
    using assms(1) c by (auto simp: keyed_inv_def frames)
  then have "keyed_inv paint pre (keys ch) (lit_key (ch\<lparr>target := c\<rparr>)) (ch\<lparr>target := c\<rparr>)"
    by (rule inv_cong) (use assms(3) keys_defined in \<open>auto simp: lit_key_def\<close>)
  then show ?thesis using c(1) assms by (auto simp: keyed_ok_def frames)
qed

text \<open>Pointer events: exactly the current region is lit.\<close>

lemma event_ok:
  assumes "keyed_ok paint keys good pre ch"
  shows "\<exists>ch'. pointer_event (keyed_getRegion ev) (keyed_changeHighlight paint True) (keyed_changeHighlight paint False) e ch = Inr ch' \<and> keyed_ok paint keys good pre ch'"
proof (cases e)
  case Leave
  show ?thesis
  proof (cases "currentRegion ch = Undef")
    case True
    then show ?thesis using Leave assms by (simp add: pointer_event_def clearRegionHighlight_def)
  next
    case False
    then obtain ch1 where ch1: "keyed_changeHighlight paint False ch = Inr ch1"
      "keyed_inv paint pre (keys ch1) ((lit_key ch)(currentRegion ch := False)) ch1" "good ch1" "keys ch1 = keys ch" "opt ch1 = opt ch"
      using changeHighlight_inv [of pre ch "lit_key ch" False] assms by (auto simp: keyed_ok_def)
    have "keyed_inv paint pre (keys ch1) (lit_key (ch1\<lparr>currentRegion := Undef\<rparr>)) ch1"
      using ch1(2) by (rule inv_cong) (use keys_defined in \<open>auto simp: lit_key_def\<close>)
    then show ?thesis
      using Leave False ch1(1,3) by (auto simp: pointer_event_def clearRegionHighlight_def keyed_ok_def frames)
  qed
next
  case (Move x y)
  let ?en = "\<not> truthy (opt ch ''disableHighlight'')"
  obtain r c where r: "keyed_getRegion ev x y ch = Inr (r, ch\<lparr>target := c\<rparr>)" "r = Undef \<or> r \<in> set (keys ch)"
    "keyed_inv paint pre (keys ch) (lit_key ch) (ch\<lparr>target := c\<rparr>)"
    using getRegion_inv [of pre "keys ch" "lit_key ch" ch ev x y] assms by (auto simp: keyed_ok_def)
  let ?ch1 = "ch\<lparr>target := c\<rparr>"
  have 1: "keyed_inv paint pre (keys ?ch1) (lit_key ch) ?ch1" "good ?ch1" "currentRegion ?ch1 = Undef \<or> currentRegion ?ch1 \<in> set (keys ?ch1)"
    using r(3) assms by (auto simp: keyed_ok_def frames)
  have "\<exists>ch2. (if currentRegion ch \<noteq> Undef \<and> ?en then keyed_changeHighlight paint False ?ch1 else Inr ?ch1) = Inr ch2 \<and>
    opt ch2 = opt ch \<and> keyed_inv paint pre (keys ch2) (\<lambda>k. False) ch2 \<and> good ch2 \<and> keys ch2 = keys ch"
  proof (cases "currentRegion ch \<noteq> Undef \<and> ?en")
    case True
    then show ?thesis
      using changeHighlight_inv [OF 1(1,2), of False] 1(3) by (auto simp: lit_key_def frames elim!: inv_cong split: if_splits)
  next
    case False
    have "keyed_inv paint pre (keys ?ch1) (\<lambda>k. False) ?ch1"
      using 1(1) by (rule inv_cong) (use False keys_defined in \<open>auto simp: lit_key_def frames\<close>)
    then show ?thesis using False 1(2) by (auto simp: frames)
  qed
  then obtain ch2 where ch2: "(if currentRegion ch \<noteq> Undef \<and> ?en then keyed_changeHighlight paint False ?ch1 else Inr ?ch1) = Inr ch2"
    "opt ch2 = opt ch" "keyed_inv paint pre (keys ch2) (\<lambda>k. False) ch2" "good ch2" "keys ch2 = keys ch" by blast
  let ?ch2 = "ch2\<lparr>currentRegion := r\<rparr>"
  have "\<exists>ch3. (if r \<noteq> Undef \<and> ?en then keyed_changeHighlight paint True ?ch2 else Inr ?ch2) = Inr ch3 \<and> keyed_ok paint keys good pre ch3"
  proof (cases "r \<noteq> Undef \<and> ?en")
    case True
    then obtain ch3 where ch3: "keyed_changeHighlight paint True ?ch2 = Inr ch3" "good ch3" "currentRegion ch3 = r" "opt ch3 = opt ch"
      "keyed_inv paint pre (keys ch3) ((\<lambda>k. False)(r := True)) ch3" "keys ch3 = keys ch"
      using changeHighlight_inv [of pre ?ch2 "\<lambda>k. False" True] ch2 r(2) by (auto simp: frames)
    have "keyed_inv paint pre (keys ch3) (lit_key ch3) ch3"
      using ch3(5) by (rule inv_cong) (use True ch3 in \<open>auto simp: lit_key_def\<close>)
    then show ?thesis using True ch3 r(2) by (auto simp: keyed_ok_def)
  next
    case False
    have "keyed_inv paint pre (keys ?ch2) (lit_key ?ch2) ?ch2"
      using ch2(3) unfolding frames inv_region by (rule inv_cong) (use False ch2 keys_defined in \<open>auto simp: lit_key_def\<close>)
    then show ?thesis using False ch2(4,5) r(2) by (auto simp: keyed_ok_def frames)
  qed
  moreover have "keyed_ok paint keys good pre ?ch1"
  proof -
    have "lit_key ?ch1 = lit_key ch" by (simp add: lit_key_def fun_eq_iff)
    then show ?thesis using assms r(3) by (simp add: keyed_ok_def frames)
  qed
  ultimately show ?thesis
    using Move r(1) ch2(1) assms by (auto simp: pointer_event_def setRegionHighlight_def Let_def)
qed

end

end
