(* ===== verification/SparkBullet.thy ===== *)
theory SparkBullet
  imports SparkKeyed
begin

text \<open>
  The bullet chart, \<open>$.fn.sparkline.bullet\<close> (\<open>static/js/jquery.sparkline.js\<close>, lines 2084 to 2202). Its values are the
  target, the performance and the ranges; its regions have the keys \<open>t0\<close>, \<open>p1\<close> and \<open>r2\<close>, \<open>r3\<close> and so on.
\<close>

section \<open>Definitions\<close>

record bullet = keyed_chart +
  bulMin :: jsval
  bulMax :: number
  bulRange :: number

text \<open>
  The canvas is made twice, first without interaction; the second call finds the first canvas when the chart is
  composite.
\<close>

definition bullet_init ::
  "env \<Rightarrow> vcanvas option \<Rightarrow> jsval list \<Rightarrow> (string \<Rightarrow> jsval) \<Rightarrow> jsval \<Rightarrow> jsval \<Rightarrow> nat \<Rightarrow> bullet" where
  "bullet_init ev existing values o' w h n =
     (let ns = jq_map_Number values; mn = Math_min ns; mx = Math_max ns;
          mn' = (if o' ''base'' = Undef then Num (if mn < Fin 0 then mn else Fin 0) else o' ''base'');
          w' = (if seq (o' ''width'') (Str ''auto'') then Str ''4.0em'' else w);
          first = simpledraw ev n existing w' h (truthy (o' ''composite'')) False
      in initTarget ev (case first of None \<Rightarrow> existing | Some c \<Rightarrow> Some c)
           \<lparr>vals = values, opt = o', width = w', height = h, disabled = (ns = []), target = no_canvas n,
            canvasWidth = Undef, canvasHeight = Undef, currentRegion = Undef,
            regionOf = Map.empty, valueShapes = Map.empty, bulMin = mn', bulMax = mx, bulRange = mx - to_number mn'\<rparr>)"

text \<open>The index that a property key (a number or its digits) denotes, and \<open>this.values[rn]\<close>.\<close>

definition key_index :: "jsval \<Rightarrow> nat option" where
  "key_index v =
     (case v of
        Str s \<Rightarrow> if nat_digits (nat (digits_val s)) = s then Some (nat (digits_val s)) else None
      | _ \<Rightarrow> idx_of v)"

definition bullet_value :: "bullet \<Rightarrow> jsval \<Rightarrow> jsval" where
  "bullet_value ch rn = (case key_index rn of None \<Rightarrow> Undef | Some i \<Rightarrow> jnth (vals ch) i)"

definition bullet_getCurrentRegionFields :: "bullet \<Rightarrow> jsval" where
  "bullet_getCurrentRegionFields ch =
     (let r = to_string (currentRegion ch)
      in Obj [(''fieldkey'', Str (take 1 r)), (''value'', bullet_value ch (Str (drop 1 r))), (''region'', Str r)])"

text \<open>The pixels from the left edge to a value.\<close>

definition bullet_x :: "bullet \<Rightarrow> jsval \<Rightarrow> number" where
  "bullet_x ch v = to_number (canvasWidth ch) * ((to_number v - to_number (bulMin ch)) / bulRange ch)"

definition lit_color :: "bool \<Rightarrow> jsval \<Rightarrow> (string \<Rightarrow> jsval) \<Rightarrow> jsval" where
  "lit_color highlight color o' = (if highlight then calcHighlightColor color o' else color)"

definition renderRange :: "jsval \<Rightarrow> bool \<Rightarrow> bullet \<Rightarrow> shape result" where
  "renderRange rn highlight ch =
     (if is_nullish (opt ch ''rangeColors'') then Inl (TypeError ''rangeColors is undefined'')
      else
        (let rangewidth = Math_round (bullet_x ch (bullet_value ch rn));
             color = lit_color highlight (jindex (as_list (opt ch ''rangeColors'')) (Num (to_number rn - Fin 2))) (opt ch)
         in Inr (Rect (num 0) (num 0) (Num (rangewidth - Fin 1)) (Num (to_number (canvasHeight ch) - Fin 1)) color color)))"

definition renderPerformance :: "bool \<Rightarrow> bullet \<Rightarrow> shape" where
  "renderPerformance highlight ch =
     (let perfwidth = Math_round (bullet_x ch (jnth (vals ch) 1));
          color = lit_color highlight (opt ch ''performanceColor'') (opt ch); cH = to_number (canvasHeight ch)
      in Rect (num 0) (Num (Math_round (cH * Fin (3 / 10)))) (Num (perfwidth - Fin 1))
           (Num (Math_round (cH * Fin (4 / 10)) - Fin 1)) color color)"

definition renderTarget :: "bool \<Rightarrow> bullet \<Rightarrow> shape" where
  "renderTarget highlight ch =
     (let tw = to_number (opt ch ''targetWidth''); cH = to_number (canvasHeight ch);
          x = Math_round (bullet_x ch (jnth (vals ch) 0) - tw / Fin 2);
          targettop = Math_round (cH * Fin (1 / 10)); targetheight = cH - targettop * Fin 2;
          color = lit_color highlight (opt ch ''targetColor'') (opt ch)
      in Rect (Num x) (Num targettop) (Num (tw - Fin 1)) (Num (targetheight - Fin 1)) color color)"

text \<open>The \<open>switch\<close> of \<open>changeHighlight\<close>: an unknown key leaves \<open>shape\<close> undefined, and reading its id raises.\<close>

definition bullet_paint :: "jsval \<Rightarrow> bool \<Rightarrow> bullet \<Rightarrow> shape result" where
  "bullet_paint region highlight ch =
     (case region of
        Str (k # rn) \<Rightarrow>
          if k = CHR ''r'' then renderRange (Str rn) highlight ch
          else if k = CHR ''p'' then Inr (renderPerformance highlight ch)
          else if k = CHR ''t'' then Inr (renderTarget highlight ch)
          else Inl (TypeError ''shape is undefined'')
      | _ \<Rightarrow> Inl (TypeError ''shape is undefined''))"

definition bullet_changeHighlight :: "bool \<Rightarrow> bullet \<Rightarrow> bullet result" where
  "bullet_changeHighlight highlight ch = keyed_changeHighlight bullet_paint highlight ch"

text \<open>The regions in the order they are drawn.\<close>

definition bullet_keys :: "bullet \<Rightarrow> jsval list" where
  "bullet_keys ch = map (\<lambda>i. Str (''r'' @ nat_digits i)) [2..<length (vals ch)] @ [Str ''p1'', Str ''t0'']"

definition bullet_render :: "env \<Rightarrow> bullet \<Rightarrow> bullet result" where
  "bullet_render ev ch =
     (if disabled ch then Inr ch
      else rbind (keyed_append_all bullet_paint (bullet_keys ch) ch) (\<lambda>ch1.
             rbind (canvas_render (inPath ev) (target ch1)) (\<lambda>c. Inr (ch1\<lparr>target := c\<rparr>))))"

section \<open>The bullet chart as a keyed renderer\<close>

definition has_rangeColors :: "bullet \<Rightarrow> bool" where
  "has_rangeColors ch \<longleftrightarrow> \<not> is_nullish (opt ch ''rangeColors'')"

lemma nat_digits_inj: "nat_digits i = nat_digits j \<Longrightarrow> i = j"
  by (metis digits_val_int_digits nat_digits_def nat_int of_nat_0_le_iff)

lemma bullet_frame:
  fixes ch :: bullet and c v r x
  defines "ch' \<equiv> ch\<lparr>target := c, valueShapes := v, regionOf := r, currentRegion := x\<rparr>"
  shows "bullet_paint k h ch' = bullet_paint k h ch" "bullet_keys ch' = bullet_keys ch" "has_rangeColors ch' = has_rangeColors ch"
proof -
  have f: "opt ch' = opt ch" "vals ch' = vals ch" "canvasWidth ch' = canvasWidth ch" "canvasHeight ch' = canvasHeight ch"
    "bulMin ch' = bulMin ch" "bulRange ch' = bulRange ch" by (simp_all add: ch'_def)
  then have "renderRange rn h ch' = renderRange rn h ch" "renderPerformance h ch' = renderPerformance h ch" "renderTarget h ch' = renderTarget h ch" for rn
    unfolding renderRange_def renderPerformance_def renderTarget_def bullet_x_def bullet_value_def by (simp_all only:)
  then show "bullet_paint k h ch' = bullet_paint k h ch" unfolding bullet_paint_def by (simp only:)
  show "bullet_keys ch' = bullet_keys ch" "has_rangeColors ch' = has_rangeColors ch"
    unfolding bullet_keys_def has_rangeColors_def f by (rule refl)+
qed

interpretation bul_kr: keyed_renderer bullet_paint bullet_keys has_rangeColors
proof (unfold_locales, goal_cases)
  case (1 ch k h)
  then show ?case
    by (auto simp: bullet_keys_def bullet_paint_def renderRange_def renderPerformance_def renderTarget_def has_rangeColors_def Let_def)
next
  case (5 ch)
  show ?case by (auto simp: bullet_keys_def distinct_map inj_on_def dest: nat_digits_inj)
next
  case (6 ch)
  show ?case by (auto simp: bullet_keys_def)
qed (rule bullet_frame)+

lemma bullet_render_ok:
  assumes "hasCanvas ev" "\<not> truthy (o' ''disableInteraction'')" "\<not> truthy (o' ''composite'')" "\<not> is_nullish (o' ''rangeColors'')" "vs \<noteq> []"
  shows "\<exists>ch1. bullet_render ev (bullet_init ev None vs o' w h n) = Inr ch1 \<and> keyed_ok bullet_paint bullet_keys has_rangeColors [] ch1"
proof -
  let ?ch = "bullet_init ev None vs o' w h n"
  have init: "canvas_wf (target ?ch)" "shapeseq (target ?ch) = []" "interact (target ?ch)" "\<not> disabled ?ch" "opt ?ch = o'"
    "currentRegion ?ch = Undef" "valueShapes ?ch = Map.empty" "regionOf ?ch = Map.empty"
    using assms canvas_init_wf
    by (simp_all add: bullet_init_def Let_def initTarget_def simpledraw_def jq_map_Number_def)
      (simp_all add: canvas_init_def calculatePixelDims_def)
  then have "keyed_inv bullet_paint [] [] (\<lambda>k. False) ?ch" "has_rangeColors ?ch"
    using assms(4) by (simp_all add: keyed_inv_def has_rangeColors_def)
  then obtain ch1 where ch1: "keyed_append_all bullet_paint (bullet_keys ?ch) ?ch = Inr ch1"
    "keyed_inv bullet_paint [] (bullet_keys ch1) (\<lambda>k. False) ch1" "has_rangeColors ch1" "currentRegion ch1 = Undef"
    using bul_kr.append_all_inv [of "[]" "[]" ?ch "bullet_keys ?ch"] bul_kr.keys_distinct init(6) by auto
  obtain c where "canvas_render (inPath ev) (target ch1) = Inr c" "keyed_ok bullet_paint bullet_keys has_rangeColors [] (ch1\<lparr>target := c\<rparr>)"
    using bul_kr.render_ok [OF ch1(2,3,4)] by blast
  then show ?thesis
    using init(4) ch1(1) by (simp add: bullet_render_def)
qed

section \<open>Properties\<close>

text \<open>C10. A bullet chart under any sequence of pointer events: rendering, hit testing and highlighting never raise, the two maps stay inverse
  to each other and in step with the canvas, and exactly the current region is highlighted.\<close>

theorem bullet_highlight:
  assumes "hasCanvas ev" "\<not> truthy (o' ''disableInteraction'')" "\<not> truthy (o' ''composite'')" "\<not> is_nullish (o' ''rangeColors'')" "vs \<noteq> []"
  shows "\<exists>ch1 ch2. bullet_render ev (bullet_init ev None vs o' w h n) = Inr ch1 \<and>
    pointer_events (pointer_event (keyed_getRegion ev) (bullet_changeHighlight True) (bullet_changeHighlight False)) es ch1 = Inr ch2 \<and>
    keyed_ok bullet_paint bullet_keys has_rangeColors [] ch2"
proof -
  have "bullet_changeHighlight b = keyed_changeHighlight bullet_paint b" for b
    by (simp add: fun_eq_iff bullet_changeHighlight_def)
  then show ?thesis
    using bullet_render_ok [of ev o' vs w h n] assms pointer_events_inv [where P = "keyed_ok bullet_paint bullet_keys has_rangeColors []"] bul_kr.event_ok by metis
qed

theorem bullet_highlight_witness:
  "\<exists>ch1 ch2. bullet_render plain_env (bullet_init plain_env None [num 10, num 12, num 12, num 9, num 7] (jget bullet_defaults) Undef Undef 0) = Inr ch1 \<and>
    pointer_events (pointer_event (keyed_getRegion plain_env) (bullet_changeHighlight True) (bullet_changeHighlight False)) [Move (num 7) (num 3), Leave] ch1 = Inr ch2 \<and>
    keyed_ok bullet_paint bullet_keys has_rangeColors [] ch2"
  by (rule bullet_highlight) (simp_all add: plain_env_def bullet_defaults_def is_nullish_def)

text \<open>The scale of a bullet chart with the default base: zero (or the least value, if it is negative) is drawn at the left edge, the greatest value at the
  right edge, and all values in between, in their order.\<close>

lemma bullet_scale:
  assumes "bulMin ch = num a" "bulRange ch = Fin (b - a)" "a < b" "to_number (canvasWidth ch) = Fin cw" "0 \<le> cw" "a \<le> x" "x \<le> y" "y \<le> b"
  shows "\<exists>px py. bullet_x ch (num x) = Fin px \<and> bullet_x ch (num y) = Fin py \<and> 0 \<le> px \<and> px \<le> py \<and> py \<le> cw"
proof -
  have t: "0 \<le> (x - a) / (b - a)" "(x - a) / (b - a) \<le> (y - a) / (b - a)" "(y - a) / (b - a) \<le> 1"
    using assms(3,6-8) by (auto simp: divide_right_mono)
  then have "0 \<le> cw * ((x - a) / (b - a))" "cw * ((x - a) / (b - a)) \<le> cw * ((y - a) / (b - a))" "cw * ((y - a) / (b - a)) \<le> cw * 1"
    using assms(5) by (blast intro: mult_left_mono mult_nonneg_nonneg)+
  then show ?thesis using assms(1-4) by (simp add: bullet_x_def)
qed

end
