(* ===== verification/SparkPie.thy ===== *)
theory SparkPie
  imports SparkKeyed
begin

text \<open>
  The pie chart, \<open>$.fn.sparkline.pie\<close> (\<open>static/js/jquery.sparkline.js\<close>, lines 2207 to 2312): one slice per value; the
  key of a slice is its index.
\<close>

section \<open>Definitions\<close>

record pie = keyed_chart +
  pieTotal :: number
  radius :: number

text \<open>The loop that adds up the values, from the last to the first.\<close>

fun pie_sum :: "number list \<Rightarrow> number \<Rightarrow> number" where
  "pie_sum [] tot = tot"
| "pie_sum (v # vs) tot = pie_sum vs (tot + v)"

definition pie_init ::
  "env \<Rightarrow> vcanvas option \<Rightarrow> jsval list \<Rightarrow> (string \<Rightarrow> jsval) \<Rightarrow> jsval \<Rightarrow> jsval \<Rightarrow> nat \<Rightarrow> pie" where
  "pie_init ev existing values o' w h n =
     (let ns = jq_map_Number values;
          ch = initTarget ev existing
            \<lparr>vals = map Num ns, opt = o', width = (if seq (o' ''width'') (Str ''auto'') then h else w), height = h, disabled = False,
             target = no_canvas n, canvasWidth = Undef, canvasHeight = Undef, currentRegion = Undef,
             regionOf = Map.empty, valueShapes = Map.empty, pieTotal = pie_sum (rev ns) (Fin 0), radius = NaN\<rparr>
      in ch\<lparr>radius := Math_floor (Math_min [to_number (canvasWidth ch), to_number (canvasHeight ch)] / Fin 2)\<rparr>)"

definition pie_color :: "pie \<Rightarrow> jsval \<Rightarrow> jsval" where
  "pie_color ch i =
     (let cs = as_list (opt ch ''sliceColors'')
      in jindex cs (Num (num_mod (to_number i) (Fin (of_nat (length cs))))))"

definition pie_getCurrentRegionFields :: "pie \<Rightarrow> jsval" where
  "pie_getCurrentRegionFields ch =
     (let r = currentRegion ch; v = jindex (vals ch) r
      in Obj [(''isNull'', Bool (v = Undef)), (''value'', v), (''percent'', Num (to_number v / pieTotal ch * Fin 100)),
              (''color'', pie_color ch r), (''offset'', r)])"

text \<open>The loop of \<open>renderSlice\<close>: the angles of slice \<open>valuenum\<close>, or nothing if there is no such slice.\<close>

fun slice_angles :: "number \<Rightarrow> jsval \<Rightarrow> jsval list \<Rightarrow> nat \<Rightarrow> number \<Rightarrow> (number \<times> number) option" where
  "slice_angles tot valuenum [] i nxt = None"
| "slice_angles tot valuenum (v # vs) i nxt =
     (let end = (if Fin 0 < tot then nxt + Fin (2 * pi) * (to_number v / tot) else nxt)
      in if seq valuenum (num (of_nat i)) then Some (nxt, end) else slice_angles tot valuenum vs (Suc i) end)"

definition pie_offset :: "pie \<Rightarrow> number" where
  "pie_offset ch = (if truthy (opt ch ''offset'') then Fin (2 * pi) * (to_number (opt ch ''offset'') / Fin 360) else Fin 0)"

text \<open>A slice that does not exist is \<open>undefined\<close>: using it raises.\<close>

definition renderSlice :: "jsval \<Rightarrow> bool \<Rightarrow> pie \<Rightarrow> shape result" where
  "renderSlice valuenum highlight ch =
     (case slice_angles (pieTotal ch) valuenum (vals ch) 0 (pie_offset ch) of
        None \<Rightarrow> Inl (TypeError ''newslice is undefined'')
      | Some (start, end) \<Rightarrow>
          if is_nullish (opt ch ''sliceColors'') then Inl (TypeError ''sliceColors is undefined'')
          else
            (let color = pie_color ch valuenum; color' = (if highlight then calcHighlightColor color (opt ch) else color)
             in Inr (PieSlice (Num (radius ch)) (Num (radius ch)) (Num (radius ch - to_number (opt ch ''borderWidth'')))
                       (Num start) (Num end) Undef color')))"

definition pie_changeHighlight :: "bool \<Rightarrow> pie \<Rightarrow> pie result" where
  "pie_changeHighlight highlight ch = keyed_changeHighlight renderSlice highlight ch"

definition pie_keys :: "pie \<Rightarrow> jsval list" where
  "pie_keys ch = map (\<lambda>i. num (of_nat i)) (rev [0..<length (vals ch)])"

definition pie_border :: "pie \<Rightarrow> vcanvas \<Rightarrow> vcanvas" where
  "pie_border ch c =
     (let bw = opt ch ''borderWidth''
      in if truthy bw then
           (let (s, c1) = drawCircle (Num (radius ch)) (Num (radius ch)) (Num (Math_floor (radius ch - to_number bw / Fin 2)))
                            (opt ch ''borderColor'') Undef bw c
            in appendShape s c1)
         else c)"

definition pie_render :: "env \<Rightarrow> pie \<Rightarrow> pie result" where
  "pie_render ev ch =
     (if disabled ch then Inr ch
      else rbind (keyed_append_all renderSlice (pie_keys ch) (ch\<lparr>target := pie_border ch (target ch)\<rparr>)) (\<lambda>ch1.
             rbind (canvas_render (inPath ev) (target ch1)) (\<lambda>c. Inr (ch1\<lparr>target := c\<rparr>))))"

section \<open>The angles\<close>

lemma pie_sum_Fin: "pie_sum (map Fin xs) (Fin a) = Fin (a + sum_list xs)"
  by (induction xs arbitrary: a) (auto simp: add.assoc)

lemma slice_angles_Some:
  "i \<le> k \<Longrightarrow> k < i + length vs \<Longrightarrow> \<exists>p. slice_angles tot (num (of_nat k)) vs i nxt = Some p"
proof (induction vs arbitrary: i nxt)
  case Nil
  then show ?case by simp
next
  case (Cons v vs)
  then show ?case by (cases "i = k") (auto simp: Let_def)
qed

lemma slice_angles_Fin:
  assumes "0 < t" "k < length xs"
  shows "slice_angles (Fin t) (num (of_nat (i + k))) (map num xs) i (Fin a) =
    Some (Fin (a + 2 * pi * sum_list (take k xs) / t), Fin (a + 2 * pi * sum_list (take (Suc k) xs) / t))"
  using assms(2)
proof (induction xs arbitrary: i k a)
  case Nil
  then show ?case by simp
next
  case (Cons x xs)
  show ?case
  proof (cases k)
    case 0
    then show ?thesis using assms(1) by simp
  next
    case (Suc k')
    then show ?thesis
      using Cons.IH [of k' "Suc i" "a + 2 * pi * x / t"] Cons.prems assms(1)
      by (simp add: Let_def algebra_simps add_divide_distrib)
  qed
qed

section \<open>The pie chart as a keyed renderer\<close>

definition has_sliceColors :: "pie \<Rightarrow> bool" where
  "has_sliceColors ch \<longleftrightarrow> \<not> is_nullish (opt ch ''sliceColors'')"

lemma pie_frame:
  fixes ch :: pie and c v r x
  defines "ch' \<equiv> ch\<lparr>target := c, valueShapes := v, regionOf := r, currentRegion := x\<rparr>"
  shows "renderSlice k h ch' = renderSlice k h ch" "pie_keys ch' = pie_keys ch" "has_sliceColors ch' = has_sliceColors ch"
proof -
  have f: "opt ch' = opt ch" "vals ch' = vals ch" "pieTotal ch' = pieTotal ch" "radius ch' = radius ch" by (simp_all add: ch'_def)
  show "renderSlice k h ch' = renderSlice k h ch"
    unfolding renderSlice_def pie_offset_def pie_color_def f by (rule refl)
  show "pie_keys ch' = pie_keys ch" "has_sliceColors ch' = has_sliceColors ch"
    unfolding pie_keys_def has_sliceColors_def f by (rule refl)+
qed

interpretation pie_kr: keyed_renderer renderSlice pie_keys has_sliceColors
proof (unfold_locales, goal_cases)
  case (1 ch k h)
  then obtain i where "i < length (vals ch)" "k = num (of_nat i)" by (auto simp: pie_keys_def)
  then show ?case
    using 1(1) slice_angles_Some [of 0 i "vals ch" "pieTotal ch" "pie_offset ch"]
    by (auto simp: renderSlice_def has_sliceColors_def Let_def)
next
  case (5 ch)
  show ?case by (auto simp: pie_keys_def distinct_map inj_on_def)
next
  case (6 ch)
  show ?case by (auto simp: pie_keys_def)
qed (rule pie_frame)+

lemma pie_border_ok:
  assumes "canvas_wf c" "shapeseq c = []" "interact c"
  shows "canvas_wf (pie_border ch c) \<and> interact (pie_border ch c)"
proof -
  let ?sh = "Circle (Num (radius ch)) (Num (radius ch)) (Num (Math_floor (radius ch - to_number (opt ch ''borderWidth'') / Fin 2)))
    (opt ch ''borderColor'') Undef (opt ch ''borderWidth'')"
  obtain s c1 where g: "genShape ?sh c = (s, c1)" by (cases "genShape ?sh c")
  then have "canvas_wf (appendShape s c1) \<and> interact (appendShape s c1)"
    using genShape_fresh [OF assms(1) _ g] appendShape_wf [of c1 s] assms(3) by (auto simp: appendShape_def genShape_def)
  then show ?thesis using assms g by (simp add: pie_border_def drawCircle_def Let_def)
qed

lemma pie_render_ok:
  assumes "hasCanvas ev" "\<not> truthy (o' ''disableInteraction'')" "\<not> is_nullish (o' ''sliceColors'')"
  shows "\<exists>ch1 pre. pie_render ev (pie_init ev None vs o' w h n) = Inr ch1 \<and> keyed_ok renderSlice pie_keys has_sliceColors pre ch1"
proof -
  let ?ch = "pie_init ev None vs o' w h n"
  have init: "canvas_wf (target ?ch)" "shapeseq (target ?ch) = []" "interact (target ?ch)" "\<not> disabled ?ch" "opt ?ch = o'"
    "currentRegion ?ch = Undef"
    using assms by (simp_all add: pie_init_def Let_def initTarget_new)
  have maps: "valueShapes ?ch = Map.empty" "regionOf ?ch = Map.empty"
    by (simp_all add: pie_init_def Let_def initTarget_def split: option.splits)
  let ?cb = "?ch\<lparr>target := pie_border ?ch (target ?ch)\<rparr>"
  let ?pre = "shapeseq (target ?cb)"
  have "keyed_inv renderSlice ?pre [] (\<lambda>k. False) ?cb" "has_sliceColors ?cb"
    using assms(3) pie_border_ok [OF init(1-3)] init(5) maps by (simp_all add: keyed_inv_def has_sliceColors_def)
  then obtain ch1 where ch1: "keyed_append_all renderSlice (pie_keys ?cb) ?cb = Inr ch1"
    "keyed_inv renderSlice ?pre (pie_keys ch1) (\<lambda>k. False) ch1" "has_sliceColors ch1" "currentRegion ch1 = Undef"
    using pie_kr.append_all_inv [of ?pre "[]" ?cb "pie_keys ?cb"] pie_kr.keys_distinct init(6) by auto
  obtain c where "canvas_render (inPath ev) (target ch1) = Inr c" "keyed_ok renderSlice pie_keys has_sliceColors ?pre (ch1\<lparr>target := c\<rparr>)"
    using pie_kr.render_ok [OF ch1(2,3,4)] by blast
  then obtain ch2 where ch2: "pie_render ev ?ch = Inr ch2" "keyed_ok renderSlice pie_keys has_sliceColors ?pre ch2"
    using init(4) ch1(1) by (simp add: pie_render_def pie_kr.frames)
  then show ?thesis by blast
qed

section \<open>Properties\<close>



text \<open>C15. The slices of positive values are consecutive and fill the circle: slice \<open>k\<close> starts where slice \<open>k - 1\<close> ends, its angle is the value's share of a full
  turn, and the last slice ends a full turn after the first one starts.\<close>

theorem pie_slices_fill:
  assumes "0 < sum_list xs" "k < length xs" "pie_offset ch = Fin a" "vals ch = map num xs" "pieTotal ch = pie_sum (rev (map Fin xs)) (Fin 0)"
  shows "slice_angles (pieTotal ch) (num (of_nat k)) (vals ch) 0 (pie_offset ch) =
      Some (Fin (a + 2 * pi * (sum_list (take k xs) / sum_list xs)), Fin (a + 2 * pi * (sum_list (take (Suc k) xs) / sum_list xs))) \<and>
    a + 2 * pi * (sum_list (take (length xs) xs) / sum_list xs) = a + 2 * pi"
proof -
  have "pieTotal ch = Fin (sum_list xs)"
    using assms(5) pie_sum_Fin [of "rev xs" 0] by (simp add: rev_map)
  then show ?thesis using slice_angles_Fin [OF assms(1,2), of 0 a] assms by simp
qed

theorem pie_slices_fill_witness:
  "let ch = pie_init plain_env None [num 3, num 2, num 5] (jget pie_defaults) Undef Undef 0; xs = [3, 2, 5 :: real]
   in slice_angles (pieTotal ch) (num (of_nat 1)) (vals ch) 0 (pie_offset ch) =
      Some (Fin (0 + 2 * pi * (sum_list (take 1 xs) / sum_list xs)), Fin (0 + 2 * pi * (sum_list (take (Suc 1) xs) / sum_list xs))) \<and>
    0 + 2 * pi * (sum_list (take (length xs) xs) / sum_list xs) = 0 + 2 * pi"
proof -
  let ?ch = "pie_init plain_env None [num 3, num 2, num 5] (jget pie_defaults) Undef Undef 0"
  have "vals ?ch = map num [3, 2, 5]" "pieTotal ?ch = pie_sum (rev (map Fin [3, 2, 5])) (Fin 0)" "opt ?ch = jget pie_defaults"
    by (simp_all add: pie_init_def Let_def initTarget_def jq_map_Number_def split: option.splits)
  then show ?thesis
    using pie_slices_fill [of "[3, 2, 5]" 1 ?ch 0] by (simp add: pie_offset_def pie_defaults_def)
qed

end
