(* ===== verification/SparkBox.thy ===== *)
theory SparkBox
  imports SparkBase
begin

text \<open>
  The box plot, \<open>$.fn.sparkline.box\<close> (\<open>static/js/jquery.sparkline.js\<close>, lines 2317 to 2494): quartiles, whiskers and outliers of a
  list of values, or of a list that already holds them.
\<close>

section \<open>Definitions\<close>

record box = chart +
  quartiles :: "jsval list"
  lwhisker :: jsval
  rwhisker :: jsval
  loutlier :: jsval
  routlier :: jsval

definition box_init ::
  "env \<Rightarrow> vcanvas option \<Rightarrow> jsval list \<Rightarrow> (string \<Rightarrow> jsval) \<Rightarrow> jsval \<Rightarrow> jsval \<Rightarrow> nat \<Rightarrow> box" where
  "box_init ev existing values o' w h n =
     (let ns = jq_map_Number values;
          ch = initTarget ev existing
            \<lparr>vals = map Num ns, opt = o', width = (if seq (o' ''width'') (Str ''auto'') then Str ''4.0em'' else w), height = h, disabled = False,
             target = no_canvas n, canvasWidth = Undef, canvasHeight = Undef, currentRegion = Undef,
             quartiles = [], lwhisker = Undef, rwhisker = Undef, loutlier = Undef, routlier = Undef\<rparr>
      in if ns = [] then ch\<lparr>disabled := True\<rparr> else ch)"

definition box_getRegion :: "jsval \<Rightarrow> jsval \<Rightarrow> box \<Rightarrow> jsval" where
  "box_getRegion x y ch = num 1"

definition box_field :: "string \<Rightarrow> jsval \<Rightarrow> jsval" where
  "box_field k v = Obj [(''field'', Str k), (''value'', v)]"

definition box_getCurrentRegionFields :: "box \<Rightarrow> jsval" where
  "box_getCurrentRegionFields ch =
     Arr ([box_field ''lq'' (jnth (quartiles ch) 0), box_field ''med'' (jnth (quartiles ch) 1), box_field ''uq'' (jnth (quartiles ch) 2),
           box_field ''lo'' (loutlier ch), box_field ''ro'' (routlier ch)] @
          (if lwhisker ch \<noteq> Undef then [box_field ''lw'' (lwhisker ch)] else []) @
          (if rwhisker ch \<noteq> Undef then [box_field ''rw'' (rwhisker ch)] else []))"

text \<open>\<open>values.sort(function (a, b) { return a - b; })\<close> on numbers.\<close>

fun num_insert :: "number \<Rightarrow> number list \<Rightarrow> number list" where
  "num_insert x [] = [x]"
| "num_insert x (y # ys) = (if y < x then y # num_insert x ys else x # y # ys)"

fun num_sort :: "number list \<Rightarrow> number list" where
  "num_sort [] = []"
| "num_sort (x # xs) = num_insert x (num_sort xs)"

text \<open>The loop that finds the whiskers: the first value above the lower fence, the last one below the upper fence.\<close>

fun whisker_loop :: "number \<Rightarrow> number \<Rightarrow> number list \<Rightarrow> jsval \<Rightarrow> jsval \<Rightarrow> jsval \<times> jsval" where
  "whisker_loop lofence hifence [] lw rw = (lw, rw)"
| "whisker_loop lofence hifence (v # vs) lw rw =
     whisker_loop lofence hifence vs (if lw = Undef \<and> lofence < v then Num v else lw) (if v < hifence then Num v else rw)"

definition box_raw :: "jsval list \<Rightarrow> bool \<Rightarrow> box \<Rightarrow> box" where
  "box_raw vs outliers ch =
     (if outliers \<and> length vs > 5
      then ch\<lparr>loutlier := jnth vs 0, lwhisker := jnth vs 1, quartiles := [jnth vs 2, jnth vs 3, jnth vs 4],
              rwhisker := jnth vs 5, routlier := jnth vs 6\<rparr>
      else ch\<lparr>lwhisker := jnth vs 0, quartiles := [jnth vs 1, jnth vs 2, jnth vs 3], rwhisker := jnth vs 4,
              loutlier := Undef, routlier := Undef\<rparr>)"

definition box_stats :: "number list \<Rightarrow> bool \<Rightarrow> number \<Rightarrow> box \<Rightarrow> box" where
  "box_stats ns outliers k ch =
     (let vs = num_sort ns; js = map Num vs;
          q1 = quartile js 1; q2 = quartile js 2; q3 = quartile js 3;
          iqr = to_number q3 - to_number q1;
          (lw, rw) = whisker_loop (to_number q1 - iqr * k) (to_number q3 + iqr * k) vs Undef Undef;
          first = jnth js 0; last = jnth js (length js - 1)
      in if outliers
         then ch\<lparr>vals := js, quartiles := [q1, q2, q3], lwhisker := lw, rwhisker := rw, loutlier := first, routlier := last\<rparr>
         else ch\<lparr>vals := js, quartiles := [q1, q2, q3], lwhisker := first, rwhisker := last, loutlier := Undef, routlier := Undef\<rparr>)"

text \<open>The horizontal position of a value, before it is rounded.\<close>

definition box_x :: "jsval \<Rightarrow> number \<Rightarrow> number \<Rightarrow> jsval \<Rightarrow> number" where
  "box_x minValue unitSize canvasLeft v = (to_number v - to_number minValue) * unitSize + canvasLeft"

definition hline :: "number \<Rightarrow> number \<Rightarrow> number \<Rightarrow> number \<Rightarrow> jsval \<Rightarrow> shape" where
  "hline x1 y1 x2 y2 color = Shape [(Num (Math_round x1), Num (Math_round y1)), (Num (Math_round x2), Num (Math_round y2))] color Undef Undef"

definition outlier_spot :: "(string \<Rightarrow> jsval) \<Rightarrow> number \<Rightarrow> number \<Rightarrow> shape" where
  "outlier_spot o' x cH = Circle (Num x) (Num (cH / Fin 2)) (o' ''spotRadius'') (o' ''outlierLineColor'') (o' ''outlierFillColor'') Undef"

text \<open>All the shapes of the plot, in the order they are appended.\<close>

definition box_shapes :: "jsval \<Rightarrow> jsval \<Rightarrow> box \<Rightarrow> shape list" where
  "box_shapes minValue maxValue ch =
     (let o' = opt ch; outliers = truthy (o' ''showOutliers''); cH = to_number (canvasHeight ch);
          r = Math_ceil (to_number (o' ''spotRadius''));
          left = (if outliers then r else Fin 0);
          cW = (if outliers then to_number (canvasWidth ch) - Fin 2 * r else to_number (canvasWidth ch));
          unitSize = cW / (to_number maxValue - to_number minValue + Fin 1);
          px = box_x minValue unitSize left;
          q1 = jnth (quartiles ch) 0; q2 = jnth (quartiles ch) 1; q3 = jnth (quartiles ch) 2;
          lw = lwhisker ch; rw = rwhisker ch; tv = o' ''target''
      in (if outliers \<and> jlt (loutlier ch) lw then [outlier_spot o' (px (loutlier ch)) cH] else []) @
         (if outliers \<and> jlt rw (routlier ch) then [outlier_spot o' (px (routlier ch)) cH] else []) @
         [Rect (Num (Math_round (px q1))) (Num (Math_round (cH * Fin (1 / 10))))
            (Num (Math_round ((to_number q3 - to_number q1) * unitSize))) (Num (Math_round (cH * Fin (8 / 10))))
            (o' ''boxLineColor'') (o' ''boxFillColor''),
          hline (px lw) (cH / Fin 2) (px q1) (cH / Fin 2) (o' ''lineColor''),
          hline (px lw) (cH / Fin 4) (px lw) (cH - cH / Fin 4) (o' ''whiskerColor''),
          hline (px rw) (cH / Fin 2) (px q3) (cH / Fin 2) (o' ''lineColor''),
          hline (px rw) (cH / Fin 4) (px rw) (cH - cH / Fin 4) (o' ''whiskerColor''),
          hline (px q2) (cH * Fin (1 / 10)) (px q2) (cH * Fin (9 / 10)) (o' ''medianColor'')] @
         (if truthy tv
          then [hline (px tv) (cH / Fin 2 - r) (px tv) (cH / Fin 2 + r) (o' ''targetColor''),
                hline (px tv - r) (cH / Fin 2) (px tv + r) (cH / Fin 2) (o' ''targetColor'')]
          else []))"

definition box_render :: "env \<Rightarrow> box \<Rightarrow> box result" where
  "box_render ev ch =
     (if disabled ch then Inr ch
      else
        (let o' = opt ch; ns = map to_number (vals ch); outliers = truthy (o' ''showOutliers'');
             minValue = (if o' ''chartRangeMin'' = Undef then Num (Math_min ns) else o' ''chartRangeMin'');
             maxValue = (if o' ''chartRangeMax'' = Undef then Num (Math_max ns) else o' ''chartRangeMax'');
             ch1 = (if truthy (o' ''raw'') then box_raw (vals ch) outliers ch
                    else box_stats ns outliers (to_number (o' ''outlierIQR'')) ch);
             c = fold draw_append (box_shapes minValue maxValue ch1) (target ch1)
         in rbind (canvas_render (inPath ev) c) (\<lambda>c'. Inr (ch1\<lparr>target := c'\<rparr>))))"

section \<open>Facts\<close>

lemma mset_num_insert [simp]: "mset (num_insert x xs) = add_mset x (mset xs)"
  by (induction xs) auto

lemma mset_num_sort [simp]: "mset (num_sort xs) = mset xs"
  by (induction xs) auto

lemma num_insert_Fin: "num_insert (Fin x) (map Fin xs) = map Fin (insort x xs)"
  by (induction xs) auto

lemma num_sort_Fin: "num_sort (map Fin xs) = map Fin (sort xs)"
  by (induction xs) (auto simp: num_insert_Fin)

lemma whisker_loop_left:
  "lw \<noteq> Undef \<Longrightarrow> fst (whisker_loop lo hi vs lw rw) = lw"
  by (induction vs arbitrary: rw) auto

lemma whisker_loop_find:
  "fst (whisker_loop lo hi vs Undef rw) = (case find (\<lambda>v. lo < v) vs of None \<Rightarrow> Undef | Some v \<Rightarrow> Num v)"
  by (induction vs arbitrary: rw) (auto simp: whisker_loop_left)

lemma whisker_loop_last:
  "snd (whisker_loop lo hi vs lw rw) = (case find (\<lambda>v. v < hi) (rev vs) of None \<Rightarrow> rw | Some v \<Rightarrow> Num v)"
proof (induction vs arbitrary: lw rw)
  case Nil
  then show ?case by simp
next
  case (Cons v vs)
  have "find p (xs @ [y]) = (case find p xs of None \<Rightarrow> if p y then Some y else None | Some z \<Rightarrow> Some z)" for p :: "number \<Rightarrow> bool" and xs y
    by (induction xs) auto
  then show ?case using Cons by (auto split: option.splits)
qed

text \<open>The first hit in a sorted list is the least, the first one from the end the greatest.\<close>

lemma find_sorted:
  fixes ys :: "'a::linorder list"
  assumes "sorted ys"
  shows "find P ys = (if \<exists>y \<in> set ys. P y then Some (Min {y \<in> set ys. P y}) else None)"
  using assms
proof (induction ys)
  case Nil
  then show ?case by simp
next
  case (Cons y ys)
  show ?case
  proof (cases "P y")
    case True
    then have "{z \<in> set (y # ys). P z} = insert y {z \<in> set ys. P z}" by auto
    moreover have "Min (insert y {z \<in> set ys. P z}) = y" using Cons.prems by (intro Min_eqI) auto
    ultimately show ?thesis using True by simp
  next
    case False
    then have "{z \<in> set (y # ys). P z} = {z \<in> set ys. P z}" by auto
    then show ?thesis using False Cons by simp
  qed
qed

lemma find_sorted_rev:
  fixes ys :: "'a::linorder list"
  assumes "sorted ys"
  shows "find P (rev ys) = (if \<exists>y \<in> set ys. P y then Some (Max {y \<in> set ys. P y}) else None)"
  using assms
proof (induction ys rule: rev_induct)
  case Nil
  then show ?case by simp
next
  case (snoc y ys)
  show ?case
  proof (cases "P y")
    case True
    then have "{z \<in> set (ys @ [y]). P z} = insert y {z \<in> set ys. P z}" by auto
    moreover have "Max (insert y {z \<in> set ys. P z}) = y" using snoc.prems by (intro Max_eqI) (auto simp: sorted_append)
    ultimately show ?thesis using True by simp
  next
    case False
    then have "{z \<in> set (ys @ [y]). P z} = {z \<in> set ys. P z}" by auto
    then show ?thesis using False snoc by (simp add: sorted_append)
  qed
qed

lemma find_map: "find P (map f xs) = map_option f (find (P \<circ> f) xs)"
  by (induction xs) auto

lemma sort_ends:
  fixes xs :: "real list"
  assumes "xs \<noteq> []"
  shows "sort xs ! 0 = Min (set xs)" "sort xs ! (length xs - 1) = Max (set xs)"
proof -
  let ?ys = "sort xs"
  have len: "length ?ys = length xs" "0 < length xs" using assms by simp_all
  have le: "?ys ! 0 \<le> y \<and> y \<le> ?ys ! (length xs - 1)" if "y \<in> set ?ys" for y
    using that len by (metis Suc_pred' in_set_conv_nth le0 less_Suc_eq_le sorted_nth_mono sorted_sort lessI)
  have mem: "?ys ! 0 \<in> set xs" "?ys ! (length xs - 1) \<in> set xs"
    using len nth_mem [of 0 ?ys] nth_mem [of "length xs - 1" ?ys] by simp_all
  show "?ys ! 0 = Min (set xs)" using le mem by (intro Min_eqI [symmetric]) auto
  show "?ys ! (length xs - 1) = Max (set xs)" using le mem by (intro Max_eqI [symmetric]) auto
qed

section \<open>Properties\<close>

text \<open>
  C13. The statistics of a box plot with outliers, of any list of numbers: the values are sorted, the
  outliers are the least and the greatest value, and the whiskers are the least value above the lower
  fence and the greatest value below the upper one, where the fences lie \<open>k\<close> interquartile ranges
  outside the quartiles; a whisker is undefined exactly if there is no such value.
\<close>

theorem box_statistics:
  fixes xs :: "real list" and k q1 q3 :: real
  defines "lo \<equiv> q1 - (q3 - q1) * k" and "hi \<equiv> q3 + (q3 - q1) * k"
  assumes xs: "xs \<noteq> []" and q: "quartile (map num (sort xs)) 1 = num q1" "quartile (map num (sort xs)) 3 = num q3"
    and bx: "bx = box_stats (map Fin xs) True (Fin k) ch"
  shows "vals bx = map num (sort xs) \<and> loutlier bx = num (Min (set xs)) \<and> routlier bx = num (Max (set xs)) \<and>
    lwhisker bx = (if \<exists>x \<in> set xs. lo < x then num (Min {x \<in> set xs. lo < x}) else Undef) \<and>
    rwhisker bx = (if \<exists>x \<in> set xs. x < hi then num (Max {x \<in> set xs. x < hi}) else Undef)"
proof -
  let ?ys = "sort xs"
  let ?w = "whisker_loop (Fin lo) (Fin hi) (map Fin ?ys) Undef Undef"
  have js: "map Num (map Fin ?ys) = map num ?ys" by simp
  have bx': "bx = ch\<lparr>vals := map num ?ys, quartiles := [num q1, quartile (map num ?ys) 2, num q3], lwhisker := fst ?w, rwhisker := snd ?w,
      loutlier := jnth (map num ?ys) 0, routlier := jnth (map num ?ys) (length xs - 1)\<rparr>"
    unfolding bx box_stats_def Let_def num_sort_Fin js q lo_def hi_def by (simp split: prod.splits)
  have "fst ?w = (if \<exists>x \<in> set xs. lo < x then num (Min {x \<in> set xs. lo < x}) else Undef)"
    by (simp add: whisker_loop_find find_map comp_def find_sorted)
  moreover have "snd ?w = (if \<exists>x \<in> set xs. x < hi then num (Max {x \<in> set xs. x < hi}) else Undef)"
    by (simp add: whisker_loop_last rev_map find_map comp_def find_sorted_rev)
  ultimately show ?thesis using bx' xs sort_ends [OF xs] by simp
qed

theorem box_statistics_witness:
  "let bx = box_stats (map Fin [100, 2, 3, 1, 5, 4, 7, 6]) True (Fin (3 / 2)) (box_init plain_env None [num 1] (jget box_defaults) Undef Undef 0)
   in lwhisker bx = num 1 \<and> rwhisker bx = num 7 \<and> routlier bx = num 100"
proof -
  let ?xs = "[100, 2, 3, 1, 5, 4, 7, 6] :: real list"
  have q: "quartile (map num (sort ?xs)) 1 = num 3" "quartile (map num (sort ?xs)) 3 = num 7" by (simp_all add: quartile_def)
  have s: "{x \<in> set ?xs. 3 - (7 - 3) * (3 / 2) < x} = set ?xs" "{x \<in> set ?xs. x < 7 + (7 - 3) * (3 / 2)} = {1, 2, 3, 4, 5, 6, 7}" by auto
  show ?thesis
    using box_statistics [OF _ q refl, where k = "3 / 2" and ch = "box_init plain_env None [num 1] (jget box_defaults) Undef Undef 0"]
    unfolding s Let_def by simp
qed

end
