(* ===== verification/SparkCharts.thy ===== *)
theory SparkCharts
  imports SparkLine SparkTristate SparkDiscrete SparkBullet SparkPie SparkBox
begin

text \<open>
  The seven chart classes behind one interface, as \<open>$.fn.sparkline\<close> and \<open>MouseHandler\<close> of
  \<open>static/js/jquery.sparkline.js\<close> use them: a chart is constructed by the name of its type and its
  methods \<open>render\<close>, \<open>setRegionHighlight\<close>, \<open>clearRegionHighlight\<close> and \<open>getCurrentRegionTooltip\<close> are
  called without knowing its class. The sum type and the functions below are that dispatch; each
  branch passes the methods the class overrides.
\<close>

section \<open>Definitions\<close>

datatype sparkline =
    SLine line
  | SBar bar
  | STristate bar_chart
  | SDiscrete discrete
  | SBullet bullet
  | SPie pie
  | SBox box

fun sp_target :: "sparkline \<Rightarrow> vcanvas" where
  "sp_target (SLine ch) = target ch"
| "sp_target (SBar ch) = target ch"
| "sp_target (STristate ch) = target ch"
| "sp_target (SDiscrete ch) = target ch"
| "sp_target (SBullet ch) = target ch"
| "sp_target (SPie ch) = target ch"
| "sp_target (SBox ch) = target ch"

text \<open>The canvas a chart refers to is shared: its contents are read before a method runs.\<close>

fun sp_retarget :: "vcanvas \<Rightarrow> sparkline \<Rightarrow> sparkline" where
  "sp_retarget c (SLine ch) = SLine (ch\<lparr>target := c\<rparr>)"
| "sp_retarget c (SBar ch) = SBar (ch\<lparr>target := c\<rparr>)"
| "sp_retarget c (STristate ch) = STristate (ch\<lparr>target := c\<rparr>)"
| "sp_retarget c (SDiscrete ch) = SDiscrete (ch\<lparr>target := c\<rparr>)"
| "sp_retarget c (SBullet ch) = SBullet (ch\<lparr>target := c\<rparr>)"
| "sp_retarget c (SPie ch) = SPie (ch\<lparr>target := c\<rparr>)"
| "sp_retarget c (SBox ch) = SBox (ch\<lparr>target := c\<rparr>)"

fun sp_region :: "sparkline \<Rightarrow> jsval" where
  "sp_region (SLine ch) = currentRegion ch"
| "sp_region (SBar ch) = currentRegion ch"
| "sp_region (STristate ch) = currentRegion ch"
| "sp_region (SDiscrete ch) = currentRegion ch"
| "sp_region (SBullet ch) = currentRegion ch"
| "sp_region (SPie ch) = currentRegion ch"
| "sp_region (SBox ch) = currentRegion ch"

text \<open>\<open>new $.fn.sparkline[options.get('type')](this, values, options, width, height)\<close>.\<close>

definition sp_init ::
  "env \<Rightarrow> vcanvas option \<Rightarrow> jsval list \<Rightarrow> (string \<Rightarrow> jsval) \<Rightarrow> jsval \<Rightarrow> jsval \<Rightarrow> nat \<Rightarrow> sparkline result" where
  "sp_init ev existing vs o' w h n =
     (let ty = to_string (o' ''type'')
      in if ty = ''line'' then Inr (SLine (line_init ev existing vs o' w h n))
         else if ty = ''bar'' then rbind (bar_init ev existing vs o' w h n) (\<lambda>ch. Inr (SBar ch))
         else if ty = ''tristate'' then Inr (STristate (tristate_init ev existing vs o' w h n))
         else if ty = ''discrete'' then Inr (SDiscrete (discrete_init ev existing vs o' w h n))
         else if ty = ''bullet'' then Inr (SBullet (bullet_init ev existing vs o' w h n))
         else if ty = ''pie'' then Inr (SPie (pie_init ev existing vs o' w h n))
         else if ty = ''box'' then Inr (SBox (box_init ev existing vs o' w h n))
         else Inl (TypeError ''$.fn.sparkline[options.get(...)] is not a constructor''))"

text \<open>A method's result, with the chart put back under its class.\<close>

definition wrap :: "('c \<Rightarrow> sparkline) \<Rightarrow> ('r \<times> 'c) result \<Rightarrow> ('r \<times> sparkline) result" where
  "wrap f r = rbind r (\<lambda>(b, ch). Inr (b, f ch))"

fun sp_render :: "env \<Rightarrow> sparkline \<Rightarrow> sparkline result" where
  "sp_render ev (SLine ch) = rbind (line_render ev ch) (\<lambda>c. Inr (SLine c))"
| "sp_render ev (SBar ch) = rbind (mixin_render ev bar_renderRegion ch) (\<lambda>c. Inr (SBar c))"
| "sp_render ev (STristate ch) = rbind (mixin_render ev tristate_renderRegion ch) (\<lambda>c. Inr (STristate c))"
| "sp_render ev (SDiscrete ch) = rbind (mixin_render ev discrete_renderRegion ch) (\<lambda>c. Inr (SDiscrete c))"
| "sp_render ev (SBullet ch) = rbind (bullet_render ev ch) (\<lambda>c. Inr (SBullet c))"
| "sp_render ev (SPie ch) = rbind (pie_render ev ch) (\<lambda>c. Inr (SPie c))"
| "sp_render ev (SBox ch) = rbind (box_render ev ch) (\<lambda>c. Inr (SBox c))"

fun sp_setRegionHighlight :: "env \<Rightarrow> jsval \<Rightarrow> jsval \<Rightarrow> sparkline \<Rightarrow> (bool option \<times> sparkline) result" where
  "sp_setRegionHighlight ev x y (SLine ch) =
     wrap SLine (setRegionHighlight (\<lambda>x y ch. Inr (line_getRegion x y ch, ch)) (\<lambda>ch. Inr (line_renderHighlight ch))
       (\<lambda>ch. Inr (line_removeHighlight ch)) x y ch)"
| "sp_setRegionHighlight ev x y (SBar ch) =
     wrap SBar (setRegionHighlight (\<lambda>x y ch. Inr (bar_getRegion x y ch, ch)) (mixin_changeHighlight bar_renderRegion True)
       (mixin_changeHighlight bar_renderRegion False) x y ch)"
| "sp_setRegionHighlight ev x y (STristate ch) =
     wrap STristate (setRegionHighlight (\<lambda>x y ch. Inr (tristate_getRegion x y ch, ch)) (mixin_changeHighlight tristate_renderRegion True)
       (mixin_changeHighlight tristate_renderRegion False) x y ch)"
| "sp_setRegionHighlight ev x y (SDiscrete ch) =
     wrap SDiscrete (setRegionHighlight (\<lambda>x y ch. Inr (discrete_getRegion x y ch, ch)) (mixin_changeHighlight discrete_renderRegion True)
       (mixin_changeHighlight discrete_renderRegion False) x y ch)"
| "sp_setRegionHighlight ev x y (SBullet ch) =
     wrap SBullet (setRegionHighlight (keyed_getRegion ev) (bullet_changeHighlight True) (bullet_changeHighlight False) x y ch)"
| "sp_setRegionHighlight ev x y (SPie ch) =
     wrap SPie (setRegionHighlight (keyed_getRegion ev) (pie_changeHighlight True) (pie_changeHighlight False) x y ch)"
| "sp_setRegionHighlight ev x y (SBox ch) =
     wrap SBox (setRegionHighlight (\<lambda>x y ch. Inr (box_getRegion x y ch, ch)) Inr Inr x y ch)"

fun sp_clearRegionHighlight :: "sparkline \<Rightarrow> (bool \<times> sparkline) result" where
  "sp_clearRegionHighlight (SLine ch) = wrap SLine (clearRegionHighlight (\<lambda>ch. Inr (line_removeHighlight ch)) ch)"
| "sp_clearRegionHighlight (SBar ch) = wrap SBar (clearRegionHighlight (mixin_changeHighlight bar_renderRegion False) ch)"
| "sp_clearRegionHighlight (STristate ch) = wrap STristate (clearRegionHighlight (mixin_changeHighlight tristate_renderRegion False) ch)"
| "sp_clearRegionHighlight (SDiscrete ch) = wrap SDiscrete (clearRegionHighlight (mixin_changeHighlight discrete_renderRegion False) ch)"
| "sp_clearRegionHighlight (SBullet ch) = wrap SBullet (clearRegionHighlight (bullet_changeHighlight False) ch)"
| "sp_clearRegionHighlight (SPie ch) = wrap SPie (clearRegionHighlight (pie_changeHighlight False) ch)"
| "sp_clearRegionHighlight (SBox ch) = wrap SBox (clearRegionHighlight Inr ch)"

fun sp_getCurrentRegionTooltip :: "env \<Rightarrow> sparkline \<Rightarrow> jsval result" where
  "sp_getCurrentRegionTooltip ev (SLine ch) = getCurrentRegionTooltip ev (opt ch) (currentRegion ch) (line_getCurrentRegionFields ch)"
| "sp_getCurrentRegionTooltip ev (SBar ch) = getCurrentRegionTooltip ev (opt ch) (currentRegion ch) (bar_getCurrentRegionFields ch)"
| "sp_getCurrentRegionTooltip ev (STristate ch) = getCurrentRegionTooltip ev (opt ch) (currentRegion ch) (tristate_getCurrentRegionFields ch)"
| "sp_getCurrentRegionTooltip ev (SDiscrete ch) = getCurrentRegionTooltip ev (opt ch) (currentRegion ch) (discrete_getCurrentRegionFields ch)"
| "sp_getCurrentRegionTooltip ev (SBullet ch) = getCurrentRegionTooltip ev (opt ch) (currentRegion ch) (bullet_getCurrentRegionFields ch)"
| "sp_getCurrentRegionTooltip ev (SPie ch) = getCurrentRegionTooltip ev (opt ch) (currentRegion ch) (pie_getCurrentRegionFields ch)"
| "sp_getCurrentRegionTooltip ev (SBox ch) = getCurrentRegionTooltip ev (opt ch) (currentRegion ch) (box_getCurrentRegionFields ch)"

section \<open>Facts\<close>

lemma sp_target_retarget [simp]: "sp_target (sp_retarget c sp) = c"
  by (cases sp) simp_all

lemma sp_region_retarget [simp]: "sp_region (sp_retarget c sp) = sp_region sp"
  by (cases sp) simp_all

text \<open>Clearing leaves no current region; it reports a change exactly when there was one.\<close>

lemma clearRegionHighlight_region:
  "clearRegionHighlight f ch = Inr (b, ch') \<Longrightarrow> currentRegion ch' = Undef \<and> b = (currentRegion ch \<noteq> Undef)"
  by (auto simp: clearRegionHighlight_def rbind_def split: if_splits sum.splits)

lemma sp_clear_region: "sp_clearRegionHighlight sp = Inr (b, sp') \<Longrightarrow> sp_region sp' = Undef \<and> b = (sp_region sp \<noteq> Undef)"
  by (cases sp) (auto simp: wrap_def rbind_def split: sum.splits dest!: clearRegionHighlight_region)

end
