(* ===== verification/SparkTooltip.thy ===== *)
theory SparkTooltip
  imports SparkOptions
begin

text \<open>
  The class \<open>Tooltip\<close> of \<open>static/js/jquery.sparkline.js\<close> (lines 793 to 901): the floating box beside
  the pointer. What jQuery reads off the window and off the two measured boxes is the parameter
  \<open>win\<close>; the style properties the code sets on the box (\<open>visibility\<close>, \<open>left\<close>, \<open>top\<close>) are fields of
  the state.
\<close>

section \<open>Definitions\<close>

text \<open>
  What the browser answers: the scroll position and width of the window, where a box appended to a
  container lies, and the size of a box with a given content.
\<close>

record win =
  winScrollTop :: number
  winScrollLeft :: number
  winWidth :: number
  boxOffset :: "jsval \<Rightarrow> number \<times> number"
  boxSize :: "string \<Rightarrow> number \<times> number"

record tooltip =
  tipClass :: jsval
  container :: jsval
  tooltipOffsetX :: jsval
  tooltipOffsetY :: jsval
  offsetLeft :: number
  offsetTop :: number
  hidden :: bool
  scrollTop :: number
  scrollLeft :: number
  scrollRight :: number
  mouse :: "(number \<times> number) option"
  tipWidth :: number
  tipHeight :: number
  tipHtml :: string
  tipVisible :: bool
  tipPos :: "(jsval \<times> jsval) option"

text \<open>
  The clamped position of the box for a pointer at \<open>(x, y)\<close>: above and to the right of the pointer,
  kept below the top edge of the window and between its sides.
\<close>

definition clamp_position :: "tooltip \<Rightarrow> number \<Rightarrow> number \<Rightarrow> jsval \<times> jsval" where
  "clamp_position t x y =
     (let y1 = Num (y - to_number (jadd (Num (tipHeight t)) (tooltipOffsetY t)));
          x1 = jadd (Num x) (tooltipOffsetX t);
          y2 = (if jlt y1 (Num (scrollTop t)) then Num (scrollTop t) else y1);
          x2 = (if jlt x1 (Num (scrollLeft t)) then Num (scrollLeft t)
                else if jlt (Num (scrollRight t)) (jadd x1 (Num (tipWidth t))) then Num (scrollRight t - tipWidth t)
                else x1)
      in (x2, y2))"

text \<open>\<open>!this.height || !this.width || this.hidden\<close>: a size that is not set yet is 0 in the model.\<close>

definition tip_skips :: "tooltip \<Rightarrow> bool" where
  "tip_skips t \<longleftrightarrow> \<not> truthy (Num (tipHeight t)) \<or> \<not> truthy (Num (tipWidth t)) \<or> hidden t"

definition place :: "number \<Rightarrow> number \<Rightarrow> tooltip \<Rightarrow> tooltip" where
  "place x y t = (if tip_skips t then t else t\<lparr>tipPos := Some (clamp_position t x y)\<rparr>)"

text \<open>\<open>updatePosition()\<close> without arguments, and with the position of the pointer.\<close>

definition updatePosition0 :: "tooltip \<Rightarrow> tooltip" where
  "updatePosition0 t =
     (case mouse t of
        None \<Rightarrow> t
      | Some (mx, my) \<Rightarrow> place (mx - offsetLeft t) (my - offsetTop t) t)"

definition updatePosition :: "number \<Rightarrow> number \<Rightarrow> tooltip \<Rightarrow> tooltip" where
  "updatePosition x y t =
     (let mx = x - offsetLeft t; my = y - offsetTop t in place mx my (t\<lparr>mouse := Some (mx, my)\<rparr>))"

definition updateWindowDims :: "win \<Rightarrow> tooltip \<Rightarrow> tooltip" where
  "updateWindowDims w t =
     updatePosition0
       (t\<lparr>scrollTop := winScrollTop w, scrollLeft := winScrollLeft w,
          scrollRight := winScrollLeft w + winWidth w\<rparr>)"

text \<open>The document's body, the container without an option. The style sheet of the plugin hides a new box.\<close>

definition document_body :: jsval where
  "document_body = Fn ''document.body''"

definition tooltip_init :: "win \<Rightarrow> (string \<Rightarrow> jsval) \<Rightarrow> tooltip" where
  "tooltip_init w o' =
     (let cont = jor (o' ''tooltipContainer'') document_body
      in updateWindowDims w
           \<lparr>tipClass = opt_default o' ''tooltipClassname'' (Str ''jqstooltip''), container = cont,
            tooltipOffsetX = opt_default o' ''tooltipOffsetX'' (num 10),
            tooltipOffsetY = opt_default o' ''tooltipOffsetY'' (num 12),
            offsetLeft = fst (boxOffset w cont), offsetTop = snd (boxOffset w cont), hidden = True,
            scrollTop = Fin 0, scrollLeft = Fin 0, scrollRight = Fin 0, mouse = None,
            tipWidth = Fin 0, tipHeight = Fin 0, tipHtml = [], tipVisible = False, tipPos = None\<rparr>)"

definition getSize :: "win \<Rightarrow> string \<Rightarrow> tooltip \<Rightarrow> tooltip" where
  "getSize w content t = t\<lparr>tipWidth := fst (boxSize w content) + Fin 1, tipHeight := snd (boxSize w content)\<rparr>"

definition setContent :: "win \<Rightarrow> string \<Rightarrow> tooltip \<Rightarrow> tooltip" where
  "setContent w content t =
     (if content = [] then t\<lparr>tipVisible := False, hidden := True\<rparr>
      else
        (let t1 = (getSize w content t)\<lparr>tipHtml := content, tipVisible := True\<rparr>
         in if hidden t1 then updatePosition0 (t1\<lparr>hidden := False\<rparr>) else t1))"

section \<open>Theorems\<close>


definition demo_tip :: tooltip where
  "demo_tip = \<lparr>tipClass = Undef, container = document_body, tooltipOffsetX = num 10, tooltipOffsetY = num 12, offsetLeft = Fin 100, offsetTop = Fin 0,
     hidden = False, scrollTop = Fin 0, scrollLeft = Fin 0, scrollRight = Fin 800, mouse = None, tipWidth = Fin 51, tipHeight = Fin 20,
     tipHtml = ''1'', tipVisible = True, tipPos = None\<rparr>"


text \<open>
  C34. The tooltip that appears is placed as if the pointer were nearer by the offset of the container:
  the position that \<open>setContent\<close> restores has the offset already taken off, and it is taken off again.
\<close>

theorem tooltip_double_offset:
  assumes "hidden t" "content \<noteq> []"
  shows "tipPos (setContent w content (updatePosition x y t)) =
    tipPos (place (x - offsetLeft t - offsetLeft t) (y - offsetTop t - offsetTop t) ((getSize w content t)\<lparr>hidden := False\<rparr>))"
  using assms by (simp add: setContent_def updatePosition_def updatePosition0_def getSize_def place_def tip_skips_def clamp_position_def Let_def)

theorem tooltip_double_offset_witness:
  "tipPos (setContent \<lparr>winScrollTop = Fin 0, winScrollLeft = Fin 0, winWidth = Fin 800, boxOffset = \<lambda>c. (Fin 100, Fin 0), boxSize = \<lambda>s. (Fin 50, Fin 20)\<rparr>
     ''1'' (updatePosition (Fin 400) (Fin 300) (demo_tip\<lparr>hidden := True\<rparr>))) = Some (num 210, num 268) \<and>
   tipPos (updatePosition (Fin 400) (Fin 300) demo_tip) = Some (num 310, num 268)"
  by (subst tooltip_double_offset) (simp_all add: demo_tip_def getSize_def place_def tip_skips_def clamp_position_def updatePosition_def Let_def)

end
