(* ===== verification/SparkMouse.thy ===== *)
theory SparkMouse
  imports SparkCharts SparkTooltip
begin

text \<open>
  The class \<open>MouseHandler\<close> of \<open>static/js/jquery.sparkline.js\<close> (lines 656 to 790). One handler serves
  all the charts drawn on an element; composite charts share one canvas, so the canvases are kept in
  a store and a chart refers to its canvas by address. The store also holds what all handlers share:
  the counter of shapes, the handler bound to the pointer's moves over the body, the tooltip bound
  to the window's events, and the events the handlers fired on their elements.
\<close>

section \<open>Definitions\<close>

datatype fired = SparklineClick nat | SparklineRegionChange nat

record store =
  canvases :: "vcanvas list"
  counter :: nat
  bodyMove :: "nat option"
  winTip :: "nat option"
  firedEvents :: "fired list"

record handler =
  hEl :: nat
  hOpt :: "string \<Rightarrow> jsval"
  currentPageX :: number
  currentPageY :: number
  splist :: "(nat \<times> sparkline) list"
  tip :: "tooltip option"
  over :: bool
  displayTooltips :: bool
  highlightEnabled :: bool
  hCanvas :: "nat option"

definition handler_init :: "nat \<Rightarrow> (string \<Rightarrow> jsval) \<Rightarrow> handler" where
  "handler_init el o' =
     \<lparr>hEl = el, hOpt = o', currentPageX = Fin 0, currentPageY = Fin 0, splist = [], tip = None, over = False,
      displayTooltips = (\<not> truthy (o' ''disableTooltips'')), highlightEnabled = (\<not> truthy (o' ''disableHighlight'')),
      hCanvas = None\<rparr>"

definition registerCanvas :: "nat \<Rightarrow> handler \<Rightarrow> handler" where
  "registerCanvas a h = h\<lparr>hCanvas := Some a\<rparr>"

text \<open>\<open>Tooltip.remove\<close>: the box leaves the document and the window's events are unbound.\<close>

definition tooltip_remove :: "store \<Rightarrow> store" where
  "tooltip_remove st = st\<lparr>winTip := None\<rparr>"

definition handler_reset :: "bool \<Rightarrow> handler \<Rightarrow> store \<Rightarrow> handler \<times> store" where
  "handler_reset removeTooltip h st =
     (if tip h \<noteq> None \<and> removeTooltip then (h\<lparr>splist := [], tip := None\<rparr>, tooltip_remove st)
      else (h\<lparr>splist := []\<rparr>, st))"

definition mouseclick :: "handler \<Rightarrow> store \<Rightarrow> store" where
  "mouseclick h st = st\<lparr>firedEvents := firedEvents st @ [SparklineClick (hEl h)]\<rparr>"

text \<open>A method of a chart, run on the canvas at the chart's address.\<close>

definition on_canvas ::
  "(sparkline \<Rightarrow> ('r \<times> sparkline) result) \<Rightarrow> nat \<times> sparkline \<Rightarrow> store \<Rightarrow> ('r \<times> (nat \<times> sparkline) \<times> store) result" where
  "on_canvas f p st =
     (let (a, sp) = p
      in rbind (f (sp_retarget ((canvases st ! a)\<lparr>shapeCount := counter st\<rparr>) sp)) (\<lambda>(r, sp').
           Inr (r, (a, sp'), st\<lparr>canvases := (canvases st)[a := sp_target sp'], counter := shapeCount (sp_target sp')\<rparr>)))"

text \<open>A loop that calls one method of every chart of the list.\<close>

fun each_chart ::
  "(sparkline \<Rightarrow> ('r \<times> sparkline) result) \<Rightarrow> (nat \<times> sparkline) list \<Rightarrow> store \<Rightarrow>
   ('r list \<times> (nat \<times> sparkline) list \<times> store) result" where
  "each_chart f [] st = Inr ([], [], st)"
| "each_chart f (p # ps) st =
     rbind (on_canvas f p st) (\<lambda>(r, p', st1). rbind (each_chart f ps st1) (\<lambda>(rs, ps', st2). Inr (r # rs, p' # ps', st2)))"

text \<open>\<open>this.canvas.render()\<close>.\<close>

definition render_canvas :: "env \<Rightarrow> handler \<Rightarrow> store \<Rightarrow> store result" where
  "render_canvas ev h st =
     (case hCanvas h of
        None \<Rightarrow> Inl (TypeError ''this.canvas is undefined'')
      | Some a \<Rightarrow> rbind (canvas_render (inPath ev) (canvases st ! a)) (\<lambda>c. Inr (st\<lparr>canvases := (canvases st)[a := c]\<rparr>)))"

definition mouseleave :: "env \<Rightarrow> handler \<Rightarrow> store \<Rightarrow> (handler \<times> store) result" where
  "mouseleave ev h st =
     (let st0 = st\<lparr>bodyMove := None\<rparr>; st1 = (if tip h = None then st0 else tooltip_remove st0);
          h1 = h\<lparr>over := False, tip := None\<rparr>
      in rbind (each_chart sp_clearRegionHighlight (splist h1) st1) (\<lambda>(rs, ps, st2).
           (let h2 = h1\<lparr>splist := ps\<rparr>
            in if True \<in> set rs then rbind (render_canvas ev h2 st2) (\<lambda>st3. Inr (h2, st3)) else Inr (h2, st2))))"

text \<open>The concatenation of the charts' tooltips, from the first to the last.\<close>

fun tooltip_html :: "env \<Rightarrow> (nat \<times> sparkline) list \<Rightarrow> jsval \<Rightarrow> jsval result" where
  "tooltip_html ev [] html = Inr html"
| "tooltip_html ev ((a, sp) # ps) html =
     rbind (sp_getCurrentRegionTooltip ev sp) (\<lambda>t. tooltip_html ev ps (jadd html t))"

definition show_tooltip :: "env \<Rightarrow> win \<Rightarrow> handler \<Rightarrow> handler result" where
  "show_tooltip ev w h =
     (case tip h of
        None \<Rightarrow> Inr h
      | Some t \<Rightarrow> rbind (tooltip_html ev (splist h) (Str [])) (\<lambda>html. Inr (h\<lparr>tip := Some (setContent w (to_string html) t)\<rparr>)))"

text \<open>
  \<open>updateDisplay\<close>; \<open>offset\<close> is the position of the canvas element on the page. The property
  \<open>disableHighlight\<close> it tests before it renders is never set on a handler, so the test succeeds.
\<close>

definition refresh :: "env \<Rightarrow> win \<Rightarrow> handler \<Rightarrow> store \<Rightarrow> (handler \<times> store) result" where
  "refresh ev w h st =
     (let st1 = st\<lparr>firedEvents := firedEvents st @ [SparklineRegionChange (hEl h)]\<rparr>
      in rbind (show_tooltip ev w h) (\<lambda>h1. rbind (render_canvas ev h1 st1) (\<lambda>st2. Inr (h1, st2))))"

definition updateDisplay :: "env \<Rightarrow> win \<Rightarrow> number \<times> number \<Rightarrow> handler \<Rightarrow> store \<Rightarrow> (handler \<times> store) result" where
  "updateDisplay ev w offset h st =
     (let localX = currentPageX h - fst offset; localY = currentPageY h - snd offset
      in if \<not> over h then Inr (h, st)
         else rbind (each_chart (sp_setRegionHighlight ev (Num localX) (Num localY)) (splist h) st) (\<lambda>(rs, ps, st1).
                (let h1 = h\<lparr>splist := ps\<rparr>
                 in rbind (if Some True \<in> set rs then refresh ev w h1 st1 else Inr (h1, st1)) (\<lambda>(h2, st2).
                      if rs \<noteq> [] \<and> last rs = None then mouseleave ev h2 st2 else Inr (h2, st2)))))"

definition mouseenter ::
  "env \<Rightarrow> win \<Rightarrow> number \<times> number \<Rightarrow> number \<Rightarrow> number \<Rightarrow> handler \<Rightarrow> store \<Rightarrow> (handler \<times> store) result" where
  "mouseenter ev w offset pageX pageY h st =
     (let st1 = st\<lparr>bodyMove := Some (hEl h)\<rparr>;
          h1 = h\<lparr>over := True, currentPageX := pageX, currentPageY := pageY\<rparr>
      in if tip h1 = None \<and> displayTooltips h1
         then updateDisplay ev w offset (h1\<lparr>tip := Some (updatePosition pageX pageY (tooltip_init w (hOpt h1)))\<rparr>)
                (st1\<lparr>winTip := Some (hEl h)\<rparr>)
         else updateDisplay ev w offset h1 st1)"

definition mousemove ::
  "env \<Rightarrow> win \<Rightarrow> number \<times> number \<Rightarrow> number \<Rightarrow> number \<Rightarrow> handler \<Rightarrow> store \<Rightarrow> (handler \<times> store) result" where
  "mousemove ev w offset pageX pageY h st =
     updateDisplay ev w offset
       (h\<lparr>currentPageX := pageX, currentPageY := pageY, tip := map_option (updatePosition pageX pageY) (tip h)\<rparr>) st"

definition registerSparkline ::
  "env \<Rightarrow> win \<Rightarrow> number \<times> number \<Rightarrow> nat \<times> sparkline \<Rightarrow> handler \<Rightarrow> store \<Rightarrow> (handler \<times> store) result" where
  "registerSparkline ev w offset p h st =
     (let h1 = h\<lparr>splist := splist h @ [p]\<rparr>
      in if over h1 then updateDisplay ev w offset h1 st else Inr (h1, st))"

end
