(* ===== verification/SparkPlugin.thy ===== *)
theory SparkPlugin
  imports SparkMouse
begin

text \<open>
  The entry points of \<open>static/js/jquery.sparkline.js\<close>: \<open>$.fn.sparkline\<close> with its queue of charts for
  hidden elements, \<open>$.sparkline_display_visible\<close> and \<open>$.fn.cleardraw\<close> (lines 610 to 615 and 903 to
  1006). An element is a number; what the plugin keeps in its jQuery data is the record \<open>edata\<close>, what
  the document answers about it the record \<open>dom\<close>, a parameter of the operations.
\<close>

section \<open>Definitions\<close>

text \<open>The document: attributes and content of an element, its line height, visibility and position.\<close>

record dom =
  attribute :: "string \<Rightarrow> string option"
  htmlContent :: string
  lineDims :: "jsval \<times> jsval"
  isHidden :: bool
  isVisible :: bool
  parentsHidden :: bool
  inBody :: bool
  inHtml :: bool
  canvasOffset :: "number \<times> number"

datatype user_values = FromHtml | FromArray "jsval list"

type_synonym job = "user_values \<times> (string \<Rightarrow> jsval)"

record edata =
  jqs_vcanvas :: "nat option"
  jqs_mhandler :: "handler option"
  jqs_errnotify :: bool
  jqs_pending :: bool

record page =
  edatas :: "nat \<Rightarrow> edata"
  pending :: "(nat \<times> job) list"
  pstore :: store
  alerts :: nat

definition no_edata :: edata where
  "no_edata = \<lparr>jqs_vcanvas = None, jqs_mhandler = None, jqs_errnotify = False, jqs_pending = False\<rparr>"

definition page_init :: page where
  "page_init = \<lparr>edatas = \<lambda>e. no_edata, pending = [],
     pstore = \<lparr>canvases = [], counter = 0, bodyMove = None, winTip = None, firedEvents = []\<rparr>, alerts = 0\<rparr>"

text \<open>
  \<open>vals.replace(/(^\s*<!--)|(-->\s*$)|\s+/g, '')\<close>: the opening of a comment at the start, its closing at
  the end and all white space go. \<open>strip_rest\<close> is the scan after the start.
\<close>

fun strip_rest :: "string \<Rightarrow> string" where
  "strip_rest [] = []"
| "strip_rest (c # s) =
     (if take 3 (c # s) = ''-->'' \<and> list_all is_space (drop 3 (c # s)) then []
      else if is_space c then strip_rest s
      else c # strip_rest s)"

definition strip_values :: "string \<Rightarrow> string" where
  "strip_values s =
     (let t = dropWhile is_space s in if take 4 t = ''<!--'' then strip_rest (drop 4 t) else strip_rest s)"

definition html_values :: "dom \<Rightarrow> (string \<Rightarrow> jsval) \<Rightarrow> jsval list" where
  "html_values d o' =
     (let vs = (case attribute d (to_string (o' ''tagValuesAttribute'')) of None \<Rightarrow> htmlContent d | Some s \<Rightarrow> s)
      in map Str (split_on (CHR '','') (strip_values vs)))"

definition job_values :: "dom \<Rightarrow> job \<Rightarrow> jsval list" where
  "job_values d j = (case fst j of FromHtml \<Rightarrow> html_values d (snd j) | FromArray vs \<Rightarrow> vs)"

text \<open>The size of the chart; the height of an automatic chart is measured, unless it joins an existing canvas.\<close>

definition chart_width :: "jsval list \<Rightarrow> (string \<Rightarrow> jsval) \<Rightarrow> jsval" where
  "chart_width vs o' =
     (if o' ''width'' = Str ''auto'' then Num (Fin (of_nat (length vs)) * to_number (o' ''defaultPixelsPerValue''))
      else o' ''width'')"

definition chart_height :: "dom \<Rightarrow> edata \<Rightarrow> (string \<Rightarrow> jsval) \<Rightarrow> jsval" where
  "chart_height d ed o' =
     (if o' ''height'' = Str ''auto'' then
        (if \<not> truthy (o' ''composite'') \<or> jqs_vcanvas ed = None then jor (fst (lineDims d)) (snd (lineDims d)) else Undef)
      else o' ''height'')"

text \<open>The handler of the element: made on first use, reset by a chart that is not composite.\<close>

definition job_handler :: "nat \<Rightarrow> (string \<Rightarrow> jsval) \<Rightarrow> edata \<Rightarrow> store \<Rightarrow> edata \<times> store" where
  "job_handler e o' ed st =
     (if truthy (o' ''disableInteraction'') then (ed, st)
      else (case jqs_mhandler ed of
              None \<Rightarrow> (ed\<lparr>jqs_mhandler := Some (handler_init e o')\<rparr>, st)
            | Some h \<Rightarrow>
                if truthy (o' ''composite'') then (ed, st)
                else (let (h', st') = handler_reset False h st in (ed\<lparr>jqs_mhandler := Some h'\<rparr>, st'))))"

text \<open>
  The canvas of a new chart: an existing canvas is shared, a new one takes the next address and is
  recorded in the element's data and with its handler. Without a canvas element the chart has no
  canvas; its address is that of a blank one.
\<close>

definition place_chart :: "env \<Rightarrow> sparkline \<Rightarrow> bool \<Rightarrow> edata \<Rightarrow> store \<Rightarrow> nat \<times> edata \<times> store" where
  "place_chart ev sp useExisting ed st =
     (case (if useExisting then jqs_vcanvas ed else None) of
        Some a \<Rightarrow> (a, ed, st)
      | None \<Rightarrow>
          (let a = length (canvases st); st' = st\<lparr>canvases := canvases st @ [sp_target sp]\<rparr>
           in if \<not> hasCanvas ev then (a, ed, st')
              else (a, ed\<lparr>jqs_vcanvas := Some a, jqs_mhandler := map_option (registerCanvas a) (jqs_mhandler ed)\<rparr>, st')))"

text \<open>The function \<open>render\<close> of one call.\<close>

definition render_job :: "env \<Rightarrow> win \<Rightarrow> dom \<Rightarrow> nat \<Rightarrow> job \<Rightarrow> page \<Rightarrow> page result" where
  "render_job ev w d e j p =
     (let o' = snd j; vs = job_values d j; ed0 = edatas p e;
          wd = chart_width vs o'; ht = chart_height d ed0 o';
          (ed, st) = job_handler e o' ed0 (pstore p)
      in if truthy (o' ''composite'') \<and> jqs_vcanvas ed = None then
           Inr (if jqs_errnotify ed then p\<lparr>edatas := (edatas p)(e := ed), pstore := st\<rparr>
                else p\<lparr>edatas := (edatas p)(e := ed\<lparr>jqs_errnotify := True\<rparr>), pstore := st, alerts := alerts p + 1\<rparr>)
         else
           rbind (sp_init ev (map_option (nth (canvases st)) (jqs_vcanvas ed)) vs o' wd ht (counter st)) (\<lambda>sp0.
           (let (a, ed1, st1) = place_chart ev sp0 (truthy (o' ''composite'')) ed st
            in rbind (on_canvas (\<lambda>sp. rbind (sp_render ev sp) (\<lambda>sp'. Inr ((), sp'))) (a, sp0) st1) (\<lambda>(_, q, st2).
                 (case (if truthy (o' ''disableInteraction'') then None else jqs_mhandler ed1) of
                    None \<Rightarrow> Inr (p\<lparr>edatas := (edatas p)(e := ed1), pstore := st2\<rparr>)
                  | Some h \<Rightarrow>
                      rbind (registerSparkline ev w (canvasOffset d) q h st2) (\<lambda>(h', st3).
                        Inr (p\<lparr>edatas := (edatas p)(e := ed1\<lparr>jqs_mhandler := Some h'\<rparr>), pstore := st3\<rparr>)))))))"

text \<open>The version of jQuery in the repository.\<close>

definition jquery_version :: string where
  "jquery_version = ''1.8.3''"

definition deferred :: "dom \<Rightarrow> (string \<Rightarrow> jsval) \<Rightarrow> bool" where
  "deferred d o' \<longleftrightarrow>
     (htmlContent d \<noteq> [] \<and> \<not> truthy (o' ''disableHiddenCheck'') \<and> isHidden d) \<or>
     (str_less jquery_version ''1.3.0'' \<and> parentsHidden d) \<or> \<not> inBody d"

text \<open>The loop that removes the element's entries from the queue, over the positions \<open>i - 1, ..., 0\<close>.\<close>

fun purge_loop :: "nat \<Rightarrow> nat \<Rightarrow> (nat \<times> job) list \<Rightarrow> (nat \<times> job) list" where
  "purge_loop e 0 q = q"
| "purge_loop e (Suc i) q = purge_loop e i (if fst (q ! i) = e then js_splice i 1 [] q else q)"

definition sparkline_call :: "env \<Rightarrow> win \<Rightarrow> dom \<Rightarrow> nat \<Rightarrow> job \<Rightarrow> page \<Rightarrow> page result" where
  "sparkline_call ev w d e j p =
     (if deferred d (snd j) then
        (let q = (if \<not> truthy (snd j ''composite'') \<and> jqs_pending (edatas p e)
                  then purge_loop e (length (pending p)) (pending p) else pending p)
         in Inr (p\<lparr>pending := q @ [(e, j)], edatas := (edatas p)(e := (edatas p e)\<lparr>jqs_pending := True\<rparr>)\<rparr>))
      else render_job ev w d e j p)"

text \<open>\<open>$(...).sparkline(values, options)\<close> on several elements.\<close>

fun sparkline_each :: "env \<Rightarrow> win \<Rightarrow> (nat \<Rightarrow> dom) \<Rightarrow> nat list \<Rightarrow> (nat \<Rightarrow> job) \<Rightarrow> page \<Rightarrow> page result" where
  "sparkline_each ev w D [] J p = Inr p"
| "sparkline_each ev w D (e # es) J p = rbind (sparkline_call ev w (D e) e (J e) p) (sparkline_each ev w D es J)"

definition unpend :: "nat \<Rightarrow> page \<Rightarrow> page" where
  "unpend e p = p\<lparr>edatas := (edatas p)(e := (edatas p e)\<lparr>jqs_pending := False\<rparr>)\<rparr>"

text \<open>The first loop of \<open>$.sparkline_display_visible\<close>: it renders what became visible and notes the positions to remove.\<close>

fun display_loop ::
  "env \<Rightarrow> win \<Rightarrow> (nat \<Rightarrow> dom) \<Rightarrow> (nat \<times> job) list \<Rightarrow> nat \<Rightarrow> nat list \<Rightarrow> page \<Rightarrow> (nat list \<times> page) result" where
  "display_loop ev w D [] i ds p = Inr (ds, p)"
| "display_loop ev w D ((e, j) # q) i ds p =
     (if isVisible (D e) \<and> \<not> parentsHidden (D e) then
        rbind (render_job ev w (D e) e j p) (\<lambda>p1. display_loop ev w D q (Suc i) (ds @ [i]) (unpend e p1))
      else if \<not> inHtml (D e) \<and> \<not> jqs_pending (edatas p e) then display_loop ev w D q (Suc i) (ds @ [i]) (unpend e p)
      else display_loop ev w D q (Suc i) ds p)"

text \<open>The second loop, over the noted positions from the last to the first (the list is reversed).\<close>

fun splice_loop :: "nat list \<Rightarrow> 'a list \<Rightarrow> 'a list" where
  "splice_loop [] q = q"
| "splice_loop (i # is) q = splice_loop is (js_splice i 1 [] q)"

definition sparkline_display_visible :: "env \<Rightarrow> win \<Rightarrow> (nat \<Rightarrow> dom) \<Rightarrow> page \<Rightarrow> page result" where
  "sparkline_display_visible ev w D p =
     rbind (display_loop ev w D (pending p) 0 [] p) (\<lambda>(ds, p1). Inr (p1\<lparr>pending := splice_loop (rev ds) (pending p1)\<rparr>))"

definition cleardraw :: "nat \<Rightarrow> page \<Rightarrow> page" where
  "cleardraw e p =
     (case jqs_vcanvas (edatas p e) of
        None \<Rightarrow> p
      | Some a \<Rightarrow> p\<lparr>pstore := (pstore p)\<lparr>canvases := (canvases (pstore p))[a := canvas_reset (canvases (pstore p) ! a)]\<rparr>\<rparr>)"

text \<open>Pointer events delivered to the handler of an element.\<close>

datatype mouse_event = MEnter number number | MMove number number | MLeave | MClick

definition mouse_step :: "env \<Rightarrow> win \<Rightarrow> number \<times> number \<Rightarrow> mouse_event \<Rightarrow> handler \<Rightarrow> store \<Rightarrow> (handler \<times> store) result" where
  "mouse_step ev w offset me h st =
     (case me of
        MEnter x y \<Rightarrow> mouseenter ev w offset x y h st
      | MMove x y \<Rightarrow> mousemove ev w offset x y h st
      | MLeave \<Rightarrow> mouseleave ev h st
      | MClick \<Rightarrow> Inr (h, mouseclick h st))"

definition page_mouse :: "env \<Rightarrow> win \<Rightarrow> dom \<Rightarrow> nat \<Rightarrow> mouse_event \<Rightarrow> page \<Rightarrow> page result" where
  "page_mouse ev w d e me p =
     (case jqs_mhandler (edatas p e) of
        None \<Rightarrow> Inr p
      | Some h \<Rightarrow> rbind (mouse_step ev w (canvasOffset d) me h (pstore p)) (\<lambda>(h', st).
          Inr (p\<lparr>edatas := (edatas p)(e := (edatas p e)\<lparr>jqs_mhandler := Some h'\<rparr>), pstore := st\<rparr>)))"

text \<open>The window is resized or scrolled: the tooltip bound to the event measures the window again.\<close>

definition page_resize :: "win \<Rightarrow> page \<Rightarrow> page" where
  "page_resize w p =
     (case winTip (pstore p) of
        None \<Rightarrow> p
      | Some e \<Rightarrow>
          p\<lparr>edatas := (edatas p)(e := (edatas p e)\<lparr>jqs_mhandler :=
              map_option (\<lambda>h. h\<lparr>tip := map_option (updateWindowDims w) (tip h)\<rparr>) (jqs_mhandler (edatas p e))\<rparr>)\<rparr>)"

end
