(* ===== verification/SparkPage.thy ===== *)
theory SparkPage
  imports SparkPlugin
begin

text \<open>
  The plugin on a page: the invariant of the mouse handlers and of the queue of pending charts over
  every sequence of calls and events, the behaviour of the queue, and the behaviour of the tooltip.
\<close>

section \<open>A new chart has no current region\<close>

context region_renderer
begin

lemma render_regions_current: "currentRegion (render_regions rr n ch) = currentRegion ch"
proof (induction n arbitrary: ch)
  case 0
  then show ?case by simp
next
  case (Suc n)
  then show ?case by (simp add: rr_plan Let_def split: prod.splits)
qed

lemma mixin_render_current: "mixin_render ev rr ch = Inr ch' \<Longrightarrow> currentRegion ch' = currentRegion ch"
  by (auto simp: mixin_render_def Let_def render_regions_current split: if_splits)

end

lemma initTarget_current [simp]: "currentRegion (initTarget ev existing ch) = currentRegion ch"
  by (simp add: initTarget_def split: option.splits)

lemma keyed_append_all_current: "keyed_append_all paint ks ch = Inr ch' \<Longrightarrow> currentRegion ch' = currentRegion ch"
  by (induction ks arbitrary: ch) (auto simp: keyed_append_def genShape_def)

lemma line_scan_current [simp]:
  "currentRegion (scanValues ch) = currentRegion ch" "currentRegion (processRangeOptions ch) = currentRegion ch"
  by (simp_all add: scanValues_def processRangeOptions_def Let_def split: prod.splits)

lemma line_render_current: "line_render ev ch = Inr ch' \<Longrightarrow> currentRegion ch' = currentRegion ch"
  unfolding line_render_def Let_def by (auto split: if_splits)

lemma box_parts_current [simp]:
  "currentRegion (box_raw vs o' ch) = currentRegion ch" "currentRegion (box_stats ns o' q ch) = currentRegion ch"
  by (simp_all add: box_raw_def box_stats_def Let_def split: prod.splits)

lemma box_render_current: "box_render ev ch = Inr ch' \<Longrightarrow> currentRegion ch' = currentRegion ch"
  unfolding box_render_def Let_def by (auto split: if_splits)

lemma sp_render_region: "sp_render ev sp = Inr sp' \<Longrightarrow> sp_region sp' = sp_region sp"
  by (cases sp)
    (auto simp: bullet_render_def pie_render_def split: if_splits
      dest!: line_render_current box_render_current bar_rr.mixin_render_current tri_rr.mixin_render_current dis_rr.mixin_render_current
        keyed_append_all_current)

lemma bar_init_current: "bar_init ev existing vs o' w h n = Inr ch \<Longrightarrow> currentRegion ch = Undef"
  by (auto simp: bar_init_def Let_def split: prod.splits if_splits)

lemma init_current:
  "currentRegion (line_init ev ex vs o' w h n) = Undef" "currentRegion (tristate_init ev ex vs o' w h n) = Undef"
  "currentRegion (discrete_init ev ex vs o' w h n) = Undef" "currentRegion (bullet_init ev ex vs o' w h n) = Undef"
  "currentRegion (pie_init ev ex vs o' w h n) = Undef" "currentRegion (box_init ev ex vs o' w h n) = Undef"
  by (simp_all add: line_init_def tristate_init_def discrete_init_def bullet_init_def pie_init_def box_init_def Let_def split: prod.splits)

lemma sp_init_region: "sp_init ev ex vs o' w h n = Inr sp \<Longrightarrow> sp_region sp = Undef"
  by (auto simp: sp_init_def Let_def init_current split: if_splits dest!: bar_init_current)

section \<open>Handlers\<close>

text \<open>What the methods of the charts leave alone in the store.\<close>

definition same_bindings :: "store \<Rightarrow> store \<Rightarrow> bool" where
  "same_bindings st st' \<longleftrightarrow> bodyMove st' = bodyMove st \<and> winTip st' = winTip st \<and> length (canvases st') = length (canvases st)"

lemma same_bindings_refl [simp]: "same_bindings st st"
  by (simp add: same_bindings_def)

lemma same_bindings_trans: "same_bindings st st' \<Longrightarrow> same_bindings st' st'' \<Longrightarrow> same_bindings st st''"
  by (simp add: same_bindings_def)

lemma on_canvas_frame: "on_canvas f (a, sp) st = Inr (r, p', st') \<Longrightarrow> fst p' = a \<and> same_bindings st st'"
  by (auto simp: on_canvas_def same_bindings_def)

lemma each_chart_frame: "each_chart f ps st = Inr (rs, ps', st') \<Longrightarrow> map fst ps' = map fst ps \<and> same_bindings st st'"
proof (induction ps arbitrary: st rs ps')
  case Nil
  then show ?case by simp
next
  case (Cons p ps)
  obtain a sp where p: "p = (a, sp)" by (cases p)
  show ?case using Cons unfolding p by (auto dest!: on_canvas_frame intro: same_bindings_trans)
qed

lemma each_clear_regions:
  "each_chart sp_clearRegionHighlight ps st = Inr (rs, ps', st') \<Longrightarrow> \<forall>p \<in> set ps'. sp_region (snd p) = Undef"
  by (induction ps arbitrary: st rs ps') (fastforce simp: on_canvas_def dest: sp_clear_region split: prod.splits)+

lemma render_canvas_frame: "render_canvas ev h st = Inr st' \<Longrightarrow> same_bindings st st'"
  by (auto simp: render_canvas_def same_bindings_def split: option.splits)

definition addrs_in :: "nat \<Rightarrow> nat list \<Rightarrow> bool" where
  "addrs_in n as \<longleftrightarrow> (\<forall>a \<in> set as. a < n)"

text \<open>
  The invariant of a handler: away from the element there is no tooltip and no chart has a current
  region; the canvases it refers to are in the store.
\<close>

definition handler_ok :: "store \<Rightarrow> handler \<Rightarrow> bool" where
  "handler_ok st h \<longleftrightarrow>
     (\<not> over h \<longrightarrow> tip h = None \<and> (\<forall>p \<in> set (splist h). sp_region (snd p) = Undef)) \<and>
     addrs_in (length (canvases st)) (map fst (splist h)) \<and>
     (\<forall>a. hCanvas h = Some a \<longrightarrow> a < length (canvases st)) \<and>
     (bodyMove st = Some (hEl h) \<longrightarrow> over h) \<and> (winTip st = Some (hEl h) \<longrightarrow> tip h \<noteq> None)"

text \<open>A step of a handler: the element stays, and of the global bindings it removes any or takes its own.\<close>

definition handler_step :: "handler \<Rightarrow> store \<Rightarrow> handler \<Rightarrow> store \<Rightarrow> bool" where
  "handler_step h st h' st' \<longleftrightarrow>
     hEl h' = hEl h \<and> length (canvases st) \<le> length (canvases st') \<and>
     (bodyMove st' = bodyMove st \<or> bodyMove st' = None \<or> bodyMove st' = Some (hEl h)) \<and>
     (winTip st' = winTip st \<or> winTip st' = None \<or> winTip st' = Some (hEl h))"

lemma handler_step_trans: "handler_step h st h' st' \<Longrightarrow> handler_step h' st' h'' st'' \<Longrightarrow> handler_step h st h'' st''"
  by (auto simp: handler_step_def)

lemma mouseleave_ok:
  assumes "mouseleave ev h st = Inr (h', st')" "addrs_in (length (canvases st)) (map fst (splist h))"
    "\<forall>a. hCanvas h = Some a \<longrightarrow> a < length (canvases st)" "winTip st = Some (hEl h) \<longrightarrow> tip h \<noteq> None"
  shows "handler_ok st' h' \<and> handler_step h st h' st' \<and> \<not> over h' \<and> bodyMove st' = None"
proof -
  let ?st = "if tip h = None then st\<lparr>bodyMove := None\<rparr> else tooltip_remove (st\<lparr>bodyMove := None\<rparr>)"
  obtain rs ps st2 where e: "each_chart sp_clearRegionHighlight (splist h) ?st = Inr (rs, ps, st2)"
    and h': "h' = h\<lparr>over := False, tip := None, splist := ps\<rparr>" and s: "same_bindings st2 st'"
    using assms(1) by (auto simp: mouseleave_def Let_def split: if_splits dest: render_canvas_frame)
  then show ?thesis
    using each_chart_frame [OF e] each_clear_regions [OF e] assms(2-4)
    by (auto simp: handler_ok_def handler_step_def same_bindings_def tooltip_remove_def h' split: if_splits)
qed

lemma refresh_frame:
  assumes "refresh ev w h st = Inr (h', st')"
  shows "same_bindings st st' \<and> (\<exists>t. h' = h\<lparr>tip := t\<rparr> \<and> (t = None \<longleftrightarrow> tip h = None))"
proof -
  let ?st = "st\<lparr>firedEvents := firedEvents st @ [SparklineRegionChange (hEl h)]\<rparr>"
  have t: "show_tooltip ev w h = Inr h'" and r: "render_canvas ev h' ?st = Inr st'"
    using assms by (auto simp: refresh_def Let_def)
  have "h = h\<lparr>tip := tip h\<rparr>" by simp
  then have "\<exists>t. h' = h\<lparr>tip := t\<rparr> \<and> (t = None \<longleftrightarrow> tip h = None)"
    using t by (auto simp: show_tooltip_def split: option.splits)
  then show ?thesis using render_canvas_frame [OF r] by (simp add: same_bindings_def)
qed

lemma updateDisplay_ok:
  assumes "updateDisplay ev w offset h st = Inr (h', st')" "handler_ok st h"
  shows "handler_ok st' h' \<and> handler_step h st h' st'"
proof (cases "over h")
  case False
  then show ?thesis using assms by (auto simp: updateDisplay_def handler_step_def)
next
  case True
  let ?f = "sp_setRegionHighlight ev (Num (currentPageX h - fst offset)) (Num (currentPageY h - snd offset))"
  obtain rs ps st1 h2 st2 where e: "each_chart ?f (splist h) st = Inr (rs, ps, st1)"
    and r: "(if Some True \<in> set rs then refresh ev w (h\<lparr>splist := ps\<rparr>) st1 else Inr (h\<lparr>splist := ps\<rparr>, st1)) = Inr (h2, st2)"
    and l: "(if rs \<noteq> [] \<and> last rs = None then mouseleave ev h2 st2 else Inr (h2, st2)) = Inr (h', st')"
    using assms(1) True by (auto simp: updateDisplay_def Let_def)
  have "same_bindings st1 st2 \<and> (\<exists>t. h2 = h\<lparr>splist := ps, tip := t\<rparr> \<and> (t = None \<longleftrightarrow> tip h = None))"
  proof (cases "Some True \<in> set rs")
    case True
    then show ?thesis using r refresh_frame [of ev w "h\<lparr>splist := ps\<rparr>" st1 h2 st2] by simp
  next
    case False
    then show ?thesis using r by (intro conjI exI [of _ "tip h"]) auto
  qed
  then have ok2: "handler_ok st2 h2" "handler_step h st h2 st2"
    using assms(2) True each_chart_frame [OF e] by (auto simp: handler_ok_def handler_step_def same_bindings_def)
  show ?thesis
  proof (cases "rs \<noteq> [] \<and> last rs = None")
    case True
    then have "mouseleave ev h2 st2 = Inr (h', st')" using l by simp
    from mouseleave_ok [OF this] ok2 show ?thesis by (auto simp: handler_ok_def intro: handler_step_trans)
  next
    case False
    then show ?thesis using l ok2 by auto
  qed
qed

lemma mouse_step_ok:
  assumes "mouse_step ev w offset me h st = Inr (h', st')" "handler_ok st h"
  shows "handler_ok st' h' \<and> handler_step h st h' st'"
proof (cases me)
  case (MEnter x y)
  let ?h = "h\<lparr>over := True, currentPageX := x, currentPageY := y\<rparr>"
  let ?t = "updatePosition x y (tooltip_init w (hOpt h))"
  show ?thesis
  proof (cases "tip h = None \<and> displayTooltips h")
    case True
    have "handler_ok (st\<lparr>bodyMove := Some (hEl h), winTip := Some (hEl h)\<rparr>) (?h\<lparr>tip := Some ?t\<rparr>)"
      using assms(2) by (auto simp: handler_ok_def)
    then show ?thesis
      using True assms(1) MEnter updateDisplay_ok [of ev w offset "?h\<lparr>tip := Some ?t\<rparr>" "st\<lparr>bodyMove := Some (hEl h), winTip := Some (hEl h)\<rparr>" h' st']
      by (auto simp: mouse_step_def mouseenter_def Let_def handler_step_def)
  next
    case False
    have "handler_ok (st\<lparr>bodyMove := Some (hEl h)\<rparr>) ?h" using assms(2) by (auto simp: handler_ok_def)
    then show ?thesis
      using False assms(1) MEnter updateDisplay_ok [of ev w offset ?h "st\<lparr>bodyMove := Some (hEl h)\<rparr>" h' st']
      by (auto simp: mouse_step_def mouseenter_def Let_def handler_step_def)
  qed
next
  case (MMove x y)
  let ?h = "h\<lparr>currentPageX := x, currentPageY := y, tip := map_option (updatePosition x y) (tip h)\<rparr>"
  have "handler_ok st ?h" using assms(2) by (auto simp: handler_ok_def)
  then show ?thesis
    using assms(1) MMove updateDisplay_ok [of ev w offset ?h st h' st']
    by (auto simp: mouse_step_def mousemove_def handler_step_def)
next
  case MLeave
  then show ?thesis using assms mouseleave_ok [of ev h st h' st'] by (auto simp: mouse_step_def handler_ok_def)
next
  case MClick
  then show ?thesis using assms by (auto simp: mouse_step_def mouseclick_def handler_ok_def handler_step_def)
qed

section \<open>Pages\<close>

definition binds_only :: "nat \<Rightarrow> store \<Rightarrow> store \<Rightarrow> bool" where
  "binds_only e st st' \<longleftrightarrow> length (canvases st) \<le> length (canvases st') \<and>
     (bodyMove st' = bodyMove st \<or> bodyMove st' = None \<or> bodyMove st' = Some e) \<and>
     (winTip st' = winTip st \<or> winTip st' = None \<or> winTip st' = Some e)"

lemma handler_step_binds: "handler_step h st h' st' \<longleftrightarrow> hEl h' = hEl h \<and> binds_only (hEl h) st st'"
  by (auto simp: handler_step_def binds_only_def)

lemma binds_only_refl [simp]: "binds_only e st st"
  by (simp add: binds_only_def)

lemma binds_only_trans: "binds_only e st st' \<Longrightarrow> binds_only e st' st'' \<Longrightarrow> binds_only e st st''"
  by (auto simp: binds_only_def)

lemma same_bindings_binds: "same_bindings st st' \<Longrightarrow> binds_only e st st'"
  by (simp add: binds_only_def same_bindings_def)

text \<open>The data of one element, and the page.\<close>

definition edata_ok :: "store \<Rightarrow> nat \<Rightarrow> edata \<Rightarrow> bool" where
  "edata_ok st e ed \<longleftrightarrow>
     (\<forall>h. jqs_mhandler ed = Some h \<longrightarrow> hEl h = e \<and> handler_ok st h) \<and>
     (\<forall>a. jqs_vcanvas ed = Some a \<longrightarrow> a < length (canvases st)) \<and>
     (bodyMove st = Some e \<or> winTip st = Some e \<longrightarrow> jqs_mhandler ed \<noteq> None)"

definition data_ok :: "page \<Rightarrow> bool" where
  "data_ok p \<longleftrightarrow> (\<forall>e. edata_ok (pstore p) e (edatas p e))"

definition page_ok :: "page \<Rightarrow> bool" where
  "page_ok p \<longleftrightarrow> data_ok p \<and> (\<forall>q \<in> set (pending p). jqs_pending (edatas p (fst q)))"

lemma addrs_in_mono: "addrs_in n as \<Longrightarrow> n \<le> m \<Longrightarrow> addrs_in m as"
  by (auto simp: addrs_in_def)

lemma handler_ok_other:
  "handler_ok st h \<Longrightarrow> hEl h \<noteq> e \<Longrightarrow> binds_only e st st' \<Longrightarrow> handler_ok st' h"
  unfolding handler_ok_def binds_only_def by (auto intro: addrs_in_mono)

lemma edata_ok_other: "edata_ok st e' ed \<Longrightarrow> e' \<noteq> e \<Longrightarrow> binds_only e st st' \<Longrightarrow> edata_ok st' e' ed"
  unfolding edata_ok_def by (auto intro: handler_ok_other simp: binds_only_def)

lemma data_ok_update:
  assumes "data_ok p" "edata_ok st' e ed" "binds_only e (pstore p) st'" "jqs_pending ed = jqs_pending (edatas p e)"
    and "edatas p' = (edatas p)(e := ed)" "pstore p' = st'" "pending p' = pending p"
  shows "data_ok p' \<and> pending p' = pending p \<and> (\<forall>e. jqs_pending (edatas p' e) = jqs_pending (edatas p e))"
  using assms unfolding data_ok_def by (auto intro: edata_ok_other [where e = e])

lemma job_handler_ok:
  assumes "job_handler e o' ed st = (ed', st')" "edata_ok st e ed"
  shows "edata_ok st' e ed' \<and> st' = st \<and> jqs_vcanvas ed' = jqs_vcanvas ed \<and> jqs_pending ed' = jqs_pending ed"
  using assms
  by (auto simp: job_handler_def edata_ok_def handler_reset_def handler_init_def handler_ok_def addrs_in_def split: if_splits option.splits)

lemma place_chart_ok:
  assumes "place_chart ev sp useExisting ed st = (a, ed', st')" "edata_ok st e ed"
  shows "edata_ok st' e ed' \<and> binds_only e st st' \<and> a < length (canvases st') \<and> jqs_pending ed' = jqs_pending ed"
proof (cases "if useExisting then jqs_vcanvas ed else None")
  case (Some b)
  then show ?thesis using assms by (auto simp: place_chart_def edata_ok_def split: if_splits)
next
  case None
  let ?st = "st\<lparr>canvases := canvases st @ [sp_target sp]\<rparr>"
  have grow: "handler_ok ?st h" if "handler_ok st h" for h
    using that by (auto simp: handler_ok_def intro: addrs_in_mono)
  then have ok: "edata_ok ?st e ed" using assms(2) by (auto simp: edata_ok_def)
  have reg: "handler_ok ?st (registerCanvas (length (canvases st)) h)" if "handler_ok ?st h" for h
    using that by (simp add: handler_ok_def registerCanvas_def)
  have "edata_ok ?st e (ed\<lparr>jqs_vcanvas := Some (length (canvases st)), jqs_mhandler := map_option (registerCanvas (length (canvases st))) (jqs_mhandler ed)\<rparr>)"
    using ok reg by (auto simp: edata_ok_def registerCanvas_def)
  then show ?thesis
    using None assms(1) ok by (auto simp: place_chart_def Let_def binds_only_def split: if_splits)
qed

lemma edata_ok_same: "edata_ok st e ed \<Longrightarrow> same_bindings st st' \<Longrightarrow> edata_ok st' e ed"
  by (simp add: edata_ok_def handler_ok_def same_bindings_def)

lemma edata_ok_handler:
  assumes "edata_ok st e ed" "handler_ok st' h" "hEl h = e" "binds_only e st st'"
  shows "edata_ok st' e (ed\<lparr>jqs_mhandler := Some h\<rparr>)"
proof -
  have "a < length (canvases st')" if "jqs_vcanvas ed = Some a" for a
    using that assms(1,4) unfolding edata_ok_def binds_only_def by (meson less_le_trans)
  then show ?thesis using assms(2,3) by (simp add: edata_ok_def)
qed

lemma registerSparkline_ok:
  assumes "registerSparkline ev w offset (a, sp) h st = Inr (h', st')" "handler_ok st h" "a < length (canvases st)" "sp_region sp = Undef"
  shows "handler_ok st' h' \<and> handler_step h st h' st'"
proof -
  let ?h = "h\<lparr>splist := splist h @ [(a, sp)]\<rparr>"
  have ok: "handler_ok st ?h" using assms(2-4) by (auto simp: handler_ok_def addrs_in_def)
  show ?thesis
  proof (cases "over h")
    case True
    then show ?thesis using assms(1) updateDisplay_ok [of ev w offset ?h st h' st'] ok
      by (auto simp: registerSparkline_def Let_def handler_step_def)
  next
    case False
    then show ?thesis using assms(1) ok by (auto simp: registerSparkline_def Let_def handler_step_def)
  qed
qed

lemma render_job_ok:
  assumes "render_job ev w d e j p = Inr p'" "data_ok p"
  shows "data_ok p' \<and> pending p' = pending p \<and> (\<forall>e. jqs_pending (edatas p' e) = jqs_pending (edatas p e))"
proof -
  obtain ed st where jh: "job_handler e (snd j) (edatas p e) (pstore p) = (ed, st)" by (cases "job_handler e (snd j) (edatas p e) (pstore p)")
  have ed: "edata_ok (pstore p) e ed" "st = pstore p" "jqs_pending ed = jqs_pending (edatas p e)"
    using job_handler_ok [OF jh] assms(2) by (auto simp: data_ok_def)
  show ?thesis
  proof (cases "truthy (snd j ''composite'') \<and> jqs_vcanvas ed = None")
    case True
    let ?ed = "if jqs_errnotify ed then ed else ed\<lparr>jqs_errnotify := True\<rparr>"
    have p': "edatas p' = (edatas p)(e := ?ed)" "pstore p' = pstore p" "pending p' = pending p"
      using True assms(1) ed(2) by (auto simp: render_job_def jh Let_def)
    have "edata_ok (pstore p) e ?ed" using ed(1) by (simp add: edata_ok_def)
    then show ?thesis using data_ok_update [OF assms(2) _ _ _ p'] ed(3) by simp
  next
    case False
    let ?o = "snd j" and ?vs = "job_values d j"
    obtain sp0 where sp0: "sp_init ev (map_option (nth (canvases st)) (jqs_vcanvas ed)) ?vs ?o (chart_width ?vs ?o) (chart_height d (edatas p e) ?o) (counter st) = Inr sp0"
      using assms(1) False
      by (cases "sp_init ev (map_option (nth (canvases st)) (jqs_vcanvas ed)) ?vs ?o (chart_width ?vs ?o) (chart_height d (edatas p e) ?o) (counter st)")
         (simp_all add: render_job_def jh Let_def)
    obtain a ed1 st1 where pc: "place_chart ev sp0 (truthy (?o ''composite'')) ed st = (a, ed1, st1)"
      by (cases "place_chart ev sp0 (truthy (?o ''composite'')) ed st") auto
    have ed1: "edata_ok st1 e ed1" "binds_only e st st1" "a < length (canvases st1)" "jqs_pending ed1 = jqs_pending (edatas p e)"
      using place_chart_ok [OF pc] ed by auto
    obtain r q st2 where oc: "on_canvas (\<lambda>sp. rbind (sp_render ev sp) (\<lambda>sp'. Inr ((), sp'))) (a, sp0) st1 = Inr (r, q, st2)"
      and rest: "(case (if truthy (?o ''disableInteraction'') then None else jqs_mhandler ed1) of
                    None \<Rightarrow> Inr (p\<lparr>edatas := (edatas p)(e := ed1), pstore := st2\<rparr>)
                  | Some h \<Rightarrow> rbind (registerSparkline ev w (canvasOffset d) q h st2) (\<lambda>(h', st3).
                      Inr (p\<lparr>edatas := (edatas p)(e := ed1\<lparr>jqs_mhandler := Some h'\<rparr>), pstore := st3\<rparr>))) = Inr p'"
      using assms(1) False sp0 pc by (auto simp: render_job_def jh Let_def)
    have sb: "same_bindings st1 st2" "fst q = a" using on_canvas_frame [OF oc] by auto
    have region: "sp_region (snd q) = Undef"
      using oc sp_init_region [OF sp0] by (auto simp: on_canvas_def dest!: sp_render_region)
    have ed2: "edata_ok st2 e ed1" "binds_only e st st2" "a < length (canvases st2)"
      using edata_ok_same [OF ed1(1) sb(1)] binds_only_trans [OF ed1(2) same_bindings_binds [OF sb(1)]] ed1(3) sb(1) by (auto simp: same_bindings_def)
    show ?thesis
    proof (cases "if truthy (?o ''disableInteraction'') then None else jqs_mhandler ed1")
      case None
      then have "p' = p\<lparr>edatas := (edatas p)(e := ed1), pstore := st2\<rparr>" using rest by simp
      then show ?thesis using data_ok_update [OF assms(2) ed2(1), of p'] ed2(2) ed1(4) ed(2) by simp
    next
      case (Some h)
      then obtain h' st3 where rs: "registerSparkline ev w (canvasOffset d) (a, snd q) h st2 = Inr (h', st3)"
        and p': "p' = p\<lparr>edatas := (edatas p)(e := ed1\<lparr>jqs_mhandler := Some h'\<rparr>), pstore := st3\<rparr>"
        using rest sb(2) by (cases q) auto
      have h: "hEl h = e" "handler_ok st2 h" using Some ed2(1) by (auto simp: edata_ok_def split: if_splits)
      have st: "handler_ok st3 h'" "hEl h' = e" "binds_only e st2 st3"
        using registerSparkline_ok [OF rs h(2) ed2(3) region] h(1) by (auto simp: handler_step_binds)
      then have "edata_ok st3 e (ed1\<lparr>jqs_mhandler := Some h'\<rparr>)" by (rule edata_ok_handler [OF ed2(1)])
      moreover have "binds_only e (pstore p) st3" using binds_only_trans [OF ed2(2) st(3)] ed(2) by simp
      ultimately show ?thesis
        using ed1(4) by (intro data_ok_update [OF assms(2), where e = e and st' = st3 and ed = "ed1\<lparr>jqs_mhandler := Some h'\<rparr>"]) (simp_all add: p')
    qed
  qed
qed

section \<open>The queue\<close>

lemma purge_loop_filter: "i \<le> length q \<Longrightarrow> purge_loop e i q = filter (\<lambda>x. fst x \<noteq> e) (take i q) @ drop i q"
proof (induction i arbitrary: q)
  case 0
  then show ?case by simp
next
  case (Suc i)
  then have tk: "take (Suc i) q = take i q @ [q ! i]" and dr: "drop i q = q ! i # drop (Suc i) q"
    by (simp_all add: take_Suc_conv_app_nth Cons_nth_drop_Suc)
  show ?case
  proof (cases "fst (q ! i) = e")
    case True
    have "take i (js_splice i 1 [] q) = take i q" "drop i (js_splice i 1 [] q) = drop (Suc i) q" "i \<le> length (js_splice i 1 [] q)"
      using Suc.prems by (simp_all add: js_splice_def)
    then show ?thesis using True Suc.IH [of "js_splice i 1 [] q"] by (simp add: tk)
  next
    case False
    then show ?thesis using Suc by (simp add: tk dr)
  qed
qed

text \<open>The positions of the entries with a property, counted from \<open>i\<close>.\<close>

fun positions :: "('a \<Rightarrow> bool) \<Rightarrow> 'a list \<Rightarrow> nat \<Rightarrow> nat list" where
  "positions P [] i = []"
| "positions P (x # xs) i = (if P x then [i] else []) @ positions P xs (Suc i)"

lemma splice_loop_append: "splice_loop (is @ js) q = splice_loop js (splice_loop is q)"
  by (induction "is" arbitrary: q) auto

lemma splice_loop_filter: "splice_loop (rev (positions P xs (length ys))) (ys @ xs) = ys @ filter (\<lambda>x. \<not> P x) xs"
proof (induction xs arbitrary: ys)
  case Nil
  then show ?case by simp
next
  case (Cons x xs)
  have "splice_loop (rev (positions P xs (Suc (length ys)))) (ys @ x # xs) = ys @ x # filter (\<lambda>x. \<not> P x) xs"
    using Cons.IH [of "ys @ [x]"] by simp
  then show ?case by (simp add: splice_loop_append js_splice_def)
qed

text \<open>An entry of the queue is ready when its element is visible, or has left the document with its data.\<close>

definition shown :: "(nat \<Rightarrow> dom) \<Rightarrow> nat \<Rightarrow> bool" where
  "shown D e \<longleftrightarrow> isVisible (D e) \<and> \<not> parentsHidden (D e)"

definition ready :: "(nat \<Rightarrow> dom) \<Rightarrow> page \<Rightarrow> nat \<Rightarrow> bool" where
  "ready D p e \<longleftrightarrow> shown D e \<or> (\<not> inHtml (D e) \<and> \<not> jqs_pending (edatas p e))"

lemma unpend_simps [simp]:
  "pending (unpend e p) = pending p" "pstore (unpend e p) = pstore p"
  "jqs_pending (edatas (unpend e p) e') = (e' \<noteq> e \<and> jqs_pending (edatas p e'))"
  by (auto simp: unpend_def)

lemma unpend_ok: "data_ok p \<Longrightarrow> data_ok (unpend e p)"
  by (auto simp: unpend_def data_ok_def edata_ok_def)

lemma display_loop_ok:
  "display_loop ev w D q i ds p = Inr (ds', p') \<Longrightarrow> data_ok p \<Longrightarrow>
   (\<And>e. \<not> shown D e \<Longrightarrow> jqs_pending (edatas p e) = jqs_pending (edatas p0 e)) \<Longrightarrow>
   data_ok p' \<and> pending p' = pending p \<and> ds' = ds @ positions (\<lambda>x. ready D p0 (fst x)) q i \<and>
   (\<forall>e. jqs_pending (edatas p' e) = (jqs_pending (edatas p e) \<and> \<not> (shown D e \<and> e \<in> fst ` set q)))"
proof (induction q arbitrary: i ds p)
  case Nil
  then show ?case by simp
next
  case (Cons x q)
  obtain e j where x: "x = (e, j)" by (cases x)
  show ?case
  proof (cases "shown D e")
    case True
    then obtain p1 where p1: "render_job ev w (D e) e j p = Inr p1"
      and rest: "display_loop ev w D q (Suc i) (ds @ [i]) (unpend e p1) = Inr (ds', p')"
      using Cons.prems(1) by (auto simp: x shown_def)
    have r: "data_ok p1" "pending p1 = pending p" "\<And>e. jqs_pending (edatas p1 e) = jqs_pending (edatas p e)"
      using render_job_ok [OF p1 Cons.prems(2)] by auto
    have "\<not> shown D e' \<Longrightarrow> jqs_pending (edatas (unpend e p1) e') = jqs_pending (edatas p0 e')" for e'
      using True r(3) Cons.prems(3) by auto
    from Cons.IH [OF rest unpend_ok [OF r(1)] this] show ?thesis
      using True r by (auto simp: x ready_def)
  next
    case ns: False
    show ?thesis
    proof (cases "ready D p0 e")
      case True
      then have rest: "display_loop ev w D q (Suc i) (ds @ [i]) (unpend e p) = Inr (ds', p')" and flag: "\<not> jqs_pending (edatas p e)"
        using ns Cons.prems(1) Cons.prems(3) [OF ns] by (auto simp: x shown_def ready_def)
      then have "\<not> shown D e' \<Longrightarrow> jqs_pending (edatas (unpend e p) e') = jqs_pending (edatas p0 e')" for e'
        using Cons.prems(3) by auto
      from Cons.IH [OF rest unpend_ok [OF Cons.prems(2)] this] show ?thesis
        using True ns flag by (auto simp: x)
    next
      case False
      then have "display_loop ev w D q (Suc i) ds p = Inr (ds', p')"
        using ns Cons.prems(1) Cons.prems(3) [OF ns] by (auto simp: x shown_def ready_def split: if_splits)
      from Cons.IH [OF this Cons.prems(2,3)] show ?thesis using False ns by (auto simp: x)
    qed
  qed
qed

lemma display_visible_ok:
  assumes "sparkline_display_visible ev w D p = Inr p'" "data_ok p"
  shows "data_ok p' \<and> pending p' = filter (\<lambda>x. \<not> ready D p (fst x)) (pending p) \<and>
    (\<forall>e. jqs_pending (edatas p' e) = (jqs_pending (edatas p e) \<and> \<not> (shown D e \<and> e \<in> fst ` set (pending p))))"
proof -
  obtain ds p1 where d: "display_loop ev w D (pending p) 0 [] p = Inr (ds, p1)" and p': "p' = p1\<lparr>pending := splice_loop (rev ds) (pending p1)\<rparr>"
    using assms(1) by (auto simp: sparkline_display_visible_def)
  show ?thesis
    using display_loop_ok [OF d assms(2), of p] splice_loop_filter [of "\<lambda>x. ready D p (fst x)" "pending p" "[]"]
    by (auto simp: p' data_ok_def)
qed

section \<open>Every page the plugin reaches\<close>

inductive page_step :: "page \<Rightarrow> page \<Rightarrow> bool" where
  call: "sparkline_call ev w d e j p = Inr p' \<Longrightarrow> page_step p p'"
| display: "sparkline_display_visible ev w D p = Inr p' \<Longrightarrow> page_step p p'"
| mouse: "page_mouse ev w d e me p = Inr p' \<Longrightarrow> page_step p p'"
| resize: "page_step p (page_resize w p)"
| clear: "page_step p (cleardraw e p)"

inductive page_reach :: "page \<Rightarrow> bool" where
  init: "page_reach page_init"
| step: "page_reach p \<Longrightarrow> page_step p p' \<Longrightarrow> page_reach p'"

lemma page_init_ok: "page_ok page_init"
  by (simp add: page_ok_def data_ok_def edata_ok_def page_init_def no_edata_def)

lemma sparkline_call_ok:
  assumes "sparkline_call ev w d e j p = Inr p'" "page_ok p"
  shows "page_ok p'"
proof (cases "deferred d (snd j)")
  case True
  define q where "q = (if \<not> truthy (snd j ''composite'') \<and> jqs_pending (edatas p e) then purge_loop e (length (pending p)) (pending p) else pending p)"
  have q: "set q \<subseteq> set (pending p)" by (auto simp: q_def purge_loop_filter)
  have p': "p' = p\<lparr>pending := q @ [(e, j)], edatas := (edatas p)(e := (edatas p e)\<lparr>jqs_pending := True\<rparr>)\<rparr>"
    using True assms(1) by (simp add: sparkline_call_def Let_def q_def)
  have "data_ok p'" using assms(2) by (auto simp: p' page_ok_def data_ok_def edata_ok_def)
  moreover have "jqs_pending (edatas p' (fst x))" if "x \<in> set (pending p')" for x
    using that q assms(2) by (auto simp: p' page_ok_def)
  ultimately show ?thesis by (simp add: page_ok_def)
next
  case False
  then show ?thesis using assms render_job_ok [of ev w d e j p p'] by (auto simp: sparkline_call_def page_ok_def)
qed

lemma page_mouse_ok:
  assumes "page_mouse ev w d e me p = Inr p'" "page_ok p"
  shows "page_ok p'"
proof (cases "jqs_mhandler (edatas p e)")
  case None
  then show ?thesis using assms by (simp add: page_mouse_def)
next
  case (Some h)
  then obtain h' st where m: "mouse_step ev w (canvasOffset d) me h (pstore p) = Inr (h', st)"
    and p': "p' = p\<lparr>edatas := (edatas p)(e := (edatas p e)\<lparr>jqs_mhandler := Some h'\<rparr>), pstore := st\<rparr>"
    using assms(1) by (auto simp: page_mouse_def)
  have ed: "edata_ok (pstore p) e (edatas p e)" and d: "data_ok p" using assms(2) by (auto simp: page_ok_def data_ok_def)
  then have h: "hEl h = e" "handler_ok (pstore p) h" using Some by (auto simp: edata_ok_def)
  have st: "handler_ok st h'" "hEl h' = e" "binds_only e (pstore p) st"
    using mouse_step_ok [OF m h(2)] h(1) by (auto simp: handler_step_binds)
  have "data_ok p' \<and> pending p' = pending p \<and> (\<forall>e. jqs_pending (edatas p' e) = jqs_pending (edatas p e))"
    by (rule data_ok_update [OF d edata_ok_handler [OF ed st] st(3)]) (simp_all add: p')
  then show ?thesis using assms(2) by (simp add: page_ok_def)
qed

lemma page_resize_ok:
  assumes "page_ok p"
  shows "page_ok (page_resize w p)"
proof (cases "winTip (pstore p)")
  case None
  then show ?thesis using assms by (simp add: page_resize_def)
next
  case (Some e)
  have "handler_ok st (h\<lparr>tip := map_option f (tip h)\<rparr>) = handler_ok st h" for st h f by (simp add: handler_ok_def)
  then show ?thesis using assms Some by (auto simp: page_resize_def page_ok_def data_ok_def edata_ok_def)
qed

lemma cleardraw_ok:
  assumes "page_ok p"
  shows "page_ok (cleardraw e p)"
proof -
  have "handler_ok (st\<lparr>canvases := (canvases st)[a := c]\<rparr>) h = handler_ok st h" for st a c h by (simp add: handler_ok_def)
  then show ?thesis using assms by (simp add: cleardraw_def page_ok_def data_ok_def edata_ok_def split: option.splits)
qed

lemma page_step_ok: "page_step p p' \<Longrightarrow> page_ok p \<Longrightarrow> page_ok p'"
proof (induction rule: page_step.induct)
  case (display ev w D p p')
  then have "data_ok p" by (simp add: page_ok_def)
  from display_visible_ok [OF display.hyps this] show ?case
    using display.prems by (auto simp: page_ok_def ready_def)
qed (auto intro: sparkline_call_ok page_mouse_ok page_resize_ok cleardraw_ok)

lemma page_reach_ok: "page_reach p \<Longrightarrow> page_ok p"
  by (induction rule: page_reach.induct) (auto intro: page_init_ok page_step_ok)

section \<open>Properties\<close>


definition demo_dom :: dom where
  "demo_dom = \<lparr>attribute = \<lambda>a. None, htmlContent = ''1,2'', lineDims = (num 20, num 20), isHidden = False, isVisible = True,
     parentsHidden = False, inBody = False, inHtml = False, canvasOffset = (Fin 0, Fin 0)\<rparr>"

definition demo_win :: win where
  "demo_win = \<lparr>winScrollTop = Fin 0, winScrollLeft = Fin 0, winWidth = Fin 1000, boxOffset = \<lambda>c. (Fin 0, Fin 0), boxSize = \<lambda>s. (Fin 50, Fin 20)\<rparr>"

text \<open>A page with a chart waiting for element 7, which is not in the document yet.\<close>

definition demo_page :: page where
  "demo_page = page_init\<lparr>pending := [(7, FromHtml, \<lambda>k. Undef)], edatas := (\<lambda>e. no_edata)(7 := no_edata\<lparr>jqs_pending := True\<rparr>)\<rparr>"

lemma demo_page_call: "sparkline_call plain_env demo_win demo_dom 7 (FromHtml, \<lambda>k. Undef) page_init = Inr demo_page"
  by (simp add: sparkline_call_def deferred_def demo_dom_def demo_page_def page_init_def no_edata_def Let_def)






end
