(* ===== verification/SparkTips.thy ===== *)
theory SparkTips
  imports SparkCharts
begin

text \<open>
  The text of the tooltips of \<open>static/js/jquery.sparkline.js\<close> never raises, whatever the pointer is over,
  when the options hold no callbacks: formats are format objects or strings that give a number of
  decimals to no field but the percentage, look-ups are plain tables or range maps, and digit groups
  have a size above zero. All default options are of this kind.
\<close>

section \<open>Options of harmless tooltips\<close>

fun piece_ok :: "piece \<Rightarrow> bool" where
  "piece_ok (Lit c) = True"
| "piece_ok (Field t l) = (case find_prec (split_on (CHR ''.'') t) of None \<Rightarrow> True | Some (a, b) \<Rightarrow> a = ''percent'')"

definition format_ok :: "jsval \<Rightarrow> bool" where
  "format_ok f = (case (if isStr f then FmtI (to_string f) Undef else f) of FmtI fmt fc \<Rightarrow> list_all piece_ok (parse_format fmt) | _ \<Rightarrow> False)"

definition lookup_ok :: "jsval \<Rightarrow> bool" where
  "lookup_ok v = (case v of RMapI m \<Rightarrow> True | _ \<Rightarrow> \<not> truthy (jprop v ''get''))"

definition tooltip_options :: "(string \<Rightarrow> jsval) \<Rightarrow> bool" where
  "tooltip_options o' \<longleftrightarrow> \<not> truthy (o' ''tooltipFormatter'') \<and> \<not> truthy (o' ''tooltipFormatFieldlist'') \<and> \<not> truthy (o' ''numberFormatter'') \<and>
     Fin 0 < to_number (o' ''numberDigitGroupCount'') \<and> (\<forall>k. lookup_ok (jprop (o' ''tooltipValueLookups'') k)) \<and>
     (truthy (o' ''tooltipFormat'') \<longrightarrow> list_all format_ok (ensureArray (o' ''tooltipFormat'')))"

text \<open>The fields of a region: an object or several; a percentage is a number.\<close>

definition field_ok :: "jsval \<Rightarrow> bool" where
  "field_ok v = (case v of Obj ob \<Rightarrow> (case jget ob ''percent'' of Num x \<Rightarrow> True | Undef \<Rightarrow> True | _ \<Rightarrow> False) | _ \<Rightarrow> False)"

section \<open>Numbers\<close>

lemma group_loop_returns: "0 < g \<Longrightarrow> i \<le> real n * g \<Longrightarrow> \<exists>ys. group_loop (Fin i) (Fin g) sep xs = Some ys"
proof (induction n arbitrary: i xs)
  case 0
  then show ?case by (simp add: group_loop_stop)
next
  case (Suc n)
  show ?case
  proof (cases "0 < i")
    case True
    then show ?thesis using Suc.IH [of "i - g"] Suc.prems by (simp add: group_loop_step algebra_simps)
  next
    case False
    then show ?thesis by (simp add: group_loop_stop)
  qed
qed

lemma group_loop_total:
  assumes "Fin 0 < g"
  shows "\<exists>ys. group_loop (Fin i - g) g sep xs = Some ys"
proof (cases g)
  case (Fin r)
  obtain n where "(i - r) / r < real n" using reals_Archimedean2 by blast
  then show ?thesis using assms Fin group_loop_returns [of r "i - r" n] by (simp add: divide_less_eq)
qed (use assms in \<open>simp_all add: group_loop_stop minus_number_def\<close>)

lemma formatNumber_returns:
  assumes "Fin 0 < to_number g" "prec = None \<or> (\<exists>x. v = Num x)"
  shows "\<exists>s. formatNumber v prec g sep d = Inr s"
proof -
  obtain ds where ds: "format_digits v prec = Inr ds" using assms(2) by (cases prec) (auto simp: format_digits_def)
  define cs where "cs = map (\<lambda>c. Str [c]) ds"
  define p where "p = (case in_array (\<lambda>c. c = Str ''.'') cs of None \<Rightarrow> length cs | Some i \<Rightarrow> i)"
  obtain ys where "group_loop (Fin (real p) - to_number g) (to_number g) sep (if p < length cs then cs[p := d] else cs) = Some ys"
    using group_loop_total [OF assms(1)] by blast
  then show ?thesis unfolding formatNumber_def ds Let_def sum.case cs_def [symmetric] p_def [symmetric] by simp
qed

section \<open>Formats\<close>

lemma render_field_returns:
  assumes "tooltip_options o'" "piece_ok (Field t l)" "jget fds ''percent'' = Undef \<or> (\<exists>x. jget fds ''percent'' = Num x)"
  shows "\<exists>v. render_field call' o' fds (o' ''tooltipValueLookups'') t l = Inr v"
proof -
  define pr where "pr = (case find_prec (split_on (CHR ''.'') t) of None \<Rightarrow> (t, None) | Some (a, b) \<Rightarrow> (a, Some (nat (digits_val b))))"
  have pr: "snd pr = None \<or> fst pr = ''percent''" using assms(2) by (auto simp: pr_def split: option.splits)
  have lk: "lookup_ok (case l of None \<Rightarrow> Undef | Some k \<Rightarrow> jprop (o' ''tooltipValueLookups'') k)"
    using assms(1) by (auto simp: tooltip_options_def lookup_ok_def split: option.splits)
  have num: "jget fds (fst pr) \<noteq> Undef \<Longrightarrow> \<exists>s. formatNumber (jget fds (fst pr)) (snd pr) (o' ''numberDigitGroupCount'') sep d = Inr s" for sep d
    using assms(1,3) pr by (intro formatNumber_returns) (auto simp: tooltip_options_def)
  have nf: "\<not> truthy (o' ''numberFormatter'')" using assms(1) by (simp add: tooltip_options_def)
  show ?thesis
    using lk num [of "o' ''numberDigitGroupSep''" "o' ''numberDecimalMark''"] nf unfolding render_field_def pr_def [symmetric] Let_def
    by (cases pr) (auto simp: lookup_ok_def split: jsval.splits)
qed

lemma render_pieces_returns:
  "\<forall>t l. Field t l \<in> set ps \<longrightarrow> (\<exists>v. f t l = Inr v) \<Longrightarrow> \<exists>s. render_pieces f ps = Inr s"
proof (induction ps)
  case (Cons p ps)
  then obtain s where s: "render_pieces f ps = Inr s" by auto
  show ?case
  proof (cases p)
    case (Field t l)
    then obtain v where "f t l = Inr v" using Cons.prems by (metis list.set_intros(1))
    then show ?thesis using s by (simp add: Field)
  qed (simp add: s)
qed simp

lemma SPFormat_returns:
  assumes "tooltip_options o'" "list_all piece_ok (parse_format fmt)" "jget fds ''percent'' = Undef \<or> (\<exists>x. jget fds ''percent'' = Num x)"
  shows "\<exists>s. SPFormat_render call' o' fmt fds (o' ''tooltipValueLookups'') = Inr s"
  unfolding SPFormat_render_def using assms render_field_returns [OF assms(1) _ assms(3)]
  by (intro render_pieces_returns) (auto simp: list_all_iff)

lemma tooltip_entry_returns:
  assumes "tooltip_options o'" "format_ok f" "field_ok v"
  shows "\<exists>es. tooltip_entry ev o' f v = Inr es"
proof -
  obtain fmt fc where f: "(if isStr f then FmtI (to_string f) Undef else f) = FmtI fmt fc" "list_all piece_ok (parse_format fmt)"
    using assms(2) by (auto simp: format_ok_def split: jsval.splits)
  obtain ob where ob: "v = Obj ob" "jget ob ''percent'' = Undef \<or> (\<exists>x. jget ob ''percent'' = Num x)"
    using assms(3) by (auto simp: field_ok_def split: jsval.splits)
  let ?fds = "jq_extend ob [(''prefix'', o' ''tooltipPrefix''), (''suffix'', o' ''tooltipSuffix'')]"
  have "jget ?fds ''percent'' = jget ob ''percent''" by (simp add: jget_jput)
  then obtain s where "SPFormat_render (call ev) o' fmt ?fds (o' ''tooltipValueLookups'') = Inr s"
    using SPFormat_returns [OF assms(1) f(2)] ob(2) by metis
  then show ?thesis unfolding tooltip_entry_def f(1) ob(1) by simp
qed

lemma tooltip_entries_returns:
  "tooltip_options o' \<Longrightarrow> \<forall>(f, v) \<in> set ps. format_ok f \<and> field_ok v \<Longrightarrow> \<exists>es. tooltip_entries ev o' ps = Inr es"
proof (induction ps)
  case (Cons p ps)
  obtain f v where p: "p = (f, v)" by (cases p)
  obtain es where "tooltip_entries ev o' ps = Inr es" using Cons by auto
  then show ?case using Cons.prems tooltip_entry_returns [of o' f v ev] by (auto simp: p)
qed simp

lemma getCurrentRegionTooltip_returns:
  assumes "tooltip_options o'" "list_all field_ok (ensureArray flds)"
  shows "\<exists>t. getCurrentRegionTooltip ev o' region flds = Inr t"
proof (cases "region = Undef \<or> \<not> truthy (o' ''tooltipFormat'')")
  case True
  then show ?thesis using assms(1) by (auto simp: getCurrentRegionTooltip_def tooltip_options_def Let_def)
next
  case False
  have "\<forall>(f, v) \<in> set (List.product (ensureArray (o' ''tooltipFormat'')) (ensureArray flds)). format_ok f \<and> field_ok v"
    using assms False by (auto simp: tooltip_options_def list_all_iff)
  from tooltip_entries_returns [OF assms(1) this, of ev] show ?thesis
    using assms(1) False by (auto simp: getCurrentRegionTooltip_def tooltip_options_def Let_def)
qed

section \<open>Charts\<close>

fun sp_opt :: "sparkline \<Rightarrow> string \<Rightarrow> jsval" where
  "sp_opt (SLine ch) = opt ch"
| "sp_opt (SBar ch) = opt ch"
| "sp_opt (STristate ch) = opt ch"
| "sp_opt (SDiscrete ch) = opt ch"
| "sp_opt (SBullet ch) = opt ch"
| "sp_opt (SPie ch) = opt ch"
| "sp_opt (SBox ch) = opt ch"

lemma bar_fields_ok: "list_all field_ok (bar_fields ch r vs n)"
  by (induction n) (simp_all add: field_ok_def)

lemma sp_tooltip_returns:
  assumes "tooltip_options (sp_opt sp)"
  shows "\<exists>t. sp_getCurrentRegionTooltip ev sp = Inr t"
proof (cases sp)
  case (SBar ch)
  then show ?thesis using assms bar_fields_ok
    by (simp add: getCurrentRegionTooltip_returns bar_getCurrentRegionFields_def ensureArray_def Let_def)
next
  case (SBox ch)
  then show ?thesis using assms
    by (simp add: getCurrentRegionTooltip_returns box_getCurrentRegionFields_def box_field_def ensureArray_def field_ok_def)
qed (use assms in \<open>simp_all add: getCurrentRegionTooltip_returns line_getCurrentRegionFields_def tristate_getCurrentRegionFields_def
    discrete_getCurrentRegionFields_def bullet_getCurrentRegionFields_def pie_getCurrentRegionFields_def ensureArray_def field_ok_def Let_def\<close>)

section \<open>The default options\<close>

definition chart_types :: "string list" where
  "chart_types = [''line'', ''bar'', ''tristate'', ''discrete'', ''bullet'', ''pie'', ''box'']"

lemma chart_typesE:
  assumes "ty \<in> set chart_types"
  obtains "ty = ''line''" | "ty = ''bar''" | "ty = ''tristate''" | "ty = ''discrete''" | "ty = ''bullet''" | "ty = ''pie''" | "ty = ''box''"
  using assms unfolding chart_types_def list.set insert_iff empty_iff by metis

lemma format_pieces:
  "list_all piece_ok (parse_format ''<span style=\"color: {{color}}\">&#9679;</span> {{prefix}}{{y}}{{suffix}}'')"
  "list_all piece_ok (parse_format ''<span style=\"color: {{color}}\">&#9679;</span> {{prefix}}{{value}}{{suffix}}'')"
  "list_all piece_ok (parse_format ''<span style=\"color: {{color}}\">&#9679;</span> {{value:map}}'')"
  "list_all piece_ok (parse_format ''{{prefix}}{{value}}{{suffix}}'')"
  "list_all piece_ok (parse_format ''{{fieldkey:fields}} - {{value}}'')"
  "list_all piece_ok (parse_format ''<span style=\"color: {{color}}\">&#9679;</span> {{value}} ({{percent.1}}%)'')"
  "list_all piece_ok (parse_format ''{{field:fields}}: {{value}}'')"
  by code_simp+

lemmas type_defaults = getDefaults_def as_obj_def line_defaults_def bar_defaults_def tristate_defaults_def discrete_defaults_def
  bullet_defaults_def pie_defaults_def box_defaults_def

lemma default_formats:
  "ty \<in> set chart_types \<Longrightarrow> list_all format_ok (ensureArray (jget (as_obj (jget getDefaults ty)) ''tooltipFormat''))"
  by (erule chart_typesE; hypsubst; simp add: type_defaults ensureArray_def format_ok_def format_pieces del: parse_format.simps)

lemma default_lookups:
  "ty \<in> set chart_types \<Longrightarrow> lookup_ok (jprop (jget (as_obj (jget getDefaults ty)) ''tooltipValueLookups'') k)"
  by (erule chart_typesE; hypsubst; simp add: type_defaults lookup_ok_def)

text \<open>No type has defaults of its own for the settings of interaction, callbacks and number groups.\<close>

lemma default_settings:
  assumes "ty \<in> set chart_types"
    and "k \<in> {''composite'', ''disableInteraction'', ''tooltipFormatter'', ''tooltipFormatFieldlist'', ''numberFormatter'', ''numberDigitGroupCount''}"
  shows "jget (as_obj (jget getDefaults ty)) k = Undef"
proof -
  have "jget (as_obj (jget getDefaults ty)) ''composite'' = Undef" "jget (as_obj (jget getDefaults ty)) ''disableInteraction'' = Undef"
    "jget (as_obj (jget getDefaults ty)) ''tooltipFormatter'' = Undef" "jget (as_obj (jget getDefaults ty)) ''tooltipFormatFieldlist'' = Undef"
    "jget (as_obj (jget getDefaults ty)) ''numberFormatter'' = Undef" "jget (as_obj (jget getDefaults ty)) ''numberDigitGroupCount'' = Undef"
    using assms(1) by (erule_tac [!] chart_typesE; hypsubst; simp add: type_defaults)+
  then show ?thesis using assms(2) by blast
qed

end
