(* ===== verification/SparkChartInv.thy ===== *)
theory SparkChartInv
  imports SparkPage SparkTips
begin

text \<open>
  The invariants of the chart classes of \<open>static/js/jquery.sparkline.js\<close> joined in one predicate on charts
  (\<open>sp_inv\<close>). The methods that the mouse handler calls succeed on a chart with the invariant and keep
  it; rendering a new chart establishes it. Every method lets the counter of shapes grow and keeps the
  options and the size of the canvas (\<open>sp_grows\<close>).
\<close>

section \<open>What the methods leave alone on a canvas\<close>

definition canvas_grows :: "vcanvas \<Rightarrow> vcanvas \<Rightarrow> bool" where
  "canvas_grows c c' \<longleftrightarrow> shapeCount c \<le> shapeCount c' \<and> interact c' = interact c \<and> pixelHeight c' = pixelHeight c"

lemma canvas_grows_refl [simp]: "canvas_grows c c"
  by (simp add: canvas_grows_def)

lemma canvas_grows_trans [trans]: "canvas_grows c c' \<Longrightarrow> canvas_grows c' c'' \<Longrightarrow> canvas_grows c c''"
  by (simp add: canvas_grows_def)

text \<open>A chart keeps its options besides.\<close>

definition chart_grows :: "'a chart_scheme \<Rightarrow> 'a chart_scheme \<Rightarrow> bool" where
  "chart_grows ch ch' \<longleftrightarrow> canvas_grows (target ch) (target ch') \<and> opt ch' = opt ch"

lemma chart_grows_refl [simp]: "chart_grows ch ch"
  by (simp add: chart_grows_def)

lemma chart_grows_trans: "chart_grows ch ch' \<Longrightarrow> chart_grows ch' ch'' \<Longrightarrow> chart_grows ch ch''"
  unfolding chart_grows_def using canvas_grows_trans by auto

lemma chart_grows_simps:
  "chart_grows ch (ch'\<lparr>target := c\<rparr>) \<longleftrightarrow> canvas_grows (target ch) c \<and> opt ch' = opt ch"
  "chart_grows ch (ch'\<lparr>currentRegion := r\<rparr>) \<longleftrightarrow> chart_grows ch ch'"
  "chart_grows (ch\<lparr>currentRegion := r\<rparr>) ch' \<longleftrightarrow> chart_grows ch ch'"
  by (simp_all add: chart_grows_def)

definition sp_grows :: "sparkline \<Rightarrow> sparkline \<Rightarrow> bool" where
  "sp_grows sp sp' \<longleftrightarrow> canvas_grows (sp_target sp) (sp_target sp') \<and> sp_opt sp' = sp_opt sp"

lemma sp_grows_simps [simp]:
  "sp_grows (SLine ch1) (SLine ch2) = chart_grows ch1 ch2" "sp_grows (SBar ch3) (SBar ch4) = chart_grows ch3 ch4"
  "sp_grows (STristate ch5) (STristate ch6) = chart_grows ch5 ch6" "sp_grows (SDiscrete ch7) (SDiscrete ch8) = chart_grows ch7 ch8"
  "sp_grows (SBullet ch9) (SBullet ch10) = chart_grows ch9 ch10" "sp_grows (SPie ch11) (SPie ch12) = chart_grows ch11 ch12"
  "sp_grows (SBox ch13) (SBox ch14) = chart_grows ch13 ch14"
  by (simp_all add: sp_grows_def chart_grows_def)

lemma canvas_grows_ops [simp]:
  "canvas_grows c (removeShapeId i c') = canvas_grows c c'" "canvas_grows c (insert_after j s c') = canvas_grows c c'"
  "canvas_grows c (replaceWithShape i s c') = canvas_grows c c'" "canvas_grows c (replaceWithShapes is ss c') = canvas_grows c c'"
  "canvas_grows c (replace_shape j s c') = canvas_grows c c'" "canvas_grows c (c'\<lparr>shapes := sh, shapeseq := sq\<rparr>) = canvas_grows c c'"
  by (simp_all add: canvas_grows_def removeShapeId_def insert_after_def insertAfterShape_def replaceWithShape_def replaceWithShapes_def
      replace_shape_def Let_def split: option.splits prod.splits)

lemma genShape_grows: "genShape sh c = (s, c') \<Longrightarrow> canvas_grows c c'"
  by (auto simp: genShape_def canvas_grows_def)

lemma line_removeHighlight_grows: "chart_grows ch (line_removeHighlight ch)"
  by (simp add: line_removeHighlight_def chart_grows_def Let_def split: option.splits)

lemma line_renderHighlight_grows: "chart_grows ch (line_renderHighlight ch)"
proof -
  have "chart_grows ch (highlight_spot v ch)" "chart_grows ch (highlight_line v ch)" for v ch
    by (auto simp: highlight_spot_def highlight_line_def drawCircle_def drawLine_def drawShape_def chart_grows_def dest: genShape_grows split: prod.splits)
  then have "chart_grows ch (highlight_line v (highlight_spot v ch))" for v using chart_grows_trans by blast
  then show ?thesis by (simp add: line_renderHighlight_def split: option.splits)
qed

lemma replace_region_grows: "replace_region ids r c = Inr (ids', c') \<Longrightarrow> canvas_grows c c'"
  by (cases "(ids, r, c)" rule: replace_region.cases) auto

lemma realise_grows: "realise p c = (r, c') \<Longrightarrow> canvas_grows c c'"
  by (drule realise_props) (auto simp: canvas_grows_def)

context region_renderer
begin

lemma changeHighlight_grows: "mixin_changeHighlight rr h ch = Inr ch' \<Longrightarrow> chart_grows ch ch'"
  by (auto simp: mixin_changeHighlight_def rr_plan chart_grows_def dest!: replace_region_grows realise_grows intro: canvas_grows_trans
      split: option.splits if_splits prod.splits)

end

lemma draw_frame: "draw p s c = Inr c' \<Longrightarrow> queue_of c' = queue_of c"
  by (cases "(p, s, c)" rule: draw.cases) (auto simp: draw_defs queue_of_def split: list.splits)

lemma draw_all_frame: "draw_all p is c = Inr c' \<Longrightarrow> queue_of c' = queue_of c"
  by (induction "is" arbitrary: c) (auto dest!: draw_frame split: option.splits sum.splits)

lemma canvas_render_grows: "canvas_render p c = Inr c' \<Longrightarrow> canvas_grows c c'"
  by (auto simp: canvas_render_def canvas_grows_def getContext_def queue_of_def dest!: draw_all_frame split: sum.splits if_splits)

lemma keyed_getRegion_grows: "keyed_getRegion ev x y ch = Inr (r, ch') \<Longrightarrow> chart_grows ch ch'"
  by (auto simp: keyed_getRegion_def canvas_getShapeAt_def chart_grows_def dest!: canvas_render_grows split: sum.splits)
     (auto simp: canvas_grows_def)

lemma keyed_changeHighlight_grows: "keyed_changeHighlight paint h ch = Inr ch' \<Longrightarrow> chart_grows ch ch'"
  by (auto simp: keyed_changeHighlight_def Let_def genShape_def chart_grows_def) (simp add: canvas_grows_def)

lemma clearRegionHighlight_grows:
  assumes "\<And>ch ch'. rm ch = Inr ch' \<Longrightarrow> chart_grows ch ch'" "clearRegionHighlight rm ch = Inr (b, ch')"
  shows "chart_grows ch ch'"
  using assms by (auto simp: clearRegionHighlight_def chart_grows_simps split: if_splits)

lemma setRegionHighlight_grows:
  assumes "\<And>ch r ch'. gr x y ch = Inr (r, ch') \<Longrightarrow> chart_grows ch ch'"
    and "\<And>ch ch'. rh ch = Inr ch' \<Longrightarrow> chart_grows ch ch'"
    and "\<And>ch ch'. rm ch = Inr ch' \<Longrightarrow> chart_grows ch ch'"
    and "setRegionHighlight gr rh rm x y ch = Inr (b, ch')"
  shows "chart_grows ch ch'"
proof (cases "jlt (canvasWidth ch) x \<or> jlt (canvasHeight ch) y \<or> jlt x (num 0) \<or> jlt y (num 0)")
  case True
  then show ?thesis using assms(4) by (simp add: setRegionHighlight_def Let_def)
next
  case False
  obtain r ch1 where g: "gr x y ch = Inr (r, ch1)" using assms(4) False by (auto simp: setRegionHighlight_def Let_def)
  note g1 = assms(1) [OF g]
  show ?thesis
  proof (cases "seq (currentRegion ch) r")
    case True
    then show ?thesis using assms(4) False g g1 by (auto simp: setRegionHighlight_def Let_def)
  next
    case new: False
    obtain ch2 where c2: "(if currentRegion ch \<noteq> Undef \<and> \<not> truthy (opt ch ''disableHighlight'') then rm ch1 else Inr ch1) = Inr ch2"
      and c3: "(if r \<noteq> Undef \<and> \<not> truthy (opt ch ''disableHighlight'') then rh (ch2\<lparr>currentRegion := r\<rparr>) else Inr (ch2\<lparr>currentRegion := r\<rparr>)) = Inr ch'"
      using assms(4) False g new by (auto simp: setRegionHighlight_def Let_def)
    have "chart_grows ch1 ch2" using c2 assms(3) by (auto split: if_splits)
    moreover have "chart_grows ch2 ch'" using c3 assms(2) [of "ch2\<lparr>currentRegion := r\<rparr>" ch'] by (auto simp: chart_grows_simps split: if_splits)
    ultimately show ?thesis using g1 chart_grows_trans by blast
  qed
qed

lemma sp_clear_grows: "sp_clearRegionHighlight sp = Inr (b, sp') \<Longrightarrow> sp_grows sp sp'"
  by (cases sp)
    (auto simp: wrap_def bullet_changeHighlight_def [abs_def] pie_changeHighlight_def [abs_def] line_removeHighlight_grows
      intro: bar_rr.changeHighlight_grows tri_rr.changeHighlight_grows dis_rr.changeHighlight_grows keyed_changeHighlight_grows
      elim!: clearRegionHighlight_grows [rotated])

lemma sp_set_grows: "sp_setRegionHighlight ev x y sp = Inr (b, sp') \<Longrightarrow> sp_grows sp sp'"
  by (cases sp)
    (auto simp: wrap_def bullet_changeHighlight_def [abs_def] pie_changeHighlight_def [abs_def] line_removeHighlight_grows line_renderHighlight_grows
      intro: bar_rr.changeHighlight_grows tri_rr.changeHighlight_grows dis_rr.changeHighlight_grows keyed_changeHighlight_grows keyed_getRegion_grows
      elim!: setRegionHighlight_grows [rotated 3])

section \<open>The invariant of a chart\<close>

fun sp_inv :: "sparkline \<Rightarrow> bool" where
  "sp_inv (SLine ch) = (\<exists>base sh. line_inv base sh ch)"
| "sp_inv (SBar ch) = region_inv bar_plan [] [] (lit_region ch) ch"
| "sp_inv (STristate ch) = region_inv tristate_plan [] [] (lit_region ch) ch"
| "sp_inv (SDiscrete ch) = region_inv discrete_plan [] [] (lit_region ch) ch"
| "sp_inv (SBullet ch) = (\<exists>pre. keyed_ok bullet_paint bullet_keys has_rangeColors pre ch)"
| "sp_inv (SPie ch) = (\<exists>pre. keyed_ok renderSlice pie_keys has_sliceColors pre ch)"
| "sp_inv (SBox ch) = canvas_wf (target ch)"

lemma sp_inv_wf: "sp_inv sp \<Longrightarrow> canvas_wf (sp_target sp)"
  by (cases sp) (auto simp: line_inv_def region_inv_def keyed_ok_def keyed_inv_def)

text \<open>The invariant speaks of the shapes on the canvas, not of how they were drawn.\<close>

lemma sp_inv_retarget:
  assumes "sp_inv sp" "canvas_wf c" "shapes c = shapes (sp_target sp)" "shapeseq c = shapeseq (sp_target sp)"
    and "interact c = interact (sp_target sp)" "pixelHeight c = pixelHeight (sp_target sp)"
  shows "sp_inv (sp_retarget c sp)"
proof (cases sp)
  case (SLine ch)
  then obtain base sh where "line_inv base sh ch" using assms(1) by auto
  then have "line_inv base sh (ch\<lparr>target := c\<rparr>)" using assms SLine by (simp add: line_inv_def line_hl_def)
  then show ?thesis using SLine by auto
next
  case (SBar ch)
  then show ?thesis using assms
    by (simp add: region_inv_def shows_plan_def bar_rr.plan_frame_target lit_region_def)
next
  case (STristate ch)
  then show ?thesis using assms
    by (simp add: region_inv_def shows_plan_def tri_rr.plan_frame_target lit_region_def)
next
  case (SDiscrete ch)
  then show ?thesis using assms
    by (simp add: region_inv_def shows_plan_def dis_rr.plan_frame_target lit_region_def)
next
  case (SBullet ch)
  then obtain pre where "keyed_ok bullet_paint bullet_keys has_rangeColors pre ch" using assms(1) by auto
  moreover have "lit_key (ch\<lparr>target := c\<rparr>) = lit_key ch" by (simp add: lit_key_def fun_eq_iff)
  ultimately have "keyed_ok bullet_paint bullet_keys has_rangeColors pre (ch\<lparr>target := c\<rparr>)"
    using assms SBullet by (simp add: keyed_ok_def keyed_inv_def bul_kr.frames)
  then show ?thesis using SBullet by auto
next
  case (SPie ch)
  then obtain pre where "keyed_ok renderSlice pie_keys has_sliceColors pre ch" using assms(1) by auto
  moreover have "lit_key (ch\<lparr>target := c\<rparr>) = lit_key ch" by (simp add: lit_key_def fun_eq_iff)
  ultimately have "keyed_ok renderSlice pie_keys has_sliceColors pre (ch\<lparr>target := c\<rparr>)"
    using assms SPie by (simp add: keyed_ok_def keyed_inv_def pie_kr.frames)
  then show ?thesis using SPie by auto
next
  case (SBox ch)
  then show ?thesis using assms by simp
qed

text \<open>The methods the handler calls succeed and keep the invariant: pointer events, one call at a time.\<close>

lemma pointer_set:
  "pointer_event gr rh rm (Move x y) ch = Inr ch' \<Longrightarrow> \<exists>b. setRegionHighlight gr rh rm x y ch = Inr (b, ch')"
  by (auto simp: pointer_event_def)

lemma pointer_clear: "pointer_event gr rh rm Leave ch = Inr ch' \<Longrightarrow> \<exists>b. clearRegionHighlight rm ch = Inr (b, ch')"
  by (auto simp: pointer_event_def)

lemma keyed_highlights:
  "bullet_changeHighlight b = keyed_changeHighlight bullet_paint b" "pie_changeHighlight b = keyed_changeHighlight renderSlice b"
  by (simp_all add: fun_eq_iff bullet_changeHighlight_def pie_changeHighlight_def)

lemma box_set:
  fixes ch :: box
  shows "\<exists>b ch'. setRegionHighlight (\<lambda>x y ch. Inr (box_getRegion x y ch, ch)) Inr Inr x y ch = Inr (b, ch') \<and> target ch' = target ch"
  by (simp add: setRegionHighlight_def Let_def)

lemma sp_set_inv:
  assumes "sp_inv sp"
  shows "\<exists>b sp'. sp_setRegionHighlight ev x y sp = Inr (b, sp') \<and> sp_inv sp'"
proof (cases sp)
  case (SLine ch)
  then obtain base sh where "line_inv base sh ch" using assms by auto
  from line_event_inv [OF this, of "Move x y"] show ?thesis
    unfolding line_event_def using SLine by (fastforce simp: wrap_def dest: pointer_set)
next
  case (SBar ch)
  then show ?thesis using assms bar_rr.event_inv [of "[]" "[]" ch bar_getRegion "Move x y"] by (fastforce simp: wrap_def dest: pointer_set)
next
  case (STristate ch)
  then show ?thesis using assms tri_rr.event_inv [of "[]" "[]" ch tristate_getRegion "Move x y"] by (fastforce simp: wrap_def dest: pointer_set)
next
  case (SDiscrete ch)
  then show ?thesis using assms dis_rr.event_inv [of "[]" "[]" ch discrete_getRegion "Move x y"] by (fastforce simp: wrap_def dest: pointer_set)
next
  case (SBullet ch)
  then obtain pre where "keyed_ok bullet_paint bullet_keys has_rangeColors pre ch" using assms by auto
  from bul_kr.event_ok [OF this, of ev "Move x y"] show ?thesis
    using SBullet by (fastforce simp: wrap_def keyed_highlights dest: pointer_set)
next
  case (SPie ch)
  then obtain pre where "keyed_ok renderSlice pie_keys has_sliceColors pre ch" using assms by auto
  from pie_kr.event_ok [OF this, of ev "Move x y"] show ?thesis
    using SPie by (fastforce simp: wrap_def keyed_highlights dest: pointer_set)
next
  case (SBox ch)
  then show ?thesis using assms box_set [of x y ch] by (auto simp: wrap_def)
qed

lemma sp_clear_inv:
  assumes "sp_inv sp"
  shows "\<exists>b sp'. sp_clearRegionHighlight sp = Inr (b, sp') \<and> sp_inv sp'"
proof (cases sp)
  case (SLine ch)
  then obtain base sh where "line_inv base sh ch" using assms by auto
  from line_event_inv [OF this, of Leave] show ?thesis
    unfolding line_event_def using SLine by (fastforce simp: wrap_def dest: pointer_clear)
next
  case (SBar ch)
  then show ?thesis using assms bar_rr.event_inv [of "[]" "[]" ch bar_getRegion Leave] by (fastforce simp: wrap_def dest: pointer_clear)
next
  case (STristate ch)
  then show ?thesis using assms tri_rr.event_inv [of "[]" "[]" ch tristate_getRegion Leave] by (fastforce simp: wrap_def dest: pointer_clear)
next
  case (SDiscrete ch)
  then show ?thesis using assms dis_rr.event_inv [of "[]" "[]" ch discrete_getRegion Leave] by (fastforce simp: wrap_def dest: pointer_clear)
next
  case (SBullet ch)
  then obtain pre where "keyed_ok bullet_paint bullet_keys has_rangeColors pre ch" using assms by auto
  from bul_kr.event_ok [OF this, of plain_env Leave] show ?thesis
    using SBullet by (fastforce simp: wrap_def keyed_highlights dest: pointer_clear)
next
  case (SPie ch)
  then obtain pre where "keyed_ok renderSlice pie_keys has_sliceColors pre ch" using assms by auto
  from pie_kr.event_ok [OF this, of plain_env Leave] show ?thesis
    using SPie by (fastforce simp: wrap_def keyed_highlights dest: pointer_clear)
next
  case (SBox ch)
  then show ?thesis using assms by (auto simp: wrap_def clearRegionHighlight_def)
qed

section \<open>A new chart\<close>

lemma appendShape_grows [simp]: "canvas_grows c (appendShape s c') = canvas_grows c c'"
  by (simp add: canvas_grows_def appendShape_def)

lemma draw_append_grows [simp]: "canvas_grows c (draw_append sh c)"
  by (auto simp: draw_append_def dest: genShape_grows split: prod.splits)

lemma fold_draw_append_grows: "canvas_grows c (fold draw_append shs c)"
proof (induction shs arbitrary: c)
  case Nil
  then show ?case by simp
next
  case (Cons sh shs)
  show ?case using canvas_grows_trans [OF draw_append_grows [of c sh] Cons [of "draw_append sh c"]] by simp
qed

lemma fold_append_grows: "canvas_grows c c' \<Longrightarrow> canvas_grows c (fold appendShape ss c')"
  by (induction ss arbitrary: c') simp_all

lemma keyed_append_all_grows: "keyed_append_all paint ks ch = Inr ch' \<Longrightarrow> chart_grows ch ch'"
proof (induction ks arbitrary: ch)
  case Nil
  then show ?case by simp
next
  case (Cons k ks)
  obtain ch1 where ch1: "keyed_append paint k ch = Inr ch1" "keyed_append_all paint ks ch1 = Inr ch'" using Cons.prems by auto
  have "chart_grows ch ch1"
    using ch1(1) by (auto simp: keyed_append_def genShape_def chart_grows_def) (simp add: canvas_grows_def)
  then show ?case using Cons.IH [OF ch1(2)] chart_grows_trans by blast
qed

context region_renderer
begin

lemma render_regions_grows: "chart_grows ch (render_regions rr n ch)"
proof (induction n arbitrary: ch)
  case 0
  then show ?case by simp
next
  case (Suc n)
  obtain r c1 ids c2 where re: "realise (plan n False ch) (target ch) = (r, c1)" and ap: "append_region r c1 = (ids, c2)"
    by (metis surj_pair)
  have "canvas_grows (target ch) c2"
    using realise_grows [OF re] append_region_fold [OF ap] fold_append_grows by blast
  then show ?case
    using Suc [of "ch\<lparr>target := c2, regionShapes := (regionShapes ch)(n \<mapsto> ids)\<rparr>"] canvas_grows_trans by (simp add: rr_plan re ap chart_grows_def)
qed

lemma mixin_render_grows: "mixin_render ev rr ch = Inr ch' \<Longrightarrow> chart_grows ch ch'"
  using render_regions_grows [of ch "length (vals ch)"]
  by (auto simp: mixin_render_def Let_def chart_grows_def split: if_splits dest!: canvas_render_grows intro: canvas_grows_trans)

end

lemma drawNormalRange_grows: "canvas_grows c (drawNormalRange ch g c)"
  by (auto simp: drawNormalRange_def drawRect_def Let_def dest: genShape_grows split: prod.splits)

lemma line_draw_grows: "canvas_grows c (line_draw ch g st c)"
  unfolding line_draw_def Let_def
  by (intro canvas_grows_trans [OF _ fold_draw_append_grows])
     (auto intro: drawNormalRange_grows fold_draw_append_grows canvas_grows_trans)

lemma line_render_grows: "line_render ev ch = Inr ch' \<Longrightarrow> chart_grows ch ch'"
proof -
  assume r: "line_render ev ch = Inr ch'"
  let ?ch = "processRangeOptions (scanValues ch)"
  have t: "target ?ch = target ch" "opt ?ch = opt ch" by (simp_all add: scanValues_def processRangeOptions_def Let_def split: prod.splits)
  show ?thesis
    using r line_draw_grows [of "target ch" ?ch "line_geometry ?ch" "line_points ?ch (line_geometry ?ch)"]
    unfolding line_render_def Let_def
    by (auto simp: t chart_grows_def split: if_splits dest!: canvas_render_grows intro: canvas_grows_trans)
qed

lemma box_render_grows: "box_render ev ch = Inr ch' \<Longrightarrow> chart_grows ch ch'"
proof -
  assume r: "box_render ev ch = Inr ch'"
  have t: "target (box_raw vs b ch) = target ch" "target (box_stats ns b k ch) = target ch"
    "opt (box_raw vs b ch) = opt ch" "opt (box_stats ns b k ch) = opt ch" for vs ns b k
    by (simp_all add: box_raw_def box_stats_def Let_def split: prod.splits)
  show ?thesis
    using r unfolding box_render_def Let_def
    by (auto simp: t chart_grows_def split: if_splits dest!: canvas_render_grows intro: canvas_grows_trans fold_draw_append_grows)
qed

lemma pie_border_grows: "canvas_grows c (pie_border ch c)"
  by (auto simp: pie_border_def drawCircle_def Let_def dest: genShape_grows split: prod.splits)

lemma sp_render_grows: "sp_render ev sp = Inr sp' \<Longrightarrow> sp_grows sp sp'"
proof (cases sp)
  case (SPie ch)
  assume "sp_render ev sp = Inr sp'"
  then show ?thesis using SPie pie_border_grows [of "target ch" ch]
    by (auto simp: pie_render_def chart_grows_def split: if_splits dest!: keyed_append_all_grows canvas_render_grows) (meson canvas_grows_trans)
qed (auto simp: bullet_render_def chart_grows_def split: if_splits dest!: line_render_grows box_render_grows bar_rr.mixin_render_grows tri_rr.mixin_render_grows
    dis_rr.mixin_render_grows keyed_append_all_grows canvas_render_grows intro: canvas_grows_trans)

text \<open>Without \<open>composite\<close> a chart has its own canvas, whatever canvas the element has.\<close>

lemma initTarget_own: "\<not> truthy (opt ch ''composite'') \<Longrightarrow> initTarget ev ex ch = initTarget ev None ch"
  by (simp add: initTarget_def simpledraw_def)

lemma sp_init_own:
  assumes "\<not> truthy (o' ''composite'')"
  shows "sp_init ev ex vs o' w h n = sp_init ev None vs o' w h n"
  using assms
  by (simp add: sp_init_def line_init_def bar_init_def tristate_init_def discrete_init_def bullet_init_def pie_init_def box_init_def
      bar_blank_def initTarget_own [of _ ev ex] initTarget_own [of _ ev "case x of None \<Rightarrow> y | Some c \<Rightarrow> Some c" for x y] Let_def split: prod.splits)

text \<open>The options of a chart that the pointer can do no harm to.\<close>

definition plain_options :: "(string \<Rightarrow> jsval) \<Rightarrow> bool" where
  "plain_options o' \<longleftrightarrow> \<not> truthy (o' ''composite'') \<and> \<not> truthy (o' ''disableInteraction'') \<and> tooltip_options o' \<and>
     (to_string (o' ''type'') = ''pie'' \<longrightarrow> \<not> is_nullish (o' ''sliceColors'')) \<and> (to_string (o' ''type'') = ''bullet'' \<longrightarrow> \<not> is_nullish (o' ''rangeColors''))"

lemma initTarget_count:
  assumes "hasCanvas ev"
  shows "shapeCount (target (initTarget ev None ch)) = shapeCount (target ch)" "lastShapeId (target (initTarget ev None ch)) = None"
  using assms by (simp_all add: initTarget_def simpledraw_def canvas_init_def calculatePixelDims_def Let_def)

lemma no_canvas_count [simp]: "shapeCount (no_canvas n) = n"
  by (simp add: no_canvas_def canvas_init_def calculatePixelDims_def)

lemma bar_init_count: "hasCanvas ev \<Longrightarrow> bar_init ev None vs o' w h n = Inr ch \<Longrightarrow> shapeCount (target ch) = n"
  by (auto simp: bar_init_def initTarget_count bar_blank_def Let_def split: prod.splits if_splits)

lemma bullet_init_own:
  "\<not> truthy (o' ''composite'') \<Longrightarrow> \<exists>ch0. bullet_init ev None vs o' w h n = initTarget ev None ch0 \<and> target ch0 = no_canvas n \<and> opt ch0 = o'"
  by (simp add: bullet_init_def initTarget_own [of _ ev "case x of None \<Rightarrow> y | Some c \<Rightarrow> Some c" for x y] Let_def)
    (metis chart.select_convs)

lemma sp_init_count:
  assumes "hasCanvas ev" "plain_options o'" "sp_init ev None vs o' w h n = Inr sp"
  shows "shapeCount (sp_target sp) = n \<and> interact (sp_target sp)"
proof -
  have opt: "\<not> truthy (o' ''disableInteraction'')" "\<not> truthy (o' ''composite'')" using assms(2) by (auto simp: plain_options_def)
  show ?thesis
  proof (cases sp)
    case (SBar ch)
    then have "bar_init ev None vs o' w h n = Inr ch" using assms(3) by (auto simp: sp_init_def Let_def split: if_splits)
    then show ?thesis using SBar assms(1) opt bar_init_new bar_init_count by fastforce
  next
    case (SBullet ch)
    then have "ch = bullet_init ev None vs o' w h n" using assms(3) by (auto simp: sp_init_def Let_def split: if_splits)
    then obtain ch0 where "ch = initTarget ev None ch0" "target ch0 = no_canvas n" "opt ch0 = o'" using opt bullet_init_own by blast
    then show ?thesis using SBullet assms(1) opt by (simp add: initTarget_count initTarget_new)
  qed (use assms(1,3) opt in \<open>auto simp: sp_init_def line_init_def tristate_init_def discrete_init_def pie_init_def box_init_def
      initTarget_count initTarget_new Let_def split: if_splits prod.splits\<close>)
qed

lemma box_render_ok:
  assumes "last_ok (target ch)"
  shows "\<exists>ch'. box_render ev ch = Inr ch' \<and> canvas_wf (target ch')"
proof (cases "disabled ch")
  case True
  then show ?thesis using assms by (simp add: box_render_def last_ok_def)
next
  case False
  define ch1 where "ch1 = (if truthy (opt ch ''raw'') then box_raw (vals ch) (truthy (opt ch ''showOutliers'')) ch
    else box_stats (map to_number (vals ch)) (truthy (opt ch ''showOutliers'')) (to_number (opt ch ''outlierIQR'')) ch)"
  have t: "target ch1 = target ch" by (simp add: ch1_def box_raw_def box_stats_def Let_def split: prod.splits)
  have ok: "\<forall>sh \<in> set (box_shapes mn mx ch1). shape_ok sh" for mn mx
    by (auto simp: box_shapes_def outlier_spot_def hline_def Let_def)
  let ?mn = "if opt ch ''chartRangeMin'' = Undef then Num (Math_min (map to_number (vals ch))) else opt ch ''chartRangeMin''"
  let ?mx = "if opt ch ''chartRangeMax'' = Undef then Num (Math_max (map to_number (vals ch))) else opt ch ''chartRangeMax''"
  have "canvas_wf (fold draw_append (box_shapes mn mx ch1) (target ch1))" for mn mx
    using fold_draw_append_ok [OF assms [folded t] ok] by (simp add: last_ok_def)
  then obtain c' where c': "canvas_render (inPath ev) (fold draw_append (box_shapes ?mn ?mx ch1) (target ch1)) = Inr c'" "canvas_wf c'"
    using canvas_render_ok by blast
  have "box_render ev ch = rbind (canvas_render (inPath ev) (fold draw_append (box_shapes ?mn ?mx ch1) (target ch1))) (\<lambda>c'. Inr (ch1\<lparr>target := c'\<rparr>))"
    using False unfolding box_render_def Let_def ch1_def by simp
  then show ?thesis unfolding c'(1) using c'(2) by simp
qed

lemma initTarget_opt [simp]: "opt (initTarget ev ex ch) = opt ch"
  by (simp add: initTarget_def split: option.splits)

lemma sp_init_opt: "sp_init ev None vs o' w h n = Inr sp \<Longrightarrow> sp_opt sp = o'"
  by (auto simp: sp_init_def line_init_def bar_init_def bar_blank_def tristate_init_def discrete_init_def bullet_init_def
      pie_init_def box_init_def Let_def split: if_splits prod.splits)

text \<open>A chart with such options that could be made is rendered, and has the invariant.\<close>

lemma sp_render_inv:
  assumes "hasCanvas ev" "plain_options o'" "vs \<noteq> []" "sp_init ev None vs o' w h n = Inr sp"
  shows "\<exists>sp'. sp_render ev sp = Inr sp' \<and> sp_inv sp'"
proof -
  have opt: "\<not> truthy (o' ''disableInteraction'')" "\<not> truthy (o' ''composite'')"
    "to_string (o' ''type'') = ''pie'' \<Longrightarrow> \<not> is_nullish (o' ''sliceColors'')" "to_string (o' ''type'') = ''bullet'' \<Longrightarrow> \<not> is_nullish (o' ''rangeColors'')"
    using assms(2) by (auto simp: plain_options_def)
  note cs = assms(4) [unfolded sp_init_def Let_def]
  show ?thesis
  proof (cases sp)
    case (SLine ch)
    then have "ch = line_init ev None vs o' w h n" using cs by (auto split: if_splits)
    then show ?thesis using SLine line_render_inv [of ev o' vs w h n] assms(1) opt by fastforce
  next
    case (SBar ch)
    then have "bar_init ev None vs o' w h n = Inr ch" using cs by (auto split: if_splits)
    then show ?thesis using SBar bar_render_ok [of ev vs o' w h n ch] assms(1) opt by auto
  next
    case (STristate ch)
    then have "ch = tristate_init ev None vs o' w h n" using cs by (auto split: if_splits)
    then show ?thesis using STristate tristate_render_ok [of ev o' vs w h n] assms(1) opt by auto
  next
    case (SDiscrete ch)
    then have "ch = discrete_init ev None vs o' w h n" using cs by (auto split: if_splits)
    then show ?thesis using SDiscrete discrete_render_ok [of ev o' vs w h n] assms(1) opt by auto
  next
    case (SBullet ch)
    then have "ch = bullet_init ev None vs o' w h n" "to_string (o' ''type'') = ''bullet''" using cs by (auto split: if_splits)
    then show ?thesis using SBullet bullet_render_ok [of ev o' vs w h n] assms(1,3) opt by auto
  next
    case (SPie ch)
    then have "ch = pie_init ev None vs o' w h n" "to_string (o' ''type'') = ''pie''" using cs by (auto split: if_splits)
    then show ?thesis using SPie pie_render_ok [of ev o' vs w h n] assms(1) opt by auto
  next
    case (SBox ch)
    then have ch: "ch = box_init ev None vs o' w h n" using cs by (auto split: if_splits)
    have "last_ok (target ch)"
      using assms(1) unfolding ch by (simp add: box_init_def Let_def last_ok_def initTarget_new initTarget_count)
    then show ?thesis using SBox box_render_ok [of ch ev] by auto
  qed
qed

end
