(* ===== verification/SparkSafe.thy ===== *)
theory SparkSafe
  imports SparkChartInv
begin

text \<open>
  The charts, their canvases and the mouse handlers of \<open>static/js/jquery.sparkline.js\<close> put together: on
  a page whose charts are interactive, not composite and without callbacks, no pointer event raises.
  Each chart keeps its invariant on the canvas at its address in the store, whatever happens to the
  canvases of other elements.
\<close>

section \<open>A chart and its place in the store\<close>

definition chart_at :: "store \<Rightarrow> nat \<Rightarrow> sparkline \<Rightarrow> sparkline" where
  "chart_at st a sp = sp_retarget ((canvases st ! a)\<lparr>shapeCount := counter st\<rparr>) sp"

text \<open>The chart has the invariant on the canvas at its address, which keeps its shapes when it is drawn.\<close>

definition chart_ok :: "store \<Rightarrow> nat \<times> sparkline \<Rightarrow> bool" where
  "chart_ok st q \<longleftrightarrow> fst q < length (canvases st) \<and> interact (canvases st ! fst q) \<and> sp_inv (chart_at st (fst q) (snd q)) \<and>
     tooltip_options (sp_opt (snd q))"

lemma sp_opt_retarget [simp]: "sp_opt (sp_retarget c sp) = sp_opt sp"
  by (cases sp) simp_all

lemma retarget_idem [simp]: "sp_retarget c (sp_retarget c' sp) = sp_retarget c sp" "sp_retarget (sp_target sp) sp = sp"
  by (cases sp; simp)+

text \<open>What happens elsewhere: the canvas at the address is the same, or drawn again, and the counter may have grown.\<close>

definition canvas_kept :: "nat \<Rightarrow> store \<Rightarrow> store \<Rightarrow> bool" where
  "canvas_kept a st st' \<longleftrightarrow> counter st \<le> counter st' \<and> length (canvases st) \<le> length (canvases st') \<and>
     (a < length (canvases st) \<longrightarrow> canvases st' ! a = canvases st ! a)"

lemma canvas_kept_refl [simp]: "canvas_kept a st st"
  by (simp add: canvas_kept_def)

lemma canvas_kept_trans: "canvas_kept a st st' \<Longrightarrow> canvas_kept a st' st'' \<Longrightarrow> canvas_kept a st st''"
  by (simp add: canvas_kept_def)

lemma canvas_wf_count: "canvas_wf c \<Longrightarrow> shapeCount c \<le> n \<Longrightarrow> canvas_wf (c\<lparr>shapeCount := n\<rparr>)"
  by (auto simp: canvas_wf_def intro: less_le_trans)

lemma chart_ok_kept:
  assumes "chart_ok st (a, sp)" "canvas_kept a st st'"
  shows "chart_ok st' (a, sp)"
proof -
  have a: "a < length (canvases st)" "sp_inv (chart_at st a sp)" using assms(1) by (auto simp: chart_ok_def)
  have wf: "canvas_wf ((canvases st ! a)\<lparr>shapeCount := counter st\<rparr>)" using sp_inv_wf [OF a(2)] by (simp add: chart_at_def)
  have "canvas_wf ((canvases st' ! a)\<lparr>shapeCount := counter st'\<rparr>)"
    using canvas_wf_count [OF wf, of "counter st'"] assms(2) a(1) by (simp add: canvas_kept_def)
  then have "sp_inv (sp_retarget ((canvases st' ! a)\<lparr>shapeCount := counter st'\<rparr>) (chart_at st a sp))"
    using assms(2) a(1) by (intro sp_inv_retarget [OF a(2)]) (simp_all add: chart_at_def canvas_kept_def)
  then show ?thesis using assms a by (auto simp: chart_ok_def chart_at_def canvas_kept_def)
qed

text \<open>
  What the handler needs of a method of the charts: on a chart with the invariant it succeeds and keeps
  the invariant, and it never turns back the counter of shapes.
\<close>

locale safe_method =
  fixes f :: "sparkline \<Rightarrow> ('r \<times> sparkline) result"
  assumes runs: "sp_inv sp \<Longrightarrow> \<exists>r sp'. f sp = Inr (r, sp') \<and> sp_inv sp'"
    and grows: "f sp = Inr (r, sp') \<Longrightarrow> sp_grows sp sp'"
begin

lemma on_canvas_safe:
  assumes "chart_ok st (a, sp)"
  shows "\<exists>r sp' st'. on_canvas f (a, sp) st = Inr (r, (a, sp'), st') \<and> chart_ok st' (a, sp') \<and> (\<forall>b. b \<noteq> a \<longrightarrow> canvas_kept b st st')"
proof -
  have a: "a < length (canvases st)" "interact (canvases st ! a)" "sp_inv (chart_at st a sp)" using assms by (auto simp: chart_ok_def)
  from runs [OF a(3)] obtain r sp' where f: "f (chart_at st a sp) = Inr (r, sp')" "sp_inv sp'" by blast
  let ?st = "st\<lparr>canvases := (canvases st)[a := sp_target sp'], counter := shapeCount (sp_target sp')\<rparr>"
  have g: "counter st \<le> shapeCount (sp_target sp')" "interact (sp_target sp')" "tooltip_options (sp_opt sp')"
    using grows [OF f(1)] a(2) assms by (auto simp: sp_grows_def canvas_grows_def chart_at_def chart_ok_def)
  have "on_canvas f (a, sp) st = Inr (r, (a, sp'), ?st)" using f(1) by (simp add: on_canvas_def chart_at_def)
  moreover have "chart_ok ?st (a, sp')" using a(1) f(2) g(2,3) by (simp add: chart_ok_def chart_at_def)
  moreover have "canvas_kept b st ?st" if "b \<noteq> a" for b using that g(1) by (simp add: canvas_kept_def)
  ultimately show ?thesis by blast
qed

end

interpretation set_m: safe_method "sp_setRegionHighlight ev x y"
  by unfold_locales (auto intro: sp_set_inv sp_set_grows)

interpretation clear_m: safe_method sp_clearRegionHighlight
  by unfold_locales (auto intro: sp_clear_inv sp_clear_grows)

section \<open>A handler\<close>

text \<open>A handler with at most one chart, on the canvas it is registered with.\<close>

definition handler_safe :: "store \<Rightarrow> handler \<Rightarrow> bool" where
  "handler_safe st h \<longleftrightarrow>
     (case splist h of [] \<Rightarrow> True | [q] \<Rightarrow> hCanvas h = Some (fst q) \<and> chart_ok st q | _ \<Rightarrow> False)"

definition handler_addrs :: "handler \<Rightarrow> nat set" where
  "handler_addrs h = fst ` set (splist h)"

text \<open>A step of such a handler touches no other chart's canvas.\<close>

definition safe_step :: "handler \<Rightarrow> store \<Rightarrow> (handler \<times> store) result \<Rightarrow> bool" where
  "safe_step h st r \<longleftrightarrow> (\<exists>h' st'. r = Inr (h', st') \<and> handler_safe st' h' \<and> handler_addrs h' = handler_addrs h \<and>
     (\<forall>b. b \<notin> handler_addrs h \<longrightarrow> canvas_kept b st st'))"

lemma handler_safe_cases:
  assumes "handler_safe st h"
  obtains "splist h = []" | a sp where "splist h = [(a, sp)]" "hCanvas h = Some a" "chart_ok st (a, sp)"
  using assms by (auto simp: handler_safe_def split: list.splits)

lemma canvas_render_any:
  assumes "canvas_wf (c\<lparr>shapeCount := n\<rparr>)" "interact c"
  shows "\<exists>c'. canvas_render p c = Inr c' \<and> canvas_wf (c'\<lparr>shapeCount := n\<rparr>) \<and> queue_of c' = queue_of c"
proof -
  let ?c = "emit [ClearRect (num 0) (num 0) (pixelWidth c) (pixelHeight c)] (getContext Undef Undef Undef c)"
  have "\<forall>i \<in> set (shapeseq c). \<exists>s. shapes ?c i = Some s \<and> shape_ok (sargs s)"
    using assms by (auto simp: canvas_wf_def getContext_def) (metis domD)
  then obtain c1 where "draw_all p (shapeseq c) ?c = Inr c1" "queue_of c1 = queue_of ?c"
    using draw_all_ok by blast
  then show ?thesis
    using assms by (auto simp: canvas_render_def queue_of_def canvas_wf_def getContext_def)
qed

lemma render_canvas_safe:
  assumes "hCanvas h = Some a" "chart_ok st (a, sp)"
  shows "\<exists>st'. render_canvas ev h st = Inr st' \<and> chart_ok st' (a, sp) \<and> (\<forall>b. b \<noteq> a \<longrightarrow> canvas_kept b st st')"
proof -
  let ?c = "canvases st ! a"
  have a: "a < length (canvases st)" "interact ?c" "sp_inv (chart_at st a sp)" using assms(2) by (auto simp: chart_ok_def)
  have wf: "canvas_wf (?c\<lparr>shapeCount := counter st\<rparr>)" using sp_inv_wf [OF a(3)] by (simp add: chart_at_def)
  obtain c' where c': "canvas_render (inPath ev) ?c = Inr c'" "canvas_wf (c'\<lparr>shapeCount := counter st\<rparr>)" "shapes c' = shapes ?c"
    "shapeseq c' = shapeseq ?c" "interact c'" "pixelHeight c' = pixelHeight ?c"
    using canvas_render_any [OF wf a(2), of "inPath ev"] a(2) by (auto simp: queue_of_def)
  let ?st = "st\<lparr>canvases := (canvases st)[a := c']\<rparr>"
  have "sp_inv (sp_retarget (c'\<lparr>shapeCount := counter st\<rparr>) (chart_at st a sp))"
    using c' a by (intro sp_inv_retarget [OF a(3)]) (simp_all add: chart_at_def)
  then have "chart_ok ?st (a, sp)" using a(1) c'(5) assms(2) by (simp add: chart_ok_def chart_at_def)
  moreover have "canvas_kept b st ?st" if "b \<noteq> a" for b using that by (simp add: canvas_kept_def)
  ultimately show ?thesis using assms(1) c'(1) by (auto simp: render_canvas_def)
qed

text \<open>The bindings and the events in the store are not looked at.\<close>

lemma bindings_ignored [simp]:
  "chart_ok (st\<lparr>bodyMove := b\<rparr>) q = chart_ok st q" "chart_ok (st\<lparr>winTip := b\<rparr>) q = chart_ok st q"
  "chart_ok (st\<lparr>firedEvents := fs\<rparr>) q = chart_ok st q" "canvas_kept a (st\<lparr>bodyMove := b\<rparr>) st' = canvas_kept a st st'"
  "canvas_kept a (st\<lparr>winTip := b\<rparr>) st' = canvas_kept a st st'" "canvas_kept a (st\<lparr>firedEvents := fs\<rparr>) st' = canvas_kept a st st'"
  by (simp_all add: chart_ok_def chart_at_def canvas_kept_def)

lemma show_tooltip_returns:
  assumes "splist h = [(a, sp)]" "tooltip_options (sp_opt sp)"
  shows "\<exists>t. show_tooltip ev w h = Inr (h\<lparr>tip := t\<rparr>)"
proof (cases "tip h")
  case None
  then have "h\<lparr>tip := None\<rparr> = h" by simp
  then show ?thesis using None by (auto simp: show_tooltip_def intro: exI [of _ None])
next
  case (Some t)
  obtain html where "sp_getCurrentRegionTooltip ev sp = Inr html" using sp_tooltip_returns [OF assms(2)] by blast
  then show ?thesis using assms(1) Some by (auto simp: show_tooltip_def)
qed

lemma refresh_safe:
  assumes "splist h = [(a, sp)]" "hCanvas h = Some a" "chart_ok st (a, sp)"
  shows "\<exists>t st'. refresh ev w h st = Inr (h\<lparr>tip := t\<rparr>, st') \<and> chart_ok st' (a, sp) \<and> (\<forall>b. b \<noteq> a \<longrightarrow> canvas_kept b st st')"
proof -
  let ?st = "st\<lparr>firedEvents := firedEvents st @ [SparklineRegionChange (hEl h)]\<rparr>"
  obtain t where t: "show_tooltip ev w h = Inr (h\<lparr>tip := t\<rparr>)" using show_tooltip_returns [OF assms(1)] assms(3) by (auto simp: chart_ok_def)
  obtain st' where "render_canvas ev (h\<lparr>tip := t\<rparr>) ?st = Inr st'" "chart_ok st' (a, sp)" "\<forall>b. b \<noteq> a \<longrightarrow> canvas_kept b st st'"
    using render_canvas_safe [of "h\<lparr>tip := t\<rparr>" a ?st sp ev] assms by auto
  then show ?thesis using t by (auto simp: refresh_def)
qed

lemma mouseleave_safe:
  assumes "handler_safe st h"
  shows "safe_step h st (mouseleave ev h st)"
  using assms
proof (cases rule: handler_safe_cases)
  case 1
  then show ?thesis
    by (simp add: safe_step_def mouseleave_def Let_def handler_safe_def handler_addrs_def canvas_kept_def tooltip_remove_def)
next
  case (2 a sp)
  let ?st = "if tip h = None then st\<lparr>bodyMove := None\<rparr> else tooltip_remove (st\<lparr>bodyMove := None\<rparr>)"
  have "chart_ok ?st (a, sp)" "\<And>b st'. canvas_kept b ?st st' = canvas_kept b st st'" using 2(3) by (simp_all add: tooltip_remove_def)
  then obtain r sp' st1 where c: "on_canvas sp_clearRegionHighlight (a, sp) ?st = Inr (r, (a, sp'), st1)"
    "chart_ok st1 (a, sp')" "\<forall>b. b \<noteq> a \<longrightarrow> canvas_kept b st st1" using clear_m.on_canvas_safe [of ?st a sp] by metis
  let ?h = "h\<lparr>over := False, tip := None, splist := [(a, sp')]\<rparr>"
  obtain st2 where r: "render_canvas ev ?h st1 = Inr st2" "chart_ok st2 (a, sp')" "\<forall>b. b \<noteq> a \<longrightarrow> canvas_kept b st1 st2"
    using render_canvas_safe [of ?h a st1 sp' ev] 2(2) c(2) by auto
  have k: "\<forall>b. b \<noteq> a \<longrightarrow> canvas_kept b st st2" using c(3) r(3) canvas_kept_trans by blast
  have m: "mouseleave ev h st = Inr (?h, if r then st2 else st1)"
    using 2(1) c(1) r(1) by (simp add: mouseleave_def Let_def)
  show ?thesis
    using 2 c(2,3) r(2) k unfolding safe_step_def m by (auto simp: handler_safe_def handler_addrs_def)
qed

lemma updateDisplay_safe:
  assumes "handler_safe st h"
  shows "safe_step h st (updateDisplay ev w offset h st)"
proof (cases "over h \<and> splist h \<noteq> []")
  case False
  then show ?thesis using assms by (auto simp: updateDisplay_def safe_step_def Let_def handler_safe_def handler_addrs_def)
next
  case True
  then obtain a sp where s: "splist h = [(a, sp)]" "hCanvas h = Some a" "chart_ok st (a, sp)"
    using assms by (auto elim: handler_safe_cases)
  let ?f = "sp_setRegionHighlight ev (Num (currentPageX h - fst offset)) (Num (currentPageY h - snd offset))"
  from set_m.on_canvas_safe [OF s(3)] obtain r sp' st1 where c: "on_canvas ?f (a, sp) st = Inr (r, (a, sp'), st1)"
    "chart_ok st1 (a, sp')" "\<forall>b. b \<noteq> a \<longrightarrow> canvas_kept b st st1" by blast
  let ?h = "h\<lparr>splist := [(a, sp')]\<rparr>"
  obtain t st2 where r2: "refresh ev w ?h st1 = Inr (?h\<lparr>tip := t\<rparr>, st2)" "chart_ok st2 (a, sp')" "\<forall>b. b \<noteq> a \<longrightarrow> canvas_kept b st1 st2"
    using refresh_safe [of ?h a sp' st1 ev w] s(2) c(2) by auto
  define h3 where "h3 = (if r = Some True then ?h\<lparr>tip := t\<rparr> else ?h)"
  define st3 where "st3 = (if r = Some True then st2 else st1)"
  have k: "\<forall>b. b \<noteq> a \<longrightarrow> canvas_kept b st st3" using c(3) r2(3) canvas_kept_trans by (auto simp: st3_def)
  have hs: "handler_safe st3 h3" "handler_addrs h = {a}" "handler_addrs h3 = {a}"
    using s c(2) r2(2) by (auto simp: handler_safe_def handler_addrs_def h3_def st3_def)
  have u: "updateDisplay ev w offset h st = (if r = None then mouseleave ev h3 st3 else Inr (h3, st3))"
    using True s(1) c(1) r2(1) by (auto simp: updateDisplay_def Let_def h3_def st3_def)
  show ?thesis
    using mouseleave_safe [OF hs(1), of ev] hs k canvas_kept_trans unfolding u safe_step_def by fastforce
qed

lemma mouse_step_safe:
  assumes "handler_safe st h"
  shows "safe_step h st (mouse_step ev w offset me h st)"
proof -
  have up: "safe_step h st (updateDisplay ev w offset h' (st\<lparr>bodyMove := b, winTip := b'\<rparr>))"
    if "splist h' = splist h" "hCanvas h' = hCanvas h" for h' b b'
  proof -
    have "handler_safe (st\<lparr>bodyMove := b, winTip := b'\<rparr>) h'"
      using that assms by (auto simp: handler_safe_def split: list.splits)
    from updateDisplay_safe [OF this, of ev w offset] show ?thesis
      using that(1) by (simp add: safe_step_def handler_addrs_def)
  qed
  have "st\<lparr>bodyMove := b, winTip := winTip st\<rparr> = st\<lparr>bodyMove := b\<rparr>" for b by simp
  then have up1: "safe_step h st (updateDisplay ev w offset h' (st\<lparr>bodyMove := b\<rparr>))"
    if "splist h' = splist h" "hCanvas h' = hCanvas h" for h' b using up [OF that, where b = b and b' = "winTip st"] by metis
  show ?thesis
  proof (cases me)
    case (MEnter x y)
    then show ?thesis using up1 up by (simp add: mouse_step_def mouseenter_def Let_def)
  next
    case (MMove x y)
    then show ?thesis using up1 [where b = "bodyMove st"] by (simp add: mouse_step_def mousemove_def)
  next
    case MLeave
    then show ?thesis using mouseleave_safe [OF assms] by (simp add: mouse_step_def)
  next
    case MClick
    then show ?thesis using assms
      by (auto simp: mouse_step_def mouseclick_def safe_step_def handler_safe_def canvas_kept_def split: list.splits)
  qed
qed

section \<open>A page\<close>

definition plain_job :: "job \<Rightarrow> bool" where
  "plain_job j \<longleftrightarrow> plain_options (snd j) \<and> fst j \<noteq> FromArray []"

definition edata_addrs :: "edata \<Rightarrow> nat set" where
  "edata_addrs ed = (case jqs_mhandler ed of None \<Rightarrow> {} | Some h \<Rightarrow> handler_addrs h)"

definition edata_safe :: "store \<Rightarrow> edata \<Rightarrow> bool" where
  "edata_safe st ed \<longleftrightarrow> (\<forall>h. jqs_mhandler ed = Some h \<longrightarrow> handler_safe st h)"

text \<open>Every handler is safe, and no two elements draw on the same canvas.\<close>

definition data_safe :: "page \<Rightarrow> bool" where
  "data_safe p \<longleftrightarrow> (\<forall>e. edata_safe (pstore p) (edatas p e)) \<and>
     (\<forall>e e'. e \<noteq> e' \<longrightarrow> edata_addrs (edatas p e) \<inter> edata_addrs (edatas p e') = {})"

lemma handler_safe_kept:
  assumes "handler_safe st h" "\<And>b. b \<in> handler_addrs h \<Longrightarrow> canvas_kept b st st'"
  shows "handler_safe st' h"
  using assms(1)
proof (cases rule: handler_safe_cases)
  case (2 a sp)
  have "canvas_kept a st st'" using assms(2) 2(1) by (simp add: handler_addrs_def)
  from chart_ok_kept [OF 2(3) this] show ?thesis using assms(1) 2 by (simp add: handler_safe_def)
qed (use assms(1) in \<open>simp add: handler_safe_def\<close>)

lemma edata_addrs_in: "edata_safe st ed \<Longrightarrow> b \<in> edata_addrs ed \<Longrightarrow> b < length (canvases st)"
  by (auto simp: edata_safe_def edata_addrs_def handler_addrs_def chart_ok_def elim!: handler_safe_cases split: option.splits)

text \<open>One element changes its handler, and leaves the canvases of the others as they are.\<close>

lemma data_safe_update:
  assumes "data_safe p" "handler_safe st' h'" "jqs_mhandler ed = Some h'"
    and "\<And>b. b < length (canvases (pstore p)) \<Longrightarrow> b \<notin> edata_addrs (edatas p e) \<Longrightarrow> canvas_kept b (pstore p) st'"
    and "handler_addrs h' \<subseteq> edata_addrs (edatas p e) \<union> {length (canvases (pstore p))..}"
    and "edatas p' = (edatas p)(e := ed)" "pstore p' = st'"
  shows "data_safe p'"
proof -
  have other: "edata_safe (pstore p) (edatas p x)" "edata_addrs (edatas p x) \<inter> edata_addrs (edatas p e) = {}" if "x \<noteq> e" for x
    using assms(1) that by (auto simp: data_safe_def)
  have "edata_safe st' (edatas p x)" if "x \<noteq> e" for x
  proof -
    have "canvas_kept b (pstore p) st'" if "b \<in> edata_addrs (edatas p x)" for b
      using that other [OF \<open>x \<noteq> e\<close>] edata_addrs_in by (intro assms(4)) auto
    then show ?thesis
      using other [OF that] handler_safe_kept unfolding edata_safe_def by (auto simp: edata_addrs_def)
  qed
  moreover have "edata_addrs (edatas p x) \<inter> handler_addrs h' = {}" if "x \<noteq> e" for x
    using other [OF that] assms(5) edata_addrs_in [OF other(1) [OF that]] by fastforce
  moreover have "edata_addrs ed = handler_addrs h'" "edata_safe st' ed" using assms(2,3) by (simp_all add: edata_addrs_def edata_safe_def)
  ultimately show ?thesis
    using assms(1,6,7) by (simp add: data_safe_def Int_commute)
qed

lemma page_mouse_safe:
  assumes "data_safe p"
  shows "\<exists>p'. page_mouse ev w d e me p = Inr p' \<and> data_safe p' \<and> pending p' = pending p \<and>
    (\<forall>x. edata_addrs (edatas p' x) = edata_addrs (edatas p x))"
proof (cases "jqs_mhandler (edatas p e)")
  case None
  then show ?thesis using assms by (simp add: page_mouse_def)
next
  case (Some h)
  then have "handler_safe (pstore p) h" using assms by (auto simp: data_safe_def edata_safe_def)
  from mouse_step_safe [OF this, of ev w "canvasOffset d" me] obtain h' st'
    where m: "mouse_step ev w (canvasOffset d) me h (pstore p) = Inr (h', st')" "handler_safe st' h'" "handler_addrs h' = handler_addrs h"
    "\<forall>b. b \<notin> handler_addrs h \<longrightarrow> canvas_kept b (pstore p) st'" by (auto simp: safe_step_def)
  let ?p = "p\<lparr>edatas := (edatas p)(e := (edatas p e)\<lparr>jqs_mhandler := Some h'\<rparr>), pstore := st'\<rparr>"
  have "data_safe ?p"
    by (rule data_safe_update [OF assms m(2), where e = e and ed = "(edatas p e)\<lparr>jqs_mhandler := Some h'\<rparr>"])
       (use m(3,4) Some in \<open>auto simp: edata_addrs_def\<close>)
  then show ?thesis using m(1,3) Some by (simp add: page_mouse_def edata_addrs_def)
qed

lemma plain_job_values: "plain_job j \<Longrightarrow> job_values d j \<noteq> []"
  by (auto simp: plain_job_def job_values_def html_values_def Let_def split: user_values.splits)

lemma registerSparkline_safe:
  assumes "splist h = []" "hCanvas h = Some a" "chart_ok st (a, sp)"
  shows "\<exists>h' st'. registerSparkline ev w offset (a, sp) h st = Inr (h', st') \<and> handler_safe st' h' \<and> handler_addrs h' = {a} \<and>
    (\<forall>b. b \<noteq> a \<longrightarrow> canvas_kept b st st')"
proof -
  let ?h = "h\<lparr>splist := [(a, sp)]\<rparr>"
  have h: "handler_safe st ?h" "handler_addrs ?h = {a}" using assms by (auto simp: handler_safe_def handler_addrs_def)
  then show ?thesis
    using updateDisplay_safe [OF h(1), of ev w offset] assms(1)
    by (auto simp: registerSparkline_def Let_def safe_step_def)
qed

lemma job_handler_plain:
  assumes "\<not> truthy (o' ''composite'')" "\<not> truthy (o' ''disableInteraction'')"
  shows "\<exists>h ed. job_handler e o' (edatas p e) (pstore p) = (ed, pstore p) \<and> jqs_mhandler ed = Some h \<and> splist h = []"
  using assms by (cases "jqs_mhandler (edatas p e)") (simp_all add: job_handler_def handler_init_def handler_reset_def)

text \<open>The render of a plain chart that could be made.\<close>

lemma render_job_safe:
  assumes "hasCanvas ev" "plain_job j" "data_safe p"
    and "sp_init ev None (job_values d j) (snd j) (chart_width (job_values d j) (snd j)) (chart_height d (edatas p e) (snd j)) (counter (pstore p)) = Inr sp0"
  shows "\<exists>p'. render_job ev w d e j p = Inr p' \<and> data_safe p' \<and> pending p' = pending p \<and>
    edata_addrs (edatas p' e) = {length (canvases (pstore p))} \<and> (\<forall>x. x \<noteq> e \<longrightarrow> edatas p' x = edatas p x)"
proof -
  let ?o = "snd j" and ?vs = "job_values d j" and ?st = "pstore p" and ?a = "length (canvases (pstore p))"
  have o: "plain_options ?o" "\<not> truthy (?o ''composite'')" "\<not> truthy (?o ''disableInteraction'')" "tooltip_options ?o"
    using assms(2) by (auto simp: plain_job_def plain_options_def)
  obtain h ed where jh: "job_handler e ?o (edatas p e) ?st = (ed, ?st)" "jqs_mhandler ed = Some h"
    and h: "splist h = []"
    using job_handler_plain [of ?o e p] o(2,3) by blast
  obtain sp1 where r: "sp_render ev sp0 = Inr sp1" "sp_inv sp1"
    using sp_render_inv [OF assms(1) o(1) plain_job_values [OF assms(2)] assms(4)] by blast
  have n: "shapeCount (sp_target sp0) = counter ?st" "interact (sp_target sp0)" using sp_init_count [OF assms(1) o(1) assms(4)] by auto
  have g: "counter ?st \<le> shapeCount (sp_target sp1)" "interact (sp_target sp1)" "sp_opt sp1 = ?o"
    using sp_render_grows [OF r(1)] n sp_init_opt [OF assms(4)] by (auto simp: sp_grows_def canvas_grows_def)
  have own: "(sp_target sp0)\<lparr>shapeCount := counter ?st\<rparr> = sp_target sp0" using n(1) by simp
  let ?st2 = "?st\<lparr>canvases := canvases ?st @ [sp_target sp1], counter := shapeCount (sp_target sp1)\<rparr>"
  have "chart_ok ?st2 (?a, sp1)" using r(2) g(2,3) o(4) by (simp add: chart_ok_def chart_at_def)
  then obtain h' st' where s: "registerSparkline ev w (canvasOffset d) (?a, sp1) (registerCanvas ?a h) ?st2 = Inr (h', st')"
    "handler_safe st' h'" "handler_addrs h' = {?a}" "\<forall>b. b \<noteq> ?a \<longrightarrow> canvas_kept b ?st2 st'"
    using registerSparkline_safe [of "registerCanvas ?a h" ?a ?st2 sp1 ev w "canvasOffset d"] h by (auto simp: registerCanvas_def)
  let ?ed = "ed\<lparr>jqs_vcanvas := Some ?a, jqs_mhandler := Some h'\<rparr>"
  let ?p = "p\<lparr>edatas := (edatas p)(e := ?ed), pstore := st'\<rparr>"
  have "render_job ev w d e j p = Inr ?p"
    using assms(1) o jh s(1) r(1) own assms(4)
    by (simp add: render_job_def Let_def sp_init_own [where o' = "snd j" and ex = "map_option (nth (canvases (pstore p))) (jqs_vcanvas ed)"] place_chart_def on_canvas_def)
  moreover have "data_safe ?p"
  proof (rule data_safe_update [OF assms(3) s(2), where e = e and ed = ?ed])
    fix b assume "b < length (canvases ?st)"
    then have "canvas_kept b ?st ?st2" using g(1) by (simp add: canvas_kept_def nth_append)
    moreover have "canvas_kept b ?st2 st'" using s(4) \<open>b < _\<close> by simp
    ultimately show "canvas_kept b ?st st'" by (rule canvas_kept_trans)
  qed (use s(3) in auto)
  moreover have "edata_addrs (edatas ?p e) = {?a}" using s(3) by (simp add: edata_addrs_def)
  ultimately show ?thesis by (intro exI [of _ ?p]) simp
qed

text \<open>If it could not be made, the call raises what the constructor raises.\<close>

lemma render_job_raises:
  assumes "plain_job j"
    and "sp_init ev None (job_values d j) (snd j) (chart_width (job_values d j) (snd j)) (chart_height d (edatas p e) (snd j)) (counter (pstore p)) = Inl x"
  shows "render_job ev w d e j p = Inl x"
proof -
  have o: "\<not> truthy (snd j ''composite'')" "\<not> truthy (snd j ''disableInteraction'')"
    using assms(1) by (auto simp: plain_job_def plain_options_def)
  obtain ed where "job_handler e (snd j) (edatas p e) (pstore p) = (ed, pstore p)" using job_handler_plain [OF o] by blast
  then show ?thesis using assms(2) o by (simp add: render_job_def Let_def sp_init_own [where o' = "snd j" and ex = "map_option (nth (canvases (pstore p))) (jqs_vcanvas ed)"])
qed

definition page_safe :: "page \<Rightarrow> bool" where
  "page_safe p \<longleftrightarrow> data_safe p \<and> (\<forall>q \<in> set (pending p). plain_job (snd q))"

lemma render_job_kept:
  assumes "hasCanvas ev" "plain_job j" "data_safe p" "render_job ev w d e j p = Inr p'"
  shows "data_safe p' \<and> pending p' = pending p"
proof (cases "sp_init ev None (job_values d j) (snd j) (chart_width (job_values d j) (snd j)) (chart_height d (edatas p e) (snd j)) (counter (pstore p))")
  case (Inl x)
  then show ?thesis using render_job_raises [OF assms(2) Inl] assms(4) by simp
next
  case (Inr sp0)
  then show ?thesis using render_job_safe [OF assms(1-3) Inr, of w] assms(4) by auto
qed

lemma data_safe_marks:
  assumes "\<And>e. jqs_mhandler (edatas p' e) = jqs_mhandler (edatas p e)" "pstore p' = pstore p"
  shows "data_safe p' = data_safe p"
  by (simp add: data_safe_def edata_safe_def edata_addrs_def assms)

lemma sparkline_call_safe:
  assumes "hasCanvas ev" "plain_job j" "page_safe p" "sparkline_call ev w d e j p = Inr p'"
  shows "page_safe p'"
proof (cases "deferred d (snd j)")
  case True
  define q where "q = (if \<not> truthy (snd j ''composite'') \<and> jqs_pending (edatas p e) then purge_loop e (length (pending p)) (pending p) else pending p)"
  have p': "p' = p\<lparr>pending := q @ [(e, j)], edatas := (edatas p)(e := (edatas p e)\<lparr>jqs_pending := True\<rparr>)\<rparr>"
    using True assms(4) by (simp add: sparkline_call_def Let_def q_def)
  have "set q \<subseteq> set (pending p)" by (auto simp: q_def purge_loop_filter)
  moreover have "data_safe p' = data_safe p" by (rule data_safe_marks) (simp_all add: p')
  ultimately show ?thesis using assms(2,3) by (auto simp: page_safe_def p')
next
  case False
  then show ?thesis using assms render_job_kept [OF assms(1,2)] by (auto simp: sparkline_call_def page_safe_def)
qed

lemma display_loop_safe:
  assumes "hasCanvas ev" "display_loop ev w D q i ds p = Inr (ds', p')" "\<forall>x \<in> set q. plain_job (snd x)" "data_safe p"
  shows "data_safe p' \<and> pending p' = pending p"
  using assms(2-4)
proof (induction q arbitrary: i ds p)
  case Nil
  then show ?case by simp
next
  case (Cons x q)
  obtain e j where x: "x = (e, j)" by (cases x)
  have un: "data_safe (unpend e p1) = data_safe p1" "pending (unpend e p1) = pending p1" for p1
    by (rule data_safe_marks) (simp_all add: unpend_def)
  show ?case
    using Cons.prems Cons.IH render_job_kept [OF assms(1), of j p w "D e" e]
    by (auto simp: x un split: if_splits)
qed

lemma display_visible_safe:
  assumes "hasCanvas ev" "page_safe p" "sparkline_display_visible ev w D p = Inr p'"
  shows "page_safe p'"
proof -
  obtain ds p1 where d: "display_loop ev w D (pending p) 0 [] p = Inr (ds, p1)" and p': "p' = p1\<lparr>pending := splice_loop (rev ds) (pending p1)\<rparr>"
    using assms(3) by (auto simp: sparkline_display_visible_def)
  have s: "data_safe p1" "pending p1 = pending p" using display_loop_safe [OF assms(1) d] assms(2) by (auto simp: page_safe_def)
  have "data_safe p' = data_safe p1" by (rule data_safe_marks) (simp_all add: p')
  moreover have "set (splice_loop is q) \<subseteq> set q" for "is" and q :: "(nat \<times> job) list"
  proof (induction "is" arbitrary: q)
    case (Cons i "is")
    have "set (js_splice i 1 [] q) \<subseteq> set q" by (auto simp: js_splice_def dest: in_set_takeD in_set_dropD)
    then show ?case using Cons [of "js_splice i 1 [] q"] by auto
  qed simp
  ultimately show ?thesis using s assms(2) unfolding page_safe_def p' by auto
qed

lemma page_resize_safe: "page_safe p \<Longrightarrow> page_safe (page_resize w p)"
proof (cases "winTip (pstore p)")
  case (Some e)
  assume p: "page_safe p"
  have t: "handler_safe st (h\<lparr>tip := x\<rparr>) = handler_safe st h" "handler_addrs (h\<lparr>tip := x\<rparr>) = handler_addrs h" for st h x
    by (simp_all add: handler_safe_def handler_addrs_def split: list.splits)
  have "edata_addrs (edatas (page_resize w p) x) = edata_addrs (edatas p x)"
    "edata_safe st (edatas (page_resize w p) x) = edata_safe st (edatas p x)" for st x
    by (cases "jqs_mhandler (edatas p e)"; simp add: page_resize_def Some edata_addrs_def edata_safe_def t)+
  then show ?thesis using p Some by (simp add: page_safe_def data_safe_def page_resize_def)
qed (simp add: page_resize_def)

text \<open>A page on which only plain charts are made.\<close>

inductive plain_reach :: "page \<Rightarrow> bool" where
  init: "plain_reach page_init"
| call: "plain_reach p \<Longrightarrow> hasCanvas ev \<Longrightarrow> plain_job j \<Longrightarrow> sparkline_call ev w d e j p = Inr p' \<Longrightarrow> plain_reach p'"
| display: "plain_reach p \<Longrightarrow> hasCanvas ev \<Longrightarrow> sparkline_display_visible ev w D p = Inr p' \<Longrightarrow> plain_reach p'"
| mouse: "plain_reach p \<Longrightarrow> page_mouse ev w d e me p = Inr p' \<Longrightarrow> plain_reach p'"
| resize: "plain_reach p \<Longrightarrow> plain_reach (page_resize w p)"

lemma plain_reach_safe: "plain_reach p \<Longrightarrow> page_safe p"
proof (induction rule: plain_reach.induct)
  case init
  show ?case by (simp add: page_safe_def data_safe_def edata_safe_def edata_addrs_def page_init_def no_edata_def)
next
  case (mouse p ev w d e me p')
  then show ?case using page_mouse_safe [of p ev w d e me] by (auto simp: page_safe_def)
qed (auto intro: sparkline_call_safe display_visible_safe page_resize_safe)

text \<open>The constructors but one never raise; that of the bar chart can raise on stacked values.\<close>

definition buildable :: "dom \<Rightarrow> job \<Rightarrow> bool" where
  "buildable d j \<longleftrightarrow> to_string (snd j ''type'') \<in> set chart_types \<and>
     (to_string (snd j ''type'') = ''bar'' \<longrightarrow> (\<forall>v \<in> set (job_values d j). \<exists>x. v = Num x))"

lemma scan_no_stacks: "\<forall>v \<in> set vs. \<exists>x. v = Num x \<Longrightarrow> \<exists>vs' mn' mx'. scan_stacks vs st mn mx = (vs', st, mn', mx')"
proof (induction vs)
  case (Cons v vs)
  then obtain x vs' mn' mx' where "v = Num x" "scan_stacks vs st mn mx = (vs', st, mn', mx')" by auto
  then show ?case by (simp add: stack_value_def)
qed simp

lemma buildable_init:
  assumes "buildable d j"
  shows "\<exists>sp. sp_init ev None (job_values d j) (snd j) w h n = Inr sp"
proof (cases "to_string (snd j ''type'') = ''bar''")
  case True
  then obtain vs' mn' mx' where "scan_stacks (job_values d j) False PInf NInf = (vs', False, mn', mx')"
    using scan_no_stacks assms by (metis buildable_def)
  then show ?thesis using True by (simp add: sp_init_def bar_init_def Let_def split: prod.splits)
next
  case False
  then show ?thesis using assms unfolding buildable_def by (auto elim!: chart_typesE simp: sp_init_def)
qed

lemma plain_call_returns:
  assumes "page_safe p" "hasCanvas ev" "plain_job j" "buildable d j"
  shows "\<exists>p'. sparkline_call ev w d e j p = Inr p' \<and> (\<not> deferred d (snd j) \<longrightarrow>
    edata_addrs (edatas p' e) \<noteq> {} \<and> (\<forall>x. x \<noteq> e \<longrightarrow> edatas p' x = edatas p x))"
proof (cases "deferred d (snd j)")
  case True
  then show ?thesis by (simp add: sparkline_call_def Let_def)
next
  case False
  obtain sp0 where "sp_init ev None (job_values d j) (snd j) (chart_width (job_values d j) (snd j)) (chart_height d (edatas p e) (snd j)) (counter (pstore p)) = Inr sp0"
    using buildable_init [OF assms(4)] by blast
  from render_job_safe [OF assms(2,3) _ this, of w] show ?thesis
    using assms(1) False by (auto simp: sparkline_call_def page_safe_def)
qed

section \<open>Options of the page\<close>

text \<open>
  Options without tag settings that leave the defaults of these keys alone are plain, whatever else they
  set; so are the defaults themselves.
\<close>

definition guarded_keys :: "string list" where
  "guarded_keys = [''enableTagOptions'', ''composite'', ''disableInteraction'', ''tooltipFormatter'', ''tooltipFormatFieldlist'', ''numberFormatter'',
     ''numberDigitGroupCount'', ''tooltipValueLookups'', ''tooltipFormat'', ''sliceColors'', ''rangeColors'']"

text \<open>An option of the page that is not set has the default of the type, or the common one.\<close>

lemma untagged_option:
  assumes "options_init tg uo = Inr os" "distinct (map fst uo)" "jget uo ''enableTagOptions'' = Undef" "jget uo ''type'' = Str ty" "ty \<noteq> []"
  shows "opt_of os k = (if jget uo k \<noteq> Undef then jget uo k
    else if jget (as_obj (jget getDefaults ty)) k \<noteq> Undef then jget (as_obj (jget getDefaults ty)) k else jget common_defaults k)"
proof -
  have pre: "tagOptionsPrefix os = Undef"
    using assms(1,3) by (auto simp: options_init_def Let_def getTagSetting_def jand_def split: sum.splits)
  then have tv: "tag_value os k = Inr None" for k by (simp add: tag_value_def)
  have ty: "to_string (chart_type uo os) = ty" using assms(4,5) by (simp add: chart_type_def tv jor_def)
  have "as_obj (jget getDefaults ''common'') = common_defaults" by (simp add: getDefaults_def as_obj_def)
  then show ?thesis
    using options_init_shape [OF assms(1)] jget_merged [OF assms(2), of "as_obj (jget getDefaults ty)" "as_obj (jget getDefaults ''common'')" k, OF default_section_distinct default_section_distinct] ty
    by (simp add: opt_of_def tv)
qed

lemma page_options_plain:
  assumes "options_init tg uo = Inr os" "distinct (map fst uo)" "jget uo ''type'' = Str ty" "ty \<in> set chart_types"
    and un: "\<forall>k \<in> set guarded_keys. jget uo k = Undef"
  shows "plain_options (opt_of os) \<and> to_string (opt_of os ''type'') = ty"
proof -
  have ne: "ty \<noteq> []" using assms(4) by (auto simp: chart_types_def)
  have en: "jget uo ''enableTagOptions'' = Undef" using un by (simp add: guarded_keys_def)
  note u = untagged_option [OF assms(1,2) en assms(3) ne]
  have o: "opt_of os k = (if jget (as_obj (jget getDefaults ty)) k \<noteq> Undef then jget (as_obj (jget getDefaults ty)) k else jget common_defaults k)"
    if "k \<in> set guarded_keys" for k
    using u [of k] bspec [OF un that] by simp
  have ty: "opt_of os ''type'' = Str ty" using u [of "''type''"] assms(3) by simp
  have slice: "\<not> is_nullish (opt_of os ''sliceColors'')" if "ty = ''pie''"
    unfolding that o [of "''sliceColors''", unfolded guarded_keys_def, simplified]
    by (simp add: type_defaults is_nullish_def)
  have range: "\<not> is_nullish (opt_of os ''rangeColors'')" if "ty = ''bullet''"
    unfolding that o [of "''rangeColors''", unfolded guarded_keys_def, simplified]
    by (simp add: type_defaults is_nullish_def)
  have c: "opt_of os k = jget common_defaults k"
    if "k \<in> {''composite'', ''disableInteraction'', ''tooltipFormatter'', ''tooltipFormatFieldlist'', ''numberFormatter'', ''numberDigitGroupCount''}" for k
  proof -
    have "{''composite'', ''disableInteraction'', ''tooltipFormatter'', ''tooltipFormatFieldlist'', ''numberFormatter'', ''numberDigitGroupCount''} \<subseteq> set guarded_keys"
      by (simp add: guarded_keys_def)
    then have "k \<in> set guarded_keys" using that by (rule subsetD)
    then show ?thesis using o default_settings [OF assms(4) that] by simp
  qed
  have l: "opt_of os ''tooltipValueLookups'' = jget (as_obj (jget getDefaults ty)) ''tooltipValueLookups''"
    using o [of "''tooltipValueLookups''"] by (simp add: guarded_keys_def common_defaults_def)
  have f: "opt_of os ''tooltipFormat'' = jget (as_obj (jget getDefaults ty)) ''tooltipFormat''"
    using o [of "''tooltipFormat''"] by (simp add: guarded_keys_def common_defaults_def)
  have "tooltip_options (opt_of os)"
    unfolding tooltip_options_def l f
    using default_formats [OF assms(4)] default_lookups [OF assms(4)] by (simp add: c common_defaults_def)
  then show ?thesis
    using slice range by (simp add: plain_options_def ty c) (simp add: common_defaults_def)
qed

section \<open>Properties\<close>


text \<open>A line chart with the default options and a colour of its own.\<close>

definition line_user :: "(string \<times> jsval) list" where
  "line_user = [(''type'', Str ''line''), (''lineColor'', Str ''red'')]"


end
