(* ===== verification/Dashboard.thy ===== *)
theory Dashboard
  imports SparkSafe
begin

text \<open>
  The sparklines of the page \<open>dashboard.html\<close>: the calls of \<open>static/js/sparkline-chart.js\<close> (lines 74 to
  100) with the data and the options they pass to the plugin. What the script does before with the
  plugin \<open>graphTable\<close>, which no file of the repository defines, is left out; the page has no table for it.
\<close>

section \<open>Definitions\<close>

subsection \<open>Sparklines\<close>

definition metro_type1 :: "jsval list \<times> (string \<times> jsval) list" where
  "metro_type1 =
     (map num [5, 6, 7, 9, 9, 5, 3, 2, 2, 4, 6, 7, 5, 6, 7, 9, 9, 5, 3, 2, 2, 4, 6, 7, 5, 6, 7, 9, 9, 5, 3, 2, 2, 4, 6, 7],
      [(''type'', Str ''line''), (''height'', num 60), (''lineColor'', Str ''#457bb2''), (''fillColor'', Str ''#dff1ff''),
       (''spotColor'', Str ''#de577b''), (''minSpotColor'', Str ''#de577b''), (''highlightLineColor'', Str ''#de577b'')])"

definition metro_type2 :: "jsval list \<times> (string \<times> jsval) list" where
  "metro_type2 =
     (map num [5, 6, 7, 2, 0, - 4, - 2, 4, 5, 6, 7, 2, 0, - 4, - 2, 4],
      [(''type'', Str ''bar''), (''height'', num 60), (''barColor'', Str ''#4f8ac7''), (''negBarColor'', Str ''#da587c'')])"

definition metro_type3 :: "jsval list \<times> (string \<times> jsval) list" where
  "metro_type3 =
     (map num [5, 6, 7, 9, 9, 5, 3, 2, 2, 4, 6, 7, 5, 6, 7, 9, 5, 3, 2, 2, 4, 6, 7, 5, 6, 7, 9, 9, 5, 3],
      [(''type'', Str ''discrete''), (''height'', num 60), (''lineColor'', Str ''#7e9d43'')])"

text \<open>\<open>$(element).sparkline(values, userOptions)\<close>: the options are made, then the chart.\<close>

definition sparkline_with :: "env \<Rightarrow> win \<Rightarrow> dom \<Rightarrow> nat \<Rightarrow> jsval list \<times> (string \<times> jsval) list \<Rightarrow> page \<Rightarrow> page result" where
  "sparkline_with ev w d e a p =
     rbind (options_init (attribute d) (snd a)) (\<lambda>os. sparkline_call ev w d e (FromArray (fst a), opt_of os) p)"

text \<open>The script; \<open>e1\<close>, \<open>e2\<close> and \<open>e3\<close> are the elements \<open>metro-sparkline-type1\<close> to \<open>metro-sparkline-type3\<close>.\<close>

definition metro_script :: "env \<Rightarrow> win \<Rightarrow> (nat \<Rightarrow> dom) \<Rightarrow> nat \<Rightarrow> nat \<Rightarrow> nat \<Rightarrow> page \<Rightarrow> page result" where
  "metro_script ev w D e1 e2 e3 p =
     rbind (sparkline_with ev w (D e1) e1 metro_type1 p) (\<lambda>p1.
     rbind (sparkline_with ev w (D e2) e2 metro_type2 p1) (\<lambda>p2.
       sparkline_with ev w (D e3) e3 metro_type3 p2))"

text \<open>A sequence of pointer events, each with what the browser answers at that time.\<close>

fun pointer_run :: "(env \<times> win \<times> dom \<times> nat \<times> mouse_event) list \<Rightarrow> page \<Rightarrow> page result" where
  "pointer_run [] p = Inr p"
| "pointer_run ((ev, w, d, e, me) # es) p = rbind (page_mouse ev w d e me p) (pointer_run es)"

section \<open>The sparklines\<close>

lemma sparkline_with_safe:
  assumes "page_safe p" "hasCanvas ev" "distinct (map fst (snd a))" "jget (snd a) ''type'' = Str ty" "ty \<in> set chart_types"
    and "\<forall>k \<in> set guarded_keys. jget (snd a) k = Undef" "fst a \<noteq> []" "\<forall>v \<in> set (fst a). \<exists>x. v = Num x"
    and vis: "\<And>o'. \<not> deferred d o'"
  shows "\<exists>p'. sparkline_with ev w d e a p = Inr p' \<and> page_safe p' \<and> edata_addrs (edatas p' e) \<noteq> {} \<and> (\<forall>x. x \<noteq> e \<longrightarrow> edatas p' x = edatas p x)"
proof -
  have en: "jget (snd a) ''enableTagOptions'' = Undef" using assms(6) by (simp add: guarded_keys_def)
  then obtain os where os: "options_init (attribute d) (snd a) = Inr os"
    by (simp add: options_init_def getTagSetting_def jand_def Let_def)
  let ?j = "(FromArray (fst a), opt_of os)"
  have j: "plain_job ?j" "buildable d ?j"
    using page_options_plain [OF os assms(3-6)] assms(5,7,8) by (auto simp: plain_job_def buildable_def job_values_def)
  from plain_call_returns [OF assms(1,2) j] obtain p' where p': "sparkline_call ev w d e ?j p = Inr p'"
    "edata_addrs (edatas p' e) \<noteq> {}" "\<forall>x. x \<noteq> e \<longrightarrow> edatas p' x = edatas p x" using vis by blast
  then show ?thesis using sparkline_call_safe [OF assms(2) j(1) assms(1) p'(1)] os by (auto simp: sparkline_with_def)
qed

lemma metro_args:
  "a \<in> {metro_type1, metro_type2, metro_type3} \<Longrightarrow>
   distinct (map fst (snd a)) \<and> (\<exists>ty \<in> set chart_types. jget (snd a) ''type'' = Str ty) \<and> (\<forall>k \<in> set guarded_keys. jget (snd a) k = Undef) \<and>
   fst a \<noteq> [] \<and> (\<forall>v \<in> set (fst a). \<exists>x. v = Num x)"
  by (auto simp: metro_type1_def metro_type2_def metro_type3_def guarded_keys_def chart_types_def)

lemma pointer_run_safe:
  "data_safe p \<Longrightarrow> \<exists>p'. pointer_run es p = Inr p' \<and> data_safe p' \<and> (\<forall>x. edata_addrs (edatas p' x) = edata_addrs (edatas p x))"
proof (induction es arbitrary: p)
  case (Cons x es)
  obtain ev w d e me where x: "x = (ev, w, d, e, me)" by (cases x)
  from page_mouse_safe [OF Cons.prems, of ev w d e me] obtain p1 where p1: "page_mouse ev w d e me p = Inr p1" "data_safe p1"
    "\<forall>x. edata_addrs (edatas p1 x) = edata_addrs (edatas p x)" by blast
  then show ?case using Cons.IH [OF p1(2)] by (simp add: x)
qed simp

text \<open>The chart of an element: its handler has exactly one, on the canvas it is registered with.\<close>

definition has_chart :: "page \<Rightarrow> nat \<Rightarrow> bool" where
  "has_chart p e \<longleftrightarrow> (case jqs_mhandler (edatas p e) of None \<Rightarrow> False
     | Some h \<Rightarrow> (case splist h of [q] \<Rightarrow> hCanvas h = Some (fst q) \<and> fst q < length (canvases (pstore p)) | _ \<Rightarrow> False))"

lemma has_chart_safe:
  assumes "data_safe p" "edata_addrs (edatas p e) \<noteq> {}"
  shows "has_chart p e"
proof (cases "jqs_mhandler (edatas p e)")
  case None
  then show ?thesis using assms(2) by (simp add: edata_addrs_def)
next
  case (Some h)
  have "handler_safe (pstore p) h" using assms(1) Some unfolding data_safe_def edata_safe_def by blast
  then show ?thesis
    using assms(2) Some by (auto simp: has_chart_def edata_addrs_def handler_addrs_def chart_ok_def elim!: handler_safe_cases)
qed

lemma metro_script_safe:
  assumes "page_safe p" "hasCanvas ev" "distinct [e1, e2, e3]" "\<And>e o'. e \<in> {e1, e2, e3} \<Longrightarrow> \<not> deferred (D e) o'"
  shows "\<exists>p'. metro_script ev w D e1 e2 e3 p = Inr p' \<and> page_safe p' \<and> (\<forall>e \<in> {e1, e2, e3}. edata_addrs (edatas p' e) \<noteq> {})"
proof -
  have one: "\<exists>p'. sparkline_with ev w (D e) e a p = Inr p' \<and> page_safe p' \<and> edata_addrs (edatas p' e) \<noteq> {} \<and> (\<forall>x. x \<noteq> e \<longrightarrow> edatas p' x = edatas p x)"
    if "page_safe p" "e \<in> {e1, e2, e3}" "a \<in> {metro_type1, metro_type2, metro_type3}" for p e a
    using metro_args [OF that(3)] sparkline_with_safe [OF that(1) assms(2)] assms(4) [OF that(2)] by blast
  obtain p1 where p1: "sparkline_with ev w (D e1) e1 metro_type1 p = Inr p1" "page_safe p1" "edata_addrs (edatas p1 e1) \<noteq> {}"
    using one [OF assms(1), of e1 metro_type1] by auto
  obtain p2 where p2: "sparkline_with ev w (D e2) e2 metro_type2 p1 = Inr p2" "page_safe p2" "edata_addrs (edatas p2 e2) \<noteq> {}"
    "\<forall>x. x \<noteq> e2 \<longrightarrow> edatas p2 x = edatas p1 x" using one [OF p1(2), of e2 metro_type2] by auto
  obtain p3 where p3: "sparkline_with ev w (D e3) e3 metro_type3 p2 = Inr p3" "page_safe p3" "edata_addrs (edatas p3 e3) \<noteq> {}"
    "\<forall>x. x \<noteq> e3 \<longrightarrow> edatas p3 x = edatas p2 x" using one [OF p2(2), of e3 metro_type3] by auto
  have "edata_addrs (edatas p3 e1) \<noteq> {}" "edata_addrs (edatas p3 e2) \<noteq> {}"
    using p1(3) p2(3,4) p3(4) assms(3) by auto
  then show ?thesis using p1(1) p2(1) p3(1-3) by (auto simp: metro_script_def)
qed

section \<open>Properties\<close>

text \<open>
  C2. The sparklines of the dashboard: on a page with only plain charts, the script makes its line, bar
  and discrete chart, and whatever pointer events follow, over these or other elements and in whatever
  order, none of them raises and each element keeps exactly one chart, on a canvas of the page.
\<close>

theorem dashboard_sparklines:
  assumes "plain_reach p" "hasCanvas ev" "distinct [e1, e2, e3]" "\<And>e o'. e \<in> {e1, e2, e3} \<Longrightarrow> \<not> deferred (D e) o'"
  shows "\<exists>p'. rbind (metro_script ev w D e1 e2 e3 p) (pointer_run es) = Inr p' \<and> (\<forall>e \<in> {e1, e2, e3}. has_chart p' e)"
proof -
  have "\<exists>p'. metro_script ev w D e1 e2 e3 p = Inr p' \<and> page_safe p' \<and> (\<forall>e \<in> {e1, e2, e3}. edata_addrs (edatas p' e) \<noteq> {})"
    by (rule metro_script_safe [OF plain_reach_safe [OF assms(1)] assms(2-4)])
  then obtain p1 where p1: "metro_script ev w D e1 e2 e3 p = Inr p1" "page_safe p1" "\<forall>e \<in> {e1, e2, e3}. edata_addrs (edatas p1 e) \<noteq> {}"
    by (elim exE conjE)
  then have "data_safe p1" by (simp add: page_safe_def)
  from pointer_run_safe [OF this] obtain p2 where p2: "pointer_run es p1 = Inr p2" "data_safe p2" "\<forall>x. edata_addrs (edatas p2 x) = edata_addrs (edatas p1 x)"
    by blast
  then have "\<forall>e \<in> {e1, e2, e3}. has_chart p2 e" using p1(3) has_chart_safe by simp
  then show ?thesis using p1(1) p2(1) by simp
qed

theorem dashboard_sparklines_witness:
  "\<exists>p'. rbind (metro_script plain_env demo_win (\<lambda>e. demo_dom\<lparr>inBody := True\<rparr>) 1 2 3 page_init)
     (pointer_run [(plain_env, demo_win, demo_dom, 1, MEnter (Fin 3) (Fin 4)), (plain_env, demo_win, demo_dom, 1, MMove (Fin 9) (Fin 4)),
        (plain_env, demo_win, demo_dom, 1, MLeave)]) = Inr p' \<and> has_chart p' 2"
proof -
  let ?D = "\<lambda>e :: nat. demo_dom\<lparr>inBody := True\<rparr>"
  have h: "hasCanvas plain_env" "distinct [1 :: nat, 2, 3]" "\<not> deferred (?D e) o'" for e o'
    by (simp_all add: plain_env_def deferred_def demo_dom_def jquery_version_def)
  from dashboard_sparklines [OF plain_reach.init h(1,2,3)] show ?thesis by blast
qed

end
