(* ===== verification/ChartEasing.thy ===== *)
theory ChartEasing
  imports JSString
begin

text \<open>
  The easing functions of \<open>static/chart-master/Chart.js\<close> (\<open>animationOptions\<close>, lines 19 to 148), one
  definition per function, on the numbers of the prelude: the animation passes them the fraction of
  the animation that is complete. What an animation expects of such a function is that it starts at
  0 and ends at 1.
\<close>

named_theorems easing_defs \<open>the definitions of the easing functions\<close>

section \<open>Definitions\<close>

definition linear :: "number \<Rightarrow> number" where
  [easing_defs]: "linear t = t"

definition easeInQuad :: "number \<Rightarrow> number" where
  [easing_defs]: "easeInQuad t = t * t"

definition easeOutQuad :: "number \<Rightarrow> number" where
  [easing_defs]: "easeOutQuad t = Fin (- 1) * t * (t - Fin 2)"

definition easeInOutQuad :: "number \<Rightarrow> number" where
  [easing_defs]: "easeInOutQuad t0 =
     (let t = t0 / Fin (1 / 2)
      in if t < Fin 1 then Fin (1 / 2) * t * t
         else (let t1 = t - Fin 1 in Fin (- 1 / 2) * (t1 * (t1 - Fin 2) - Fin 1)))"

definition easeInCubic :: "number \<Rightarrow> number" where
  [easing_defs]: "easeInCubic t = t * t * t"

definition easeOutCubic :: "number \<Rightarrow> number" where
  [easing_defs]: "easeOutCubic t0 = (let t = t0 / Fin 1 - Fin 1 in Fin 1 * (t * t * t + Fin 1))"

definition easeInOutCubic :: "number \<Rightarrow> number" where
  [easing_defs]: "easeInOutCubic t0 =
     (let t = t0 / Fin (1 / 2)
      in if t < Fin 1 then Fin (1 / 2) * t * t * t
         else (let t1 = t - Fin 2 in Fin (1 / 2) * (t1 * t1 * t1 + Fin 2)))"

definition easeInQuart :: "number \<Rightarrow> number" where
  [easing_defs]: "easeInQuart t = t * t * t * t"

definition easeOutQuart :: "number \<Rightarrow> number" where
  [easing_defs]: "easeOutQuart t0 = (let t = t0 / Fin 1 - Fin 1 in Fin (- 1) * (t * t * t * t - Fin 1))"

definition easeInOutQuart :: "number \<Rightarrow> number" where
  [easing_defs]: "easeInOutQuart t0 =
     (let t = t0 / Fin (1 / 2)
      in if t < Fin 1 then Fin (1 / 2) * t * t * t * t
         else (let t1 = t - Fin 2 in Fin (- 1 / 2) * (t1 * t1 * t1 * t1 - Fin 2)))"

definition easeInQuint :: "number \<Rightarrow> number" where
  [easing_defs]: "easeInQuint t0 = (let t = t0 / Fin 1 in Fin 1 * t * t * t * t * t)"

definition easeOutQuint :: "number \<Rightarrow> number" where
  [easing_defs]: "easeOutQuint t0 = (let t = t0 / Fin 1 - Fin 1 in Fin 1 * (t * t * t * t * t + Fin 1))"

definition easeInOutQuint :: "number \<Rightarrow> number" where
  [easing_defs]: "easeInOutQuint t0 =
     (let t = t0 / Fin (1 / 2)
      in if t < Fin 1 then Fin (1 / 2) * t * t * t * t * t
         else (let t1 = t - Fin 2 in Fin (1 / 2) * (t1 * t1 * t1 * t1 * t1 + Fin 2)))"

definition easeInSine :: "number \<Rightarrow> number" where
  [easing_defs]: "easeInSine t = Fin (- 1) * Math_cos (t / Fin 1 * Fin (pi / 2)) + Fin 1"

definition easeOutSine :: "number \<Rightarrow> number" where
  [easing_defs]: "easeOutSine t = Fin 1 * Math_sin (t / Fin 1 * Fin (pi / 2))"

definition easeInOutSine :: "number \<Rightarrow> number" where
  [easing_defs]: "easeInOutSine t = Fin (- 1 / 2) * (Math_cos (Fin pi * t / Fin 1) - Fin 1)"

definition easeInExpo :: "number \<Rightarrow> number" where
  [easing_defs]: "easeInExpo t = (if num_eq t (Fin 0) then Fin 1 else Fin 1 * Math_pow 2 (Fin 10 * (t / Fin 1 - Fin 1)))"

definition easeOutExpo :: "number \<Rightarrow> number" where
  [easing_defs]: "easeOutExpo t =
     (if num_eq t (Fin 1) then Fin 1 else Fin 1 * (- Math_pow 2 (Fin (- 10) * t / Fin 1) + Fin 1))"

definition easeInOutExpo :: "number \<Rightarrow> number" where
  [easing_defs]: "easeInOutExpo t0 =
     (if num_eq t0 (Fin 0) then Fin 0
      else if num_eq t0 (Fin 1) then Fin 1
      else (let t = t0 / Fin (1 / 2)
            in if t < Fin 1 then Fin (1 / 2) * Math_pow 2 (Fin 10 * (t - Fin 1))
               else Fin (1 / 2) * (- Math_pow 2 (Fin (- 10) * (t - Fin 1)) + Fin 2)))"

definition easeInCirc :: "number \<Rightarrow> number" where
  [easing_defs]: "easeInCirc t0 =
     (if Fin 1 \<le> t0 then t0 else (let t = t0 / Fin 1 in Fin (- 1) * (Math_sqrt (Fin 1 - t * t) - Fin 1)))"

definition easeOutCirc :: "number \<Rightarrow> number" where
  [easing_defs]: "easeOutCirc t0 = (let t = t0 / Fin 1 - Fin 1 in Fin 1 * Math_sqrt (Fin 1 - t * t))"

definition easeInOutCirc :: "number \<Rightarrow> number" where
  [easing_defs]: "easeInOutCirc t0 =
     (let t = t0 / Fin (1 / 2)
      in if t < Fin 1 then Fin (- 1 / 2) * (Math_sqrt (Fin 1 - t * t) - Fin 1)
         else (let t1 = t - Fin 2 in Fin (1 / 2) * (Math_sqrt (Fin 1 - t1 * t1) + Fin 1)))"

text \<open>
  The elastic functions set \<open>a\<close> to 1, so \<open>a < Math.abs(1)\<close> fails and \<open>s\<close> is computed from the period \<open>p\<close>;
  \<open>elastic\<close> is the sine they share.
\<close>

definition elastic_shift :: "real \<Rightarrow> number" where
  [easing_defs]: "elastic_shift p = Fin p / Fin (2 * pi) * Math_asin (Fin 1 / Fin 1)"

definition elastic :: "real \<Rightarrow> number \<Rightarrow> number" where
  [easing_defs]: "elastic p t = Math_sin ((t * Fin 1 - elastic_shift p) * Fin (2 * pi) / Fin p)"

definition easeInElastic :: "number \<Rightarrow> number" where
  [easing_defs]: "easeInElastic t0 =
     (if num_eq t0 (Fin 0) then Fin 0
      else (let t = t0 / Fin 1
            in if num_eq t (Fin 1) then Fin 1
               else (let t1 = t - Fin 1 in - (Fin 1 * Math_pow 2 (Fin 10 * t1) * elastic (3 / 10) t1))))"

definition easeOutElastic :: "number \<Rightarrow> number" where
  [easing_defs]: "easeOutElastic t0 =
     (if num_eq t0 (Fin 0) then Fin 0
      else (let t = t0 / Fin 1
            in if num_eq t (Fin 1) then Fin 1
               else Fin 1 * Math_pow 2 (Fin (- 10) * t) * elastic (3 / 10) t + Fin 1))"

definition easeInOutElastic :: "number \<Rightarrow> number" where
  [easing_defs]: "easeInOutElastic t0 =
     (if num_eq t0 (Fin 0) then Fin 0
      else (let t = t0 / Fin (1 / 2)
            in if num_eq t (Fin 2) then Fin 1
               else (let t1 = t - Fin 1; p = 3 / 10 * (3 / 2)
                     in if t < Fin 1 then Fin (- 5 / 10) * (Fin 1 * Math_pow 2 (Fin 10 * t1) * elastic p t1)
                        else Fin 1 * Math_pow 2 (Fin (- 10) * t1) * elastic p t1 * Fin (5 / 10) + Fin 1)))"

definition back_s :: real where
  [easing_defs]: "back_s = 170158 / 100000"

definition easeInBack :: "number \<Rightarrow> number" where
  [easing_defs]: "easeInBack t0 =
     (let t = t0 / Fin 1 in Fin 1 * t * t * (Fin (back_s + 1) * t - Fin back_s))"

definition easeOutBack :: "number \<Rightarrow> number" where
  [easing_defs]: "easeOutBack t0 =
     (let t = t0 / Fin 1 - Fin 1 in Fin 1 * (t * t * (Fin (back_s + 1) * t + Fin back_s) + Fin 1))"

definition easeInOutBack :: "number \<Rightarrow> number" where
  [easing_defs]: "easeInOutBack t0 =
     (let t = t0 / Fin (1 / 2); s = back_s * (1525 / 1000)
      in if t < Fin 1 then Fin (1 / 2) * (t * t * (Fin (s + 1) * t - Fin s))
         else (let t1 = t - Fin 2 in Fin (1 / 2) * (t1 * t1 * (Fin (s + 1) * t1 + Fin s) + Fin 2)))"

definition easeOutBounce :: "number \<Rightarrow> number" where
  [easing_defs]: "easeOutBounce t0 =
     (let t = t0 / Fin 1; c = Fin (75625 / 10000)
      in if t < Fin (1 / (11 / 4)) then Fin 1 * (c * t * t)
         else if t < Fin (2 / (11 / 4)) then (let t1 = t - Fin ((3 / 2) / (11 / 4)) in Fin 1 * (c * t1 * t1 + Fin (75 / 100)))
         else if t < Fin ((5 / 2) / (11 / 4)) then (let t1 = t - Fin ((9 / 4) / (11 / 4)) in Fin 1 * (c * t1 * t1 + Fin (9375 / 10000)))
         else (let t1 = t - Fin ((21 / 8) / (11 / 4)) in Fin 1 * (c * t1 * t1 + Fin (984375 / 1000000))))"

definition easeInBounce :: "number \<Rightarrow> number" where
  [easing_defs]: "easeInBounce t = Fin 1 - easeOutBounce (Fin 1 - t)"

definition easeInOutBounce :: "number \<Rightarrow> number" where
  [easing_defs]: "easeInOutBounce t =
     (if t < Fin (1 / 2) then easeInBounce (t * Fin 2) * Fin (5 / 10)
      else easeOutBounce (t * Fin 2 - Fin 1) * Fin (5 / 10) + Fin (1 * (5 / 10)))"

text \<open>The object \<open>animationOptions\<close>: the functions by name.\<close>

definition animationOptions :: "(string \<times> (number \<Rightarrow> number)) list" where
  "animationOptions =
    [(''linear'', linear),
     (''easeInQuad'', easeInQuad),
     (''easeOutQuad'', easeOutQuad),
     (''easeInOutQuad'', easeInOutQuad),
     (''easeInCubic'', easeInCubic),
     (''easeOutCubic'', easeOutCubic),
     (''easeInOutCubic'', easeInOutCubic),
     (''easeInQuart'', easeInQuart),
     (''easeOutQuart'', easeOutQuart),
     (''easeInOutQuart'', easeInOutQuart),
     (''easeInQuint'', easeInQuint),
     (''easeOutQuint'', easeOutQuint),
     (''easeInOutQuint'', easeInOutQuint),
     (''easeInSine'', easeInSine),
     (''easeOutSine'', easeOutSine),
     (''easeInOutSine'', easeInOutSine),
     (''easeInExpo'', easeInExpo),
     (''easeOutExpo'', easeOutExpo),
     (''easeInOutExpo'', easeInOutExpo),
     (''easeInCirc'', easeInCirc),
     (''easeOutCirc'', easeOutCirc),
     (''easeInOutCirc'', easeInOutCirc),
     (''easeInElastic'', easeInElastic),
     (''easeOutElastic'', easeOutElastic),
     (''easeInOutElastic'', easeInOutElastic),
     (''easeInBack'', easeInBack),
     (''easeOutBack'', easeOutBack),
     (''easeInOutBack'', easeInOutBack),
     (''easeInBounce'', easeInBounce),
     (''easeOutBounce'', easeOutBounce),
     (''easeInOutBounce'', easeInOutBounce)]"

section \<open>Theorems\<close>


end
