(* ===== verification/ChartScale.thy ===== *)
theory ChartScale
  imports ChartEasing JSCanvas
begin

text \<open>
  The helpers the charts of \<open>static/chart-master/Chart.js\<close> share (lines 1223 to 1423): capping values,
  merging configurations, the search for a scale, its labels and their templates, the offset of a
  value on a scale, and the animation loop. The loop of \<open>calculateScale\<close> need not end, so the model
  of it is a partial function, whose value is \<open>None\<close> when it does not.
\<close>

section \<open>Definitions\<close>

text \<open>\<open>Number.MIN_VALUE\<close> and \<open>Number.MAX_VALUE\<close>: the least positive and the greatest double.\<close>

definition Number_MIN_VALUE :: real where
  "Number_MIN_VALUE = 1 / 2 ^ 1074"

definition Number_MAX_VALUE :: real where
  "Number_MAX_VALUE = (2 - 1 / 2 ^ 52) * 2 ^ 1023"

definition Max_of :: "number list \<Rightarrow> number" where
  "Max_of array = Math_max array"

definition Min_of :: "number list \<Rightarrow> number" where
  "Min_of array = Math_min array"

definition Default :: "jsval \<Rightarrow> jsval \<Rightarrow> jsval" where
  "Default userDeclared valueIfFalse = (if \<not> truthy userDeclared then valueIfFalse else userDeclared)"

definition chart_isNumber :: "jsval \<Rightarrow> bool" where
  "chart_isNumber n \<longleftrightarrow> \<not> isNaN (parseFloat n) \<and> isFinite (to_number n)"

definition CapValue :: "jsval \<Rightarrow> jsval \<Rightarrow> jsval \<Rightarrow> jsval" where
  "CapValue valueToCap maxValue minValue =
     (if chart_isNumber maxValue \<and> jlt maxValue valueToCap then maxValue
      else if chart_isNumber minValue \<and> jlt valueToCap minValue then minValue
      else valueToCap)"

text \<open>The text after the first dot; a number whose text has none (an exponent form) raises.\<close>

definition getDecimalPlaces :: "jsval \<Rightarrow> nat result" where
  "getDecimalPlaces v =
     (if num_eq (num_mod (to_number v) (Fin 1)) (Fin 0) then Inr 0
      else (case split_on (CHR ''.'') (to_string v) of
              _ # s # _ \<Rightarrow> Inr (length s)
            | _ \<Rightarrow> Inl (TypeError ''num.toString().split(...)[1] is undefined'')))"

fun assign_all :: "(string \<times> jsval) list \<Rightarrow> (string \<times> jsval) list \<Rightarrow> (string \<times> jsval) list" where
  "assign_all ob [] = ob"
| "assign_all ob ((k, v) # src) = assign_all (jput k v ob) src"

definition mergeChartConfig :: "(string \<times> jsval) list \<Rightarrow> (string \<times> jsval) list \<Rightarrow> (string \<times> jsval) list" where
  "mergeChartConfig defaults userDefined = assign_all (assign_all [] defaults) userDefined"

subsection \<open>Templates\<close>

text \<open>
  The source of the function that \<open>tmpl\<close> builds from a template, replacement by replacement:
  control characters become spaces, the opening marker a tab; in each stretch of text the last quote
  before the next tab becomes a carriage return (\<open>quote_marks\<close>); a tab with \<open>=\<close> up to the next closing
  marker becomes an argument of \<open>push\<close> (\<open>insert_args\<close>).
\<close>

abbreviation tab_char :: char where
  "tab_char \<equiv> CHR 0x09"

abbreviation cr_char :: char where
  "cr_char \<equiv> CHR 0x0D"

abbreviation quote_char :: char where
  "quote_char \<equiv> CHR 0x27"

definition blank_controls :: "string \<Rightarrow> string" where
  "blank_controls s = map (\<lambda>c. if c = cr_char \<or> c = tab_char \<or> c = CHR 0x0A then CHR '' '' else c) s"

text \<open>\<open>s.split(sep).join(by)\<close> for a separator of two characters or one.\<close>

fun replace_two :: "char \<Rightarrow> char \<Rightarrow> string \<Rightarrow> string \<Rightarrow> string" where
  "replace_two a b r (x # y # s) = (if x = a \<and> y = b then r @ replace_two a b r s else x # replace_two a b r (y # s))"
| "replace_two a b r s = s"

definition replace_char :: "char \<Rightarrow> string \<Rightarrow> string \<Rightarrow> string" where
  "replace_char a r s = concat (map (\<lambda>c. if c = a then r else [c]) s)"

text \<open>The last quote of a stretch without tabs, marked; what follows the stretch is kept.\<close>

definition mark_last :: "string \<Rightarrow> (string \<times> string) option" where
  "mark_last s =
     (let run = takeWhile (\<lambda>c. c \<noteq> tab_char) s; tail = rev (takeWhile (\<lambda>c. c \<noteq> quote_char) (rev run))
      in if quote_char \<in> set run
         then Some (take (length run - length tail - 1) run @ [cr_char], drop (length run - length tail) s)
         else None)"

lemma length_takeWhile_less': "x \<in> set xs \<Longrightarrow> \<not> P x \<Longrightarrow> length (takeWhile P xs) < length xs"
  by (induction xs) auto

lemma mark_last_shorter: "mark_last s = Some (u, r) \<Longrightarrow> length r < length s"
proof -
  assume a: "mark_last s = Some (u, r)"
  let ?run = "takeWhile (\<lambda>c. c \<noteq> tab_char) s"
  let ?tail = "rev (takeWhile (\<lambda>c. c \<noteq> quote_char) (rev ?run))"
  have q: "quote_char \<in> set (rev ?run)" and r: "r = drop (length ?run - length ?tail) s"
    using a by (auto simp: mark_last_def Let_def split: if_splits)
  have "length (takeWhile (\<lambda>c. c \<noteq> quote_char) (rev ?run)) < length (rev ?run)"
    using q by (rule length_takeWhile_less') simp
  moreover have "length ?run \<le> length s" by (rule length_takeWhile_le)
  ultimately show "length r < length s" by (simp add: r)
qed

text \<open>The matches of \<open>/((^|%>)[^\t]*)'/g\<close>: one may start at the start of the text or at a closing marker.\<close>

function quote_marks :: "bool \<Rightarrow> string \<Rightarrow> string" where
  "quote_marks atStart [] = []"
| "quote_marks atStart (c # s) =
     (case (if atStart \<or> take 2 (c # s) = ''%>'' then mark_last (c # s) else None) of
        None \<Rightarrow> c # quote_marks False s
      | Some (u, r) \<Rightarrow> u @ quote_marks False r)"
  by pat_completeness auto
termination
  by (relation "measure (\<lambda>(b, s). length s)") (auto split: if_splits dest!: mark_last_shorter)

text \<open>The text up to the next closing marker on the same line, and what follows it.\<close>

fun until_close :: "string \<Rightarrow> (string \<times> string) option" where
  "until_close [] = None"
| "until_close (c # s) =
     (if take 2 (c # s) = ''%>'' then Some ([], drop 1 s)
      else if c = cr_char \<or> c = CHR 0x0A then None
      else map_option (\<lambda>(a, b). (c # a, b)) (until_close s))"

lemma until_close_shorter: "until_close s = Some (a, b) \<Longrightarrow> length b < length s"
  by (induction s arbitrary: a) (auto split: if_splits)

function insert_args :: "string \<Rightarrow> string" where
  "insert_args [] = []"
| "insert_args (c # s) =
     (case (if c = tab_char \<and> take 1 s = ''='' then until_close (drop 1 s) else None) of
        None \<Rightarrow> c # insert_args s
      | Some (a, r) \<Rightarrow> [quote_char, CHR '',''] @ a @ [CHR '','', quote_char] @ insert_args r)"
  by pat_completeness auto
termination
proof (relation "measure length", goal_cases)
  case (3 c s p a r)
  then have "length r < length (drop 1 s)" by (auto split: if_splits dest!: until_close_shorter)
  then show ?case by simp
qed auto

definition tmpl_source :: "string \<Rightarrow> string" where
  "tmpl_source str =
     ''var p=[],print=function(){p.push.apply(p,arguments);};'' @ ''with(obj){p.push('' @ [quote_char] @
     replace_char cr_char [CHR 0x5C, quote_char]
       (replace_two (CHR ''%'') (CHR ''>'') (''p.push('' @ [quote_char])
         (replace_char tab_char ([quote_char] @ '');'')
           (insert_args (quote_marks True (replace_two (CHR ''<'') (CHR ''%'') [tab_char] (blank_controls str)))))) @
     [quote_char] @ '');}return p.join('' @ [quote_char, quote_char] @ '');''"

text \<open>
  \<open>tmpl(str, {value: v})\<close>. \<open>run\<close> is the engine's answer for a generated function and the value it is
  applied to; \<open>html\<close> is the content of the element with a given id. A text of word characters alone
  is the id of an element that holds the template.
\<close>

definition tmpl :: "(string \<Rightarrow> string \<Rightarrow> string) \<Rightarrow> (string \<Rightarrow> string option) \<Rightarrow> string \<Rightarrow> string \<Rightarrow> string result" where
  "tmpl run html str v =
     (if list_all is_word_char str
      then (case html str of
              None \<Rightarrow> Inl (TypeError ''document.getElementById(str) is null'')
            | Some t \<Rightarrow> Inr (run (tmpl_source t) v))
      else Inr (run (tmpl_source str) v))"

subsection \<open>Scales\<close>

record scale =
  steps :: jsval
  stepValue :: jsval
  graphMin :: jsval
  labels :: "string list"

text \<open>
  \<open>populateLabels\<close>: the loop from 1 while the index is below \<open>numberOfSteps + 1\<close>; there are no labels without a
  template. A number of steps of \<open>Infinity\<close> would push labels forever.
\<close>

definition label_value :: "jsval \<Rightarrow> jsval \<Rightarrow> nat \<Rightarrow> string result" where
  "label_value gmin step i =
     rbind (getDecimalPlaces step) (\<lambda>dp.
       (case jadd gmin (Num (to_number step * Fin (of_nat i))) of
          Num x \<Rightarrow> Inr (num_toFixed x dp)
        | _ \<Rightarrow> Inl (TypeError ''(intermediate value).toFixed is not a function'')))"

fun push_labels :: "(string \<Rightarrow> string result) \<Rightarrow> (nat \<Rightarrow> string result) \<Rightarrow> nat list \<Rightarrow> string list result" where
  "push_labels tm f [] = Inr []"
| "push_labels tm f (i # is) =
     rbind (f i) (\<lambda>v. rbind (tm v) (\<lambda>l. rbind (push_labels tm f is) (\<lambda>ls. Inr (l # ls))))"

text \<open>The indices \<open>i\<close> from 1 with \<open>i < n + 1\<close>.\<close>

fun label_indices :: "jsval \<Rightarrow> nat list result" where
  "label_indices v =
     (case to_number (jadd v (num 1)) of
        Fin x \<Rightarrow> Inr [1..<nat \<lceil>x\<rceil>]
      | PInf \<Rightarrow> Inl Diverges
      | _ \<Rightarrow> Inr [])"

definition populateLabels ::
  "(string \<Rightarrow> string \<Rightarrow> string result) \<Rightarrow> jsval \<Rightarrow> jsval \<Rightarrow> jsval \<Rightarrow> jsval \<Rightarrow> string list result" where
  "populateLabels tm labelTemplateString numberOfSteps gmin step =
     (if truthy labelTemplateString
      then rbind (label_indices numberOfSteps) (push_labels (tm (to_string labelTemplateString)) (label_value gmin step))
      else Inr [])"

definition calculateOrderOfMagnitude :: "number \<Rightarrow> number" where
  "calculateOrderOfMagnitude val = Math_floor (Math_log val / Fin (ln 10))"

text \<open>The loop that halves or doubles the step until the number of steps fits: the step and the number of steps it ends with.\<close>

partial_function (option) scale_loop :: "number \<Rightarrow> number \<Rightarrow> number \<Rightarrow> number \<Rightarrow> number \<Rightarrow> (number \<times> number) option" where
  "scale_loop minSteps maxSteps graphRange step n =
     (if n < minSteps \<or> maxSteps < n then
        (let step' = (if n < minSteps then step / Fin 2 else step * Fin 2)
         in scale_loop minSteps maxSteps graphRange step' (Math_round (graphRange / step')))
      else Some (step, n))"

definition calculateScale ::
  "(string \<Rightarrow> string \<Rightarrow> string result) \<Rightarrow> number \<Rightarrow> number \<Rightarrow> jsval \<Rightarrow> jsval \<Rightarrow> jsval \<Rightarrow> scale result" where
  "calculateScale tm maxSteps minSteps maxValue minValue labelTemplateString =
     (let valueRange = to_number maxValue - to_number minValue;
          pow = Math_pow 10 (calculateOrderOfMagnitude valueRange);
          gmin = Math_floor (to_number minValue / (Fin 1 * pow)) * pow;
          gmax = Math_ceil (to_number maxValue / (Fin 1 * pow)) * pow;
          range = gmax - gmin
      in (case scale_loop minSteps maxSteps range pow (Math_round (range / pow)) of
            None \<Rightarrow> Inl Diverges
          | Some (step, n) \<Rightarrow>
              rbind (populateLabels tm labelTemplateString (Num n) (Num gmin) (Num step)) (\<lambda>ls.
                Inr \<lparr>steps = Num n, stepValue = Num step, graphMin = Num gmin, labels = ls\<rparr>)))"

definition calculateOffset :: "jsval \<Rightarrow> scale \<Rightarrow> number \<Rightarrow> number" where
  "calculateOffset val sc scaleHop =
     (let outerValue = to_number (steps sc) * to_number (stepValue sc);
          adjustedValue = to_number val - to_number (graphMin sc);
          scalingFactor = CapValue (Num (adjustedValue / outerValue)) (num 1) (num 0)
      in (scaleHop * to_number (steps sc)) * to_number scalingFactor)"

subsection \<open>Animation\<close>

text \<open>
  The fractions at which the frames of an animation are drawn: \<open>animLoop\<close> adds the amount of a frame,
  draws, and asks for another frame while the fraction is at most 1. With an amount that is not
  positive, or from minus infinity, the loop would go on forever.
\<close>

function anim_percents :: "number \<Rightarrow> number \<Rightarrow> number list result" where
  "anim_percents amount p =
     (let p' = p + amount
      in if p' \<le> Fin 1 then
           (if Fin 0 < amount \<and> isFinite p' then rbind (anim_percents amount p') (\<lambda>ps. Inr (p' # ps)) else Inl Diverges)
         else Inr [p'])"
  by pat_completeness auto
termination
proof (relation "measure (\<lambda>(a, p). case (a, p) of (Fin a, Fin p) \<Rightarrow> nat \<lceil>(1 - p) / a\<rceil> | _ \<Rightarrow> 0)", goal_cases)
  case 1
  then show ?case by simp
next
  case (2 amount p p')
  show ?case
  proof (cases amount; cases p)
    fix a q assume f: "amount = Fin a" "p = Fin q"
    then have a: "0 < a" "q + a \<le> 1" using 2 by auto
    have "(1 - (q + a)) / a = (1 - q) / a - 1" using a by (simp add: field_simps)
    then have "\<lceil>(1 - (q + a)) / a\<rceil> = \<lceil>(1 - q) / a\<rceil> - 1" by simp
    moreover have "1 \<le> (1 - q) / a" using a by (simp add: field_simps)
    then have "1 \<le> \<lceil>(1 - q) / a\<rceil>" by linarith
    ultimately show ?thesis using f 2 by simp
  qed (use 2 in auto)
qed

declare anim_percents.simps [simp del]

definition animFrameAmount :: "(string \<Rightarrow> jsval) \<Rightarrow> number" where
  "animFrameAmount cfg =
     (if truthy (cfg ''animation'')
      then Fin 1 / to_number (CapValue (cfg ''animationSteps'') (num Number_MAX_VALUE) (num 1)) else Fin 1)"

text \<open>The value a frame is drawn with; the name of an unknown easing function raises when it is called.\<close>

definition frame_value :: "(string \<Rightarrow> jsval) \<Rightarrow> number \<Rightarrow> number result" where
  "frame_value cfg p =
     (if truthy (cfg ''animation'') then
        (case map_of animationOptions (to_string (cfg ''animationEasing'')) of
           None \<Rightarrow> Inl (TypeError ''easingFunction is not a function'')
         | Some f \<Rightarrow> Inr (to_number (CapValue (Num (f p)) Null (num 0))))
      else Inr (Fin 1))"

definition clear :: "number \<Rightarrow> number \<Rightarrow> drawing" where
  "clear width height = [ClearRect (num 0) (num 0) (Num width) (Num height)]"

text \<open>One frame: the canvas is cleared, then the scale and the data are drawn, the data first on an overlaid scale.\<close>

definition animateFrame ::
  "number \<Rightarrow> number \<Rightarrow> (string \<Rightarrow> jsval) \<Rightarrow> drawing result \<Rightarrow> (number \<Rightarrow> drawing result) \<Rightarrow> number \<Rightarrow> drawing result" where
  "animateFrame width height cfg drawScale drawData p =
     rbind (frame_value cfg p) (\<lambda>v.
       if truthy (cfg ''scaleOverlay'')
       then rbind (drawData v) (\<lambda>d. rbind drawScale (\<lambda>s. Inr (clear width height @ d @ s)))
       else rbind drawScale (\<lambda>s. rbind (drawData v) (\<lambda>d. Inr (clear width height @ s @ d))))"

fun frames :: "(number \<Rightarrow> drawing result) \<Rightarrow> number list \<Rightarrow> drawing list result" where
  "frames f [] = Inr []"
| "frames f (p # ps) = rbind (f p) (\<lambda>d. rbind (frames f ps) (\<lambda>ds. Inr (d # ds)))"

text \<open>The frames of a chart, in order, and whether the callback is called at the end.\<close>

definition animationLoop ::
  "number \<Rightarrow> number \<Rightarrow> (string \<Rightarrow> jsval) \<Rightarrow> drawing result \<Rightarrow> (number \<Rightarrow> drawing result) \<Rightarrow> (drawing list \<times> bool) result" where
  "animationLoop width height cfg drawScale drawData =
     rbind (anim_percents (animFrameAmount cfg) (if truthy (cfg ''animation'') then Fin 0 else Fin 1)) (\<lambda>ps.
     rbind (frames (animateFrame width height cfg drawScale drawData) ps) (\<lambda>ds.
       Inr (ds, isFn (cfg ''onAnimationComplete''))))"

section \<open>Facts\<close>

lemma chart_isNumber_simps [simp]: "chart_isNumber (num x)" "\<not> chart_isNumber Null"
  by (simp_all add: chart_isNumber_def parseFloat_num)
     (simp add: parseFloat_def str_parseFloat_def parse_decimal_def parse_sign_def is_space_def is_digit_def char_code_def)

lemma CapValue_num:
  "CapValue (num v) (num hi) (num lo) = num (if hi < v then hi else if v < lo then lo else v)"
  "CapValue (num v) Null (num lo) = num (max v lo)"
  by (auto simp: CapValue_def)

subsection \<open>Animation\<close>

lemma anim_percents_from:
  assumes "0 < n" "k \<le> n"
  shows "anim_percents (Fin (1 / of_nat n)) (Fin (of_nat k / of_nat n)) = Inr (map (\<lambda>i. Fin (of_nat i / of_nat n)) [Suc k..<n + 2])"
  using assms(2)
proof (induction "n - k" arbitrary: k)
  case 0
  then have k: "k = n" by simp
  show ?case using assms(1) by (subst anim_percents.simps) (simp add: k add_divide_distrib)
next
  case (Suc d)
  then have IH: "anim_percents (Fin (1 / of_nat n)) (Fin (of_nat (Suc k) / of_nat n)) =
      Inr (map (\<lambda>i. Fin (of_nat i / of_nat n)) [Suc (Suc k)..<n + 2])"
    and k: "Suc k \<le> n" by (auto simp del: of_nat_Suc)
  have e: "Fin (of_nat k / of_nat n) + Fin (1 / of_nat n) = Fin (of_nat (Suc k) / of_nat n)"
    by (simp add: add_divide_distrib)
  have le: "real (Suc k) / real n \<le> 1" using k assms(1) by (simp add: field_simps)
  have up: "[Suc k..<n + 2] = Suc k # [Suc (Suc k)..<n + 2]" using k by (simp add: upt_conv_Cons)
  show ?case
    unfolding anim_percents.simps [of _ "Fin (real k / real n)"] Let_def e IH up
    using le assms(1) by (simp del: of_nat_Suc upt_Suc)
qed

lemma frames_map: "(\<And>p. p \<in> set ps \<Longrightarrow> f p = Inr (g p)) \<Longrightarrow> frames f ps = Inr (map g ps)"
  by (induction ps) auto

text \<open>The fractions of an animation of \<open>n\<close> steps.\<close>

lemma animation_percents:
  assumes "truthy (cfg ''animation'')" "cfg ''animationSteps'' = num (of_nat n)" "1 \<le> n" "of_nat n \<le> Number_MAX_VALUE"
  shows "anim_percents (animFrameAmount cfg) (Fin 0) = Inr (map (\<lambda>i. Fin (of_nat i / of_nat n)) [1..<n + 2])"
proof -
  have "animFrameAmount cfg = Fin (1 / of_nat n)" using assms by (simp add: animFrameAmount_def CapValue_num)
  then show ?thesis using anim_percents_from [of n 0] assms(3) by simp
qed


definition demo_config :: "string \<Rightarrow> jsval" where
  "demo_config = jget [(''animation'', Bool True), (''animationSteps'', num 1), (''animationEasing'', Str ''linear'')]"


subsection \<open>Offsets\<close>

text \<open>The fraction of the scale below a value.\<close>

definition scale_fraction :: "real \<Rightarrow> real \<Rightarrow> real \<Rightarrow> real" where
  "scale_fraction g w v = (if 1 < (v - g) / w then 1 else if (v - g) / w < 0 then 0 else (v - g) / w)"

lemma scale_fraction_bounds: "0 \<le> scale_fraction g w v" "scale_fraction g w v \<le> 1"
  by (auto simp: scale_fraction_def)

lemma scale_fraction_mono: "0 < w \<Longrightarrow> x \<le> y \<Longrightarrow> scale_fraction g w x \<le> scale_fraction g w y"
  using divide_right_mono [of "x - g" "y - g" w] by (auto simp: scale_fraction_def)

lemma calculateOffset_value:
  assumes "steps sc = num n" "stepValue sc = num s" "graphMin sc = num g" "0 < n" "0 < s"
  shows "calculateOffset (num v) sc (Fin h) = Fin (h * n * scale_fraction g (n * s) v)"
  using assms by (simp add: calculateOffset_def CapValue_num scale_fraction_def)

text \<open>
  C23. On a scale of \<open>n\<close> steps of \<open>s\<close> from \<open>g\<close>, drawn with \<open>h\<close> pixels a step: the offset of a value is
  between 0 and the height of the scale, grows with the value, and is exact on the values of the scale.
\<close>

theorem calculateOffset_bounds:
  assumes "steps sc = num n" "stepValue sc = num s" "graphMin sc = num g" "0 < n" "0 < s" "0 \<le> h" "x \<le> y"
  shows "\<exists>p q. calculateOffset (num x) sc (Fin h) = Fin p \<and> calculateOffset (num y) sc (Fin h) = Fin q \<and>
    0 \<le> p \<and> p \<le> q \<and> q \<le> h * n \<and> (g \<le> x \<and> x \<le> g + n * s \<longrightarrow> p = h * ((x - g) / s))"
proof -
  have ns: "0 < n * s" and hn: "0 \<le> h * n" using assms by simp_all
  have "h * n * scale_fraction g (n * s) x = h * ((x - g) / s)" if "g \<le> x" "x \<le> g + n * s"
  proof -
    have "0 \<le> (x - g) / (n * s)" "(x - g) / (n * s) \<le> 1" using that ns by (simp_all add: field_simps)
    then show ?thesis using assms by (simp add: scale_fraction_def)
  qed
  then show ?thesis
    using mult_left_mono [OF scale_fraction_mono [OF ns assms(7)] hn] mult_left_mono [OF scale_fraction_bounds(2) hn]
      mult_nonneg_nonneg [OF hn scale_fraction_bounds(1)]
    unfolding calculateOffset_value [OF assms(1-5)] by (intro exI conjI) auto
qed

theorem calculateOffset_bounds_witness:
  "\<exists>p q. calculateOffset (num 3) \<lparr>steps = num 5, stepValue = num 2, graphMin = num 1, labels = []\<rparr> (Fin 10) = Fin p \<and>
    calculateOffset (num 40) \<lparr>steps = num 5, stepValue = num 2, graphMin = num 1, labels = []\<rparr> (Fin 10) = Fin q \<and> p = 10 \<and> q \<le> 50"
  using calculateOffset_bounds [of "\<lparr>steps = num 5, stepValue = num 2, graphMin = num 1, labels = []\<rparr>" 5 2 1 10 3 40] by auto

subsection \<open>The search for a scale\<close>

lemma real_round_double: "real_round (2 * x) \<le> 2 * real_round x + 1"
  unfolding real_round_def by linarith

lemma scale_loop_stop:
  "lo \<le> n \<Longrightarrow> n \<le> hi \<Longrightarrow> scale_loop (Fin lo) (Fin hi) R s (Fin n) = Some (s, Fin n)"
  by (subst scale_loop.simps) simp

text \<open>What the loop returns: a positive step and the number of steps of that size, which fits.\<close>

definition scale_found :: "int \<Rightarrow> int \<Rightarrow> real \<Rightarrow> (number \<times> number) option \<Rightarrow> bool" where
  "scale_found lo hi R r \<longleftrightarrow>
     (\<exists>s n. r = Some (Fin s, Fin (of_int n)) \<and> 0 < s \<and> n = real_round (R / s) \<and> lo \<le> n \<and> n \<le> hi)"

abbreviation loop_at :: "int \<Rightarrow> int \<Rightarrow> real \<Rightarrow> real \<Rightarrow> (number \<times> number) option" where
  "loop_at lo hi R s \<equiv> scale_loop (Fin (of_int lo)) (Fin (of_int hi)) (Fin R) (Fin s) (Fin (of_int (real_round (R / s))))"

lemma loop_at_stop: "0 < s \<Longrightarrow> lo \<le> real_round (R / s) \<Longrightarrow> real_round (R / s) \<le> hi \<Longrightarrow> scale_found lo hi R (loop_at lo hi R s)"
  by (auto simp: scale_found_def scale_loop_stop)

lemma loop_at_halve: "0 < s \<Longrightarrow> real_round (R / s) < lo \<Longrightarrow> loop_at lo hi R s = loop_at lo hi R (s / 2)"
  by (subst scale_loop.simps) simp

lemma loop_at_double: "0 < s \<Longrightarrow> lo \<le> real_round (R / s) \<Longrightarrow> hi < real_round (R / s) \<Longrightarrow> loop_at lo hi R s = loop_at lo hi R (s * 2)"
  by (subst scale_loop.simps) simp

lemma scale_loop_down:
  assumes "2 * lo - 1 \<le> hi"
  shows "0 < s \<Longrightarrow> of_int lo \<le> R / s * 2 ^ k \<Longrightarrow> real_round (R / s) \<le> hi \<Longrightarrow> scale_found lo hi R (loop_at lo hi R s)"
proof (induction k arbitrary: s)
  case 0
  then have "lo \<le> real_round (R / s)" using real_round_mono [of "of_int lo" "R / s"] by simp
  then show ?case using 0 loop_at_stop by blast
next
  case (Suc k)
  show ?case
  proof (cases "real_round (R / s) < lo")
    case True
    have "real_round (R / (s / 2)) \<le> hi"
      using True assms real_round_double [of "R / s"] by (simp add: mult.commute)
    then have "scale_found lo hi R (loop_at lo hi R (s / 2))"
      using Suc.prems by (intro Suc.IH) (simp_all add: field_simps)
    then show ?thesis using loop_at_halve [OF Suc.prems(1) True] by metis
  next
    case False
    then show ?thesis using Suc.prems loop_at_stop by simp
  qed
qed

lemma scale_loop_up:
  assumes "2 * lo - 1 \<le> hi"
  shows "0 < s \<Longrightarrow> R / s < (of_int hi + 1 / 2) * 2 ^ k \<Longrightarrow> lo \<le> real_round (R / s) \<Longrightarrow> scale_found lo hi R (loop_at lo hi R s)"
proof (induction k arbitrary: s)
  case 0
  then have "real_round (R / s) \<le> hi" unfolding real_round_def by simp linarith
  then show ?case using 0 loop_at_stop by blast
next
  case (Suc k)
  show ?case
  proof (cases "hi < real_round (R / s)")
    case True
    then have "of_int hi + 1 / 2 \<le> R / s" unfolding real_round_def by linarith
    moreover have "2 * of_int lo - 1 \<le> (of_int hi :: real)" using assms by linarith
    ultimately have "of_int lo \<le> R / s / 2 + 1 / 2" by simp
    then have "lo \<le> real_round (R / (s * 2))" unfolding real_round_def by (simp add: le_floor_iff)
    then have "scale_found lo hi R (loop_at lo hi R (s * 2))"
      using Suc.prems by (intro Suc.IH) (simp_all add: field_simps)
    then show ?thesis using loop_at_double [OF Suc.prems(1,3) True] by metis
  next
    case False
    then show ?thesis using Suc.prems loop_at_stop by simp
  qed
qed

lemma scale_loop_ends:
  assumes "0 \<le> hi" "2 * lo - 1 \<le> hi" "0 < R" "0 < s"
  shows "scale_found lo hi R (loop_at lo hi R s)"
proof (cases "real_round (R / s) < lo")
  case True
  have pos: "0 < R / s" using assms by simp
  obtain k where "of_int lo / (R / s) < 2 ^ k" using real_arch_pow [of 2 "of_int lo / (R / s)"] by auto
  then have "of_int lo \<le> R / s * 2 ^ k" using pos by (metis less_eq_real_def mult.commute pos_divide_less_eq)
  moreover have "0 \<le> real_round (R / s)" using pos unfolding real_round_def by simp
  then have "real_round (R / s) \<le> hi" using True assms(2) by linarith
  ultimately show ?thesis using scale_loop_down assms by blast
next
  case False
  have h: "0 < of_int hi + 1 / (2 :: real)" using assms(1) by simp
  obtain k where "R / s / (of_int hi + 1 / 2) < 2 ^ k" using real_arch_pow [of 2 "R / s / (of_int hi + 1 / 2)"] by auto
  then have "R / s < (of_int hi + 1 / 2) * 2 ^ k" using h by (metis mult.commute pos_divide_less_eq)
  then show ?thesis using scale_loop_up assms False by simp
qed

text \<open>
  C20. For values that are not all equal and a scale of positive height, the search for a scale ends.
  The step is positive, the number of steps lies between the bounds for the height, the scale starts
  at or below the least value, and it ends at most half a step below the greatest.
\<close>

theorem calculateScale_ends:
  fixes H L :: real
  assumes "a < b" "0 < H" "0 < L" "mx = \<lfloor>H / (L * (66 / 100))\<rfloor>" "mn = \<lfloor>H / L * (5 / 10)\<rfloor>"
  shows "\<exists>n s g. calculateScale tm (Fin (of_int mx)) (Fin (of_int mn)) (num b) (num a) t =
      rbind (populateLabels tm t (num (of_int n)) (num g) (num s))
        (\<lambda>ls. Inr \<lparr>steps = num (of_int n), stepValue = num s, graphMin = num g, labels = ls\<rparr>) \<and>
    0 < s \<and> mn \<le> n \<and> n \<le> mx \<and> g \<le> a \<and> b \<le> g + (of_int n + 1 / 2) * s"
proof -
  define pw where "pw = (10 :: real) powr of_int \<lfloor>ln (b - a) / ln 10\<rfloor>"
  define g where "g = of_int \<lfloor>a / pw\<rfloor> * pw"
  define R where "R = of_int \<lceil>b / pw\<rceil> * pw - g"
  have pw: "0 < pw" by (simp add: pw_def)
  have g: "g \<le> a" unfolding g_def using pw by (metis floor_divide_lower)
  have top: "b \<le> g + R" unfolding R_def using pw by (simp add: ceiling_divide_upper)
  have q: "0 < H / L" using assms by simp
  have "2 * mn \<le> mx"
  proof -
    have "of_int mn \<le> H / L * (5 / 10)" unfolding assms(5) by (rule of_int_floor_le)
    then have "2 * of_int mn \<le> H / L" by simp
    also have "\<dots> \<le> H / (L * (66 / 100))" using assms by (simp add: field_simps)
    finally show ?thesis unfolding assms(4) by (simp add: le_floor_iff)
  qed
  moreover have "0 \<le> mx" unfolding assms(4) using assms(2,3) by simp
  ultimately have "scale_found mn mx R (loop_at mn mx R pw)"
    using g top assms(1) pw by (intro scale_loop_ends) auto
  then obtain s n where r: "loop_at mn mx R pw = Some (Fin s, Fin (of_int n))" and s: "0 < s" "mn \<le> n" "n \<le> mx" "n = real_round (R / s)"
    unfolding scale_found_def by blast
  have "R / s \<le> of_int n + 1 / 2" unfolding s(4) using real_round_bounds(2) [of "R / s"] by linarith
  then have "R \<le> (of_int n + 1 / 2) * s" using s(1) by (simp add: field_simps)
  then have "b \<le> g + (of_int n + 1 / 2) * s" using top by linarith
  moreover have "calculateScale tm (Fin (of_int mx)) (Fin (of_int mn)) (num b) (num a) t =
      rbind (populateLabels tm t (num (of_int n)) (num g) (num s))
        (\<lambda>ls. Inr \<lparr>steps = num (of_int n), stepValue = num s, graphMin = num g, labels = ls\<rparr>)"
    using assms(1) pw r
    by (simp add: calculateScale_def calculateOrderOfMagnitude_def Let_def pw_def [symmetric] g_def [symmetric] R_def [symmetric])
  ultimately show ?thesis using s g by blast
qed

theorem calculateScale_ends_witness:
  "\<exists>n s g. calculateScale (\<lambda>t v. Inr v) (Fin 15) (Fin 5) (num 47) (num 3) Null =
      rbind (populateLabels (\<lambda>t v. Inr v) Null (num (of_int n)) (num g) (num s))
        (\<lambda>ls. Inr \<lparr>steps = num (of_int n), stepValue = num s, graphMin = num g, labels = ls\<rparr>) \<and>
    0 < s \<and> 5 \<le> n \<and> n \<le> 15 \<and> g \<le> 3 \<and> 47 \<le> g + (of_int n + 1 / 2) * s"
proof -
  have pre: "(3 :: real) < 47" "(0 :: real) < 120" "(0 :: real) < 12" by simp_all
  have "(15 :: int) = \<lfloor>120 / (12 * (66 / 100)) :: real\<rfloor>" "(5 :: int) = \<lfloor>120 / 12 * (5 / 10) :: real\<rfloor>" by simp_all
  from calculateScale_ends [OF pre this, of "\<lambda>t v. Inr v" Null] show ?thesis unfolding of_int_numeral .
qed

lemma order_of_magnitude_0: "1 \<le> x \<Longrightarrow> x < 10 \<Longrightarrow> calculateOrderOfMagnitude (Fin x) = Fin 0"
  by (simp add: calculateOrderOfMagnitude_def floor_eq_iff)



text \<open>Without a number of steps that fits, the loop goes on forever.\<close>

lemma scale_loop_diverges:
  assumes "hi < 0" "0 \<le> R" "0 < s" "0 \<le> n"
  shows "scale_loop mn (Fin hi) (Fin R) (Fin s) (Fin n) = None"
proof -
  let ?Q = "\<lambda>mx r st k. \<exists>R s n. mx = Fin hi \<and> r = Fin R \<and> st = Fin s \<and> k = Fin n \<and> 0 \<le> R \<and> 0 < s \<and> 0 \<le> n"
  have step: "\<not> ?Q mx r st k"
    if IH: "\<And>mn mx r st k y. f mn mx r st k = Some y \<Longrightarrow> \<not> ?Q mx r st k"
      and body: "(if k < mn \<or> mx < k then let st' = if k < mn then st / Fin 2 else st * Fin 2 in f mn mx r st' (Math_round (r / st'))
                  else Some (st, k)) = Some y" for f mn mx r st k y
  proof
    assume "?Q mx r st k"
    then obtain R s n where e: "mx = Fin hi" "r = Fin R" "st = Fin s" "k = Fin n" "0 \<le> R" "0 < s" "0 \<le> n" by blast
    define s' where "s' = (if k < mn then s / 2 else s * 2)"
    have st: "(if k < mn then st / Fin 2 else st * Fin 2) = Fin s'" and s': "0 < s'" using e by (simp_all add: s'_def)
    have "mx < k" using e assms(1) by simp
    then have "f mn mx r (Fin s') (Math_round (r / Fin s')) = Some y"
      using body unfolding st Let_def by simp
    then have "\<not> ?Q mx r (Fin s') (Math_round (r / Fin s'))" by (rule IH)
    moreover have "0 \<le> real_of_int (real_round (R / s'))" using e s' unfolding real_round_def by simp
    ultimately show False using e s' by simp
  qed
  have "\<not> ?Q mx r st k" if "scale_loop mn mx r st k = Some y" for mn mx r st k y
    by (rule scale_loop.raw_induct [OF _ that, of "\<lambda>mn mx r st k y. \<not> ?Q mx r st k"]) (rule step)
  then show ?thesis using assms by (cases "scale_loop mn (Fin hi) (Fin R) (Fin s) (Fin n)") blast+
qed

text \<open>
  C21. On a scale of negative height, when the labels take more than the canvas has, the search for a
  scale never ends, whatever the (different) values are.
\<close>

theorem calculateScale_diverges:
  assumes "a < b" "mx < 0"
  shows "calculateScale tm (Fin mx) mn (num b) (num a) t = Inl Diverges"
proof -
  define pw where "pw = (10 :: real) powr of_int \<lfloor>ln (b - a) / ln 10\<rfloor>"
  define R where "R = of_int \<lceil>b / pw\<rceil> * pw - of_int \<lfloor>a / pw\<rfloor> * pw"
  have pw: "0 < pw" by (simp add: pw_def)
  have "of_int \<lfloor>a / pw\<rfloor> * pw \<le> a" "b \<le> of_int \<lceil>b / pw\<rceil> * pw"
    using pw by (metis floor_divide_lower, simp add: ceiling_divide_upper)
  then have "0 \<le> R" unfolding R_def using assms(1) by linarith
  moreover from this have "0 \<le> real_of_int (real_round (R / pw))" using pw unfolding real_round_def by simp
  ultimately have "scale_loop mn (Fin mx) (Fin R) (Fin pw) (Fin (of_int (real_round (R / pw)))) = None"
    using scale_loop_diverges assms(2) pw by blast
  then show ?thesis
    using assms(1) pw by (simp add: calculateScale_def calculateOrderOfMagnitude_def Let_def pw_def [symmetric] R_def [symmetric])
qed

theorem calculateScale_diverges_witness: "calculateScale (\<lambda>t v. Inr v) (Fin (- 2)) (Fin (- 2)) (num 47) (num 3) Null = Inl Diverges"
  using calculateScale_diverges [of 3 47 "- 2" "\<lambda>t v. Inr v" "Fin (- 2)" Null] by simp

end
