(* ===== verification/ChartRound.thy ===== *)
theory ChartRound
  imports ChartScale
begin

text \<open>
  The round charts of \<open>static/chart-master/Chart.js\<close>: \<open>PolarArea\<close>, \<open>Radar\<close>, \<open>Pie\<close> and \<open>Doughnut\<close>
  (lines 150 to 355 and 357 to 787). A chart is a function from its data and configuration to the
  drawings of its frames. The configuration is the merged object, read by name; the size of the
  canvas, the width of texts and the engine that runs the label templates are the record \<open>cenv\<close>.
\<close>

section \<open>Definitions\<close>

record cenv =
  cwidth :: number
  cheight :: number
  measureText :: "jsval \<Rightarrow> jsval \<Rightarrow> number"
  runTmpl :: "string \<Rightarrow> string \<Rightarrow> string"
  elementHtml :: "string \<Rightarrow> string option"

type_synonym config = "string \<Rightarrow> jsval"

text \<open>A page where every text is 20 pixels wide, on a canvas of 400 by 300 pixels, with templates that show the value.\<close>

definition plain_cenv :: cenv where
  "plain_cenv = \<lparr>cwidth = Fin 400, cheight = Fin 300, measureText = \<lambda>f t. Fin 20, runTmpl = \<lambda>code v. v, elementHtml = \<lambda>i. None\<rparr>"

text \<open>The numeric value of an option.\<close>

definition opt_num :: "config \<Rightarrow> string \<Rightarrow> number" where
  "opt_num cfg k = to_number (cfg k)"

subsection \<open>Configuration\<close>

definition PolarArea_defaults :: "(string \<times> jsval) list" where
  "PolarArea_defaults =
    [(''scaleOverlay'', Bool True), (''scaleOverride'', Bool False), (''scaleSteps'', Null), (''scaleStepWidth'', Null),
     (''scaleStartValue'', Null), (''scaleShowLine'', Bool True), (''scaleLineColor'', Str ''rgba(0,0,0,.1)''),
     (''scaleLineWidth'', num 1), (''scaleShowLabels'', Bool True), (''scaleLabel'', Str ''<%=value%>''),
     (''scaleFontFamily'', Str [CHR 0x27, CHR ''A'', CHR ''r'', CHR ''i'', CHR ''a'', CHR ''l'', CHR 0x27]),
     (''scaleFontSize'', num 12), (''scaleFontStyle'', Str ''normal''), (''scaleFontColor'', Str ''#666''),
     (''scaleShowLabelBackdrop'', Bool True), (''scaleBackdropColor'', Str ''rgba(255,255,255,0.75)''),
     (''scaleBackdropPaddingY'', num 2), (''scaleBackdropPaddingX'', num 2), (''segmentShowStroke'', Bool True),
     (''segmentStrokeColor'', Str ''#fff''), (''segmentStrokeWidth'', num 2), (''animation'', Bool True),
     (''animationSteps'', num 100), (''animationEasing'', Str ''easeOutBounce''), (''animateRotate'', Bool True),
     (''animateScale'', Bool False), (''onAnimationComplete'', Null)]"

definition Radar_defaults :: "(string \<times> jsval) list" where
  "Radar_defaults =
    [(''scaleOverlay'', Bool False), (''scaleOverride'', Bool False), (''scaleSteps'', Null), (''scaleStepWidth'', Null),
     (''scaleStartValue'', Null), (''scaleShowLine'', Bool True), (''scaleLineColor'', Str ''rgba(0,0,0,.1)''),
     (''scaleLineWidth'', num 1), (''scaleShowLabels'', Bool False), (''scaleLabel'', Str ''<%=value%>''),
     (''scaleFontFamily'', Str [CHR 0x27, CHR ''A'', CHR ''r'', CHR ''i'', CHR ''a'', CHR ''l'', CHR 0x27]),
     (''scaleFontSize'', num 12), (''scaleFontStyle'', Str ''normal''), (''scaleFontColor'', Str ''#666''),
     (''scaleShowLabelBackdrop'', Bool True), (''scaleBackdropColor'', Str ''rgba(255,255,255,0.75)''),
     (''scaleBackdropPaddingY'', num 2), (''scaleBackdropPaddingX'', num 2), (''angleShowLineOut'', Bool True),
     (''angleLineColor'', Str ''rgba(0,0,0,.1)''), (''angleLineWidth'', num 1),
     (''pointLabelFontFamily'', Str [CHR 0x27, CHR ''A'', CHR ''r'', CHR ''i'', CHR ''a'', CHR ''l'', CHR 0x27]),
     (''pointLabelFontStyle'', Str ''normal''), (''pointLabelFontSize'', num 12), (''pointLabelFontColor'', Str ''#666''),
     (''pointDot'', Bool True), (''pointDotRadius'', num 3), (''pointDotStrokeWidth'', num 1), (''datasetStroke'', Bool True),
     (''datasetStrokeWidth'', num 2), (''datasetFill'', Bool True), (''animation'', Bool True), (''animationSteps'', num 60),
     (''animationEasing'', Str ''easeOutQuart''), (''onAnimationComplete'', Null)]"

definition Pie_defaults :: "(string \<times> jsval) list" where
  "Pie_defaults =
    [(''segmentShowStroke'', Bool True), (''segmentStrokeColor'', Str ''#fff''), (''segmentStrokeWidth'', num 2),
     (''animation'', Bool True), (''animationSteps'', num 100), (''animationEasing'', Str ''easeOutBounce''),
     (''animateRotate'', Bool True), (''animateScale'', Bool False), (''onAnimationComplete'', Null)]"

definition Doughnut_defaults :: "(string \<times> jsval) list" where
  "Doughnut_defaults =
    [(''segmentShowStroke'', Bool True), (''segmentStrokeColor'', Str ''#fff''), (''segmentStrokeWidth'', num 2),
     (''percentageInnerCutout'', num 50), (''animation'', Bool True), (''animationSteps'', num 100),
     (''animationEasing'', Str ''easeOutBounce''), (''animateRotate'', Bool True), (''animateScale'', Bool False),
     (''onAnimationComplete'', Null)]"

text \<open>\<open>(options) ? mergeChartConfig(defaults, options) : defaults\<close>.\<close>

definition chart_config :: "(string \<times> jsval) list \<Rightarrow> (string \<times> jsval) list option \<Rightarrow> config" where
  "chart_config defaults options =
     jget (case options of None \<Rightarrow> defaults | Some uo \<Rightarrow> mergeChartConfig defaults uo)"

text \<open>
  The canvas element. The chart keeps its size as the size of its coordinates; on a display of high
  density the element gets more pixels, the style keeps its size on the page and the context is scaled.
\<close>

record canvas_el =
  elWidth :: number
  elHeight :: number
  styleWidth :: string
  styleHeight :: string

definition chart_context :: "jsval \<Rightarrow> canvas_el \<Rightarrow> (number \<times> number) \<times> canvas_el \<times> drawing" where
  "chart_context devicePixelRatio el =
     ((elWidth el, elHeight el),
      (if truthy devicePixelRatio
       then (el\<lparr>styleWidth := num_to_string (elWidth el) @ ''px'', styleHeight := num_to_string (elHeight el) @ ''px'',
                elHeight := elHeight el * to_number devicePixelRatio, elWidth := elWidth el * to_number devicePixelRatio\<rparr>,
             [Scale devicePixelRatio devicePixelRatio])
       else (el, [])))"

subsection \<open>Scales of a chart\<close>

text \<open>The loop over the values that finds the bounds of the data.\<close>

fun bounds_loop :: "jsval list \<Rightarrow> jsval \<Rightarrow> jsval \<Rightarrow> jsval \<times> jsval" where
  "bounds_loop [] upper lower = (upper, lower)"
| "bounds_loop (v # vs) upper lower =
     bounds_loop vs (if jlt upper v then v else upper) (if jlt v lower then v else lower)"

definition data_bounds :: "jsval list \<Rightarrow> jsval \<times> jsval" where
  "data_bounds vs = bounds_loop vs (num Number_MIN_VALUE) (num Number_MAX_VALUE)"

text \<open>The numbers of steps that fit a height: at most and at least.\<close>

definition step_bounds :: "number \<Rightarrow> jsval \<Rightarrow> number \<times> number" where
  "step_bounds scaleHeight labelHeight =
     (Math_floor (scaleHeight / (to_number labelHeight * Fin (66 / 100))),
      Math_floor (scaleHeight / to_number labelHeight * Fin (5 / 10)))"

text \<open>The scale: calculated from the values, or taken from the configuration. \<open>noLabels\<close> is the template when no labels are shown.\<close>

definition chart_scale :: "cenv \<Rightarrow> config \<Rightarrow> jsval \<Rightarrow> jsval list \<Rightarrow> number \<Rightarrow> jsval \<Rightarrow> scale result" where
  "chart_scale ce cfg noLabels vs scaleHeight labelHeight =
     (let (upper, lower) = data_bounds vs; (maxSteps, minSteps) = step_bounds scaleHeight labelHeight;
          labelTemplateString = (if truthy (cfg ''scaleShowLabels'') then cfg ''scaleLabel'' else noLabels);
          tm = tmpl (runTmpl ce) (elementHtml ce)
      in if \<not> truthy (cfg ''scaleOverride'') then calculateScale tm maxSteps minSteps upper lower labelTemplateString
         else rbind (populateLabels tm labelTemplateString (cfg ''scaleSteps'') (cfg ''scaleStartValue'') (cfg ''scaleStepWidth'')) (\<lambda>ls.
                Inr \<lparr>steps = cfg ''scaleSteps'', stepValue = cfg ''scaleStepWidth'', graphMin = cfg ''scaleStartValue'', labels = ls\<rparr>))"

text \<open>The indices \<open>i\<close> from 0 with \<open>i < calculatedScale.steps\<close>.\<close>

fun step_indices :: "jsval \<Rightarrow> nat list result" where
  "step_indices v =
     (case to_number v of
        Fin x \<Rightarrow> Inr [0..<nat \<lceil>x\<rceil>]
      | PInf \<Rightarrow> Inl Diverges
      | _ \<Rightarrow> Inr [])"

text \<open>The label of a step, \<open>undefined\<close> when there is none; the font of the scale.\<close>

definition step_label :: "scale \<Rightarrow> nat \<Rightarrow> jsval" where
  "step_label sc i = jnth (map Str (labels sc)) i"

definition font_text :: "config \<Rightarrow> string \<Rightarrow> string \<Rightarrow> string \<Rightarrow> jsval" where
  "font_text cfg style fsize family =
     jadd (jadd (jadd (jadd (cfg style) (Str '' '')) (cfg fsize)) (Str ''px '')) (cfg family)"

definition scale_font :: "config \<Rightarrow> jsval" where
  "scale_font cfg = font_text cfg ''scaleFontStyle'' ''scaleFontSize'' ''scaleFontFamily''"

text \<open>The backdrop of a label centred at \<open>(x, y)\<close>.\<close>

definition backdrop :: "cenv \<Rightarrow> config \<Rightarrow> jsval \<Rightarrow> number \<Rightarrow> number \<Rightarrow> drawing" where
  "backdrop ce cfg label x y =
     (let textWidth = measureText ce (scale_font cfg) label
      in [SetFillStyle (cfg ''scaleBackdropColor''), BeginPath,
          RectPath (Num (Math_round (x - textWidth / Fin 2 - opt_num cfg ''scaleBackdropPaddingX'')))
            (Num (Math_round (y - opt_num cfg ''scaleFontSize'' * Fin (5 / 10) - opt_num cfg ''scaleBackdropPaddingY'')))
            (Num (Math_round (textWidth + opt_num cfg ''scaleBackdropPaddingX'' * Fin 2)))
            (Num (Math_round (to_number (jadd (cfg ''scaleFontSize'') (Num (opt_num cfg ''scaleBackdropPaddingY'' * Fin 2)))))),
          Fill])"

subsection \<open>PolarArea\<close>

record segment =
  segValue :: jsval
  segColor :: jsval

text \<open>\<open>calculateDrawingSizes\<close>: the radius and the height of a label.\<close>

definition polar_sizes :: "cenv \<Rightarrow> config \<Rightarrow> number \<times> jsval" where
  "polar_sizes ce cfg =
     (let maxSize0 = Min_of [cwidth ce, cheight ce] / Fin 2;
          maxSize1 = maxSize0 - Max_of [opt_num cfg ''scaleFontSize'' * Fin (5 / 10), opt_num cfg ''scaleLineWidth'' * Fin (5 / 10)];
          labelHeight0 = opt_num cfg ''scaleFontSize'' * Fin 2;
          backdrop' = truthy (cfg ''scaleShowLabelBackdrop'');
          labelHeight = (if backdrop' then labelHeight0 + Fin 2 * opt_num cfg ''scaleBackdropPaddingY'' else labelHeight0);
          maxSize = (if backdrop' then maxSize1 - opt_num cfg ''scaleBackdropPaddingY'' * Fin (15 / 10) else maxSize1)
      in (maxSize, Default (Num labelHeight) (num 5)))"

definition polar_drawStep :: "cenv \<Rightarrow> config \<Rightarrow> scale \<Rightarrow> number \<Rightarrow> nat \<Rightarrow> drawing" where
  "polar_drawStep ce cfg sc scaleHop i =
     (let cx = cwidth ce / Fin 2; cy = cheight ce / Fin 2; r = scaleHop * Fin (of_nat (i + 1)); label = step_label sc i
      in (if truthy (cfg ''scaleShowLine'')
          then [BeginPath, Arc [Num cx, Num cy, Num r, num 0, num (pi * 2), Bool True],
                SetStrokeStyle (cfg ''scaleLineColor''), SetLineWidth (cfg ''scaleLineWidth''), Stroke]
          else []) @
         (if truthy (cfg ''scaleShowLabels'')
          then [SetTextAlign (Str ''center''), SetFont (scale_font cfg)] @
               (if truthy (cfg ''scaleShowLabelBackdrop'') then backdrop ce cfg label cx (cy - r) else []) @
               [SetTextBaseline (Str ''middle''), SetFillStyle (cfg ''scaleFontColor''), FillText label (Num cx) (Num (cy - r))]
          else []))"

definition polar_drawScale :: "cenv \<Rightarrow> config \<Rightarrow> scale \<Rightarrow> number \<Rightarrow> drawing result" where
  "polar_drawScale ce cfg sc scaleHop =
     rbind (step_indices (steps sc)) (\<lambda>is. Inr (concat (map (polar_drawStep ce cfg sc scaleHop) is)))"

text \<open>The factors of the animation: of the radius and of the angle.\<close>

definition anim_factors :: "config \<Rightarrow> number \<Rightarrow> number \<times> number" where
  "anim_factors cfg animationDecimal =
     (if truthy (cfg ''animation'')
      then (if truthy (cfg ''animateScale'') then animationDecimal else Fin 1,
            if truthy (cfg ''animateRotate'') then animationDecimal else Fin 1)
      else (Fin 1, Fin 1))"

definition polar_segment :: "cenv \<Rightarrow> config \<Rightarrow> scale \<Rightarrow> number \<Rightarrow> number \<Rightarrow> segment \<Rightarrow> number \<Rightarrow> number \<Rightarrow> drawing" where
  "polar_segment ce cfg sc scaleHop scaleAnimation s startAngle endAngle =
     (let cx = Num (cwidth ce / Fin 2); cy = Num (cheight ce / Fin 2)
      in [BeginPath, Arc [cx, cy, Num (scaleAnimation * calculateOffset (segValue s) sc scaleHop), Num startAngle, Num endAngle, Bool False],
          LineTo cx cy, ClosePath, SetFillStyle (segColor s), Fill] @
         (if truthy (cfg ''segmentShowStroke'')
          then [SetStrokeStyle (cfg ''segmentStrokeColor''), SetLineWidth (cfg ''segmentStrokeWidth''), Stroke] else []))"

fun polar_segments ::
  "(segment \<Rightarrow> number \<Rightarrow> number \<Rightarrow> drawing) \<Rightarrow> number \<Rightarrow> segment list \<Rightarrow> number \<Rightarrow> drawing" where
  "polar_segments seg angle [] startAngle = []"
| "polar_segments seg angle (s # ss) startAngle =
     seg s startAngle (startAngle + angle) @ polar_segments seg angle ss (startAngle + angle)"

definition polar_drawAllSegments :: "cenv \<Rightarrow> config \<Rightarrow> scale \<Rightarrow> number \<Rightarrow> segment list \<Rightarrow> number \<Rightarrow> drawing" where
  "polar_drawAllSegments ce cfg sc scaleHop data animationDecimal =
     (let (scaleAnimation, rotateAnimation) = anim_factors cfg animationDecimal;
          angleStep = Fin (pi * 2) / Fin (of_nat (length data))
      in polar_segments (polar_segment ce cfg sc scaleHop scaleAnimation) (rotateAnimation * angleStep) data (Fin (- pi / 2)))"

definition PolarArea :: "cenv \<Rightarrow> segment list \<Rightarrow> config \<Rightarrow> (drawing list \<times> bool) result" where
  "PolarArea ce data cfg =
     (let (maxSize, labelHeight) = polar_sizes ce cfg
      in rbind (chart_scale ce cfg Null (map segValue data) maxSize labelHeight) (\<lambda>sc.
           (let scaleHop = maxSize / to_number (steps sc)
            in animationLoop (cwidth ce) (cheight ce) cfg (polar_drawScale ce cfg sc scaleHop)
                 (\<lambda>v. Inr (polar_drawAllSegments ce cfg sc scaleHop data v)))))"

subsection \<open>Radar\<close>

record dataset =
  dsData :: "jsval list"
  dsFillColor :: jsval
  dsStrokeColor :: jsval
  dsPointColor :: jsval
  dsPointStrokeColor :: jsval

text \<open>The data of a radar, line or bar chart; labels may be missing.\<close>

record cdata =
  dataLabels :: "jsval list option"
  datasets :: "dataset list"

definition label_font :: "config \<Rightarrow> jsval" where
  "label_font cfg = font_text cfg ''pointLabelFontStyle'' ''pointLabelFontSize'' ''pointLabelFontFamily''"

text \<open>The loop that finds the widest of some texts.\<close>

fun widest :: "(jsval \<Rightarrow> number) \<Rightarrow> jsval list \<Rightarrow> number \<Rightarrow> number" where
  "widest m [] w = w"
| "widest m (l # ls) w = widest m ls (if w < m l then m l else w)"

definition radar_sizes :: "cenv \<Rightarrow> config \<Rightarrow> jsval list \<Rightarrow> number \<times> jsval" where
  "radar_sizes ce cfg ls =
     (let maxSize0 = Min_of [cwidth ce, cheight ce] / Fin 2;
          labelHeight = opt_num cfg ''scaleFontSize'' * Fin 2;
          labelLength = widest (measureText ce (label_font cfg)) ls (Fin 0);
          maxSize1 = maxSize0 - Max_of [labelLength, opt_num cfg ''pointLabelFontSize'' / Fin 2 * Fin (15 / 10)] - opt_num cfg ''pointLabelFontSize'';
          maxSize = to_number (CapValue (Num maxSize1) Null (num 0))
      in (maxSize, Default (Num labelHeight) (num 5)))"

text \<open>The value of point \<open>j\<close> of a data set, as a length on its axis.\<close>

definition radar_y :: "scale \<Rightarrow> number \<Rightarrow> number \<Rightarrow> dataset \<Rightarrow> nat \<Rightarrow> jsval" where
  "radar_y sc scaleHop animationDecimal ds j =
     Num (animationDecimal * (Fin (- 1) * calculateOffset (jnth (dsData ds) j) sc scaleHop))"

definition radar_dot :: "config \<Rightarrow> number \<Rightarrow> jsval \<Rightarrow> drawing" where
  "radar_dot cfg rotationDegree y =
     [Rotate (Num rotationDegree), BeginPath, Arc [num 0, y, cfg ''pointDotRadius'', num (2 * pi), Bool False], Fill, Stroke]"

definition radar_dataset :: "config \<Rightarrow> scale \<Rightarrow> number \<Rightarrow> number \<Rightarrow> number \<Rightarrow> dataset \<Rightarrow> drawing" where
  "radar_dataset cfg sc scaleHop rotationDegree animationDecimal ds =
     (let y = radar_y sc scaleHop animationDecimal ds
      in [BeginPath, MoveTo (num 0) (y 0)] @
         concat (map (\<lambda>j. [Rotate (Num rotationDegree), LineTo (num 0) (y j)]) [1..<length (dsData ds)]) @
         [ClosePath, SetFillStyle (dsFillColor ds), SetStrokeStyle (dsStrokeColor ds),
          SetLineWidth (cfg ''datasetStrokeWidth''), Fill, Stroke] @
         (if truthy (cfg ''pointDot'')
          then [SetFillStyle (dsPointColor ds), SetStrokeStyle (dsPointStrokeColor ds), SetLineWidth (cfg ''pointDotStrokeWidth'')] @
               concat (map (\<lambda>k. radar_dot cfg rotationDegree (y k)) [0..<length (dsData ds)])
          else []) @
         [Rotate (Num rotationDegree)])"

text \<open>\<open>(2 * Math.PI) / data.datasets[0].data.length\<close>, which raises without data sets.\<close>

definition radar_rotation :: "cdata \<Rightarrow> (number \<times> nat) result" where
  "radar_rotation data =
     (case datasets data of
        [] \<Rightarrow> Inl (TypeError ''data.datasets[0] is undefined'')
      | ds # _ \<Rightarrow> Inr (Fin (2 * pi) / Fin (of_nat (length (dsData ds))), length (dsData ds)))"

definition radar_drawAllDataPoints :: "cenv \<Rightarrow> config \<Rightarrow> scale \<Rightarrow> number \<Rightarrow> cdata \<Rightarrow> number \<Rightarrow> drawing result" where
  "radar_drawAllDataPoints ce cfg sc scaleHop data animationDecimal =
     rbind (radar_rotation data) (\<lambda>(rotationDegree, _).
       Inr (Save # [Translate (Num (cwidth ce / Fin 2)) (Num (cheight ce / Fin 2))] @
            concat (map (radar_dataset cfg sc scaleHop rotationDegree animationDecimal) (datasets data)) @ [Restore]))"

definition radar_drawStep :: "cenv \<Rightarrow> config \<Rightarrow> scale \<Rightarrow> number \<Rightarrow> number \<Rightarrow> nat \<Rightarrow> nat \<Rightarrow> drawing" where
  "radar_drawStep ce cfg sc scaleHop rotationDegree n i =
     (let y = - scaleHop * Fin (of_nat (i + 1)); label = step_label sc i
      in [BeginPath] @
         (if truthy (cfg ''scaleShowLine'')
          then [SetStrokeStyle (cfg ''scaleLineColor''), SetLineWidth (cfg ''scaleLineWidth''), MoveTo (num 0) (Num y)] @
               concat (map (\<lambda>j. [Rotate (Num rotationDegree), LineTo (num 0) (Num y)]) [0..<n]) @ [ClosePath, Stroke]
          else []) @
         (if truthy (cfg ''scaleShowLabels'')
          then [SetTextAlign (Str ''center''), SetFont (scale_font cfg), SetTextBaseline (Str ''middle'')] @
               (if truthy (cfg ''scaleShowLabelBackdrop'') then backdrop ce cfg label (Fin 0) y else []) @
               [SetFillStyle (cfg ''scaleFontColor''), FillText label (num 0) (Num y)]
          else []))"

text \<open>The alignment of the label at an angle: centred at the top and the bottom, outwards elsewhere.\<close>

definition label_align :: "number \<Rightarrow> string" where
  "label_align a = (if num_eq a (Fin pi) \<or> num_eq a (Fin 0) then ''center'' else if Fin pi < a then ''right'' else ''left'')"

definition radar_label :: "config \<Rightarrow> number \<Rightarrow> number \<Rightarrow> nat \<Rightarrow> jsval \<Rightarrow> drawing" where
  "radar_label cfg maxSize rotationDegree k label =
     (let a = rotationDegree * Fin (of_nat k); r = to_number (jadd (Num maxSize) (cfg ''pointLabelFontSize''));
          opposite = Math_sin a * r; adjacent = Math_cos a * r
      in [SetFont (label_font cfg), SetFillStyle (cfg ''pointLabelFontColor''), SetTextAlign (Str (label_align a)),
          SetTextBaseline (Str ''middle''), FillText label (Num opposite) (Num (- adjacent))])"

definition radar_drawScale :: "cenv \<Rightarrow> config \<Rightarrow> scale \<Rightarrow> number \<Rightarrow> number \<Rightarrow> cdata \<Rightarrow> jsval list \<Rightarrow> drawing result" where
  "radar_drawScale ce cfg sc maxSize scaleHop data ls =
     rbind (radar_rotation data) (\<lambda>(rotationDegree, n).
     rbind (step_indices (steps sc)) (\<lambda>is.
       Inr (Save # ([Translate (Num (cwidth ce / Fin 2)) (Num (cheight ce / Fin 2))] @
            (if truthy (cfg ''angleShowLineOut'')
             then [SetStrokeStyle (cfg ''angleLineColor''), SetLineWidth (cfg ''angleLineWidth'')] @
                  concat (map (\<lambda>h. [Rotate (Num rotationDegree), BeginPath, MoveTo (num 0) (num 0), LineTo (num 0) (Num (- maxSize)), Stroke]) [0..<n])
             else []) @
            concat (map (radar_drawStep ce cfg sc scaleHop rotationDegree n) is) @
            concat (map (\<lambda>(k, l). radar_label cfg maxSize rotationDegree k l) (List.enumerate 0 ls))) @ [Restore])))"

definition Radar :: "cenv \<Rightarrow> cdata \<Rightarrow> config \<Rightarrow> (drawing list \<times> bool) result" where
  "Radar ce data cfg =
     (let ls = (case dataLabels data of None \<Rightarrow> [] | Some ls \<Rightarrow> ls);
          (maxSize, labelHeight) = radar_sizes ce cfg ls
      in rbind (chart_scale ce cfg Null (concat (map dsData (datasets data))) maxSize labelHeight) (\<lambda>sc.
           (let scaleHop = maxSize / to_number (steps sc)
            in animationLoop (cwidth ce) (cheight ce) cfg (radar_drawScale ce cfg sc maxSize scaleHop data ls)
                 (radar_drawAllDataPoints ce cfg sc scaleHop data))))"

subsection \<open>Pie and Doughnut\<close>

text \<open>The sum of the values, in the order of the data.\<close>

fun segment_total :: "segment list \<Rightarrow> jsval \<Rightarrow> jsval" where
  "segment_total [] t = t"
| "segment_total (s # ss) t = segment_total ss (jadd t (segValue s))"

text \<open>The radius of the chart, 5 pixels from the edge.\<close>

definition pie_radius :: "cenv \<Rightarrow> number" where
  "pie_radius ce = Min_of [cheight ce / Fin 2, cwidth ce / Fin 2] - Fin 5"

definition segment_angle :: "number \<Rightarrow> jsval \<Rightarrow> segment \<Rightarrow> number" where
  "segment_angle rotateAnimation segmentTotal s =
     rotateAnimation * ((to_number (segValue s) / to_number segmentTotal) * Fin (pi * 2))"

text \<open>The loop over the segments: each is drawn from the cumulative angle.\<close>

fun pie_segments :: "(segment \<Rightarrow> number) \<Rightarrow> (segment \<Rightarrow> number \<Rightarrow> number \<Rightarrow> drawing) \<Rightarrow> segment list \<Rightarrow> number \<Rightarrow> drawing" where
  "pie_segments angle drawSegment [] cumulativeAngle = []"
| "pie_segments angle drawSegment (s # ss) cumulativeAngle =
     drawSegment s cumulativeAngle (cumulativeAngle + angle s) @
     pie_segments angle drawSegment ss (cumulativeAngle + angle s)"

text \<open>Filling a segment, and its outline.\<close>

definition paint_segment :: "config \<Rightarrow> segment \<Rightarrow> drawing" where
  "paint_segment cfg s =
     [ClosePath, SetFillStyle (segColor s), Fill] @
     (if truthy (cfg ''segmentShowStroke'')
      then [SetLineWidth (cfg ''segmentStrokeWidth''), SetStrokeStyle (cfg ''segmentStrokeColor''), Stroke] else [])"

definition pie_segment :: "cenv \<Rightarrow> config \<Rightarrow> number \<Rightarrow> segment \<Rightarrow> number \<Rightarrow> number \<Rightarrow> drawing" where
  "pie_segment ce cfg r s a b =
     (let cx = Num (cwidth ce / Fin 2); cy = Num (cheight ce / Fin 2)
      in [BeginPath, Arc [cx, cy, Num r, Num a, Num b], LineTo cx cy] @ paint_segment cfg s)"

definition pie_drawSegments :: "cenv \<Rightarrow> config \<Rightarrow> segment list \<Rightarrow> number \<Rightarrow> drawing" where
  "pie_drawSegments ce cfg data animationDecimal =
     (let (scaleAnimation, rotateAnimation) = anim_factors cfg animationDecimal
      in pie_segments (segment_angle rotateAnimation (segment_total data (num 0)))
           (pie_segment ce cfg (scaleAnimation * pie_radius ce)) data (Fin (- pi / 2)))"

definition Pie :: "cenv \<Rightarrow> segment list \<Rightarrow> config \<Rightarrow> (drawing list \<times> bool) result" where
  "Pie ce data cfg =
     animationLoop (cwidth ce) (cheight ce) cfg (Inr []) (\<lambda>v. Inr (pie_drawSegments ce cfg data v))"

definition doughnut_segment :: "cenv \<Rightarrow> config \<Rightarrow> number \<Rightarrow> number \<Rightarrow> segment \<Rightarrow> number \<Rightarrow> number \<Rightarrow> drawing" where
  "doughnut_segment ce cfg r cutout s a b =
     (let cx = Num (cwidth ce / Fin 2); cy = Num (cheight ce / Fin 2)
      in [BeginPath, Arc [cx, cy, Num r, Num a, Num b, Bool False], Arc [cx, cy, Num cutout, Num b, Num a, Bool True]] @
         paint_segment cfg s)"

definition doughnut_drawSegments :: "cenv \<Rightarrow> config \<Rightarrow> segment list \<Rightarrow> number \<Rightarrow> drawing" where
  "doughnut_drawSegments ce cfg data animationDecimal =
     (let (scaleAnimation, rotateAnimation) = anim_factors cfg animationDecimal;
          cutoutRadius = pie_radius ce * (opt_num cfg ''percentageInnerCutout'' / Fin 100)
      in pie_segments (segment_angle rotateAnimation (segment_total data (num 0)))
           (doughnut_segment ce cfg (scaleAnimation * pie_radius ce) (scaleAnimation * cutoutRadius)) data (Fin (- pi / 2)))"

definition Doughnut :: "cenv \<Rightarrow> segment list \<Rightarrow> config \<Rightarrow> (drawing list \<times> bool) result" where
  "Doughnut ce data cfg =
     animationLoop (cwidth ce) (cheight ce) cfg (Inr []) (\<lambda>v. Inr (doughnut_drawSegments ce cfg data v))"

section \<open>Theorems\<close>

subsection \<open>Configuration\<close>

lemma jget_assign_all:
  "distinct (map fst src) \<Longrightarrow> jget (assign_all ob src) k = (if k \<in> fst ` set src then jget src k else jget ob k)"
proof (induction src arbitrary: ob)
  case Nil
  then show ?case by simp
next
  case (Cons p src)
  then show ?case by (cases p) (auto simp: jget_jput)
qed

text \<open>
  A merged configuration takes an option from the user's object when it is there, even with the
  value \<open>undefined\<close>, and from the defaults otherwise; the defaults of every chart are complete, so
  without user options a chart reads them alone.
\<close>

lemma chart_config_precedence:
  assumes "distinct (map fst d)" "distinct (map fst u)"
  shows "chart_config d (Some u) k = (if k \<in> fst ` set u then jget u k else jget d k) \<and> chart_config d None k = jget d k"
  using assms by (simp add: chart_config_def mergeChartConfig_def jget_assign_all jget_notin)

subsection \<open>Segments\<close>

lemma pie_segments_map:
  assumes "\<And>k. k < length ss \<Longrightarrow> angle (ss ! k) = Fin (w k)"
  shows "pie_segments angle f ss (Fin a) =
    concat (map (\<lambda>k. f (ss ! k) (Fin (a + sum w {..<k})) (Fin (a + sum w {..<Suc k}))) [0..<length ss])"
  using assms
proof (induction ss arbitrary: a w)
  case Nil
  then show ?case by simp
next
  case (Cons s ss)
  have w0: "angle s = Fin (w 0)" using Cons.prems [of 0] by simp
  have IH: "pie_segments angle f ss (Fin (a + w 0)) =
    concat (map (\<lambda>k. f (ss ! k) (Fin (a + w 0 + (\<Sum>i<k. w (Suc i)))) (Fin (a + w 0 + (\<Sum>i<Suc k. w (Suc i))))) [0..<length ss])"
    using Cons.prems by (intro Cons.IH) (metis Suc_less_eq length_Cons nth_Cons_Suc)
  have "[0..<length (s # ss)] = 0 # map Suc [0..<length ss]" by (simp add: upt_conv_Cons map_Suc_upt del: upt_Suc)
  then show ?case
    unfolding pie_segments.simps w0 plus_number.simps IH
    by (simp add: sum.lessThan_Suc_shift comp_def add.assoc del: sum.lessThan_Suc upt_Suc)
qed

lemma segment_total_num: "map segValue ss = map num xs \<Longrightarrow> segment_total ss (num t) = num (t + sum_list xs)"
  by (induction ss arbitrary: xs t) (auto simp: add.assoc)

lemma sum_take: "k \<le> length xs \<Longrightarrow> (\<Sum>i<k. xs ! i) = sum_list (take k xs)" for xs :: "real list"
  by (induction k) (simp_all add: take_Suc_conv_app_nth)

text \<open>The start of segment \<open>k\<close> of the values \<open>xs\<close> when the fraction \<open>v\<close> of the circle is shown.\<close>

definition segment_start :: "real list \<Rightarrow> real \<Rightarrow> nat \<Rightarrow> real" where
  "segment_start xs v k = - pi / 2 + v * (2 * pi) * (sum_list (take k xs) / sum_list xs)"

lemma pie_segments_values:
  assumes "map segValue ss = map num xs" "sum_list xs \<noteq> 0"
  shows "pie_segments (segment_angle (Fin v) (segment_total ss (num 0))) f ss (Fin (- pi / 2)) =
    concat (map (\<lambda>k. f (ss ! k) (Fin (segment_start xs v k)) (Fin (segment_start xs v (Suc k)))) [0..<length ss])"
proof -
  have len: "length ss = length xs" using assms(1) by (metis length_map)
  have "segValue (ss ! k) = num (xs ! k)" if "k < length ss" for k
    using assms(1) that len by (metis nth_map)
  then have "pie_segments (segment_angle (Fin v) (segment_total ss (num 0))) f ss (Fin (- pi / 2)) =
    concat (map (\<lambda>k. f (ss ! k) (Fin (- pi / 2 + (\<Sum>i<k. v * (xs ! i / sum_list xs * (pi * 2)))))
      (Fin (- pi / 2 + (\<Sum>i<Suc k. v * (xs ! i / sum_list xs * (pi * 2)))))) [0..<length ss])"
    using assms(2) by (intro pie_segments_map) (simp add: segment_angle_def segment_total_num [OF assms(1)])
  moreover have "- pi / 2 + (\<Sum>i<k. v * (xs ! i / sum_list xs * (pi * 2))) = segment_start xs v k" if "k \<le> length xs" for k
  proof -
    have "(\<Sum>i<k. v * (xs ! i / sum_list xs * (pi * 2))) = (\<Sum>i<k. xs ! i) * (v * (pi * 2) / sum_list xs)"
      unfolding sum_distrib_right by (intro sum.cong) (simp_all add: field_simps)
    then show ?thesis using sum_take [OF that] by (simp add: segment_start_def field_simps)
  qed
  ultimately show ?thesis by (auto simp: len intro!: arg_cong [of _ _ concat] simp del: sum.lessThan_Suc)
qed

text \<open>
  C27. The segments of a pie or a doughnut whose values have a sum are consecutive: segment \<open>k\<close> goes from
  the sum of the values before it to the sum with its own, from the top of the circle, and together
  they turn through the fraction of the circle that the animation shows.
\<close>

theorem pie_segments_fill:
  assumes "map segValue ss = map num xs" "sum_list xs \<noteq> 0" "anim_factors cfg v = (Fin r, Fin t)"
  shows "pie_drawSegments ce cfg ss v =
      concat (map (\<lambda>k. pie_segment ce cfg (Fin r * pie_radius ce) (ss ! k) (Fin (segment_start xs t k)) (Fin (segment_start xs t (Suc k)))) [0..<length ss]) \<and>
    doughnut_drawSegments ce cfg ss v =
      concat (map (\<lambda>k. doughnut_segment ce cfg (Fin r * pie_radius ce) (Fin r * (pie_radius ce * (opt_num cfg ''percentageInnerCutout'' / Fin 100)))
        (ss ! k) (Fin (segment_start xs t k)) (Fin (segment_start xs t (Suc k)))) [0..<length ss]) \<and>
    segment_start xs t 0 = - pi / 2 \<and> segment_start xs t (length ss) = - pi / 2 + t * (2 * pi)"
proof -
  have "length ss = length xs" using assms(1) by (metis length_map)
  then show ?thesis
    unfolding pie_drawSegments_def doughnut_drawSegments_def assms(3) Let_def prod.case pie_segments_values [OF assms(1,2)]
    using assms(2) by (simp add: segment_start_def)
qed

definition demo_segments :: "segment list" where
  "demo_segments = [\<lparr>segValue = num 30, segColor = Str ''#F38630''\<rparr>, \<lparr>segValue = num 90, segColor = Str ''#69D2E7''\<rparr>]"

theorem pie_segments_fill_witness:
  "pie_drawSegments plain_cenv (chart_config Pie_defaults None) demo_segments (Fin 1) =
     concat (map (\<lambda>k. pie_segment plain_cenv (chart_config Pie_defaults None) (Fin 1 * pie_radius plain_cenv) (demo_segments ! k)
       (Fin (segment_start [30, 90] 1 k)) (Fin (segment_start [30, 90] 1 (Suc k)))) [0..<2]) \<and>
   segment_start [30, 90] 1 1 = 0"
proof -
  have "map segValue demo_segments = map num [30, 90]" "sum_list [30, 90 :: real] \<noteq> 0" "length demo_segments = 2"
    "anim_factors (chart_config Pie_defaults None) (Fin 1) = (Fin 1, Fin 1)"
    by (simp_all add: demo_segments_def anim_factors_def chart_config_def Pie_defaults_def)
  moreover have "segment_start [30, 90] 1 1 = 0" by (simp add: segment_start_def)
  ultimately show ?thesis
    using pie_segments_fill [of demo_segments "[30, 90]" "chart_config Pie_defaults None" "Fin 1" 1 1 plain_cenv] by metis
qed

subsection \<open>Radar\<close>

text \<open>How far a drawing turns the context.\<close>

fun turn_of :: "ctxop \<Rightarrow> real" where
  "turn_of (Rotate (Num (Fin x))) = x"
| "turn_of op = 0"

definition turned :: "drawing \<Rightarrow> real" where
  "turned ops = sum_list (map turn_of ops)"

lemma turned_simps [simp]: "turned [] = 0" "turned (op # ops) = turn_of op + turned ops" "turned (xs @ ys) = turned xs + turned ys"
  by (simp_all add: turned_def)

lemma turned_concat: "(\<And>x. x \<in> set xs \<Longrightarrow> turned (f x) = c) \<Longrightarrow> turned (concat (map f xs)) = real (length xs) * c"
  by (induction xs) (auto simp: algebra_simps)

text \<open>
  C28. The points of a radar chart: drawing a data set with as many values as the first one turns the
  context through whole circles, one for the outline and one more for the dots, so that every data
  set starts on the first axis.
\<close>

theorem radar_dataset_turns:
  assumes "length (dsData ds) = n" "0 < n"
  shows "turned (radar_dataset cfg sc hop (Fin (2 * pi / real n)) v ds) = (if truthy (cfg ''pointDot'') then 2 else 1) * (2 * pi)"
proof -
  let ?r = "2 * pi / real n"
  have "turned (concat (map (\<lambda>j. [Rotate (num ?r), LineTo (num 0) (radar_y sc hop v ds j)]) [1..<n])) = real (n - 1) * ?r"
    by (subst turned_concat [of _ _ ?r]) simp_all
  moreover have "turned (concat (map (\<lambda>k. radar_dot cfg (Fin ?r) (radar_y sc hop v ds k)) [0..<n])) = real n * ?r"
    by (subst turned_concat [of _ _ ?r]) (simp_all add: radar_dot_def)
  moreover have "real (n - 1) * ?r + ?r = 2 * pi" "real n * ?r = 2 * pi"
    using assms(2) by (simp_all add: field_simps of_nat_diff)
  ultimately show ?thesis using assms by (simp add: radar_dataset_def Let_def)
qed

theorem radar_dataset_turns_witness:
  "turned (radar_dataset (chart_config Radar_defaults None) \<lparr>steps = num 5, stepValue = num 2, graphMin = num 1, labels = []\<rparr> (Fin 10)
     (Fin (2 * pi / real 3)) (Fin 1) \<lparr>dsData = [num 1, num 5, num 9], dsFillColor = Null, dsStrokeColor = Null, dsPointColor = Null, dsPointStrokeColor = Null\<rparr>) =
   2 * (2 * pi)"
  by (subst radar_dataset_turns [of _ 3]) (simp_all add: chart_config_def Radar_defaults_def)

subsection \<open>The state of the context\<close>

lemma animationLoop_frames:
  assumes "animationLoop W H cfg s d = Inr (fs, b)" "f \<in> set fs" "\<And>x. s = Inr x \<Longrightarrow> balanced x" "\<And>v x. d v = Inr x \<Longrightarrow> balanced x"
  shows "balanced f"
proof -
  have "\<exists>p. animateFrame W H cfg s d p = Inr f" if "frames (animateFrame W H cfg s d) ps = Inr fs" for ps
    using that assms(2) by (induction ps arbitrary: fs) auto
  then obtain p where "animateFrame W H cfg s d p = Inr f"
    using assms(1) by (auto simp: animationLoop_def)
  then show ?thesis
    using assms(3,4) by (fastforce simp: animateFrame_def clear_def split: if_splits intro!: balanced_append)
qed

lemma balanced_segments:
  "(\<And>s a b. balanced (f s a b)) \<Longrightarrow> balanced (pie_segments ang f ss x)"
  "(\<And>s a b. balanced (f s a b)) \<Longrightarrow> balanced (polar_segments f w ss x)"
  by (induction ss arbitrary: x) auto

lemma balanced_map: "(\<And>x. balanced (f x)) \<Longrightarrow> balanced (concat (map f xs))"
  by (rule balanced_concat) auto

lemma balanced_Save_Translate: "balanced ops \<Longrightarrow> balanced (Save # Translate x y # ops @ [Restore])"
  using balanced_Save_Restore [of "Translate x y # ops"] by simp

lemma balanced_radar_parts:
  "balanced (radar_dataset cfg sc hop r v ds)" "balanced (radar_drawStep ce cfg sc hop r n i)" "balanced (radar_label cfg m r k l)"
  by (auto simp: radar_dataset_def radar_dot_def radar_drawStep_def radar_label_def backdrop_def Let_def intro!: balanced_append balanced_map)

lemma radar_balanced:
  assumes "radar_drawAllDataPoints ce cfg sc hop data v = Inr y"
  shows "balanced y"
  using assms by (auto simp: radar_drawAllDataPoints_def intro!: balanced_Save_Translate balanced_map balanced_radar_parts)

lemma radar_scale_balanced:
  assumes "radar_drawScale ce cfg sc m hop data ls = Inr x"
  shows "balanced x"
proof -
  obtain r n js where x: "x = Save # Translate (Num (cwidth ce / Fin 2)) (Num (cheight ce / Fin 2)) #
      ((if truthy (cfg ''angleShowLineOut'')
        then [SetStrokeStyle (cfg ''angleLineColor''), SetLineWidth (cfg ''angleLineWidth'')] @
             concat (map (\<lambda>h. [Rotate (Num r), BeginPath, MoveTo (num 0) (num 0), LineTo (num 0) (Num (- m)), Stroke]) [0..<n])
        else []) @
       concat (map (radar_drawStep ce cfg sc hop r n) js) @
       concat (map (\<lambda>(k, l). radar_label cfg m r k l) (List.enumerate 0 ls))) @ [Restore]"
    using assms by (auto simp: radar_drawScale_def)
  show ?thesis unfolding x
    by (intro balanced_Save_Translate balanced_append balanced_map balanced_radar_parts) (auto intro!: balanced_map balanced_radar_parts)
qed

text \<open>
  C29. The round charts leave the state stack of the drawing context as they found it, in every frame:
  each save has its restore.
\<close>

theorem round_charts_balanced:
  "(PolarArea ce segs cfg = Inr (fs, b) \<or> Pie ce segs cfg = Inr (fs, b) \<or> Doughnut ce segs cfg = Inr (fs, b) \<or> Radar ce data cfg = Inr (fs, b)) \<Longrightarrow>
   f \<in> set fs \<Longrightarrow> balanced f"
proof (elim disjE)
  assume f: "f \<in> set fs"
  show "balanced f" if "PolarArea ce segs cfg = Inr (fs, b)"
    using that f unfolding PolarArea_def Let_def
    by (auto split: prod.splits elim!: animationLoop_frames intro!: balanced_segments balanced_map balanced_append
        simp: polar_drawScale_def polar_drawStep_def backdrop_def polar_drawAllSegments_def polar_segment_def Let_def)
  show "balanced f" if "Pie ce segs cfg = Inr (fs, b)"
    using that f unfolding Pie_def pie_drawSegments_def Let_def
    by (auto split: prod.splits elim!: animationLoop_frames intro!: balanced_segments simp: pie_segment_def paint_segment_def Let_def)
  show "balanced f" if "Doughnut ce segs cfg = Inr (fs, b)"
    using that f unfolding Doughnut_def doughnut_drawSegments_def Let_def
    by (auto split: prod.splits elim!: animationLoop_frames intro!: balanced_segments simp: doughnut_segment_def paint_segment_def Let_def)
  show "balanced f" if "Radar ce data cfg = Inr (fs, b)"
    using that f unfolding Radar_def Let_def
    by (auto split: prod.splits elim!: animationLoop_frames intro: radar_balanced radar_scale_balanced)
qed

definition still_config :: config where
  "still_config = chart_config Pie_defaults (Some [(''animation'', Bool False)])"

theorem round_charts_balanced_witness:
  "balanced (clear (Fin 400) (Fin 300) @ pie_drawSegments plain_cenv still_config demo_segments (Fin 1))"
proof -
  have c: "\<not> truthy (still_config ''animation'')" "still_config ''scaleOverlay'' = Undef" "still_config ''onAnimationComplete'' = Null"
    by (simp_all add: still_config_def chart_config_def mergeChartConfig_def Pie_defaults_def)
  have "anim_percents (Fin 1) (Fin 1) = Inr [Fin 2]" by (simp add: anim_percents.simps)
  then have "Pie plain_cenv demo_segments still_config =
      Inr ([clear (Fin 400) (Fin 300) @ pie_drawSegments plain_cenv still_config demo_segments (Fin 1)], False)"
    by (simp add: Pie_def animationLoop_def animFrameAmount_def animateFrame_def frame_value_def c) (simp add: plain_cenv_def)
  then show ?thesis
    using round_charts_balanced [of plain_cenv demo_segments still_config _ False] by (metis list.set_intros(1))
qed

end
