(* ===== verification/ChartAxes.thy ===== *)
theory ChartAxes
  imports ChartRound
begin

text \<open>
  The charts with axes of \<open>static/chart-master/Chart.js\<close>: \<open>Line\<close> and \<open>Bar\<close> (lines 278 to 351 and 789
  to 1221). The two share the code that measures the labels and draws the axes; where the source has
  it twice, the model has one definition and says so.
\<close>

section \<open>Definitions\<close>

definition Line_defaults :: "(string \<times> jsval) list" where
  "Line_defaults =
    [(''scaleOverlay'', Bool False), (''scaleOverride'', Bool False), (''scaleSteps'', Null), (''scaleStepWidth'', Null),
     (''scaleStartValue'', Null), (''scaleLineColor'', Str ''rgba(0,0,0,.1)''), (''scaleLineWidth'', num 1),
     (''scaleShowLabels'', Bool True), (''scaleLabel'', Str ''<%=value%>''),
     (''scaleFontFamily'', Str [CHR 0x27, CHR ''A'', CHR ''r'', CHR ''i'', CHR ''a'', CHR ''l'', CHR 0x27]),
     (''scaleFontSize'', num 12), (''scaleFontStyle'', Str ''normal''), (''scaleFontColor'', Str ''#666''),
     (''scaleShowGridLines'', Bool True), (''scaleGridLineColor'', Str ''rgba(0,0,0,.05)''), (''scaleGridLineWidth'', num 1),
     (''bezierCurve'', Bool True), (''pointDot'', Bool True), (''pointDotRadius'', num 4), (''pointDotStrokeWidth'', num 2),
     (''datasetStroke'', Bool True), (''datasetStrokeWidth'', num 2), (''datasetFill'', Bool True), (''animation'', Bool True),
     (''animationSteps'', num 60), (''animationEasing'', Str ''easeOutQuart''), (''onAnimationComplete'', Null)]"

definition Bar_defaults :: "(string \<times> jsval) list" where
  "Bar_defaults =
    [(''scaleOverlay'', Bool False), (''scaleOverride'', Bool False), (''scaleSteps'', Null), (''scaleStepWidth'', Null),
     (''scaleStartValue'', Null), (''scaleLineColor'', Str ''rgba(0,0,0,.1)''), (''scaleLineWidth'', num 1),
     (''scaleShowLabels'', Bool True), (''scaleLabel'', Str ''<%=value%>''),
     (''scaleFontFamily'', Str [CHR 0x27, CHR ''A'', CHR ''r'', CHR ''i'', CHR ''a'', CHR ''l'', CHR 0x27]),
     (''scaleFontSize'', num 12), (''scaleFontStyle'', Str ''normal''), (''scaleFontColor'', Str ''#666''),
     (''scaleShowGridLines'', Bool True), (''scaleGridLineColor'', Str ''rgba(0,0,0,.05)''), (''scaleGridLineWidth'', num 1),
     (''barShowStroke'', Bool True), (''barStrokeWidth'', num 2), (''barValueSpacing'', num 5), (''barDatasetSpacing'', num 1),
     (''animation'', Bool True), (''animationSteps'', num 60), (''animationEasing'', Str ''easeOutQuart''),
     (''onAnimationComplete'', Null)]"

subsection \<open>Layout\<close>

text \<open>
  What \<open>calculateDrawingSizes\<close> finds: the widest label of the x axis, the rotation of the labels and the
  height of the scale. The source passes the rotation, in degrees, to the cosine and the sine.
\<close>

record sizes =
  widestXLabel :: number
  rotateLabels :: real
  scaleHeight :: number

definition axis_sizes :: "cenv \<Rightarrow> config \<Rightarrow> jsval list \<Rightarrow> sizes" where
  "axis_sizes ce cfg ls =
     (let wx = widest (measureText ce (scale_font cfg)) ls (Fin 1);
          cell = cwidth ce / Fin (of_nat (length ls));
          (rot, used) =
            (if cell < wx then
               (if cell < Math_cos (Fin 45) * wx then (90, wx) else (45, Math_sin (Fin 45) * wx))
             else (0, opt_num cfg ''scaleFontSize''))
      in \<lparr>widestXLabel = wx, rotateLabels = rot,
          scaleHeight = cheight ce - used - Fin 5 - opt_num cfg ''scaleFontSize''\<rparr>)"

text \<open>\<open>Bar\<close> has the same code as \<open>Line\<close>.\<close>

definition bar_sizes :: "cenv \<Rightarrow> config \<Rightarrow> jsval list \<Rightarrow> sizes" where
  "bar_sizes = axis_sizes"

text \<open>What \<open>calculateXAxisSize\<close> adds: the axis, the distance of two values and the origin.\<close>

record axes = sizes +
  ascale :: scale
  ascaleHop :: number
  xAxisLength :: number
  valueHop :: number
  yAxisPosX :: number
  xAxisPosY :: number
  barWidth :: number

definition longest_text :: "cenv \<Rightarrow> config \<Rightarrow> scale \<Rightarrow> number" where
  "longest_text ce cfg sc =
     (if truthy (cfg ''scaleShowLabels'')
      then widest (measureText ce (scale_font cfg)) (map Str (labels sc)) (Fin 1) + Fin 10 else Fin 1)"

text \<open>\<open>cells\<close> is the number of distances between values: one less than the labels in a line chart, the labels in a bar chart.\<close>

definition axis_layout :: "cenv \<Rightarrow> config \<Rightarrow> sizes \<Rightarrow> scale \<Rightarrow> number \<Rightarrow> axes" where
  "axis_layout ce cfg sz sc cells =
     (let len = cwidth ce - longest_text ce cfg sc - widestXLabel sz
      in \<lparr>widestXLabel = widestXLabel sz, rotateLabels = rotateLabels sz, scaleHeight = scaleHeight sz, ascale = sc,
          ascaleHop = Math_floor (scaleHeight sz / to_number (steps sc)), xAxisLength = len,
          valueHop = Math_floor (len / cells), yAxisPosX = cwidth ce - widestXLabel sz / Fin 2 - len,
          xAxisPosY = scaleHeight sz + opt_num cfg ''scaleFontSize'' / Fin 2, barWidth = Fin 0\<rparr>)"

definition line_layout :: "cenv \<Rightarrow> config \<Rightarrow> sizes \<Rightarrow> scale \<Rightarrow> jsval list \<Rightarrow> axes" where
  "line_layout ce cfg sz sc ls = axis_layout ce cfg sz sc (Fin (of_nat (length ls)) - Fin 1)"

definition bar_width :: "config \<Rightarrow> number \<Rightarrow> nat \<Rightarrow> number" where
  "bar_width cfg hop m =
     (let n = Fin (of_nat m)
      in (hop - opt_num cfg ''scaleGridLineWidth'' * Fin 2 - opt_num cfg ''barValueSpacing'' * Fin 2 -
          (opt_num cfg ''barDatasetSpacing'' * n - Fin 1) - (opt_num cfg ''barStrokeWidth'' / Fin 2 * n - Fin 1)) / n)"

definition bar_layout :: "cenv \<Rightarrow> config \<Rightarrow> sizes \<Rightarrow> scale \<Rightarrow> jsval list \<Rightarrow> nat \<Rightarrow> axes" where
  "bar_layout ce cfg sz sc ls m =
     (let ax = axis_layout ce cfg sz sc (Fin (of_nat (length ls))) in ax\<lparr>barWidth := bar_width cfg (valueHop ax) m\<rparr>)"

subsection \<open>Axes\<close>

definition x_axis_line :: "cenv \<Rightarrow> config \<Rightarrow> axes \<Rightarrow> drawing" where
  "x_axis_line ce cfg ax =
     [SetLineWidth (cfg ''scaleLineWidth''), SetStrokeStyle (cfg ''scaleLineColor''), BeginPath,
      MoveTo (Num (cwidth ce - widestXLabel ax / Fin 2 + Fin 5)) (Num (xAxisPosY ax)),
      LineTo (Num (cwidth ce - widestXLabel ax / Fin 2 - xAxisLength ax - Fin 5)) (Num (xAxisPosY ax)), Stroke]"

text \<open>The alignment of the labels; the context is saved when they are rotated.\<close>

definition label_setup :: "config \<Rightarrow> axes \<Rightarrow> drawing" where
  "label_setup cfg ax =
     (if 0 < rotateLabels ax then [Save, SetTextAlign (Str ''right'')] else [SetTextAlign (Str ''center'')]) @
     [SetFillStyle (cfg ''scaleFontColor'')]"

text \<open>
  The label at \<open>i\<close>: the context is saved for every label and restored for rotated ones only. \<open>shift\<close> is the
  distance from the value's position, half a cell in a bar chart.
\<close>

definition x_label :: "config \<Rightarrow> axes \<Rightarrow> number \<Rightarrow> nat \<Rightarrow> jsval \<Rightarrow> drawing" where
  "x_label cfg ax shift i label =
     (let x = yAxisPosX ax + Fin (of_nat i) * valueHop ax; y = jadd (Num (xAxisPosY ax)) (cfg ''scaleFontSize'')
      in [Save] @
         (if 0 < rotateLabels ax
          then [Translate (Num x) y, Rotate (num (- (rotateLabels ax * (pi / 180)))), FillText label (num 0) (num 0), Restore]
          else [FillText label (Num (x + shift)) (jadd y (num 3))]))"

definition line_tick :: "config \<Rightarrow> axes \<Rightarrow> nat \<Rightarrow> drawing" where
  "line_tick cfg ax i =
     (let x = Num (yAxisPosX ax + Fin (of_nat i) * valueHop ax); y = Num (xAxisPosY ax + Fin 3)
      in [BeginPath, MoveTo x y] @
         (if truthy (cfg ''scaleShowGridLines'') \<and> 0 < i
          then [SetLineWidth (cfg ''scaleGridLineWidth''), SetStrokeStyle (cfg ''scaleGridLineColor''), LineTo x (num 5)]
          else [LineTo x y]) @ [Stroke])"

definition bar_tick :: "config \<Rightarrow> axes \<Rightarrow> nat \<Rightarrow> drawing" where
  "bar_tick cfg ax i =
     (let x = Num (yAxisPosX ax + Fin (of_nat (i + 1)) * valueHop ax)
      in [BeginPath, MoveTo x (Num (xAxisPosY ax + Fin 3)), SetLineWidth (cfg ''scaleGridLineWidth''),
          SetStrokeStyle (cfg ''scaleGridLineColor''), LineTo x (num 5), Stroke])"

definition y_axis_line :: "config \<Rightarrow> axes \<Rightarrow> drawing" where
  "y_axis_line cfg ax =
     [SetLineWidth (cfg ''scaleLineWidth''), SetStrokeStyle (cfg ''scaleLineColor''), BeginPath,
      MoveTo (Num (yAxisPosX ax)) (Num (xAxisPosY ax + Fin 5)), LineTo (Num (yAxisPosX ax)) (num 5), Stroke,
      SetTextAlign (Str ''right''), SetTextBaseline (Str ''middle'')]"

definition y_step :: "config \<Rightarrow> axes \<Rightarrow> nat \<Rightarrow> drawing" where
  "y_step cfg ax j =
     (let x = yAxisPosX ax; y = Num (xAxisPosY ax - Fin (of_nat (j + 1)) * ascaleHop ax)
      in [BeginPath, MoveTo (Num (x - Fin 3)) y] @
         (if truthy (cfg ''scaleShowGridLines'')
          then [SetLineWidth (cfg ''scaleGridLineWidth''), SetStrokeStyle (cfg ''scaleGridLineColor''),
                LineTo (Num (x + xAxisLength ax + Fin 5)) y]
          else [LineTo (Num (x - Fin (5 / 10))) y]) @ [Stroke] @
         (if truthy (cfg ''scaleShowLabels'') then [FillText (step_label (ascale ax) j) (Num (x - Fin 8)) y] else []))"

definition axes_drawScale :: "cenv \<Rightarrow> config \<Rightarrow> axes \<Rightarrow> (nat \<Rightarrow> jsval \<Rightarrow> drawing) \<Rightarrow> jsval list \<Rightarrow> drawing result" where
  "axes_drawScale ce cfg ax lab ls =
     rbind (step_indices (steps (ascale ax))) (\<lambda>js.
       Inr (x_axis_line ce cfg ax @ label_setup cfg ax @ concat (map (\<lambda>(i, l). lab i l) (List.enumerate 0 ls)) @
            y_axis_line cfg ax @ concat (map (y_step cfg ax) js)))"

definition line_drawScale :: "cenv \<Rightarrow> config \<Rightarrow> axes \<Rightarrow> jsval list \<Rightarrow> drawing result" where
  "line_drawScale ce cfg ax = axes_drawScale ce cfg ax (\<lambda>i l. x_label cfg ax (Fin 0) i l @ line_tick cfg ax i)"

definition bar_drawScale :: "cenv \<Rightarrow> config \<Rightarrow> axes \<Rightarrow> jsval list \<Rightarrow> drawing result" where
  "bar_drawScale ce cfg ax = axes_drawScale ce cfg ax (\<lambda>i l. x_label cfg ax (valueHop ax / Fin 2) i l @ bar_tick cfg ax i)"

subsection \<open>Line\<close>

definition xPos :: "axes \<Rightarrow> real \<Rightarrow> number" where
  "xPos ax iteration = yAxisPosX ax + valueHop ax * Fin iteration"

definition yPos :: "axes \<Rightarrow> number \<Rightarrow> dataset \<Rightarrow> nat \<Rightarrow> number" where
  "yPos ax animPc ds iteration =
     xAxisPosY ax - animPc * calculateOffset (jnth (dsData ds) iteration) (ascale ax) (ascaleHop ax)"

definition line_segment :: "config \<Rightarrow> axes \<Rightarrow> number \<Rightarrow> dataset \<Rightarrow> nat \<Rightarrow> ctxop" where
  "line_segment cfg ax animPc ds j =
     (let mx = Num (xPos ax (of_nat j - 1 / 2)); x = Num (xPos ax (of_nat j)); y = Num (yPos ax animPc ds j)
      in if truthy (cfg ''bezierCurve'') then BezierCurveTo mx (Num (yPos ax animPc ds (j - 1))) mx y x y else LineTo x y)"

definition line_dataset :: "config \<Rightarrow> axes \<Rightarrow> number \<Rightarrow> dataset \<Rightarrow> drawing" where
  "line_dataset cfg ax animPc ds =
     (let n = length (dsData ds); x0 = Num (yAxisPosX ax); y0 = Num (xAxisPosY ax)
      in [SetStrokeStyle (dsStrokeColor ds), SetLineWidth (cfg ''datasetStrokeWidth''), BeginPath,
          MoveTo x0 (Num (yPos ax animPc ds 0))] @
         map (line_segment cfg ax animPc ds) [1..<n] @ [Stroke] @
         (if truthy (cfg ''datasetFill'')
          then [LineTo (Num (yAxisPosX ax + valueHop ax * (Fin (of_nat n) - Fin 1))) y0, LineTo x0 y0, ClosePath,
                SetFillStyle (dsFillColor ds), Fill]
          else [ClosePath]) @
         (if truthy (cfg ''pointDot'')
          then [SetFillStyle (dsPointColor ds), SetStrokeStyle (dsPointStrokeColor ds), SetLineWidth (cfg ''pointDotStrokeWidth'')] @
               concat (map (\<lambda>k. [BeginPath,
                  Arc [Num (xPos ax (of_nat k)), Num (yPos ax animPc ds k), cfg ''pointDotRadius'', num 0, num (pi * 2), Bool True],
                  Fill, Stroke]) [0..<n])
          else []))"

definition drawLines :: "config \<Rightarrow> axes \<Rightarrow> cdata \<Rightarrow> number \<Rightarrow> drawing" where
  "drawLines cfg ax data animPc = concat (map (line_dataset cfg ax animPc) (datasets data))"

text \<open>The scale of a chart with axes; the empty text stands for no labels.\<close>

definition axes_scale :: "cenv \<Rightarrow> config \<Rightarrow> cdata \<Rightarrow> sizes \<Rightarrow> scale result" where
  "axes_scale ce cfg data sz =
     chart_scale ce cfg (Str []) (concat (map dsData (datasets data))) (scaleHeight sz) (cfg ''scaleFontSize'')"

definition Line :: "cenv \<Rightarrow> cdata \<Rightarrow> config \<Rightarrow> (drawing list \<times> bool) result" where
  "Line ce data cfg =
     (case dataLabels data of
        None \<Rightarrow> Inl (TypeError ''data.labels is undefined'')
      | Some ls \<Rightarrow>
          (let sz = axis_sizes ce cfg ls
           in rbind (axes_scale ce cfg data sz) (\<lambda>sc.
                (let ax = line_layout ce cfg sz sc ls
                 in animationLoop (cwidth ce) (cheight ce) cfg (line_drawScale ce cfg ax ls) (\<lambda>v. Inr (drawLines cfg ax data v))))))"

subsection \<open>Bar\<close>

definition bar_offset :: "config \<Rightarrow> axes \<Rightarrow> nat \<Rightarrow> nat \<Rightarrow> jsval" where
  "bar_offset cfg ax i j =
     (let n = Fin (of_nat i)
      in jadd (jadd (jadd (jadd (jadd (Num (yAxisPosX ax)) (cfg ''barValueSpacing'')) (Num (valueHop ax * Fin (of_nat j))))
           (Num (barWidth ax * n))) (Num (opt_num cfg ''barDatasetSpacing'' * n))) (Num (opt_num cfg ''barStrokeWidth'' * n)))"

definition bar_top :: "config \<Rightarrow> axes \<Rightarrow> number \<Rightarrow> dataset \<Rightarrow> nat \<Rightarrow> number" where
  "bar_top cfg ax animPc ds j = yPos ax animPc ds j + opt_num cfg ''barStrokeWidth'' / Fin 2"

definition bar_one :: "config \<Rightarrow> axes \<Rightarrow> number \<Rightarrow> nat \<Rightarrow> dataset \<Rightarrow> nat \<Rightarrow> drawing" where
  "bar_one cfg ax animPc i ds j =
     (let x = bar_offset cfg ax i j; x' = jadd x (Num (barWidth ax)); y0 = Num (xAxisPosY ax); y = Num (bar_top cfg ax animPc ds j)
      in [BeginPath, MoveTo x y0, LineTo x y, LineTo x' y, LineTo x' y0] @
         (if truthy (cfg ''barShowStroke'') then [Stroke] else []) @ [ClosePath, Fill])"

definition drawBars :: "config \<Rightarrow> axes \<Rightarrow> cdata \<Rightarrow> number \<Rightarrow> drawing" where
  "drawBars cfg ax data animPc =
     [SetLineWidth (cfg ''barStrokeWidth'')] @
     concat (map (\<lambda>(i, ds). [SetFillStyle (dsFillColor ds), SetStrokeStyle (dsStrokeColor ds)] @
       concat (map (bar_one cfg ax animPc i ds) [0..<length (dsData ds)])) (List.enumerate 0 (datasets data)))"

definition Bar :: "cenv \<Rightarrow> cdata \<Rightarrow> config \<Rightarrow> (drawing list \<times> bool) result" where
  "Bar ce data cfg =
     (case dataLabels data of
        None \<Rightarrow> Inl (TypeError ''data.labels is undefined'')
      | Some ls \<Rightarrow>
          (let sz = bar_sizes ce cfg ls
           in rbind (axes_scale ce cfg data sz) (\<lambda>sc.
                (let ax = bar_layout ce cfg sz sc ls (length (datasets data))
                 in animationLoop (cwidth ce) (cheight ce) cfg (bar_drawScale ce cfg ax ls) (\<lambda>v. Inr (drawBars cfg ax data v))))))"

section \<open>Theorems\<close>

text \<open>
  C30. The points of a line chart lie in the plotting area: on a scale of height \<open>H\<close> below half a line of
  text, whatever the value, the point of a frame that shows the fraction \<open>v\<close> of the chart is neither
  above the area nor below the axis, and a greater value is not drawn lower.
\<close>

theorem line_points_inside:
  assumes "scaleHeight sz = Fin H" "0 \<le> H" "steps sc = num (of_nat n)" "0 < n" "stepValue sc = num s" "0 < s" "graphMin sc = num g"
    and "opt_num cfg ''scaleFontSize'' = Fin f" "0 \<le> v" "v \<le> 1"
    and "jnth (dsData ds) i = num x" "jnth (dsData ds) j = num y" "x \<le> y"
  shows "\<exists>p q. yPos (line_layout ce cfg sz sc ls) (Fin v) ds i = Fin p \<and> yPos (line_layout ce cfg sz sc ls) (Fin v) ds j = Fin q \<and>
    f / 2 \<le> q \<and> q \<le> p \<and> p \<le> H + f / 2"
proof -
  define h where "h = real_of_int \<lfloor>H / real n\<rfloor>"
  have h: "0 \<le> h" "h * real n \<le> H"
  proof -
    show "0 \<le> h" using assms(2,4) by (simp add: h_def)
    have "h \<le> H / real n" by (simp add: h_def)
    then show "h * real n \<le> H" using assms(4) by (simp add: field_simps)
  qed
  let ?o = "\<lambda>x. h * real n * scale_fraction g (real n * s) x"
  have off: "calculateOffset (num x) sc (Fin h) = Fin (?o x)" for x
    using calculateOffset_value [OF assms(3,5,7)] assms(4,6) by simp
  have hn: "0 \<le> h * real n" using h by simp
  have pq: "0 \<le> ?o x" "?o x \<le> ?o y" "?o y \<le> h * real n"
    using scale_fraction_mono [of "real n * s" x y g] mult_left_mono [OF scale_fraction_bounds(2) hn] mult_nonneg_nonneg [OF hn scale_fraction_bounds(1)]
      mult_left_mono [OF _ hn] assms(4,6,13) by auto
  have y: "yPos (line_layout ce cfg sz sc ls) (Fin v) ds k = Fin (H + f / 2 - v * ?o z)" if "jnth (dsData ds) k = num z" for k z
    using that off [of z] assms(1,3,4,8) by (simp add: yPos_def line_layout_def axis_layout_def Let_def h_def)
  have "v * ?o x \<le> v * ?o y" "v * ?o y \<le> ?o y" "0 \<le> v * ?o x" using assms(9,10) pq by (auto intro: mult_left_mono mult_left_le_one_le)
  then show ?thesis unfolding y [OF assms(11)] y [OF assms(12)] using pq h by simp
qed

definition demo_scale :: scale where
  "demo_scale = \<lparr>steps = num 5, stepValue = num 2, graphMin = num 0, labels = [''2'', ''4'', ''6'', ''8'', ''10'']\<rparr>"

definition demo_sizes :: sizes where
  "demo_sizes = \<lparr>widestXLabel = Fin 20, rotateLabels = 0, scaleHeight = Fin 271\<rparr>"

definition demo_dataset :: dataset where
  "demo_dataset = \<lparr>dsData = [num 3, num 9, num 40], dsFillColor = Null, dsStrokeColor = Null, dsPointColor = Null, dsPointStrokeColor = Null\<rparr>"

theorem line_points_inside_witness:
  "\<exists>p q. yPos (line_layout plain_cenv (jget Line_defaults) demo_sizes demo_scale [Str ''a'', Str ''b'']) (Fin 1) demo_dataset 0 = Fin p \<and>
    yPos (line_layout plain_cenv (jget Line_defaults) demo_sizes demo_scale [Str ''a'', Str ''b'']) (Fin 1) demo_dataset 2 = Fin q \<and>
    6 \<le> q \<and> q \<le> p \<and> p \<le> 277"
  using line_points_inside [of demo_sizes 271 demo_scale 5 2 0 "jget Line_defaults" 12 1 demo_dataset 0 3 2 40]
  by (simp add: demo_sizes_def demo_scale_def demo_dataset_def opt_num_def Line_defaults_def eval_nat_numeral)

subsection \<open>The state of the context\<close>

lemma ctx_depth_concat:
  "(\<And>x d. x \<in> set xs \<Longrightarrow> ctx_depth d (f x) = d + k) \<Longrightarrow> ctx_depth d (concat (map f xs)) = d + length xs * k"
  by (induction xs arbitrary: d) (simp_all add: add.assoc)

lemma axes_drawScale_depth:
  assumes "axes_drawScale ce cfg ax lab ls = Inr ops" "\<And>i l d. ctx_depth d (lab i l) = d + (if 0 < rotateLabels ax then 0 else 1)"
  shows "ctx_depth d ops = d + (if 0 < rotateLabels ax then 1 else length ls)"
proof -
  let ?k = "if 0 < rotateLabels ax then 0 else 1 :: nat"
  obtain js where ops: "ops = x_axis_line ce cfg ax @ label_setup cfg ax @ concat (map (\<lambda>(i, l). lab i l) (List.enumerate 0 ls)) @
      y_axis_line cfg ax @ concat (map (y_step cfg ax) js)"
    using assms(1) by (auto simp: axes_drawScale_def)
  have labs: "ctx_depth e (concat (map (\<lambda>(i, l). lab i l) (List.enumerate 0 ls))) = e + length ls * ?k" for e
    using ctx_depth_concat [of "List.enumerate 0 ls" "\<lambda>(i, l). lab i l" ?k e] assms(2) by (auto split: prod.splits)
  have "ctx_depth e (concat (map (y_step cfg ax) js)) = e" for e
    using ctx_depth_concat [of js "y_step cfg ax" 0 e] by (simp add: y_step_def Let_def)
  then show ?thesis
    unfolding ops ctx_depth_append labs by (simp add: x_axis_line_def label_setup_def y_axis_line_def)
qed

text \<open>
  C31. The axes of a line or bar chart leave states on the context's stack in every frame: one for each
  label when the labels are not rotated (their restore is in the other branch), one in all when they are.
\<close>

theorem axes_context_leak:
  "(line_drawScale ce cfg ax ls = Inr ops \<or> bar_drawScale ce cfg ax ls = Inr ops) \<Longrightarrow>
   ctx_depth d ops = d + (if 0 < rotateLabels ax then 1 else length ls)"
  unfolding line_drawScale_def bar_drawScale_def
  by (elim disjE; erule axes_drawScale_depth) (simp_all add: x_label_def line_tick_def bar_tick_def Let_def)

theorem axes_context_leak_witness:
  "case line_drawScale plain_cenv (jget Line_defaults) (line_layout plain_cenv (jget Line_defaults) demo_sizes demo_scale [Str ''a'', Str ''b'']) [Str ''a'', Str ''b''] of
     Inl e \<Rightarrow> False | Inr ops \<Rightarrow> ctx_depth 0 ops = 2"
proof -
  let ?ax = "line_layout plain_cenv (jget Line_defaults) demo_sizes demo_scale [Str ''a'', Str ''b'']"
  have "\<exists>ops. line_drawScale plain_cenv (jget Line_defaults) ?ax [Str ''a'', Str ''b''] = Inr ops"
    by (simp add: line_drawScale_def axes_drawScale_def line_layout_def axis_layout_def demo_scale_def Let_def)
  then obtain ops where "line_drawScale plain_cenv (jget Line_defaults) ?ax [Str ''a'', Str ''b''] = Inr ops" ..
  moreover have "\<not> 0 < rotateLabels ?ax" by (simp add: line_layout_def axis_layout_def demo_sizes_def Let_def)
  ultimately show ?thesis
    using axes_context_leak [of plain_cenv "jget Line_defaults" ?ax "[Str ''a'', Str ''b'']" ops 0] by simp
qed

subsection \<open>Bars\<close>



end
