(* ===== verification/HomeCharts.thy ===== *)
theory HomeCharts
  imports ChartAxes
begin

text \<open>
  The script \<open>static/js/home-chartjs.js\<close> of the page \<open>dashboard.html\<close>: its data, and the two charts it
  draws with the default options. The canvas with a given id is an answer of the document.
\<close>

section \<open>Definitions\<close>

definition doughnutData :: "segment list" where
  "doughnutData =
     [\<lparr>segValue = num 30, segColor = Str ''#F7464A''\<rparr>, \<lparr>segValue = num 50, segColor = Str ''#46BFBD''\<rparr>,
      \<lparr>segValue = num 100, segColor = Str ''#FDB45C''\<rparr>, \<lparr>segValue = num 40, segColor = Str ''#949FB1''\<rparr>,
      \<lparr>segValue = num 120, segColor = Str ''#4D5360''\<rparr>]"

definition lineChartData :: cdata where
  "lineChartData =
     \<lparr>dataLabels = Some (replicate 7 (Str [])),
      datasets =
        [\<lparr>dsData = map num [65, 59, 90, 81, 56, 55, 40], dsFillColor = Str ''rgba(220,220,220,0.5)'',
          dsStrokeColor = Str ''rgba(220,220,220,1)'', dsPointColor = Str ''rgba(220,220,220,1)'', dsPointStrokeColor = Str ''#fff''\<rparr>,
         \<lparr>dsData = map num [28, 48, 40, 19, 96, 27, 100], dsFillColor = Str ''rgba(151,187,205,0.5)'',
          dsStrokeColor = Str ''rgba(151,187,205,1)'', dsPointColor = Str ''rgba(151,187,205,1)'', dsPointStrokeColor = Str ''#fff''\<rparr>]\<rparr>"

text \<open>\<open>new Chart(document.getElementById(i).getContext("2d"))\<close>, and a chart drawn on it.\<close>

definition chart_on :: "(string \<Rightarrow> cenv option) \<Rightarrow> string \<Rightarrow> (cenv \<Rightarrow> 'a result) \<Rightarrow> 'a result" where
  "chart_on el i f = (case el i of None \<Rightarrow> Inl (TypeError ''document.getElementById(...) is null'') | Some ce \<Rightarrow> f ce)"

definition home_chartjs :: "(string \<Rightarrow> cenv option) \<Rightarrow> ((drawing list \<times> bool) \<times> (drawing list \<times> bool)) result" where
  "home_chartjs el =
     rbind (chart_on el ''doughnut'' (\<lambda>ce. Doughnut ce doughnutData (chart_config Doughnut_defaults None))) (\<lambda>d.
     rbind (chart_on el ''line'' (\<lambda>ce. Line ce lineChartData (chart_config Line_defaults None))) (\<lambda>l. Inr (d, l)))"

section \<open>The animations\<close>

lemma animationLoop_length:
  assumes "truthy (cfg ''animation'')" "cfg ''animationSteps'' = num (of_nat n)" "1 \<le> n" "of_nat n \<le> Number_MAX_VALUE"
    and "map_of animationOptions (to_string (cfg ''animationEasing'')) = Some f" "\<And>v. dd v = Inr (d v)"
  shows "\<exists>fs. animationLoop W H cfg (Inr s) dd = Inr (fs, isFn (cfg ''onAnimationComplete'')) \<and> length fs = n + 1"
proof -
  define g where "g p = (let v = to_number (CapValue (Num (f p)) Null (num 0))
    in if truthy (cfg ''scaleOverlay'') then clear W H @ d v @ s else clear W H @ s @ d v)" for p
  have "frames (animateFrame W H cfg (Inr s) dd) ps = Inr (map g ps)" for ps
    by (rule frames_map) (simp add: animateFrame_def frame_value_def g_def Let_def assms)
  then show ?thesis
    by (simp add: animationLoop_def animation_percents [OF assms(1-4)] assms(1) del: upt_Suc)
qed

lemma max_value_large: "100 \<le> Number_MAX_VALUE"
  by (simp add: Number_MAX_VALUE_def)

lemma doughnut_frames:
  "\<exists>fs. Doughnut ce doughnutData (chart_config Doughnut_defaults None) = Inr (fs, False) \<and> length fs = 101"
  unfolding Doughnut_def
  using animationLoop_length [of "chart_config Doughnut_defaults None" 100 easeOutBounce
      "\<lambda>v. Inr (doughnut_drawSegments ce (chart_config Doughnut_defaults None) doughnutData v)"
      "\<lambda>v. doughnut_drawSegments ce (chart_config Doughnut_defaults None) doughnutData v" "cwidth ce" "cheight ce" "[]"] max_value_large
  by (simp add: chart_config_def Doughnut_defaults_def animationOptions_def)

section \<open>The scale of the line chart\<close>

abbreviation line_cfg :: config where
  "line_cfg \<equiv> chart_config Line_defaults None"

lemma line_cfg_values:
  "line_cfg ''scaleFontSize'' = num 12" "\<not> truthy (line_cfg ''scaleOverride'')" "truthy (line_cfg ''scaleShowLabels'')"
  "line_cfg ''scaleLabel'' = Str ''<%=value%>''" "truthy (line_cfg ''animation'')" "line_cfg ''animationSteps'' = num (of_nat 60)"
  "to_string (line_cfg ''animationEasing'') = ''easeOutQuart''" "\<not> isFn (line_cfg ''onAnimationComplete'')"
  by (simp_all add: chart_config_def Line_defaults_def)

lemma order_of_81: "calculateOrderOfMagnitude (Fin 81) = Fin 1"
proof -
  have "ln 10 \<le> ln (81 :: real)" "ln (81 :: real) < ln 100" by simp_all
  moreover have "ln (100 :: real) = 2 * ln 10" using ln_realpow [of 10 2] by simp
  moreover have "0 < ln (10 :: real)" by simp
  ultimately have "1 \<le> ln 81 / ln (10 :: real)" "ln 81 / ln (10 :: real) < 2" by (simp_all add: field_simps)
  then have "\<lfloor>ln 81 / ln (10 :: real)\<rfloor> = 1" by (simp add: floor_eq_iff)
  then show ?thesis by (simp add: calculateOrderOfMagnitude_def)
qed

lemma home_loop: "scale_loop (Fin 11) (Fin 34) (Fin 90) (Fin 10) (Fin 9) = Some (Fin 5, Fin 18)"
proof -
  have "real_round (90 / 10) = 9" "real_round (90 / 5) = 18" by (simp_all add: real_round_def)
  then show ?thesis
    using loop_at_halve [of 10 90 11 34] scale_loop_stop [of 11 18 34 "Fin 90" "Fin 5"] by simp
qed

lemma home_bounds: "data_bounds (concat (map dsData (datasets lineChartData))) = (num 100, num 19)"
  by (simp add: data_bounds_def lineChartData_def Number_MIN_VALUE_def Number_MAX_VALUE_def)

lemma home_sizes:
  assumes "cwidth ce = Fin W" "7 \<le> W" "cheight ce = Fin 300" "\<And>f. measureText ce f (Str []) = Fin 0"
  shows "axis_sizes ce line_cfg (replicate 7 (Str [])) = \<lparr>widestXLabel = Fin 1, rotateLabels = 0, scaleHeight = Fin 271\<rparr>"
  using assms by (simp add: axis_sizes_def line_cfg_values opt_num_def numeral_eq_Suc Let_def)

text \<open>Labels with a template that is no element id are always made, one for every step.\<close>

lemma push_labels_length:
  assumes "\<And>v. \<exists>l. tm v = Inr l" "\<And>i. \<exists>v. f i = Inr v"
  shows "\<exists>ls. push_labels tm f is = Inr ls \<and> length ls = length is"
proof (induction "is")
  case (Cons i "is")
  then obtain ls v l where "push_labels tm f is = Inr ls" "length ls = length is" "f i = Inr v" "tm v = Inr l" using assms by metis
  then show ?case by simp
qed simp

lemma home_labels:
  "\<exists>ls. populateLabels (tmpl rt el) (Str ''<%=value%>'') (num 18) (num 10) (num 5) = Inr ls \<and> length ls = 18"
proof -
  have "\<exists>v. label_value (num 10) (num 5) i = Inr v" for i
    by (simp add: label_value_def getDecimalPlaces_def real_trunc_def)
  moreover have "\<exists>l. tmpl rt el ''<%=value%>'' v = Inr l" for v by (simp add: tmpl_def is_word_char_def is_digit_def char_code_def)
  ultimately obtain ls where "push_labels (tmpl rt el ''<%=value%>'') (label_value (num 10) (num 5)) [1..<19] = Inr ls" "length ls = length [1 :: nat..<19]"
    using push_labels_length by metis
  then show ?thesis by (simp add: populateLabels_def)
qed

lemma home_scale:
  "\<exists>ls. axes_scale ce line_cfg lineChartData \<lparr>widestXLabel = Fin 1, rotateLabels = 0, scaleHeight = Fin 271\<rparr> =
     Inr \<lparr>steps = num 18, stepValue = num 5, graphMin = num 10, labels = ls\<rparr> \<and> length ls = 18"
proof -
  obtain ls where ls: "populateLabels (tmpl (runTmpl ce) (elementHtml ce)) (Str ''<%=value%>'') (num 18) (num 10) (num 5) = Inr ls" "length ls = 18"
    using home_labels by blast
  have sb: "step_bounds (Fin 271) (num 12) = (Fin 34, Fin 11)" by (simp add: step_bounds_def)
  have fl: "\<lfloor>19 / 10 :: real\<rfloor> = 1" by (simp add: floor_eq_iff)
  have "calculateScale (tmpl (runTmpl ce) (elementHtml ce)) (Fin 34) (Fin 11) (num 100) (num 19) (Str ''<%=value%>'') =
    Inr \<lparr>steps = num 18, stepValue = num 5, graphMin = num 10, labels = ls\<rparr>"
    using home_loop ls(1) by (simp add: calculateScale_def order_of_81 fl real_round_def)
  then show ?thesis
    using ls(2) by (simp add: axes_scale_def chart_scale_def home_bounds line_cfg_values sb)
qed

lemma lineChartData_labels: "dataLabels lineChartData = Some (replicate 7 (Str []))"
  by (simp add: lineChartData_def)

text \<open>The points of the data on that scale.\<close>

lemma home_point:
  assumes "10 \<le> v" "v \<le> 100" "jnth (dsData ds) k = num v"
  shows "yPos (line_layout ce line_cfg \<lparr>widestXLabel = Fin 1, rotateLabels = 0, scaleHeight = Fin 271\<rparr>
       \<lparr>steps = num 18, stepValue = num 5, graphMin = num 10, labels = ls\<rparr> l7) (Fin 1)
     ds k = Fin (277 - 3 * (v - 10))"
proof -
  have "\<lfloor>271 / 18 :: real\<rfloor> = 15" by (simp add: floor_eq_iff)
  moreover have "\<not> 1 < (v - 10) / 90" "\<not> (v - 10) / 90 < 0" using assms by simp_all
  ultimately show ?thesis
    using assms(3) by (simp add: yPos_def line_layout_def axis_layout_def calculateOffset_def CapValue_num line_cfg_values opt_num_def Let_def)
      (simp add: field_simps)
qed

lemma home_points:
  "ds \<in> set (datasets lineChartData) \<Longrightarrow> k < 7 \<Longrightarrow> \<exists>v. jnth (dsData ds) k = num v \<and> 10 \<le> v \<and> v \<le> 100"
  by (auto simp: lineChartData_def jnth_def numeral_eq_Suc less_Suc_eq)

section \<open>Properties\<close>



end
