(* ===== verification/VCanvasVml.thy ===== *)
theory VCanvasVml
  imports VCanvas
begin

text \<open>
  The VML canvas \<open>VCanvas_vml\<close> of \<open>static/js/jquery.sparkline.js\<close> (lines 2844 to 2998): shapes are
  markup, kept in a string until the first \<open>render\<close> and in the children of the group element after
  it. The model keeps the markup as the list of nodes it denotes. A lookup by id that finds no element
  raises, as \<open>existing[0]\<close> is \<open>undefined\<close>.
\<close>

section \<open>Definitions\<close>

text \<open>A child of the group: the element of a shape, or text.\<close>

datatype vnode = VEl nat string | VText string

record vml =
  vml_shapeCount :: nat
  vml_pixelWidth :: jsval
  vml_pixelHeight :: jsval
  vml_rendered :: bool
  vml_prerender :: "vnode list"
  vml_group :: "vnode list"
  vml_lastShapeId :: "nat option"

definition vml_init :: "nat \<Rightarrow> jsval \<Rightarrow> jsval \<Rightarrow> jsval \<times> jsval \<Rightarrow> vml" where
  "vml_init n0 width height domdims =
     \<lparr>vml_shapeCount = n0,
      vml_pixelWidth = (case px_match width of None \<Rightarrow> fst domdims | Some s \<Rightarrow> Str s),
      vml_pixelHeight = (case px_match height of None \<Rightarrow> snd domdims | Some s \<Rightarrow> Str s),
      vml_rendered = False, vml_prerender = [], vml_group = [], vml_lastShapeId = None\<rparr>"

definition vml_genShape :: "shape \<Rightarrow> vml \<Rightarrow> vshape \<times> vml" where
  "vml_genShape sh c = (VShape (vml_shapeCount c) sh, c\<lparr>vml_shapeCount := Suc (vml_shapeCount c)\<rparr>)"

definition vml_stroke :: "jsval \<Rightarrow> jsval \<Rightarrow> string" where
  \<open>vml_stroke lineColor lineWidth =
     (if lineColor = Undef then '' stroked="false" ''
      else '' strokeWeight="'' @ to_string lineWidth @ ''px" strokeColor="'' @ to_string lineColor @ ''" '')\<close>

definition vml_fill :: "jsval \<Rightarrow> string" where
  \<open>vml_fill fillColor =
     (if fillColor = Undef then '' filled="false"''
      else '' fillColor="'' @ to_string fillColor @ ''" filled="true" '')\<close>

definition vml_shape_tag :: "vml \<Rightarrow> nat \<Rightarrow> string \<Rightarrow> string \<Rightarrow> string \<Rightarrow> string" where
  \<open>vml_shape_tag c shapeid stroke fill path =
     ''<v:shape coordorigin="0 0" coordsize="'' @ to_string (vml_pixelWidth c) @ '' '' @ to_string (vml_pixelHeight c) @ ''" '' @
     '' id="jqsshape'' @ nat_digits shapeid @ ''" '' @ stroke @ fill @
     '' style="position:absolute;left:0px;top:0px;height:'' @ to_string (vml_pixelHeight c) @ ''px;width:'' @
     to_string (vml_pixelWidth c) @ ''px;padding:0px;margin:0px;" '' @ '' path="'' @ path @ ''e">'' @ '' </v:shape>''\<close>

definition vml_drawShape :: "vml \<Rightarrow> nat \<Rightarrow> (jsval \<times> jsval) list \<Rightarrow> jsval \<Rightarrow> jsval \<Rightarrow> jsval \<Rightarrow> string" where
  "vml_drawShape c shapeid path lineColor fillColor lineWidth =
     (let vpath = map (\<lambda>(x, y). to_string x @ '','' @ to_string y) path;
          initial = join '','' (take 1 vpath);
          rest = drop 1 vpath;
          lw = (if lineWidth = Undef then num 1 else lineWidth);
          closed = (if rest = [] \<or> hd rest = last rest then ''x '' else [])
      in vml_shape_tag c shapeid (vml_stroke lineColor lw) (vml_fill fillColor)
           (''m '' @ initial @ '' l '' @ join '', '' rest @ '' '' @ closed))"

definition vml_drawCircle :: "nat \<Rightarrow> jsval \<Rightarrow> jsval \<Rightarrow> jsval \<Rightarrow> jsval \<Rightarrow> jsval \<Rightarrow> jsval \<Rightarrow> string" where
  \<open>vml_drawCircle shapeid x y radius lineColor fillColor lineWidth =
     (let x' = to_number x - to_number radius; y' = to_number y - to_number radius;
          d = num_to_string (to_number radius * Fin 2)
      in ''<v:oval '' @ '' id="jqsshape'' @ nat_digits shapeid @ ''" '' @
         vml_stroke lineColor lineWidth @ vml_fill fillColor @
         '' style="position:absolute;top:'' @ num_to_string y' @ ''px; left:'' @ num_to_string x' @ ''px; width:'' @ d @
         ''px; height:'' @ d @ ''px"></v:oval>'')\<close>

text \<open>
  The end points of a slice's arc. \<open>_drawPieSlice\<close> returns nothing for an empty slice and for one too
  small to be told from the whole pie.
\<close>

definition vml_slice_points ::
  "jsval \<Rightarrow> jsval \<Rightarrow> jsval \<Rightarrow> jsval \<Rightarrow> jsval \<Rightarrow> (jsval \<times> jsval \<times> jsval \<times> jsval) option" where
  "vml_slice_points x y radius startAngle endAngle =
     (if seq startAngle endAngle then None
      else
        (let full = num_eq (to_number endAngle - to_number startAngle) (Fin (2 * pi));
             a = (if full then Fin 0 else to_number startAngle);
             b = (if full then Fin (2 * pi) else to_number endAngle);
             r = to_number radius;
             startx = jadd x (Num (Math_round (Math_cos a * r)));
             starty = jadd y (Num (Math_round (Math_sin a * r)));
             endx = jadd x (Num (Math_round (Math_cos b * r)));
             endy = jadd y (Num (Math_round (Math_sin b * r)))
         in if seq startx endx \<and> seq starty endy \<and> b - a < Fin pi then None
            else Some (startx, starty, endx, endy)))"

definition vml_drawPieSlice ::
  "vml \<Rightarrow> nat \<Rightarrow> jsval \<Rightarrow> jsval \<Rightarrow> jsval \<Rightarrow> jsval \<Rightarrow> jsval \<Rightarrow> jsval \<Rightarrow> jsval \<Rightarrow> string option" where
  "vml_drawPieSlice c shapeid x y radius startAngle endAngle lineColor fillColor =
     (case vml_slice_points x y radius startAngle endAngle of
        None \<Rightarrow> None
      | Some (startx, starty, endx, endy) \<Rightarrow>
          (let r = to_number radius;
               vpath = [Num (to_number x - r), Num (to_number y - r), jadd x radius, jadd y radius, startx, starty, endx, endy]
           in Some (vml_shape_tag c shapeid (vml_stroke lineColor (num 1)) (vml_fill fillColor)
                (''m '' @ to_string x @ '','' @ to_string y @ '' wa '' @ join '', '' (map to_string vpath) @ '' x ''))))"

definition vml_drawRect :: "vml \<Rightarrow> nat \<Rightarrow> jsval \<Rightarrow> jsval \<Rightarrow> jsval \<Rightarrow> jsval \<Rightarrow> jsval \<Rightarrow> jsval \<Rightarrow> string" where
  "vml_drawRect c shapeid x y width height lineColor fillColor =
     vml_drawShape c shapeid
       [(x, y), (x, jadd y height), (jadd x width, jadd y height), (jadd x width, y), (x, y)] lineColor fillColor Undef"

fun vml_draw :: "vml \<Rightarrow> vshape \<Rightarrow> string option" where
  "vml_draw c (VShape i (Shape path lc fc lw)) = Some (vml_drawShape c i path lc fc lw)"
| "vml_draw c (VShape i (Circle x y r lc fc lw)) = Some (vml_drawCircle i x y r lc fc lw)"
| "vml_draw c (VShape i (PieSlice x y r a b lc fc)) = vml_drawPieSlice c i x y r a b lc fc"
| "vml_draw c (VShape i (Rect x y w h lc fc)) = Some (vml_drawRect c i x y w h lc fc)"

text \<open>The markup of a shape as a node; \<open>undefined\<close> becomes text.\<close>

definition vml_node :: "vml \<Rightarrow> vshape \<Rightarrow> vnode" where
  "vml_node c s = (case vml_draw c s of None \<Rightarrow> VText ''undefined'' | Some h \<Rightarrow> VEl (sid s) h)"

definition vml_reset :: "vml \<Rightarrow> vml" where
  "vml_reset c = c\<lparr>vml_group := []\<rparr>"

definition vml_appendShape :: "vshape \<Rightarrow> vml \<Rightarrow> vml" where
  "vml_appendShape s c =
     (let n = vml_node c s
      in (if vml_rendered c then c\<lparr>vml_group := vml_group c @ [n]\<rparr> else c\<lparr>vml_prerender := vml_prerender c @ [n]\<rparr>)
           \<lparr>vml_lastShapeId := Some (sid s)\<rparr>)"

fun is_el :: "nat \<Rightarrow> vnode \<Rightarrow> bool" where
  "is_el i (VEl j h) = (i = j)"
| "is_el i (VText t) = False"

text \<open>The children around the first element with the id, if there is one.\<close>

fun find_el :: "nat \<Rightarrow> vnode list \<Rightarrow> (vnode list \<times> vnode list) option" where
  "find_el i [] = None"
| "find_el i (n # ns) = (if is_el i n then Some ([], ns) else map_option (\<lambda>(a, b). (n # a, b)) (find_el i ns))"

definition vml_missing :: jserror where
  "vml_missing = TypeError ''existing[0] is undefined''"

definition vml_replaceWithShape :: "nat \<Rightarrow> vshape \<Rightarrow> vml \<Rightarrow> vml result" where
  "vml_replaceWithShape i s c =
     (case find_el i (vml_group c) of
        None \<Rightarrow> Inl vml_missing
      | Some (a, b) \<Rightarrow> Inr (c\<lparr>vml_group := a @ vml_node c s # b\<rparr>))"

definition vml_replaceWithShapes :: "nat list \<Rightarrow> vshape list \<Rightarrow> vml \<Rightarrow> vml result" where
  "vml_replaceWithShapes is ss c =
     (case is of
        [] \<Rightarrow> Inl vml_missing
      | i # js \<Rightarrow>
          (case find_el i (vml_group c) of
             None \<Rightarrow> Inl vml_missing
           | Some (a, b) \<Rightarrow>
               Inr (c\<lparr>vml_group := foldl (\<lambda>ns j. filter (\<lambda>n. \<not> is_el j n) ns) (a @ map (vml_node c) ss @ b) js\<rparr>)))"

definition vml_insertAfterShape :: "nat \<Rightarrow> vshape \<Rightarrow> vml \<Rightarrow> vml result" where
  "vml_insertAfterShape i s c =
     (case find_el i (vml_group c) of
        None \<Rightarrow> Inl vml_missing
      | Some (a, b) \<Rightarrow>
          (case filter (is_el i) (vml_group c) of
             [] \<Rightarrow> Inl vml_missing
           | e # _ \<Rightarrow> Inr (c\<lparr>vml_group := a @ e # vml_node c s # b\<rparr>)))"

definition vml_removeShapeId :: "nat \<Rightarrow> vml \<Rightarrow> vml result" where
  "vml_removeShapeId i c =
     (case find_el i (vml_group c) of
        None \<Rightarrow> Inl vml_missing
      | Some (a, b) \<Rightarrow> Inr (c\<lparr>vml_group := a @ b\<rparr>))"

text \<open>\<open>el.id.substr(8)\<close>: the id of the element under the pointer.\<close>

definition vml_getShapeAt :: "string \<Rightarrow> string" where
  "vml_getShapeAt el_id = drop 8 el_id"

definition vml_render :: "vml \<Rightarrow> vml" where
  "vml_render c = (if \<not> vml_rendered c then c\<lparr>vml_group := vml_prerender c, vml_rendered := True\<rparr> else c)"

section \<open>Facts\<close>

fun node_ids :: "vnode list \<Rightarrow> nat list" where
  "node_ids [] = []"
| "node_ids (VEl i h # ns) = i # node_ids ns"
| "node_ids (VText t # ns) = node_ids ns"

definition vml_nodes :: "vml \<Rightarrow> vnode list" where
  "vml_nodes c = (if vml_rendered c then vml_group c else vml_prerender c)"

definition vml_ids :: "vml \<Rightarrow> nat list" where
  "vml_ids c = node_ids (vml_nodes c)"

definition vml_wf :: "vml \<Rightarrow> bool" where
  "vml_wf c \<longleftrightarrow> distinct (vml_ids c) \<and> (\<forall>i \<in> set (vml_ids c). i < vml_shapeCount c)"

text \<open>Every shape has markup, but for the slices left out.\<close>

fun vml_ok :: "shape \<Rightarrow> bool" where
  "vml_ok (PieSlice x y r a b lc fc) \<longleftrightarrow> vml_slice_points x y r a b \<noteq> None"
| "vml_ok s \<longleftrightarrow> True"

definition vml_fresh :: "vml \<Rightarrow> vshape \<Rightarrow> bool" where
  "vml_fresh c s \<longleftrightarrow> sid s < vml_shapeCount c \<and> sid s \<notin> set (vml_ids c) \<and> vml_ok (sargs s)"

lemma node_ids_append [simp]: "node_ids (a @ b) = node_ids a @ node_ids b"
  by (induction a rule: node_ids.induct) auto

lemma vml_node_ok: "vml_ok (sargs s) \<Longrightarrow> \<exists>h. vml_node c s = VEl (sid s) h"
  by (cases "(c, s)" rule: vml_draw.cases) (auto simp: vml_node_def vml_drawPieSlice_def Let_def)

lemma node_ids_vml_nodes: "\<forall>s \<in> set ss. vml_ok (sargs s) \<Longrightarrow> node_ids (map (vml_node c) ss) = map sid ss"
proof (induction ss)
  case Nil
  then show ?case by simp
next
  case (Cons s ss)
  then obtain h where "vml_node c s = VEl (sid s) h" using vml_node_ok [of s c] by auto
  with Cons show ?case by simp
qed

lemma find_el_split:
  assumes "node_ids ns = xs @ i # ys" "i \<notin> set xs"
  shows "\<exists>a h b. ns = a @ VEl i h # b \<and> find_el i ns = Some (a, b) \<and> node_ids a = xs \<and> node_ids b = ys"
  using assms
proof (induction ns arbitrary: xs rule: node_ids.induct)
  case 1
  then show ?case by simp
next
  case (2 j h ns)
  show ?case
  proof (cases xs)
    case Nil
    with 2 show ?thesis by (intro exI [of _ "[]"] exI [of _ h] exI [of _ ns]) auto
  next
    case (Cons x xs')
    with 2 have "j = x" "i \<noteq> x" "node_ids ns = xs' @ i # ys" "i \<notin> set xs'" by auto
    with 2(1) [of xs'] obtain a h' b where "ns = a @ VEl i h' # b" "find_el i ns = Some (a, b)"
      "node_ids a = xs'" "node_ids b = ys" by auto
    with Cons \<open>j = x\<close> \<open>i \<noteq> x\<close> show ?thesis
      by (intro exI [of _ "VEl j h # a"] exI [of _ h'] exI [of _ b]) auto
  qed
next
  case (3 t ns)
  then obtain a h' b where "ns = a @ VEl i h' # b" "find_el i ns = Some (a, b)" "node_ids a = xs" "node_ids b = ys"
    by fastforce
  then show ?case by (intro exI [of _ "VText t # a"] exI [of _ h'] exI [of _ b]) auto
qed

lemma node_ids_filter: "node_ids (filter (\<lambda>n. \<not> is_el j n) ns) = filter (\<lambda>k. k \<noteq> j) (node_ids ns)"
  by (induction ns rule: node_ids.induct) auto

lemma node_ids_foldl_filter:
  "node_ids (foldl (\<lambda>ns j. filter (\<lambda>n. \<not> is_el j n) ns) ns js) = filter (\<lambda>k. k \<notin> set js) (node_ids ns)"
  by (induction js arbitrary: ns) (auto simp: node_ids_filter filter_filter intro: filter_cong)

lemma filter_is_el: "i \<notin> set (node_ids ns) \<Longrightarrow> filter (is_el i) ns = []"
  by (induction ns rule: node_ids.induct) auto

lemmas vml_defs = vml_ids_def vml_nodes_def vml_wf_def vml_fresh_def

lemma vml_repls_law:
  assumes wf: "vml_wf c" and live: "vml_rendered c" and fresh: "\<forall>s \<in> set ss. vml_fresh c s"
    and dist: "distinct (map sid ss)" and seq: "vml_ids c = xs @ old @ ys" and ne: "old \<noteq> []"
  shows "\<exists>c'. vml_replaceWithShapes old ss c = Inr c' \<and> vml_wf c' \<and> vml_ids c' = xs @ map sid ss @ ys \<and> vml_rendered c' \<and>
    (\<forall>t. vml_fresh c t \<longrightarrow> sid t \<notin> sid ` set ss \<longrightarrow> vml_fresh c' t)"
proof -
  obtain i js where old: "old = i # js" using ne by (cases old) auto
  have nodes: "node_ids (vml_group c) = xs @ i # js @ ys" "distinct (xs @ i # js @ ys)"
    using wf live seq by (auto simp: vml_defs old)
  then obtain a h b where ab: "find_el i (vml_group c) = Some (a, b)" "node_ids a = xs" "node_ids b = js @ ys"
    using find_el_split [of "vml_group c" xs i "js @ ys"] by auto
  let ?ns = "foldl (\<lambda>ns j. filter (\<lambda>n. \<not> is_el j n) ns) (a @ map (vml_node c) ss @ b) js"
  have "\<forall>s \<in> set ss. vml_ok (sargs s)" "\<forall>s \<in> set ss. sid s \<notin> set js"
    using fresh seq by (auto simp: vml_fresh_def old)
  moreover have "filter (\<lambda>k. k \<notin> set js) xs = xs" "filter (\<lambda>k. k \<notin> set js) ys = ys"
    using nodes(2) by (auto simp: filter_id_conv)
  ultimately have ids: "node_ids ?ns = xs @ map sid ss @ ys"
    using ab(2,3) by (auto simp: node_ids_foldl_filter node_ids_vml_nodes filter_id_conv filter_empty_conv)
  have res: "vml_replaceWithShapes old ss c = Inr (c\<lparr>vml_group := ?ns\<rparr>)"
    by (simp add: vml_replaceWithShapes_def old ab(1))
  show ?thesis
    unfolding res using wf fresh dist seq live ids
    by (auto simp: vml_defs old)
qed

text \<open>The VML canvas keeps the same contract, for every shape that has markup.\<close>

interpretation vc: virtual_canvas vml_ids vml_wf vml_rendered vml_ok vml_fresh vml_genShape
  "\<lambda>s c. Inr (vml_appendShape s c)" vml_replaceWithShape vml_replaceWithShapes vml_insertAfterShape vml_removeShapeId
proof (unfold_locales, goal_cases)
  case (1 c)
  then show ?case by (simp add: vml_wf_def)
next
  case (2 c s)
  then show ?case by (simp add: vml_fresh_def)
next
  case (3 c sh s c')
  then show ?case by (force simp: vml_genShape_def vml_defs)
next
  case (4 sh c s c' t)
  then show ?case by (auto simp: vml_genShape_def vml_defs)
next
  case (5 c s)
  then obtain h where "vml_node c s = VEl (sid s) h" using vml_node_ok by (auto simp: vml_fresh_def)
  with 5 show ?case by (auto simp: vml_appendShape_def vml_defs Let_def)
next
  case (6 c s xs i ys)
  then obtain h where h: "vml_node c s = VEl (sid s) h" using vml_node_ok by (auto simp: vml_fresh_def)
  have "node_ids (vml_group c) = xs @ i # ys" "i \<notin> set xs" using 6 by (auto simp: vml_defs)
  then obtain a b where "find_el i (vml_group c) = Some (a, b)" "node_ids a = xs" "node_ids b = ys"
    using find_el_split by blast
  with 6 h show ?case by (auto simp: vml_replaceWithShape_def vml_defs)
next
  case (7 c ss xs old ys)
  then show ?case by (rule vml_repls_law)
next
  case (8 c s xs i ys)
  then obtain h where h: "vml_node c s = VEl (sid s) h" using vml_node_ok by (auto simp: vml_fresh_def)
  have ns: "node_ids (vml_group c) = xs @ i # ys" "i \<notin> set xs" "i \<notin> set ys" using 8 by (auto simp: vml_defs)
  then obtain a h' b where ab: "vml_group c = a @ VEl i h' # b" "find_el i (vml_group c) = Some (a, b)"
    "node_ids a = xs" "node_ids b = ys"
    using find_el_split by blast
  have "filter (is_el i) (vml_group c) = [VEl i h']" using ab ns by (simp add: filter_is_el)
  with 8 h ab show ?case by (auto simp: vml_insertAfterShape_def vml_defs)
next
  case (9 c xs i ys)
  have "node_ids (vml_group c) = xs @ i # ys" "i \<notin> set xs" using 9 by (auto simp: vml_defs)
  then obtain a b where "find_el i (vml_group c) = Some (a, b)" "node_ids a = xs" "node_ids b = ys"
    using find_el_split by blast
  with 9 show ?case by (auto simp: vml_removeShapeId_def vml_defs)
qed

lemma vml_render_ids: "vml_ids (vml_render c) = vml_ids c"
  by (simp add: vml_render_def vml_defs)

end
