(* ===== verification/CanvasQueue.thy ===== *)
theory CanvasQueue
  imports VCanvasVml
begin

text \<open>
  The abstract specification of a virtual canvas, and that both canvases of
  \<open>static/js/jquery.sparkline.js\<close> implement it. The specification is a queue of shape ids with the
  counter of shapes; its operations name shapes by their place in the queue. The locale
  \<open>counted_canvas\<close> extends the contract \<open>virtual_canvas\<close> by the counter; the simulation is proved in
  it once and holds of the HTML and of the VML canvas, which therefore stay in step.
\<close>

section \<open>The specification\<close>

datatype queue_op =
    QAppend shape
  | QReplace nat shape
  | QReplaces nat nat "shape list"
  | QInsert nat shape
  | QRemove nat

fun op_shapes :: "queue_op \<Rightarrow> shape list" where
  "op_shapes (QAppend sh) = [sh]"
| "op_shapes (QReplace k sh) = [sh]"
| "op_shapes (QReplaces k m shs) = shs"
| "op_shapes (QInsert k sh) = [sh]"
| "op_shapes (QRemove k) = []"

text \<open>An operation on the counter and the queue; it is not enabled where the queue has no such place.\<close>

fun queue_step :: "queue_op \<Rightarrow> nat \<times> nat list \<Rightarrow> (nat \<times> nat list) option" where
  "queue_step (QAppend sh) (n, q) = Some (Suc n, q @ [n])"
| "queue_step (QReplace k sh) (n, q) = (if k < length q then Some (Suc n, take k q @ n # drop (Suc k) q) else None)"
| "queue_step (QReplaces k m shs) (n, q) =
     (if 0 < m \<and> k + m \<le> length q
      then Some (n + length shs, take k q @ [n..<n + length shs] @ drop (k + m) q) else None)"
| "queue_step (QInsert k sh) (n, q) = (if k < length q then Some (Suc n, take (Suc k) q @ n # drop (Suc k) q) else None)"
| "queue_step (QRemove k) (n, q) = (if k < length q then Some (n, take k q @ drop (Suc k) q) else None)"

fun queue_run :: "queue_op list \<Rightarrow> nat \<times> nat list \<Rightarrow> (nat \<times> nat list) option" where
  "queue_run [] s = Some s"
| "queue_run (a # as) s = Option.bind (queue_step a s) (queue_run as)"

section \<open>The implementation\<close>

text \<open>The methods of a canvas class that the charts call, through \<open>VShape\<close> or directly.\<close>

record 'c canvas_class =
  q_ids :: "'c \<Rightarrow> nat list"
  q_count :: "'c \<Rightarrow> nat"
  q_gen :: "shape \<Rightarrow> 'c \<Rightarrow> vshape \<times> 'c"
  q_append :: "vshape \<Rightarrow> 'c \<Rightarrow> 'c result"
  q_replace :: "nat \<Rightarrow> vshape \<Rightarrow> 'c \<Rightarrow> 'c result"
  q_replaces :: "nat list \<Rightarrow> vshape list \<Rightarrow> 'c \<Rightarrow> 'c result"
  q_insert :: "nat \<Rightarrow> vshape \<Rightarrow> 'c \<Rightarrow> 'c result"
  q_remove :: "nat \<Rightarrow> 'c \<Rightarrow> 'c result"

fun gens :: "'c canvas_class \<Rightarrow> shape list \<Rightarrow> 'c \<Rightarrow> vshape list \<times> 'c" where
  "gens K [] c = ([], c)"
| "gens K (sh # shs) c = (let (s, c1) = q_gen K sh c; (ss, c2) = gens K shs c1 in (s # ss, c2))"

text \<open>A chart's call: the new shapes are generated and queued by the canvas operation.\<close>

fun canvas_op :: "'c canvas_class \<Rightarrow> queue_op \<Rightarrow> 'c \<Rightarrow> 'c result" where
  "canvas_op K (QAppend sh) c = (let (s, c1) = q_gen K sh c in q_append K s c1)"
| "canvas_op K (QReplace k sh) c = (let (s, c1) = q_gen K sh c in q_replace K (q_ids K c ! k) s c1)"
| "canvas_op K (QReplaces k m shs) c = (let (ss, c1) = gens K shs c in q_replaces K (take m (drop k (q_ids K c))) ss c1)"
| "canvas_op K (QInsert k sh) c = (let (s, c1) = q_gen K sh c in q_insert K (q_ids K c ! k) s c1)"
| "canvas_op K (QRemove k) c = q_remove K (q_ids K c ! k) c"

fun canvas_ops :: "'c canvas_class \<Rightarrow> queue_op list \<Rightarrow> 'c \<Rightarrow> 'c result" where
  "canvas_ops K [] c = Inr c"
| "canvas_ops K (a # as) c = rbind (canvas_op K a c) (canvas_ops K as)"

definition canvas_abs :: "'c canvas_class \<Rightarrow> 'c \<Rightarrow> nat \<times> nat list" where
  "canvas_abs K c = (q_count K c, q_ids K c)"

definition html_class :: "vcanvas canvas_class" where
  "html_class =
     \<lparr>q_ids = shapeseq, q_count = shapeCount, q_gen = genShape, q_append = \<lambda>s c. Inr (appendShape s c),
      q_replace = \<lambda>i s c. Inr (replaceWithShape i s c), q_replaces = \<lambda>is ss c. Inr (replaceWithShapes is ss c),
      q_insert = \<lambda>i s c. Inr (insertAfterShape i s c), q_remove = \<lambda>i c. Inr (removeShapeId i c)\<rparr>"

definition vml_class :: "vml canvas_class" where
  "vml_class =
     \<lparr>q_ids = vml_ids, q_count = vml_shapeCount, q_gen = vml_genShape, q_append = \<lambda>s c. Inr (vml_appendShape s c),
      q_replace = vml_replaceWithShape, q_replaces = vml_replaceWithShapes,
      q_insert = vml_insertAfterShape, q_remove = vml_removeShapeId\<rparr>"

locale counted_canvas = virtual_canvas +
  fixes cnt :: "'a \<Rightarrow> nat"
  assumes gen_cnt: "gen sh c = (s, c') \<Longrightarrow> sid s = cnt c \<and> cnt c' = Suc (cnt c)"
    and app_cnt: "app s c = Inr c' \<Longrightarrow> cnt c' = cnt c"
    and repl_cnt: "repl i s c = Inr c' \<Longrightarrow> cnt c' = cnt c"
    and repls_cnt: "repls is ss c = Inr c' \<Longrightarrow> cnt c' = cnt c"
    and ins_cnt: "ins i s c = Inr c' \<Longrightarrow> cnt c' = cnt c"
    and rem_cnt: "rem i c = Inr c' \<Longrightarrow> cnt c' = cnt c"
begin

abbreviation K :: "'a canvas_class" where
  "K \<equiv> \<lparr>q_ids = ids, q_count = cnt, q_gen = gen, q_append = app, q_replace = repl, q_replaces = repls, q_insert = ins, q_remove = rem\<rparr>"

lemma gens_law:
  assumes "inv c" "\<forall>sh \<in> set shs. ok sh" "gens K shs c = (ss, c')"
  shows "inv c' \<and> (\<forall>s \<in> set ss. fresh c' s) \<and> map sid ss = [cnt c..<cnt c + length shs] \<and> ids c' = ids c \<and> live c' = live c \<and>
    cnt c' = cnt c + length shs \<and> (\<forall>t. fresh c t \<longrightarrow> fresh c' t)"
  using assms
proof (induction shs arbitrary: c ss)
  case Nil
  then show ?case by simp
next
  case (Cons sh shs)
  obtain s c1 where g: "gen sh c = (s, c1)" by force
  obtain ts where ts: "gens K shs c1 = (ts, c')" "ss = s # ts" using Cons.prems(3) g by (auto split: prod.splits)
  have l: "inv c1" "fresh c1 s" "ids c1 = ids c" "live c1 = live c" using gen_law [OF Cons.prems(1) _ g] Cons.prems(2) by auto
  have n: "sid s = cnt c" "cnt c1 = Suc (cnt c)" using gen_cnt [OF g] by auto
  note ih = Cons.IH [OF l(1) _ ts(1)]
  show ?case using ih l n ts(2) Cons.prems(2) gen_fresh [OF g] by (auto simp: upt_conv_Cons simp del: upt_Suc)
qed

text \<open>The simulation: an enabled operation succeeds and changes the abstract queue as specified.\<close>

lemma canvas_op_refines:
  assumes inv: "inv c" and live: "live c" and ok: "\<forall>sh \<in> set (op_shapes a). ok sh" and st: "queue_step a (canvas_abs K c) = Some s'"
  shows "\<exists>c'. canvas_op K a c = Inr c' \<and> canvas_abs K c' = s' \<and> inv c' \<and> live c'"
proof (cases a)
  case (QAppend sh)
  obtain s c1 where g: "gen sh c = (s, c1)" by force
  have l: "inv c1" "fresh c1 s" "ids c1 = ids c" "live c1 = live c" using gen_law [OF inv _ g] ok QAppend by auto
  show ?thesis using app_law [OF l(1,2)] app_cnt [of s c1] gen_cnt [OF g] l live st QAppend g by (auto simp: canvas_abs_def)
next
  case (QReplace k sh)
  obtain s c1 where g: "gen sh c = (s, c1)" by force
  have l: "inv c1" "fresh c1 s" "ids c1 = ids c" "live c1 = live c" using gen_law [OF inv _ g] ok QReplace by auto
  have "k < length (ids c)" using st QReplace by (auto simp: canvas_abs_def split: if_splits)
  then show ?thesis
    using repl_law [OF l(1) _ l(2), of "take k (ids c)" "ids c ! k" "drop (Suc k) (ids c)"] repl_cnt [of "ids c ! k" s c1]
      gen_cnt [OF g] l live st QReplace g by (auto simp: canvas_abs_def id_take_nth_drop [symmetric])
next
  case (QReplaces k m shs)
  obtain ss c1 where g: "gens K shs c = (ss, c1)" by force
  let ?old = "take m (drop k (ids c))"
  have l: "inv c1" "\<forall>s \<in> set ss. fresh c1 s" "map sid ss = [cnt c..<cnt c + length shs]" "ids c1 = ids c" "live c1 = live c" "cnt c1 = cnt c + length shs"
    using gens_law [OF inv _ g] ok QReplaces by auto
  have b: "0 < m" "k + m \<le> length (ids c)" using st QReplaces by (auto simp: canvas_abs_def split: if_splits)
  have sp: "ids c1 = take k (ids c) @ ?old @ drop (k + m) (ids c)"
    using l(4) by (metis add.commute append_take_drop_id drop_drop)
  have "?old \<noteq> []" using b by simp
  then show ?thesis
    using repls_law [OF l(1) _ l(2) _ sp] repls_cnt [of ?old ss c1] l live st QReplaces g b by (auto simp: canvas_abs_def)
next
  case (QInsert k sh)
  obtain s c1 where g: "gen sh c = (s, c1)" by force
  have l: "inv c1" "fresh c1 s" "ids c1 = ids c" "live c1 = live c" using gen_law [OF inv _ g] ok QInsert by auto
  have "k < length (ids c)" using st QInsert by (auto simp: canvas_abs_def split: if_splits)
  then show ?thesis
    using ins_law [OF l(1) _ l(2), of "take k (ids c)" "ids c ! k" "drop (Suc k) (ids c)"] ins_cnt [of "ids c ! k" s c1]
      gen_cnt [OF g] l live st QInsert g by (auto simp: canvas_abs_def id_take_nth_drop [symmetric] take_Suc_conv_app_nth)
next
  case (QRemove k)
  have "k < length (ids c)" using st QRemove by (auto simp: canvas_abs_def split: if_splits)
  then show ?thesis
    using rem_law [OF inv live, of "take k (ids c)" "ids c ! k" "drop (Suc k) (ids c)"] rem_cnt [of "ids c ! k" c] st QRemove
    by (auto simp: canvas_abs_def id_take_nth_drop [symmetric])
qed

lemma canvas_ops_refine:
  assumes "inv c" "live c" "\<forall>a \<in> set as. \<forall>sh \<in> set (op_shapes a). ok sh" "queue_run as (canvas_abs K c) = Some s'"
  shows "\<exists>c'. canvas_ops K as c = Inr c' \<and> canvas_abs K c' = s' \<and> inv c' \<and> live c'"
  using assms
proof (induction as arbitrary: c)
  case Nil
  then show ?case by simp
next
  case (Cons a as)
  obtain s1 where s1: "queue_step a (canvas_abs K c) = Some s1" "queue_run as s1 = Some s'"
    using Cons.prems(4) by (cases "queue_step a (canvas_abs K c)") auto
  obtain c1 where "canvas_op K a c = Inr c1" "canvas_abs K c1 = s1" "inv c1" "live c1"
    using canvas_op_refines [OF Cons.prems(1,2) _ s1(1)] Cons.prems(3) by auto
  then show ?case using Cons.IH [of c1] Cons.prems(3) s1(2) by simp
qed

end

text \<open>Both canvases.\<close>

interpretation hq: counted_canvas shapeseq canvas_wf "\<lambda>c. True" shape_ok canvas_fresh genShape
  "\<lambda>s c. Inr (appendShape s c)" "\<lambda>i s c. Inr (replaceWithShape i s c)"
  "\<lambda>is ss c. Inr (replaceWithShapes is ss c)" "\<lambda>i s c. Inr (insertAfterShape i s c)"
  "\<lambda>i c. Inr (removeShapeId i c)" shapeCount
  by unfold_locales
    (auto simp: genShape_def appendShape_def replaceWithShape_def insertAfterShape_def removeShapeId_def Let_def split: option.splits)

interpretation vq: counted_canvas vml_ids vml_wf vml_rendered vml_ok vml_fresh vml_genShape
  "\<lambda>s c. Inr (vml_appendShape s c)" vml_replaceWithShape vml_replaceWithShapes vml_insertAfterShape vml_removeShapeId vml_shapeCount
  by unfold_locales
    (auto simp: vml_genShape_def vml_appendShape_def vml_replaceWithShape_def vml_replaceWithShapes_def vml_insertAfterShape_def
      vml_removeShapeId_def Let_def split: option.splits list.splits)

section \<open>Properties\<close>


definition demo_shape :: shape where
  "demo_shape = Rect (num 0) (num 0) (num 4) (num 9) Undef (Str ''red'')"

text \<open>Two shapes on each canvas; then the first is replaced by two, a highlight is put after the last and taken off again.\<close>

definition demo_html :: vcanvas where
  "demo_html = fold (\<lambda>sh c. case genShape sh c of (s, c1) \<Rightarrow> appendShape s c1) [demo_shape, demo_shape]
     (canvas_init 1 (num 80) (num 20) (num 80, num 20) True)"

definition demo_vml :: vml where
  "demo_vml = vml_render (fold (\<lambda>sh c. case vml_genShape sh c of (s, c1) \<Rightarrow> vml_appendShape s c1) [demo_shape, demo_shape]
     (vml_init 1 (num 80) (num 20) (num 80, num 20)))"

definition demo_ops :: "queue_op list" where
  "demo_ops = [QReplaces 0 1 [demo_shape, demo_shape], QInsert 2 demo_shape, QRemove 3]"


end
