(* ===== verification/EasyPie.thy ===== *)
theory EasyPie
  imports JSCanvas SparkUtil
begin

text \<open>
  The single-value pie charts of \<open>static/jquery-easy-pie-chart/jquery.easy-pie-chart.js\<close> and the page
  script \<open>static/js/easy-pie-chart.js\<close> that uses them. A chart is a record, the page keeps the charts
  by element and the browser's running intervals by handle. A callback of the page is a parameter
  (\<open>barColor\<close>) or is recorded (\<open>onStart\<close>, \<open>onStop\<close>). The properties are about the animations: each
  chart has at most one, its arc stays between the two values, and it ends.
\<close>

section \<open>Definitions\<close>

definition defaultOptions :: "(string \<times> jsval) list" where
  "defaultOptions =
     [(''barColor'', Str ''#ef1e25''), (''trackColor'', Str ''#f2f2f2''), (''scaleColor'', Str ''#dfe0e0''),
      (''lineCap'', Str ''round''), (''size'', num 110), (''lineWidth'', num 3), (''animate'', Bool False),
      (''onStart'', Fn ''$.noop''), (''onStop'', Fn ''$.noop'')]"

datatype callback = OnStart | OnStop

record epie =
  epOpt :: "string \<Rightarrow> jsval"
  percentage :: jsval
  epCanvas :: "number \<times> number"
  epStyle :: "(string \<times> jsval) list"
  epCanvasStyle :: "(string \<times> jsval) list"
  epCtx :: drawing
  epAnimation :: "nat option"
  epCalls :: "callback list"

text \<open>A running interval: the variables that its function closes over, and the element of its chart.\<close>

record timer =
  tEl :: nat
  tFrom :: jsval
  tTo :: jsval
  tSteps :: number
  currentStep :: nat

record eppage =
  charts :: "nat \<rightharpoonup> epie"
  timers :: "nat \<rightharpoonup> timer"
  lastHandle :: nat
  spanText :: "nat \<rightharpoonup> jsval"

definition eppage_init :: eppage where
  "eppage_init = \<lparr>charts = Map.empty, timers = Map.empty, lastHandle = 0, spanText = Map.empty\<rparr>"

subsection \<open>Drawing\<close>

definition ep_size :: "(string \<Rightarrow> jsval) \<Rightarrow> number" where
  "ep_size o' = to_number (o' ''size'')"

definition addScaleLine :: "(string \<Rightarrow> jsval) \<Rightarrow> nat \<Rightarrow> drawing" where
  "addScaleLine o' i =
     (let off = (if i mod 6 = 0 then Fin 0 else ep_size o' * Fin (17 / 1000))
      in [Save, Rotate (Num (Fin (of_nat i) * Fin pi / Fin 12)),
          FillRect (Num (ep_size o' / Fin 2 - off)) (num 0) (Num (- ep_size o' * Fin (5 / 100) + off)) (num 1), Restore])"

definition renderScale :: "(string \<Rightarrow> jsval) \<Rightarrow> drawing" where
  "renderScale o' = [SetFillStyle (o' ''scaleColor''), SetLineWidth (num 1)] @ concat (map (addScaleLine o') [0..<25])"

text \<open>The radius of the track and of the bar.\<close>

definition ep_radius :: "(string \<Rightarrow> jsval) \<Rightarrow> number" where
  "ep_radius o' =
     (let off = ep_size o' / Fin 2 - to_number (o' ''lineWidth'') / Fin 2
      in if o' ''scaleColor'' \<noteq> Bool False then off - ep_size o' * Fin (8 / 100) else off)"

definition renderTrack :: "(string \<Rightarrow> jsval) \<Rightarrow> drawing" where
  "renderTrack o' =
     [BeginPath, Arc [num 0, num 0, Num (ep_radius o'), num 0, Num (Fin pi * Fin 2), Bool True], ClosePath,
      SetStrokeStyle (o' ''trackColor''), SetLineWidth (o' ''lineWidth''), Stroke]"

definition renderBackground :: "(string \<Rightarrow> jsval) \<Rightarrow> drawing" where
  "renderBackground o' =
     (if o' ''scaleColor'' \<noteq> Bool False then renderScale o' else []) @
     (if o' ''trackColor'' \<noteq> Bool False then renderTrack o' else [])"

text \<open>
  The number that \<open>percent\<close> stands for in arithmetic. While a chart is animated it is an array of one
  value, which converts through its text to that value.
\<close>

definition percent_number :: "jsval \<Rightarrow> number" where
  "percent_number v = (case v of Arr [w] \<Rightarrow> to_number w | _ \<Rightarrow> to_number v)"

definition ep_drawLine :: "(string \<Rightarrow> jsval \<Rightarrow> jsval) \<Rightarrow> (string \<Rightarrow> jsval) \<Rightarrow> jsval \<Rightarrow> drawing" where
  "ep_drawLine barColor o' percent =
     renderBackground o' @
     [SetStrokeStyle (case o' ''barColor'' of Fn f \<Rightarrow> barColor f percent | v \<Rightarrow> v),
      SetLineCap (o' ''lineCap''), SetLineWidth (o' ''lineWidth''),
      Save, Rotate (Num (- Fin pi / Fin 2)), BeginPath,
      Arc [num 0, num 0, Num (ep_radius o'), num 0, Num (Fin pi * Fin 2 * percent_number percent / Fin 100), Bool False],
      Stroke, Restore]"

subsection \<open>Animation\<close>

definition ep_easing :: "number \<Rightarrow> number" where
  "ep_easing t = (if t < Fin 1 then t * t else (let u = t / Fin 2 * Fin (- 2) + Fin 2 in Fin 2 - u * u))"

text \<open>\<open>c / 2 * easing(t) + b\<close>: the sum is a concatenation when the old value \<open>b\<close> is a string.\<close>

definition ep_easeInOutQuad :: "number \<Rightarrow> jsval \<Rightarrow> number \<Rightarrow> number \<Rightarrow> jsval" where
  "ep_easeInOutQuad t b c d = jadd (Num (c / Fin 2 * ep_easing (t / (d / Fin 2)))) b"

text \<open>The value an animation shows at its current step.\<close>

definition timer_percent :: "timer \<Rightarrow> jsval" where
  "timer_percent t =
     ep_easeInOutQuad (Fin (of_nat (currentStep t))) (tFrom t) (to_number (tTo t) - to_number (tFrom t)) (tSteps t)"

definition ep_call :: "string \<Rightarrow> callback \<Rightarrow> epie \<Rightarrow> epie result" where
  "ep_call name cb c =
     (if isFn (epOpt c name) then Inr (c\<lparr>epCalls := epCalls c @ [cb]\<rparr>)
      else Inl (TypeError (name @ ''.call is not a function'')))"

text \<open>\<open>clearInterval(this.animation); this.animation = false\<close>, when there is an animation.\<close>

definition stop_animation :: "nat \<Rightarrow> epie \<Rightarrow> eppage \<Rightarrow> eppage" where
  "stop_animation e c pg =
     (case epAnimation c of
        None \<Rightarrow> pg
      | Some k \<Rightarrow> pg\<lparr>charts := (charts pg)(e \<mapsto> c\<lparr>epAnimation := None\<rparr>), timers := (timers pg)(k := None)\<rparr>)"

definition new_timer :: "nat \<Rightarrow> epie \<Rightarrow> jsval \<Rightarrow> jsval \<Rightarrow> timer" where
  "new_timer e c from' to' =
     \<lparr>tEl = e, tFrom = from', tTo = to', tSteps = Fin 30 * to_number (epOpt c ''animate'') / Fin 1000, currentStep = 0\<rparr>"

definition animateLine :: "nat \<Rightarrow> epie \<Rightarrow> jsval \<Rightarrow> jsval \<Rightarrow> eppage \<Rightarrow> eppage result" where
  "animateLine e c from' to' pg =
     rbind (ep_call ''onStart'' OnStart c) (\<lambda>c1.
       (let c2 = c1\<lparr>percentage := to'\<rparr>;
            pg1 = stop_animation e c2 (pg\<lparr>charts := (charts pg)(e \<mapsto> c2)\<rparr>);
            k = Suc (lastHandle pg1)
        in Inr (pg1\<lparr>charts := (charts pg1)(e \<mapsto> c2\<lparr>epAnimation := Some k\<rparr>),
                  timers := (timers pg1)(k \<mapsto> new_timer e c from' to'), lastHandle := k\<rparr>)))"

definition ep_update :: "(string \<Rightarrow> jsval \<Rightarrow> jsval) \<Rightarrow> nat \<Rightarrow> jsval \<Rightarrow> eppage \<Rightarrow> eppage result" where
  "ep_update barColor e percent pg =
     (case charts pg e of
        None \<Rightarrow> Inl (TypeError ''$(this).data(...) is undefined'')
      | Some c \<Rightarrow>
          if epOpt c ''animate'' = Bool False
          then Inr (pg\<lparr>charts := (charts pg)(e \<mapsto> c\<lparr>epCtx := epCtx c @ ep_drawLine barColor (epOpt c) percent\<rparr>)\<rparr>)
          else animateLine e c (percentage c) percent pg)"

text \<open>One run of the function of the interval \<open>k\<close>; it clears the interval its chart remembers.\<close>

definition ep_frame :: "(string \<Rightarrow> jsval \<Rightarrow> jsval) \<Rightarrow> (string \<Rightarrow> jsval) \<Rightarrow> timer \<Rightarrow> drawing" where
  "ep_frame barColor o' t =
     [ClearRect (Num (- ep_size o' / Fin 2)) (Num (- ep_size o' / Fin 2)) (o' ''size'') (o' ''size'')] @
     renderBackground o' @ ep_drawLine barColor o' (Arr [timer_percent t])"

definition ep_tick :: "(string \<Rightarrow> jsval \<Rightarrow> jsval) \<Rightarrow> nat \<Rightarrow> eppage \<Rightarrow> eppage result" where
  "ep_tick barColor k pg =
     (case timers pg k of
        None \<Rightarrow> Inr pg
      | Some t \<Rightarrow>
          (case charts pg (tEl t) of
             None \<Rightarrow> Inr pg
           | Some c \<Rightarrow>
               (let c1 = c\<lparr>epCtx := epCtx c @ ep_frame barColor (epOpt c) t\<rparr>;
                    t1 = t\<lparr>currentStep := Suc (currentStep t)\<rparr>;
                    pg1 = pg\<lparr>charts := (charts pg)(tEl t \<mapsto> c1), timers := (timers pg)(k \<mapsto> t1)\<rparr>
                in if Fin 1 < Fin (of_nat (currentStep t1)) / tSteps t
                   then (let pg2 = stop_animation (tEl t) c1 pg1
                         in rbind (ep_call ''onStop'' OnStop (the (charts pg2 (tEl t)))) (\<lambda>c2.
                              Inr (pg2\<lparr>charts := (charts pg2)(tEl t \<mapsto> c2)\<rparr>)))
                   else Inr pg1)))"

subsection \<open>The plugin\<close>

text \<open>The size of a canvas element from an attribute: digits after spaces and a sign, or the browser's default.\<close>

definition canvas_attr :: "real \<Rightarrow> jsval \<Rightarrow> number" where
  "canvas_attr dflt v = (case parseInt10 v of Fin x \<Rightarrow> if 0 \<le> x then Fin x else Fin dflt | _ \<Rightarrow> Fin dflt)"

text \<open>\<open>init\<close>; \<open>dpr\<close> is the pixel ratio of the window.\<close>

definition new_epie :: "number \<Rightarrow> (string \<times> jsval) list \<Rightarrow> epie" where
  "new_epie dpr opts =
     (let o' = jget (jq_extend (jq_extend [] defaultOptions) opts);
          w = canvas_attr 300 (o' ''size''); h = canvas_attr 150 (o' ''size'');
          hi = Fin (3 / 2) < dpr;
          half_size = Num (ep_size o' / Fin 2)
      in \<lparr>epOpt = o', percentage = num 0,
          epCanvas = (if hi then (w * Fin 2, h * Fin 2) else (w, h)),
          epStyle = [(''width'', o' ''size''), (''height'', o' ''size''), (''lineHeight'', Str (to_string (o' ''size'') @ ''px''))],
          epCanvasStyle = (if hi then [(''width'', o' ''size''), (''height'', o' ''size'')] else []),
          epCtx = (if hi then [Scale (num 2) (num 2)] else []) @ [Translate half_size half_size],
          epAnimation = None, epCalls = []\<rparr>)"

definition ep_init ::
  "(string \<Rightarrow> jsval \<Rightarrow> jsval) \<Rightarrow> number \<Rightarrow> nat \<Rightarrow> jsval \<Rightarrow> (string \<times> jsval) list \<Rightarrow> eppage \<Rightarrow> eppage result" where
  "ep_init barColor dpr e dataPercent opts pg =
     ep_update barColor e (Num (parseInt10 dataPercent)) (pg\<lparr>charts := (charts pg)(e \<mapsto> new_epie dpr opts)\<rparr>)"

text \<open>\<open>$.fn.easyPieChart\<close>: an element that has a chart keeps it.\<close>

fun easyPieChart ::
  "(string \<Rightarrow> jsval \<Rightarrow> jsval) \<Rightarrow> number \<Rightarrow> (nat \<Rightarrow> jsval) \<Rightarrow> (string \<times> jsval) list \<Rightarrow> nat list \<Rightarrow> eppage \<Rightarrow> eppage result" where
  "easyPieChart barColor dpr dat opts [] pg = Inr pg"
| "easyPieChart barColor dpr dat opts (e # es) pg =
     rbind (if charts pg e = None then ep_init barColor dpr e (dat e) opts pg else Inr pg)
       (easyPieChart barColor dpr dat opts es)"

subsection \<open>The page script\<close>

definition percentage_options :: "(string \<times> jsval) list" where
  "percentage_options = [(''animate'', num 1000), (''size'', num 95), (''barColor'', Str ''#4a8bc2'')]"

definition light_options :: "(string \<times> jsval) list" where
  "light_options =
     [(''barColor'', Fn ''light''), (''trackColor'', Str ''#666''), (''scaleColor'', Bool False), (''lineCap'', Str ''butt''),
      (''lineWidth'', num 15), (''animate'', num 1000)]"

definition light_channels :: "number \<Rightarrow> number \<times> number" where
  "light_channels p = (Math_round (Fin 255 * (Fin 1 - p / Fin 100)), Math_round (Fin 255 * (p / Fin 100)))"

text \<open>The colour function of the light charts, the only one the page passes.\<close>

definition light_color :: "string \<Rightarrow> jsval \<Rightarrow> jsval" where
  "light_color f percent =
     (let (r, g) = light_channels (percent_number percent)
      in Str (''rgb('' @ num_to_string r @ '', '' @ num_to_string g @ '', 0)''))"

text \<open>
  The click handlers: every chart gets a new value from the random numbers in \<open>[0, 1)\<close>, rounded by \<open>rnd\<close>,
  which is also the text of the element's \<open>span\<close>.
\<close>

fun update_charts :: "(number \<Rightarrow> number) \<Rightarrow> (nat \<times> real) list \<Rightarrow> eppage \<Rightarrow> eppage result" where
  "update_charts rnd [] pg = Inr pg"
| "update_charts rnd ((e, x) # ds) pg =
     (let newValue = Num (rnd (Fin 100 * Fin x))
      in rbind (ep_update light_color e newValue pg) (\<lambda>pg1. update_charts rnd ds (pg1\<lparr>spanText := (spanText pg1)(e \<mapsto> newValue)\<rparr>)))"

section \<open>Events\<close>

text \<open>What happens on a page: the plugin is called on elements, a chart is updated, an interval fires.\<close>

datatype ep_happening =
    Call "nat \<Rightarrow> jsval" "(string \<times> jsval) list" "nat list"
  | Update nat jsval
  | Tick nat

fun ep_event :: "(string \<Rightarrow> jsval \<Rightarrow> jsval) \<Rightarrow> number \<Rightarrow> ep_happening \<Rightarrow> eppage \<Rightarrow> eppage result" where
  "ep_event barColor dpr (Call dat opts es) pg = easyPieChart barColor dpr dat opts es pg"
| "ep_event barColor dpr (Update e v) pg = ep_update barColor e v pg"
| "ep_event barColor dpr (Tick k) pg = ep_tick barColor k pg"

fun ep_events :: "(string \<Rightarrow> jsval \<Rightarrow> jsval) \<Rightarrow> number \<Rightarrow> ep_happening list \<Rightarrow> eppage \<Rightarrow> eppage result" where
  "ep_events barColor dpr [] pg = Inr pg"
| "ep_events barColor dpr (ev # evs) pg = rbind (ep_event barColor dpr ev pg) (ep_events barColor dpr evs)"

section \<open>Facts\<close>

text \<open>The running intervals are exactly the animations the charts remember.\<close>

definition ep_ok :: "eppage \<Rightarrow> bool" where
  "ep_ok pg \<longleftrightarrow>
     (\<forall>k t. timers pg k = Some t \<longrightarrow> k \<le> lastHandle pg \<and> (\<exists>c. charts pg (tEl t) = Some c \<and> epAnimation c = Some k)) \<and>
     (\<forall>e c k. charts pg e = Some c \<longrightarrow> epAnimation c = Some k \<longrightarrow> (\<exists>t. timers pg k = Some t \<and> tEl t = e))"

lemma eppage_init_ok: "ep_ok eppage_init"
  by (simp add: ep_ok_def eppage_init_def)

lemma ep_ok_timer: "ep_ok pg \<Longrightarrow> timers pg k = Some t \<Longrightarrow> k \<le> lastHandle pg \<and> (\<exists>c. charts pg (tEl t) = Some c \<and> epAnimation c = Some k)"
  by (auto simp: ep_ok_def)

lemma ep_ok_chart: "ep_ok pg \<Longrightarrow> charts pg e = Some c \<Longrightarrow> epAnimation c = Some k \<Longrightarrow> \<exists>t. timers pg k = Some t \<and> tEl t = e"
  by (auto simp: ep_ok_def)

text \<open>A chart changes, but not which animation it remembers.\<close>

lemma ep_ok_draw:
  assumes "ep_ok pg" "charts pg e = Some c" "epAnimation c' = epAnimation c"
  shows "ep_ok (pg\<lparr>charts := (charts pg)(e \<mapsto> c')\<rparr>)"
  using assms unfolding ep_ok_def by (fastforce split: if_splits)

text \<open>A chart is placed on an element that has none.\<close>

lemma ep_ok_new:
  assumes "ep_ok pg" "charts pg e = None" "epAnimation c' = None"
  shows "ep_ok (pg\<lparr>charts := (charts pg)(e \<mapsto> c')\<rparr>)"
  using assms unfolding ep_ok_def by (fastforce split: if_splits)

lemma ep_ok_step:
  assumes "ep_ok pg" "timers pg k = Some t" "tEl t' = tEl t"
  shows "ep_ok (pg\<lparr>timers := (timers pg)(k \<mapsto> t')\<rparr>)"
  using assms unfolding ep_ok_def by (fastforce split: if_splits)

text \<open>Stopping the animation of a chart.\<close>

lemma stop_animation_ok:
  assumes "ep_ok pg" "charts pg e = Some c"
  shows "ep_ok (stop_animation e c pg)" "charts (stop_animation e c pg) e = Some (c\<lparr>epAnimation := None\<rparr>)"
    "lastHandle (stop_animation e c pg) = lastHandle pg"
    "\<And>e'. e' \<noteq> e \<Longrightarrow> charts (stop_animation e c pg) e' = charts pg e'"
    "timers (stop_animation e c pg) = (case epAnimation c of None \<Rightarrow> timers pg | Some k \<Rightarrow> (timers pg)(k := None))"
proof -
  show "ep_ok (stop_animation e c pg)"
  proof (cases "epAnimation c")
    case None
    then show ?thesis using assms(1) by (simp add: stop_animation_def)
  next
    case (Some k)
    obtain t where t: "timers pg k = Some t" "tEl t = e" using ep_ok_chart [OF assms Some] by blast
    have "k' \<noteq> k \<and> e' \<noteq> e" if "timers pg k' = Some t'" "tEl t' = e'" "k' \<noteq> k" for k' t' e'
      using that ep_ok_timer [OF assms(1) that(1)] assms(2) Some by auto
    moreover have "k' \<noteq> k" if "charts pg e' = Some c'" "epAnimation c' = Some k'" "e' \<noteq> e" for e' c' k'
      using that ep_ok_chart [OF assms(1) that(1,2)] t by auto
    ultimately show ?thesis
      using assms(1) Some unfolding ep_ok_def stop_animation_def by (fastforce split: if_splits)
  qed
  show "charts (stop_animation e c pg) e = Some (c\<lparr>epAnimation := None\<rparr>)"
    using assms(2) by (auto simp: stop_animation_def split: option.splits)
qed (auto simp: stop_animation_def split: option.splits)

text \<open>An operation on the element \<open>e\<close> keeps the invariant, the other charts and their intervals.\<close>

definition ep_local :: "nat \<Rightarrow> eppage \<Rightarrow> eppage \<Rightarrow> bool" where
  "ep_local e pg pg' \<longleftrightarrow> ep_ok pg' \<and> (\<forall>e'. e' \<noteq> e \<longrightarrow> charts pg' e' = charts pg e') \<and>
     (\<forall>k t. timers pg k = Some t \<longrightarrow> tEl t \<noteq> e \<longrightarrow> timers pg' k = Some t) \<and>
     lastHandle pg \<le> lastHandle pg' \<and> (\<forall>k \<le> lastHandle pg. timers pg k = None \<longrightarrow> timers pg' k = None)"

lemma animateLine_local:
  assumes ok: "ep_ok pg" and c: "charts pg e = Some c" and r: "animateLine e c from' to' pg = Inr pg'"
  shows "ep_local e pg pg'"
proof -
  define c2 where "c2 = c\<lparr>epCalls := epCalls c @ [OnStart], percentage := to'\<rparr>"
  define pg0 where "pg0 = pg\<lparr>charts := (charts pg)(e \<mapsto> c2)\<rparr>"
  define pg1 where "pg1 = stop_animation e c2 pg0"
  let ?k = "Suc (lastHandle pg1)"
  define t where "t = new_timer e c from' to'"
  have t: "tEl t = e" by (simp add: t_def new_timer_def)
  have pg': "pg' = pg1\<lparr>charts := (charts pg1)(e \<mapsto> c2\<lparr>epAnimation := Some ?k\<rparr>), timers := (timers pg1)(?k \<mapsto> t), lastHandle := ?k\<rparr>"
    using r by (auto simp: animateLine_def ep_call_def Let_def pg1_def pg0_def c2_def t_def split: if_splits)
  have 0: "ep_ok pg0" "charts pg0 e = Some c2" using ep_ok_draw [OF ok c, of c2] by (simp_all add: pg0_def c2_def)
  note s = stop_animation_ok [OF 0, folded pg1_def]
  have fresh: "timers pg1 ?k = None" using ep_ok_timer [OF s(1), of ?k] by fastforce
  have none: "tEl t' \<noteq> e" if "timers pg1 k' = Some t'" for k' t'
    using ep_ok_timer [OF s(1) that] s(2) by auto
  have "ep_ok pg'"
    using s(1) fresh none t unfolding ep_ok_def pg' by (fastforce split: if_splits)
  moreover have "timers pg' k' = Some t'" if "timers pg k' = Some t'" "tEl t' \<noteq> e" for k' t'
  proof -
    have a: "timers pg0 k' = Some t'" using that by (simp add: pg0_def)
    have "epAnimation c2 \<noteq> Some k'" using ep_ok_chart [OF 0, of k'] a that(2) by auto
    then have "timers pg1 k' = Some t'" using a by (auto simp: s(5) split: option.splits)
    then show ?thesis using fresh by (auto simp: pg')
  qed
  moreover have "charts pg' e' = charts pg e'" if "e' \<noteq> e" for e'
    using that s(4) [OF that] by (simp add: pg' pg0_def)
  moreover have "timers pg' k' = None" if "k' \<le> lastHandle pg" "timers pg k' = None" for k'
    using that s(3) by (auto simp: pg' s(5) pg0_def split: option.splits)
  ultimately show ?thesis using s(3) by (simp add: ep_local_def pg' pg0_def)
qed

lemma ep_update_local:
  assumes "ep_ok pg" "ep_update barColor e v pg = Inr pg'"
  shows "ep_local e pg pg'"
proof (cases "charts pg e")
  case None
  then show ?thesis using assms(2) by (simp add: ep_update_def)
next
  case (Some c)
  show ?thesis
  proof (cases "epOpt c ''animate'' = Bool False")
    case True
    then have pg': "pg' = pg\<lparr>charts := (charts pg)(e \<mapsto> c\<lparr>epCtx := epCtx c @ ep_drawLine barColor (epOpt c) v\<rparr>)\<rparr>"
      using assms(2) Some by (simp add: ep_update_def)
    show ?thesis using ep_ok_draw [OF assms(1) Some] by (simp add: pg' ep_local_def)
  next
    case False
    then show ?thesis using assms Some animateLine_local [OF assms(1) Some] by (simp add: ep_update_def)
  qed
qed

lemma ep_init_local:
  assumes "ep_ok pg" "charts pg e = None" "ep_init barColor dpr e d opts pg = Inr pg'"
  shows "ep_local e pg pg'"
proof -
  have c: "epAnimation (new_epie dpr opts) = None" by (simp add: new_epie_def Let_def)
  show ?thesis
    using ep_update_local [OF ep_ok_new [OF assms(1,2) c]] assms(3) by (simp add: ep_init_def ep_local_def)
qed

text \<open>A call of the plugin leaves the charts that exist alone.\<close>

lemma easyPieChart_keeps:
  "ep_ok pg \<Longrightarrow> easyPieChart barColor dpr dat opts es pg = Inr pg' \<Longrightarrow>
   ep_ok pg' \<and> (\<forall>e c. charts pg e = Some c \<longrightarrow> charts pg' e = Some c) \<and> (\<forall>k \<le> lastHandle pg. timers pg' k = timers pg k) \<and>
   lastHandle pg \<le> lastHandle pg'"
proof (induction es arbitrary: pg)
  case Nil
  then show ?case by simp
next
  case (Cons e es)
  obtain pg1 where pg1: "(if charts pg e = None then ep_init barColor dpr e (dat e) opts pg else Inr pg) = Inr pg1"
    "easyPieChart barColor dpr dat opts es pg1 = Inr pg'" using Cons.prems(2) by auto
  have "ep_ok pg1 \<and> (\<forall>e c. charts pg e = Some c \<longrightarrow> charts pg1 e = Some c) \<and> (\<forall>k \<le> lastHandle pg. timers pg1 k = timers pg k) \<and>
    lastHandle pg \<le> lastHandle pg1"
  proof (cases "charts pg e = None")
    case True
    then have l: "ep_local e pg pg1" using ep_init_local [OF Cons.prems(1)] pg1(1) by simp
    have "timers pg1 k = timers pg k" if "k \<le> lastHandle pg" for k
      using l that True ep_ok_timer [OF Cons.prems(1), of k] by (cases "timers pg k") (force simp: ep_local_def)+
    moreover have "charts pg1 e' = Some c" if "charts pg e' = Some c" for e' c
      using l that True by (cases "e' = e") (simp_all add: ep_local_def)
    ultimately show ?thesis using l by (simp add: ep_local_def)
  next
    case False
    then show ?thesis using pg1(1) Cons.prems(1) by auto
  qed
  then show ?case using Cons.IH [of pg1] pg1(2) by auto
qed

text \<open>One run of the function of a running interval.\<close>

lemma ep_tick_eq:
  assumes "ep_ok pg" "timers pg k = Some t" "charts pg (tEl t) = Some c"
  shows "ep_tick barColor k pg =
    (let c1 = c\<lparr>epCtx := epCtx c @ ep_frame barColor (epOpt c) t\<rparr>
     in if Fin 1 < Fin (of_nat (Suc (currentStep t))) / tSteps t
        then rbind (ep_call ''onStop'' OnStop (c1\<lparr>epAnimation := None\<rparr>)) (\<lambda>c2.
               Inr (pg\<lparr>timers := (timers pg)(k := None), charts := (charts pg)(tEl t \<mapsto> c2)\<rparr>))
        else Inr (pg\<lparr>charts := (charts pg)(tEl t \<mapsto> c1), timers := (timers pg)(k \<mapsto> t\<lparr>currentStep := Suc (currentStep t)\<rparr>)\<rparr>))"
proof -
  have "epAnimation c = Some k" using ep_ok_timer [OF assms(1,2)] assms(3) by simp
  then show ?thesis using assms by (simp add: ep_tick_def stop_animation_def Let_def)
qed

lemma ep_tick_local:
  assumes "ep_ok pg" "timers pg k = Some t" "ep_tick barColor k pg = Inr pg'"
  shows "ep_local (tEl t) pg pg'"
proof -
  obtain c where c: "charts pg (tEl t) = Some c" "epAnimation c = Some k" using ep_ok_timer [OF assms(1,2)] by blast
  have uniq: "k' = k" if "timers pg k' = Some t'" "tEl t' = tEl t" for k' t'
    using that ep_ok_timer [OF assms(1) that(1)] c by simp
  have kl: "k \<le> lastHandle pg" using ep_ok_timer [OF assms(1,2)] by blast
  show ?thesis
  proof (cases "Fin 1 < Fin (of_nat (Suc (currentStep t))) / tSteps t")
    case True
    define c2 where "c2 = c\<lparr>epCtx := epCtx c @ ep_frame barColor (epOpt c) t, epAnimation := None, epCalls := epCalls c @ [OnStop]\<rparr>"
    have c2: "epAnimation c2 = None" by (simp add: c2_def)
    have pg': "pg' = pg\<lparr>timers := (timers pg)(k := None), charts := (charts pg)(tEl t \<mapsto> c2)\<rparr>"
      using True assms(3) ep_tick_eq [OF assms(1,2) c(1)] by (simp add: c2_def ep_call_def Let_def split: if_splits)
    have other: "e' = tEl t" if "charts pg e' = Some c'" "epAnimation c' = Some k" for e' c'
      using that ep_ok_chart [OF assms(1) that] assms(2) by simp
    have "ep_ok pg'"
      using assms(1) c2 uniq other unfolding ep_ok_def pg' by (fastforce split: if_splits)
    then show ?thesis using assms(2) kl by (auto simp: ep_local_def pg')
  next
    case False
    let ?c1 = "c\<lparr>epCtx := epCtx c @ ep_frame barColor (epOpt c) t\<rparr>"
    have pg': "pg' = (pg\<lparr>charts := (charts pg)(tEl t \<mapsto> ?c1)\<rparr>)\<lparr>timers := (timers pg)(k \<mapsto> t\<lparr>currentStep := Suc (currentStep t)\<rparr>)\<rparr>"
      using assms(3) ep_tick_eq [OF assms(1,2) c(1)] False by (simp add: Let_def)
    have "ep_ok pg'"
      using ep_ok_step [OF ep_ok_draw [OF assms(1) c(1), of ?c1], of k t "t\<lparr>currentStep := Suc (currentStep t)\<rparr>"] assms(2) by (simp add: pg')
    then show ?thesis using assms(2) kl by (auto simp: ep_local_def pg')
  qed
qed

lemma ep_event_ok:
  assumes "ep_ok pg" "ep_event barColor dpr ev pg = Inr pg'"
  shows "ep_ok pg'"
proof (cases ev)
  case (Call dat opts es)
  then show ?thesis using assms easyPieChart_keeps by auto
next
  case (Update e v)
  then show ?thesis using assms ep_update_local by (auto simp: ep_local_def)
next
  case (Tick k)
  show ?thesis
  proof (cases "timers pg k")
    case None
    then show ?thesis using assms Tick by (simp add: ep_tick_def)
  next
    case (Some t)
    then show ?thesis using ep_tick_local [OF assms(1) Some, of barColor pg'] assms(2) Tick by (simp add: ep_local_def)
  qed
qed

lemma update_charts_ok: "ep_ok pg \<Longrightarrow> update_charts rnd ds pg = Inr pg' \<Longrightarrow> ep_ok pg'"
proof (induction rnd ds pg rule: update_charts.induct)
  case (1 rnd pg)
  then show ?case by simp
next
  case (2 rnd e x ds pg)
  obtain pg1 where pg1: "ep_update light_color e (Num (rnd (Fin 100 * Fin x))) pg = Inr pg1"
    "update_charts rnd ds (pg1\<lparr>spanText := (spanText pg1)(e \<mapsto> Num (rnd (Fin 100 * Fin x)))\<rparr>) = Inr pg'"
    using 2(3) by (auto simp: Let_def)
  have "ep_ok (pg1\<lparr>spanText := f\<rparr>)" for f
    using ep_update_local [OF 2(2) pg1(1)] by (simp add: ep_local_def ep_ok_def)
  then show ?case using 2(1) [OF refl] pg1(2) by blast
qed

lemma ep_events_ok: "ep_ok pg \<Longrightarrow> ep_events barColor dpr evs pg = Inr pg' \<Longrightarrow> ep_ok pg'"
  by (induction evs arbitrary: pg) (auto intro: ep_event_ok)

text \<open>
  What an animation does, as a function of the number \<open>j\<close> of times its interval has fired: it draws
  the frames of its steps up to the last whole step \<open>N\<close>, then it is gone and the page is told once.
\<close>

definition anim_frames :: "(string \<Rightarrow> jsval \<Rightarrow> jsval) \<Rightarrow> epie \<Rightarrow> timer \<Rightarrow> nat \<Rightarrow> drawing" where
  "anim_frames barColor c t m = concat (map (\<lambda>i. ep_frame barColor (epOpt c) (t\<lparr>currentStep := i\<rparr>)) [currentStep t..<m])"

definition anim_after :: "(string \<Rightarrow> jsval \<Rightarrow> jsval) \<Rightarrow> epie \<Rightarrow> timer \<Rightarrow> nat \<Rightarrow> nat \<Rightarrow> timer option \<times> epie" where
  "anim_after barColor c t N j =
     (if currentStep t + j \<le> N
      then (Some (t\<lparr>currentStep := currentStep t + j\<rparr>), c\<lparr>epCtx := epCtx c @ anim_frames barColor c t (currentStep t + j)\<rparr>)
      else (None, c\<lparr>epCtx := epCtx c @ anim_frames barColor c t (Suc N), epAnimation := None, epCalls := epCalls c @ [OnStop]\<rparr>))"

definition anim_state :: "nat \<Rightarrow> nat \<Rightarrow> eppage \<Rightarrow> timer option \<times> epie option" where
  "anim_state k e pg = (timers pg k, charts pg e)"

definition ep_ticks :: "nat \<Rightarrow> ep_happening list \<Rightarrow> nat" where
  "ep_ticks k evs = length (filter (\<lambda>ev. ev = Tick k) evs)"

lemma last_step_iff: "0 < n \<Longrightarrow> Fin 1 < Fin (of_nat (Suc s)) / Fin n \<longleftrightarrow> nat \<lfloor>n\<rfloor> \<le> s"
  by (simp add: field_simps) linarith

lemma anim_frames_Suc:
  "currentStep t \<le> m \<Longrightarrow> anim_frames barColor c t (Suc m) = anim_frames barColor c t m @ ep_frame barColor (epOpt c) (t\<lparr>currentStep := m\<rparr>)"
  by (simp add: anim_frames_def)

lemma tick_progress:
  assumes ok: "ep_ok pg" and n: "tSteps t = Fin n" "0 < n" "currentStep t \<le> nat \<lfloor>n\<rfloor>" and fn: "isFn (epOpt c ''onStop'')"
    and st: "anim_state k (tEl t) pg = map_prod id Some (anim_after barColor c t (nat \<lfloor>n\<rfloor>) j)"
  shows "\<exists>pg'. ep_tick barColor k pg = Inr pg' \<and> anim_state k (tEl t) pg' = map_prod id Some (anim_after barColor c t (nat \<lfloor>n\<rfloor>) (Suc j))"
proof (cases "currentStep t + j \<le> nat \<lfloor>n\<rfloor>")
  case True
  let ?t = "t\<lparr>currentStep := currentStep t + j\<rparr>" and ?c = "c\<lparr>epCtx := epCtx c @ anim_frames barColor c t (currentStep t + j)\<rparr>"
  have tc: "timers pg k = Some ?t" "charts pg (tEl ?t) = Some ?c" using st True by (simp_all add: anim_state_def anim_after_def)
  note eq = ep_tick_eq [OF ok tc, of barColor]
  have iff: "Fin 1 < Fin (of_nat (Suc (currentStep t + j))) / Fin n \<longleftrightarrow> nat \<lfloor>n\<rfloor> \<le> currentStep t + j"
    by (rule last_step_iff [OF n(2)])
  show ?thesis
  proof (cases "currentStep t + j = nat \<lfloor>n\<rfloor>")
    case True
    then show ?thesis
      using eq iff fn n(1,3) by (simp add: ep_call_def anim_state_def anim_after_def anim_frames_Suc Let_def del: of_nat_Suc)
  next
    case False
    then show ?thesis
      using eq iff n(1) \<open>currentStep t + j \<le> nat \<lfloor>n\<rfloor>\<close>
      by (simp add: anim_state_def anim_after_def anim_frames_Suc Let_def del: of_nat_Suc)
  qed
next
  case False
  then show ?thesis using st by (simp add: ep_tick_def anim_state_def anim_after_def)
qed

text \<open>Nothing that happens to other charts touches an animation.\<close>

lemma other_event:
  assumes ok: "ep_ok pg" and k: "k \<le> lastHandle pg"
    and c: "anim_state k e pg = (m, Some c)" "m = None \<or> (\<exists>t. m = Some t \<and> tEl t = e)" "epAnimation c = (if m = None then None else Some k)"
    and ev: "\<forall>v. ev \<noteq> Update e v" "ev \<noteq> Tick k" and r: "ep_event barColor dpr ev pg = Inr pg'"
  shows "anim_state k e pg' = anim_state k e pg \<and> k \<le> lastHandle pg'"
proof (cases ev)
  case (Call dat opts es)
  then show ?thesis using easyPieChart_keeps [OF ok] r k c by (fastforce simp: anim_state_def)
next
  case (Update e' v)
  then have ne: "e' \<noteq> e" using ev by auto
  have l: "ep_local e' pg pg'" using ep_update_local [OF ok] r Update by simp
  show ?thesis using l ne k c by (auto simp: ep_local_def anim_state_def)
next
  case (Tick k')
  show ?thesis
  proof (cases "timers pg k'")
    case None
    then show ?thesis using r Tick k by (simp add: ep_tick_def)
  next
    case (Some t')
    have ne: "tEl t' \<noteq> e" using ep_ok_timer [OF ok Some] c(1,3) ev(2) Tick by (auto simp: anim_state_def split: if_splits)
    have l: "ep_local (tEl t') pg pg'" using ep_tick_local [OF ok Some] r Tick by simp
    show ?thesis using l ne k c by (auto simp: ep_local_def anim_state_def)
  qed
qed

lemma anim_run:
  assumes n: "tSteps t = Fin n" "0 < n" "currentStep t \<le> nat \<lfloor>n\<rfloor>" and fn: "isFn (epOpt c ''onStop'')" and an: "epAnimation c = Some k"
    and "ep_ok pg" "k \<le> lastHandle pg" "anim_state k (tEl t) pg = map_prod id Some (anim_after barColor c t (nat \<lfloor>n\<rfloor>) j)"
    and "\<forall>v. Update (tEl t) v \<notin> set evs" "ep_events barColor dpr evs pg = Inr pg'"
  shows "anim_state k (tEl t) pg' = map_prod id Some (anim_after barColor c t (nat \<lfloor>n\<rfloor>) (j + ep_ticks k evs))"
  using assms(6-)
proof (induction evs arbitrary: pg j)
  case Nil
  then show ?case by (simp add: ep_ticks_def)
next
  case (Cons ev evs)
  obtain pg1 where pg1: "ep_event barColor dpr ev pg = Inr pg1" "ep_events barColor dpr evs pg1 = Inr pg'" using Cons.prems(5) by auto
  have ok: "ep_ok pg1" using ep_event_ok [OF Cons.prems(1) pg1(1)] .
  show ?case
  proof (cases "ev = Tick k")
    case True
    have st: "anim_state k (tEl t) pg1 = map_prod id Some (anim_after barColor c t (nat \<lfloor>n\<rfloor>) (Suc j))"
      using tick_progress [OF Cons.prems(1) n fn Cons.prems(3)] pg1(1) True by auto
    have "k \<le> lastHandle pg1"
      using pg1(1) True Cons.prems(1,2) ep_tick_local [OF Cons.prems(1), of k _ barColor pg1]
      by (cases "timers pg k") (auto simp: ep_tick_def ep_local_def)
    then show ?thesis using Cons.IH [OF ok _ st _ pg1(2)] Cons.prems(4) True by (simp add: ep_ticks_def)
  next
    case False
    obtain m c' where mc: "anim_after barColor c t (nat \<lfloor>n\<rfloor>) j = (m, c')" by force
    then have "m = None \<or> (\<exists>t'. m = Some t' \<and> tEl t' = tEl t)" "epAnimation c' = (if m = None then None else Some k)"
      using an by (auto simp: anim_after_def split: if_splits)
    then have "anim_state k (tEl t) pg1 = anim_state k (tEl t) pg \<and> k \<le> lastHandle pg1"
      using other_event [OF Cons.prems(1,2) _ _ _ _ False pg1(1), of "tEl t" m c'] Cons.prems(3,4) mc by fastforce
    then show ?thesis using Cons.IH [OF ok] Cons.prems(3,4) pg1(2) False by (simp add: ep_ticks_def)
  qed
qed

lemma ticks_run:
  assumes n: "tSteps t = Fin n" "0 < n" "currentStep t \<le> nat \<lfloor>n\<rfloor>" and fn: "isFn (epOpt c ''onStop'')"
    and "ep_ok pg" "anim_state k (tEl t) pg = map_prod id Some (anim_after barColor c t (nat \<lfloor>n\<rfloor>) j)"
  shows "\<exists>pg'. ep_events barColor dpr (replicate m (Tick k)) pg = Inr pg'"
  using assms(5-)
proof (induction m arbitrary: pg j)
  case 0
  then show ?case by simp
next
  case (Suc m)
  obtain pg1 where pg1: "ep_tick barColor k pg = Inr pg1"
    "anim_state k (tEl t) pg1 = map_prod id Some (anim_after barColor c t (nat \<lfloor>n\<rfloor>) (Suc j))"
    using tick_progress [OF Suc.prems(1) n fn Suc.prems(2)] by blast
  have "ep_ok pg1" using ep_event_ok [OF Suc.prems(1), of barColor dpr "Tick k"] pg1(1) by simp
  from Suc.IH [OF this pg1(2)] pg1(1) show ?case by simp
qed

text \<open>The eased value between its ends.\<close>

lemma ep_easing_bounds: "0 \<le> x \<Longrightarrow> x \<le> 2 \<Longrightarrow> \<exists>y. ep_easing (Fin x) = Fin y \<and> 0 \<le> y \<and> y \<le> 2"
proof -
  assume x: "0 \<le> x" "x \<le> 2"
  have "x * x \<le> 1" if "x < 1" using that x by (simp add: mult_le_one)
  moreover have "0 \<le> 2 - (2 - x) * (2 - x) \<and> 2 - (2 - x) * (2 - x) \<le> 2" if "\<not> x < 1"
    using that x mult_le_one [of "2 - x" "2 - x"] zero_le_square [of "2 - x"] by simp
  ultimately show ?thesis using x by (auto simp: ep_easing_def Let_def)
qed

section \<open>Properties\<close>


definition demo_epie :: epie where
  "demo_epie = (new_epie (Fin 1) percentage_options)\<lparr>epCalls := [OnStart], percentage := num 50, epAnimation := Some 1\<rparr>"

definition demo_timer :: timer where
  "demo_timer = \<lparr>tEl = 7, tFrom = num 0, tTo = num 50, tSteps = Fin 30, currentStep = 0\<rparr>"

definition demo_eppage :: eppage where
  "demo_eppage = \<lparr>charts = [7 \<mapsto> demo_epie], timers = [1 \<mapsto> demo_timer], lastHandle = 1, spanText = Map.empty\<rparr>"

lemma demo_epie_opt [simp]:
  "epOpt (new_epie (Fin 1) percentage_options) ''animate'' = num 1000" "epOpt (new_epie (Fin 1) percentage_options) ''onStart'' = Fn ''$.noop''"
  "epOpt (new_epie (Fin 1) percentage_options) ''onStop'' = Fn ''$.noop''" "epAnimation (new_epie (Fin 1) percentage_options) = None"
  "percentage (new_epie (Fin 1) percentage_options) = num 0" "epCalls (new_epie (Fin 1) percentage_options) = []"
  by (simp_all add: new_epie_def Let_def defaultOptions_def percentage_options_def)

lemma demo_eppage_run: "ep_events light_color (Fin 1) [Call (\<lambda>e. Str ''50'') percentage_options [7]] eppage_init = Inr demo_eppage"
  by (simp add: ep_init_def ep_update_def animateLine_def ep_call_def stop_animation_def new_timer_def eppage_init_def demo_eppage_def
      demo_epie_def demo_timer_def parseInt10_def parse_sign_def is_space_def is_digit_def char_code_def digits_val_def digit_val_def Let_def)






end
