(* ===== verification/PageScripts.thy ===== *)
theory PageScripts
  imports JSString
begin

text \<open>
  The script of every page, \<open>static/js/common-scripts.js\<close>: the drop-down menus of the sidebar, the
  button that hides the sidebar, the theme panel with its animations, the change of the style sheet
  and the tools of a widget. The state is what the script reads and writes of the document: classes,
  attributes and styles. An animation is an entry of the element's queue, whose completion is a step of
  its own; whether an element is visible while it slides is an answer of the browser.
\<close>

section \<open>The sidebar menus\<close>

text \<open>A menu entry: the class \<open>open\<close> on it and on the arrows in it. A slide is the entry and its direction.\<close>

record menu_item =
  itemOpen :: bool
  arrowOpen :: bool

record menu =
  items :: "menu_item list"
  slides :: "(nat \<times> bool) list"
  scrolls :: "string list"

text \<open>
  A click on the link of entry \<open>i\<close>; \<open>visible\<close> is whether its sub-menu is visible once the open ones have
  begun to slide up, \<open>y\<close> the offset of the link.
\<close>

definition open_items :: "menu \<Rightarrow> nat list" where
  "open_items m = filter (\<lambda>i. itemOpen (items m ! i)) [0..<length (items m)]"

definition close_item :: "menu_item \<Rightarrow> menu_item" where
  "close_item it = (if itemOpen it then \<lparr>itemOpen = False, arrowOpen = False\<rparr> else it)"

definition menu_click :: "nat \<Rightarrow> bool \<Rightarrow> number \<Rightarrow> menu \<Rightarrow> menu" where
  "menu_click i visible y m =
     (let last = open_items m; diff = Fin 200 - y; b = \<not> visible
      in \<lparr>items = (map close_item (items m))[i := \<lparr>itemOpen = b, arrowOpen = b\<rparr>],
          slides = slides m @ map (\<lambda>j. (j, False)) last @ [(i, b)],
          scrolls = scrolls m @ [(if Fin 0 < diff then ''-='' else ''+='') @ num_to_string (Math_abs diff)]\<rparr>)"

section \<open>Hiding the sidebar\<close>

record sidebar =
  listShown :: bool
  contentMargin :: string
  sidebarMargin :: string
  closedClass :: bool

definition reorder_click :: "sidebar \<Rightarrow> sidebar" where
  "reorder_click s =
     (if listShown s
      then \<lparr>listShown = False, contentMargin = ''0px'', sidebarMargin = ''-180px'', closedClass = True\<rparr>
      else \<lparr>listShown = True, contentMargin = ''180px'', sidebarMargin = ''0'', closedClass = False\<rparr>)"

section \<open>The theme panel\<close>

datatype theme_fx = Closing | Opening

text \<open>The attributes of the panel, its style, whether its settings are shown, and its animation queue.\<close>

record theme =
  isOpened :: bool
  isOpening :: bool
  isClosing :: bool
  overflow :: string
  panelDims :: "string \<times> string"
  settingsShown :: bool
  fxQueue :: "theme_fx list"

definition theme_init :: "string \<Rightarrow> string \<times> string \<Rightarrow> bool \<Rightarrow> theme" where
  "theme_init ov dims shown = \<lparr>isOpened = False, isOpening = False, isClosing = False, overflow = ov, panelDims = dims, settingsShown = shown, fxQueue = []\<rparr>"

definition theme_click :: "theme \<Rightarrow> theme" where
  "theme_click t =
     (if isOpened t \<and> \<not> isOpening t \<and> \<not> isClosing t
      then t\<lparr>isOpened := False, isClosing := True, overflow := ''hidden'', fxQueue := fxQueue t @ [Closing]\<rparr>
      else if \<not> isClosing t \<and> \<not> isOpening t
      then t\<lparr>isOpening := True, overflow := ''visible'', fxQueue := fxQueue t @ [Opening], settingsShown := True\<rparr>
      else t)"

text \<open>The width and the height an animation moves the panel to.\<close>

fun theme_dims :: "theme_fx \<Rightarrow> string \<times> string" where
  "theme_dims Closing = (''20px'', ''22px'')"
| "theme_dims Opening = (''226px'', ''60px'')"

text \<open>The first animation of the queue ends and its \<open>complete\<close> function runs.\<close>

definition theme_complete :: "theme \<Rightarrow> theme" where
  "theme_complete t =
     (case fxQueue t of
        [] \<Rightarrow> t
      | f # fs \<Rightarrow>
          (let t1 = t\<lparr>panelDims := theme_dims f, fxQueue := fs\<rparr>
           in case f of Closing \<Rightarrow> t1\<lparr>isClosing := False, settingsShown := False\<rparr>
                | Opening \<Rightarrow> t1\<lparr>isOpening := False, isOpened := True\<rparr>))"

inductive theme_step :: "theme \<Rightarrow> theme \<Rightarrow> bool" where
  click: "theme_step t (theme_click t)"
| complete: "fxQueue t \<noteq> [] \<Longrightarrow> theme_step t (theme_complete t)"

inductive theme_reach :: "theme \<Rightarrow> bool" where
  init: "theme_reach (theme_init ov dims shown)"
| step: "theme_reach t \<Longrightarrow> theme_step t t' \<Longrightarrow> theme_reach t'"

inductive_cases theme_stepE: "theme_step t t'"

text \<open>\<open>setColor\<close>: the style sheet of another colour; without a style sheet in the page it raises.\<close>

definition setColor :: "string \<Rightarrow> string option \<Rightarrow> string option result" where
  "setColor color href =
     (case href of
        None \<Rightarrow> Inl (TypeError ''href is undefined'')
      | Some h \<Rightarrow> Inr (Some (hd (split_on (CHR ''-'') h) @ ''-'' @ color @ ''.css'')))"

text \<open>The change of the layout calls a function that no script defines.\<close>

definition layout_change :: "theme \<Rightarrow> theme result" where
  "layout_change t = Inl (ReferenceError ''setLayout is not defined'')"

section \<open>The tools of a widget\<close>

text \<open>A widget: the element around it, which icon its tool shows, and the slides of its body.\<close>

record widget =
  widgetParent :: nat
  chevronDown :: bool
  bodySlides :: "bool list"

definition chevron_click :: "widget \<Rightarrow> widget" where
  "chevron_click w =
     (if chevronDown w then w\<lparr>chevronDown := False, bodySlides := bodySlides w @ [False]\<rparr>
      else w\<lparr>chevronDown := True, bodySlides := bodySlides w @ [True]\<rparr>)"

text \<open>The tool that removes a widget removes the element around it, with all the widgets in it.\<close>

definition remove_click :: "nat \<Rightarrow> (nat \<rightharpoonup> widget) \<Rightarrow> (nat \<rightharpoonup> widget)" where
  "remove_click i ws =
     (case ws i of
        None \<Rightarrow> ws
      | Some w \<Rightarrow> (\<lambda>j. Option.bind (ws j) (\<lambda>w'. if widgetParent w' = widgetParent w then None else Some w')))"

section \<open>Facts\<close>

lemma hd_split_on: "c \<notin> set p \<Longrightarrow> hd (split_on c (p @ c # q)) = p"
  by (induction p) (auto split: list.splits)

lemma hd_split_on_notin: "c \<notin> set (hd (split_on c s))"
  by (rule split_on_pieces [of _ c s]) simp

text \<open>The four states of the panel, with the animation that runs in each.\<close>

definition theme_ok :: "theme \<Rightarrow> bool" where
  "theme_ok t \<longleftrightarrow>
     (fxQueue t, isOpened t, isOpening t, isClosing t) \<in>
       {([], False, False, False), ([Opening], False, True, False), ([], True, False, False), ([Closing], False, False, True)} \<and>
     (isOpened t \<or> isOpening t \<or> isClosing t \<longrightarrow> settingsShown t)"

lemma theme_click_ok: "theme_ok t \<Longrightarrow> theme_ok (theme_click t)"
  by (auto simp: theme_ok_def theme_click_def)

lemma theme_complete_eqs:
  "fxQueue t = [] \<Longrightarrow> theme_complete t = t"
  "fxQueue t = Closing # fs \<Longrightarrow> theme_complete t = t\<lparr>panelDims := theme_dims Closing, fxQueue := fs, isClosing := False, settingsShown := False\<rparr>"
  "fxQueue t = Opening # fs \<Longrightarrow> theme_complete t = t\<lparr>panelDims := theme_dims Opening, fxQueue := fs, isOpening := False, isOpened := True\<rparr>"
  by (simp_all add: theme_complete_def Let_def)

lemma theme_complete_ok: "theme_ok t \<Longrightarrow> theme_ok (theme_complete t)"
  unfolding theme_ok_def by (elim conjE insertE emptyE) (simp_all add: theme_complete_eqs)

lemma theme_step_ok: "theme_step t t' \<Longrightarrow> theme_ok t \<Longrightarrow> theme_ok t'"
  by (erule theme_stepE) (simp_all add: theme_click_ok theme_complete_ok)

lemma theme_reach_ok: "theme_reach t \<Longrightarrow> theme_ok t"
proof (induction rule: theme_reach.induct)
  case (init ov dims shown)
  then show ?case by (simp add: theme_ok_def theme_init_def)
next
  case (step t t')
  then show ?case using theme_step_ok by blast
qed

lemma open_items_click: "set (open_items (menu_click i v y m)) \<subseteq> {i}"
  by (cases "i < length (items m)") (auto simp: open_items_def menu_click_def close_item_def Let_def nth_list_update split: if_splits)

section \<open>Properties\<close>

text \<open>
  C40. Whatever the clicks and the animations that end, the theme panel is closed, opening, open or
  closing and never two of them; an animation runs exactly while it is opening or closing, never more
  than one; its settings are shown unless it is closed. A click on a panel at rest, once its animation
  ends, leaves it open if it was closed and closed if it was open.
\<close>

theorem theme_states:
  assumes "theme_reach t"
  shows "(fxQueue t, isOpened t, isOpening t, isClosing t) \<in>
      {([], False, False, False), ([Opening], False, True, False), ([], True, False, False), ([Closing], False, False, True)} \<and>
    (isOpened t \<or> isOpening t \<or> isClosing t \<longrightarrow> settingsShown t) \<and>
    (fxQueue t = [] \<longrightarrow> isOpened (theme_complete (theme_click t)) = (\<not> isOpened t) \<and> fxQueue (theme_complete (theme_click t)) = [])"
  using theme_reach_ok [OF assms] by (auto simp: theme_ok_def theme_click_def theme_complete_eqs)

theorem theme_states_witness:
  "isOpening (theme_click (theme_click (theme_init ''hidden'' (''20px'', ''22px'') False))) \<and>
   settingsShown (theme_click (theme_click (theme_init ''hidden'' (''20px'', ''22px'') False)))"
proof -
  let ?t = "theme_click (theme_click (theme_init ''hidden'' (''20px'', ''22px'') False))"
  have "theme_reach ?t"
    by (rule theme_reach.step [OF theme_reach.step [OF theme_reach.init theme_step.click] theme_step.click])
  moreover have "isOpening ?t" by (simp add: theme_click_def theme_init_def)
  ultimately show ?thesis using theme_states by blast
qed

text \<open>
  Changing the colour again forgets the colour before: the style sheet depends on the last colour
  only. But the name is cut at its first dash, so below a context path with a dash, such as the name of
  this application, the new name is that of no style sheet.
\<close>

lemma setColor_last:
  assumes "setColor c href = Inr href'"
  shows "setColor d href' = setColor d href \<and>
    setColor ''red'' (Some ''/esb-monitor-admin/static/css/style-default.css'') = Inr (Some ''/esb-red.css'')"
  using assms hd_split_on [OF hd_split_on_notin] by (cases href) (auto simp: setColor_def)

end
